(* ===== verification/JsValues.thy ===== *)
theory JsValues
  imports Prelude "HOL-Library.Word"
begin

text \<open>
  The values that cross the boundaries of the API: what \<open>scValToNative\<close> and
  \<open>JSON.parse\<close> return (\<open>unknown\<close> in the sources), dates, and the errors the API
  throws. A \<open>number\<close> is a rational or, for NaN and the infinities, \<open>None\<close>; a \<open>Date\<close>
  is its time value in milliseconds, or the invalid date. An object is its own
  enumerable properties in insertion order, with distinct keys.
\<close>

section \<open>Values\<close>

datatype jsval =
    JUndefined
  | JNull
  | JBool bool
  | JNumber "rat option"
  | JString string
  | JBigInt int
  | JBytes "8 word list"
  | JArray "jsval list"
  | JObject "(string \<times> jsval) list"

type_synonym fields = "(string \<times> jsval) list"

text \<open>The result of the \<open>typeof\<close> operator.\<close>

fun typeof :: "jsval \<Rightarrow> string" where
  "typeof JUndefined = ''undefined''"
| "typeof (JBool b) = ''boolean''"
| "typeof (JNumber n) = ''number''"
| "typeof (JString s) = ''string''"
| "typeof (JBigInt i) = ''bigint''"
| "typeof _ = ''object''"

text \<open>Reading a property: \<open>undefined\<close> when the object has none of that name.\<close>

definition get_field :: "fields \<Rightarrow> string \<Rightarrow> jsval" where
  "get_field f k = (case map_of f k of None \<Rightarrow> JUndefined | Some v \<Rightarrow> v)"

text \<open>
  The properties every object inherits from \<open>Object.prototype\<close>: the \<open>in\<close> operator finds
  them whether or not the object has its own.
\<close>

definition object_prototype_keys :: "string list" where
  "object_prototype_keys =
     [''constructor'', ''__defineGetter__'', ''__defineSetter__'', ''hasOwnProperty'',
      ''__lookupGetter__'', ''__lookupSetter__'', ''isPrototypeOf'', ''propertyIsEnumerable'',
      ''toString'', ''valueOf'', ''__proto__'', ''toLocaleString'']"

definition key_in :: "string \<Rightarrow> fields \<Rightarrow> bool" where
  "key_in k f \<longleftrightarrow> k \<in> set (map fst f) \<or> k \<in> set object_prototype_keys"

section \<open>Dates\<close>

datatype js_date = Date int | InvalidDate

text \<open>\<open>new Date(ms)\<close>: a time value beyond 8.64e15 milliseconds is an invalid date.\<close>

definition new_date :: "int \<Rightarrow> js_date" where
  "new_date ms = (if \<bar>ms\<bar> \<le> 8640000000000000 then Date ms else InvalidDate)"

section \<open>Bytes as hexadecimal\<close>

definition hex_digit :: "nat \<Rightarrow> char" where
  "hex_digit d = (if d < 10 then char_of (48 + d) else char_of (87 + d))"

definition byte_to_hex :: "8 word \<Rightarrow> string" where
  "byte_to_hex b = [hex_digit (unat b div 16), hex_digit (unat b mod 16)]"

text \<open>\<open>Buffer.from(bytes).toString('hex')\<close>.\<close>

definition bytes_to_hex :: "8 word list \<Rightarrow> string" where
  "bytes_to_hex bs = concat (map byte_to_hex bs)"

lemma code_hex_digit: "d < 16 \<Longrightarrow> code (hex_digit d) = (if d < 10 then 48 + d else 87 + d)"
  by (simp add: hex_digit_def code_def)

lemma is_lower_hex_hex_digit: "d < 16 \<Longrightarrow> is_lower_hex (hex_digit d)"
  by (auto simp: is_lower_hex_def is_digit_def code_hex_digit)

lemma hex_digit_inject:
  assumes "c < 16" and "d < 16"
  shows "hex_digit c = hex_digit d \<longleftrightarrow> c = d"
proof
  assume "hex_digit c = hex_digit d"
  then have "code (hex_digit c) = code (hex_digit d)" by simp
  then show "c = d"
    using assms unfolding code_hex_digit [OF assms(1)] code_hex_digit [OF assms(2)]
    by (simp split: if_splits)
qed simp

lemma byte_nibbles: "unat (b :: 8 word) div 16 < 16" "unat b mod 16 < 16"
  using unsigned_less [of b, where ?'a = nat] by auto

lemma byte_to_hex_inject [simp]: "byte_to_hex b = byte_to_hex c \<longleftrightarrow> b = c"
proof
  assume "byte_to_hex b = byte_to_hex c"
  then have "unat b div 16 = unat c div 16" and "unat b mod 16 = unat c mod 16"
    by (simp_all add: byte_to_hex_def hex_digit_inject byte_nibbles)
  then have "unat b = unat c"
    by (metis div_mult_mod_eq)
  then show "b = c" by (simp add: word_unat_eq_iff)
qed simp

lemma length_byte_to_hex [simp]: "length (byte_to_hex b) = 2"
  by (simp add: byte_to_hex_def)

lemma length_bytes_to_hex [simp]: "length (bytes_to_hex bs) = 2 * length bs"
  by (induction bs) (simp_all add: bytes_to_hex_def)

lemma lower_hex_bytes_to_hex: "list_all is_lower_hex (bytes_to_hex bs)"
  by (induction bs)
    (simp_all add: bytes_to_hex_def byte_to_hex_def is_lower_hex_hex_digit byte_nibbles)

lemma bytes_to_hex_inject: "bytes_to_hex bs = bytes_to_hex cs \<longleftrightarrow> bs = cs"
proof (induction bs arbitrary: cs)
  case Nil
  then show ?case by (cases cs) (auto simp: bytes_to_hex_def byte_to_hex_def)
next
  case (Cons b bs)
  show ?case
  proof (cases cs)
    case Nil
    then show ?thesis by (simp add: bytes_to_hex_def byte_to_hex_def)
  next
    case (Cons c cs')
    have "bytes_to_hex (b # bs) = bytes_to_hex (c # cs')
        \<longleftrightarrow> byte_to_hex b @ bytes_to_hex bs = byte_to_hex c @ bytes_to_hex cs'"
      by (simp add: bytes_to_hex_def)
    also have "\<dots> \<longleftrightarrow> b = c \<and> bytes_to_hex bs = bytes_to_hex cs'"
      by (simp add: append_eq_append_conv)
    finally show ?thesis using Cons.IH Cons by simp
  qed
qed

section \<open>Integers from texts\<close>

text \<open>
  \<open>BigInt\<close> of a text, \<open>None\<close> where it throws: empty is zero, white space around is ignored, a sign
  is allowed. The prefixed forms (\<open>0x..\<close>) are left out: the texts read this way are decimal.
\<close>

definition js_big_int :: "string \<Rightarrow> int option" where
  "js_big_int text =
     (let s = trim text; unsigned = (if starts_with ''+'' s then drop 1 s else s) in
      if s = [] then Some 0
      else if is_integer_string unsigned \<and> \<not> starts_with ''+-'' s then Some (int_of_string unsigned)
      else None)"

lemma trim_no_space: "\<forall>c \<in> set s. \<not> is_space c \<Longrightarrow> trim s = s"
proof -
  have drop: "dropWhile is_space t = t" if "\<forall>c \<in> set t. \<not> is_space c" for t
    using that by (cases t) auto
  assume "\<forall>c \<in> set s. \<not> is_space c"
  then show "trim s = s" using drop [of s] drop [of "rev s"] by (simp add: trim_def)
qed

lemma digit_plain: "is_digit c \<Longrightarrow> \<not> is_space c \<and> c \<noteq> CHR ''+''"
  by (auto simp: is_digit_def is_space_def code_def)

lemma int_to_string_plain: "\<forall>c \<in> set (int_to_string n). \<not> is_space c \<and> c \<noteq> CHR ''+''"
proof -
  have "\<forall>c \<in> set (nat_to_string m). \<not> is_space c \<and> c \<noteq> CHR ''+''" for m
    using digits_nat_to_string [of m] digit_plain by (auto simp: list_all_iff)
  then show ?thesis by (auto simp: int_to_string_def is_space_def code_def)
qed

lemma js_big_int_int_to_string [simp]: "js_big_int (int_to_string n) = Some n"
proof -
  have "trim (int_to_string n) = int_to_string n" by (rule trim_no_space) (simp add: int_to_string_plain)
  moreover have "\<not> starts_with (CHR ''+'' # p) (int_to_string n)" for p
    using int_to_string_plain [of n] by (cases "int_to_string n") (auto simp: starts_with_def)
  moreover have "int_to_string n \<noteq> []" using is_integer_int_to_string [of n] by fastforce
  ultimately show ?thesis by (simp add: js_big_int_def Let_def)
qed

section \<open>Errors\<close>

text \<open>
  What the API throws, one constructor per \<open>throw\<close> site (or group of sites with one
  message), with the values its message carries.
\<close>

datatype api_error =
    \<comment> \<open>common/amounts.ts\<close>
    NotExactInteger string
  | NumberRefused "rat option"
  | NotAQuantity string
  | OutsideI128 string int
  | NegativeAmount string int
  | OutsideU64 string int
  | LedgerTimeTooFar int
    \<comment> \<open>indexer/decoder.ts\<close>
  | NoTopics
  | MalformedXdr string
  | UnconvertibleXdr string
  | NameNotSymbol string
  | WrongTopicCount string nat nat
  | TopicNotU64 string string
  | BodyRedefinesTopic string string
  | BadEventId string
  | BadClosedAt string
    \<comment> \<open>indexer/projector.ts\<close>
  | FieldNotString string
  | FieldNotU32 string
  | FieldNotBool string
  | FieldNotDigest string
  | NoProjection string int
  | NoExpiry string
  | NoActivePosition int
  | RefundClosedPositions int nat nat
  | UnhandledEvent string
    \<comment> \<open>the database: unique indexes, check constraints, rejected values\<close>
  | UniqueViolation string
  | CheckViolation string
  | InvalidDateValue
    \<comment> \<open>indexer/indexer.service.ts and rpc.ts\<close>
  | ForeignContract string string
  | StaleCursor
  | RunInProgress
  | RpcUnreachable string
  | RpcHttpStatus int string
  | RpcFailure string
  | LedgerOutOfRange string
  | RpcNoResult string
    \<comment> \<open>controllers, and reading a property of null or undefined\<close>
  | BadRequest string
  | NotFound string
  | InvalidEnum string
  | NullProperty string
    \<comment> \<open>evidence/hash.ts and storage.ts\<close>
  | EvidenceHashError string
  | EvidenceStorageError string

end
