(* ===== verification/ChainAmounts.thy ===== *)
theory ChainAmounts
  imports JsValues
begin

text \<open>
  \<open>apps/api/src/common/amounts.ts\<close>: the exact handling of on-chain quantities. A
  \<open>bigint\<close> is an \<^typ>\<open>int\<close>. The lemmas show that rendering and reading a quantity are
  inverse at any magnitude, that the range checks accept exactly the chain types'
  ranges, and what \<open>ledgerTimeToDate\<close> does on the whole of \<open>u64\<close>.
\<close>

section \<open>The module\<close>

definition I128_MAX :: int where
  "I128_MAX = 2 ^ 127 - 1"

definition I128_MIN :: int where
  "I128_MIN = - (2 ^ 127)"

definition U64_MAX :: int where
  "U64_MAX = 2 ^ 64 - 1"

text \<open>\<open>Number.MAX_SAFE_INTEGER\<close>.\<close>

definition MAX_SAFE_INTEGER :: int where
  "MAX_SAFE_INTEGER = 2 ^ 53 - 1"

definition parse_integer_string :: "string \<Rightarrow> api_error + int" where
  "parse_integer_string value =
     (if \<not> is_integer_string value then Inl (NotExactInteger value)
      else Inr (int_of_string value))"

fun to_big_int :: "jsval \<Rightarrow> api_error + int" where
  "to_big_int (JBigInt v) = Inr v"
| "to_big_int (JString s) = parse_integer_string s"
| "to_big_int (JNumber n) = Inl (NumberRefused n)"
| "to_big_int v = Inl (NotAQuantity (typeof v))"

definition assert_i128 :: "int \<Rightarrow> string \<Rightarrow> api_error + int" where
  "assert_i128 value label =
     (if value < I128_MIN \<or> value > I128_MAX then Inl (OutsideI128 label value) else Inr value)"

definition assert_non_negative_i128 :: "int \<Rightarrow> string \<Rightarrow> api_error + int" where
  "assert_non_negative_i128 value label =
     and_then (assert_i128 value label)
       (\<lambda>_. if value < 0 then Inl (NegativeAmount label value) else Inr value)"

definition assert_u64 :: "int \<Rightarrow> string \<Rightarrow> api_error + int" where
  "assert_u64 value label =
     (if value < 0 \<or> value > U64_MAX then Inl (OutsideU64 label value) else Inr value)"

text \<open>\<open>amountToJson\<close> of a \<open>bigint\<close>: \<open>value.toString()\<close>.\<close>

definition amount_to_json :: "int \<Rightarrow> string" where
  "amount_to_json value = int_to_string value"

definition ledger_time_to_date :: "int \<Rightarrow> api_error + js_date option" where
  "ledger_time_to_date value =
     and_then (assert_u64 value ''ledger time'')
       (\<lambda>_. if value = 0 then Inr None
            else let millis = value * 1000
                 in if millis > MAX_SAFE_INTEGER then Inl (LedgerTimeTooFar value)
                    else Inr (Some (new_date millis)))"

fun to_json_safe :: "jsval \<Rightarrow> jsval" where
  "to_json_safe (JBigInt v) = JString (int_to_string v)"
| "to_json_safe (JBytes bs) = JString (bytes_to_hex bs)"
| "to_json_safe (JArray xs) = JArray (map to_json_safe xs)"
| "to_json_safe (JObject kvs) = JObject (map (\<lambda>kv. (fst kv, to_json_safe (snd kv))) kvs)"
| "to_json_safe v = v"

section \<open>Lemmas\<close>

lemma amount_bounds [simp]: "0 \<le> U64_MAX" "I128_MIN < 0" "0 < I128_MAX" "U64_MAX < I128_MAX"
  by (simp_all add: U64_MAX_def I128_MIN_def I128_MAX_def)

lemma assert_i128_Inr [result_simps]:
  "assert_i128 v l = Inr w \<longleftrightarrow> w = v \<and> I128_MIN \<le> v \<and> v \<le> I128_MAX"
  by (auto simp: assert_i128_def)

lemma assert_non_negative_i128_Inr [result_simps]:
  "assert_non_negative_i128 v l = Inr w \<longleftrightarrow> w = v \<and> 0 \<le> v \<and> v \<le> I128_MAX"
  using amount_bounds(2) order_trans [of I128_MIN 0 v]
  by (auto simp: assert_non_negative_i128_def result_simps less_imp_le)

lemma assert_u64_Inr [result_simps]:
  "assert_u64 v l = Inr w \<longleftrightarrow> w = v \<and> 0 \<le> v \<and> v \<le> U64_MAX"
  by (auto simp: assert_u64_def)

lemma parse_integer_string_Inr:
  "parse_integer_string s = Inr v \<longleftrightarrow> is_integer_string s \<and> v = int_of_string s"
  by (auto simp: parse_integer_string_def)

text \<open>
  a quantity of any magnitude survives rendering: the string \<open>amountToJson\<close> emits is
  accepted by \<open>parseIntegerString\<close> and by \<open>toBigInt\<close> and reads back as the same integer,
  and the payload \<open>toJsonSafe\<close> stores for a \<open>bigint\<close> reads back as that \<open>bigint\<close>.
\<close>

theorem amount_json_roundtrip:
  "parse_integer_string (amount_to_json v) = Inr v
   \<and> to_big_int (JString (amount_to_json v)) = Inr v
   \<and> to_big_int (to_json_safe (JBigInt v)) = Inr v"
  by (simp add: parse_integer_string_def amount_to_json_def)

text \<open>The values \<open>JSON.stringify\<close> renders without loss: no \<open>bigint\<close>, no raw bytes.\<close>

fun json_safe :: "jsval \<Rightarrow> bool" where
  "json_safe (JBigInt v) = False"
| "json_safe (JBytes bs) = False"
| "json_safe (JArray xs) = list_all json_safe xs"
| "json_safe (JObject kvs) = list_all (\<lambda>kv. json_safe (snd kv)) kvs"
| "json_safe v = True"

lemma to_json_safe_safe: "json_safe (to_json_safe v)"
  by (induction v rule: to_json_safe.induct) (auto simp: list_all_iff)

lemma to_json_safe_id: "json_safe v \<Longrightarrow> to_json_safe v = v"
  by (induction v rule: to_json_safe.induct) (auto simp: list_all_iff map_idI)

text \<open>
  \<open>toJsonSafe\<close> leaves no \<open>bigint\<close> and no byte array anywhere in a payload, however
  deeply nested, and applying it to a stored payload again changes nothing.
\<close>

theorem to_json_safe_normalises:
  "json_safe (to_json_safe v) \<and> to_json_safe (to_json_safe v) = to_json_safe v"
  by (simp add: to_json_safe_safe to_json_safe_id)

text \<open>
  on every value, \<open>ledgerTimeToDate\<close> throws outside \<open>u64\<close>, returns \<open>null\<close> on 0,
  a date of exactly \<open>value * 1000\<close> milliseconds up to 8640000000000 seconds, the
  \<^emph>\<open>invalid\<close> date from there to 9007199254740 seconds, and throws above. The source means
  to throw on every time it cannot represent; between the two bounds it does not.
\<close>

theorem ledger_time_to_date_cases:
  "ledger_time_to_date v =
     (if v < 0 \<or> v > U64_MAX then Inl (OutsideU64 ''ledger time'' v)
      else if v = 0 then Inr None
      else if v \<le> 8640000000000 then Inr (Some (Date (v * 1000)))
      else if v \<le> 9007199254740 then Inr (Some InvalidDate)
      else Inl (LedgerTimeTooFar v))"
  by (auto simp: ledger_time_to_date_def assert_u64_def new_date_def MAX_SAFE_INTEGER_def Let_def)

end
