(* ===== verification/EventDecoder.thy ===== *)
theory EventDecoder
  imports ChainAmounts "HOL-Library.Product_Lexorder"
begin

text \<open>
  \<open>apps/api/src/indexer/decoder.ts\<close>: from a raw RPC event to a decoded contract event,
  and the chain order of decoded events. The XDR codec of the Stellar SDK and the parser
  of \<open>new Date(text)\<close> are not in this repository; they are the fields of a \<open>platform\<close>
  every definition that needs them takes as an argument.
\<close>

section \<open>Event names and their topics\<close>

datatype event_name =
    OrderCreated | OrderAccepted | OrderCancelled
  | MilestoneCreated | MilestoneFunded | PartialFundingCancelled
  | FinanceRequested | FinanceRequestCancelled
  | FundingOfferCreated | FundingOfferCancelled | OfferAccepted
  | AdvanceFunded | AcceptanceReleased
  | EvidenceSubmitted | MilestoneVerified | MilestoneSettled | MilestoneRefunded
  | DisputeOpened | DisputeResolved | OrderCompleted

definition MILVANCE_EVENT_NAMES :: "(string \<times> event_name) list" where
  "MILVANCE_EVENT_NAMES =
     [(''order_created'', OrderCreated),
      (''order_accepted'', OrderAccepted),
      (''order_cancelled'', OrderCancelled),
      (''milestone_created'', MilestoneCreated),
      (''milestone_funded'', MilestoneFunded),
      (''partial_funding_cancelled'', PartialFundingCancelled),
      (''finance_requested'', FinanceRequested),
      (''finance_request_cancelled'', FinanceRequestCancelled),
      (''funding_offer_created'', FundingOfferCreated),
      (''funding_offer_cancelled'', FundingOfferCancelled),
      (''offer_accepted'', OfferAccepted),
      (''advance_funded'', AdvanceFunded),
      (''acceptance_released'', AcceptanceReleased),
      (''evidence_submitted'', EvidenceSubmitted),
      (''milestone_verified'', MilestoneVerified),
      (''milestone_settled'', MilestoneSettled),
      (''milestone_refunded'', MilestoneRefunded),
      (''dispute_opened'', DisputeOpened),
      (''dispute_resolved'', DisputeResolved),
      (''order_completed'', OrderCompleted)]"

definition is_milvance_event_name :: "string \<Rightarrow> event_name option" where
  "is_milvance_event_name name = map_of MILVANCE_EVENT_NAMES name"

fun TOPIC_FIELDS :: "event_name \<Rightarrow> string list" where
  "TOPIC_FIELDS OrderCreated = [''order_id'']"
| "TOPIC_FIELDS OrderAccepted = [''order_id'']"
| "TOPIC_FIELDS OrderCancelled = [''order_id'']"
| "TOPIC_FIELDS MilestoneCreated = [''order_id'', ''milestone_id'']"
| "TOPIC_FIELDS MilestoneFunded = [''order_id'', ''milestone_id'']"
| "TOPIC_FIELDS PartialFundingCancelled = [''order_id'', ''milestone_id'']"
| "TOPIC_FIELDS FinanceRequested = [''milestone_id'']"
| "TOPIC_FIELDS FinanceRequestCancelled = [''milestone_id'']"
| "TOPIC_FIELDS FundingOfferCreated = [''milestone_id'', ''offer_id'']"
| "TOPIC_FIELDS FundingOfferCancelled = [''milestone_id'', ''offer_id'']"
| "TOPIC_FIELDS OfferAccepted = [''milestone_id'', ''offer_id'']"
| "TOPIC_FIELDS AdvanceFunded = [''milestone_id'', ''offer_id'']"
| "TOPIC_FIELDS AcceptanceReleased = [''milestone_id'', ''offer_id'']"
| "TOPIC_FIELDS EvidenceSubmitted = [''milestone_id'']"
| "TOPIC_FIELDS MilestoneVerified = [''milestone_id'']"
| "TOPIC_FIELDS MilestoneSettled = [''order_id'', ''milestone_id'']"
| "TOPIC_FIELDS MilestoneRefunded = [''order_id'', ''milestone_id'']"
| "TOPIC_FIELDS DisputeOpened = [''milestone_id'', ''dispute_id'']"
| "TOPIC_FIELDS DisputeResolved = [''milestone_id'', ''dispute_id'']"
| "TOPIC_FIELDS OrderCompleted = [''order_id'']"

section \<open>Raw and decoded events\<close>

record raw_contract_event =
  raw_id :: string
  raw_type :: string
  raw_ledger :: int
  raw_ledgerClosedAt :: string
  raw_contractId :: string
  raw_txHash :: string
  raw_topic :: "string list"
  raw_value :: string
  raw_successful :: bool
  raw_operationIndex :: "int option"
  raw_transactionIndex :: "int option"

record decoded_event =
  eventId :: string
  eventIndex :: nat
  ev_ledger :: int
  ledgerClosedAt :: int
  ev_txHash :: string
  txIndex :: int
  operationIndex :: int
  ev_contractId :: string
  successful :: bool
  eventName :: string
  known :: bool
  ev_fields :: fields
  topicsXdr :: "string list"
  valueXdr :: string

text \<open>
  What decoding relies on from outside the repository: \<open>xdr.ScVal.fromXDR\<close> (\<open>None\<close> where it
  throws), \<open>scValToNative\<close> (the same), and the time value of \<open>new Date(text)\<close>.
\<close>

record 'x platform =
  from_xdr :: "string \<Rightarrow> 'x option"
  sc_val_to_native :: "'x \<Rightarrow> jsval option"
  date_of_text :: "string \<Rightarrow> js_date"

section \<open>Event ids\<close>

text \<open>
  \<open>Number(digits)\<close>: the nearest double, ties to even, below the overflow threshold of
  309 digits.
\<close>

fun bit_length :: "nat \<Rightarrow> nat" where
  "bit_length n = (if n = 0 then 0 else Suc (bit_length (n div 2)))"

declare bit_length.simps [simp del]

definition nearest_double :: "nat \<Rightarrow> nat" where
  "nearest_double n =
     (if n < 2 ^ 53 then n
      else let e = bit_length n - 53; q = n div 2 ^ e; r = n mod 2 ^ e; half = 2 ^ (e - 1)
           in if half < r \<or> (r = half \<and> odd q) then (q + 1) * 2 ^ e else q * 2 ^ e)"

definition parse_event_id :: "string \<Rightarrow> api_error + (int \<times> nat)" where
  "parse_event_id i =
     (let toid = takeWhile is_digit i; rest = dropWhile is_digit i
      in case rest of
           [] \<Rightarrow> Inl (BadEventId i)
         | c # index \<Rightarrow>
             if toid \<noteq> [] \<and> c = CHR ''-'' \<and> all_digits index
             then Inr (int (nat_of_digits toid), nearest_double (nat_of_digits index))
             else Inl (BadEventId i))"

section \<open>Decoding\<close>

definition decode_sc_val :: "'x platform \<Rightarrow> string \<Rightarrow> string \<Rightarrow> api_error + jsval" where
  "decode_sc_val pf base64 what =
     (case from_xdr pf base64 of
        None \<Rightarrow> Inl (MalformedXdr what)
      | Some parsed \<Rightarrow>
          (case sc_val_to_native pf parsed of
             None \<Rightarrow> Inl (UnconvertibleXdr what)
           | Some v \<Rightarrow> Inr v))"

text \<open>The id topics of an event this build knows, named by \<open>TOPIC_FIELDS\<close>, in order.\<close>

fun decode_known_topic ::
  "'x platform \<Rightarrow> string \<Rightarrow> string \<times> string \<Rightarrow> api_error + (string \<times> jsval)" where
  "decode_known_topic pf name (fieldName, topic) =
     and_then (decode_sc_val pf topic (name @ '' topic '' @ fieldName))
       (\<lambda>value. case value of
          JBigInt v \<Rightarrow>
            and_then (assert_u64 v (name @ ''.'' @ fieldName)) (\<lambda>w. Inr (fieldName, JBigInt w))
        | _ \<Rightarrow> Inl (TopicNotU64 name fieldName))"

definition decode_known_topics ::
  "'x platform \<Rightarrow> string \<Rightarrow> event_name \<Rightarrow> string list \<Rightarrow> api_error + fields" where
  "decode_known_topics pf name ev idTopics =
     (let names = TOPIC_FIELDS ev
      in if length idTopics \<noteq> length names
         then Inl (WrongTopicCount name (length names) (length idTopics))
         else traverse (decode_known_topic pf name) (zip names idTopics))"

text \<open>The topics of an unknown event: \<open>topic_1\<close>, \<open>topic_2\<close>, \<dots>\<close>

fun decode_unknown_topics ::
  "'x platform \<Rightarrow> nat \<Rightarrow> string list \<Rightarrow> api_error + fields" where
  "decode_unknown_topics pf position [] = Inr []"
| "decode_unknown_topics pf position (topic # topics) =
     and_then (decode_sc_val pf topic (''topic '' @ nat_to_string (position + 1)))
       (\<lambda>v. and_then (decode_unknown_topics pf (position + 1) topics)
          (\<lambda>rest. Inr ((''topic_'' @ nat_to_string (position + 1), v) # rest)))"

definition decode_topics :: "'x platform \<Rightarrow> string \<Rightarrow> string list \<Rightarrow> api_error + fields" where
  "decode_topics pf name idTopics =
     (case is_milvance_event_name name of
        Some ev \<Rightarrow> decode_known_topics pf name ev idTopics
      | None \<Rightarrow> decode_unknown_topics pf 0 idTopics)"

text \<open>Adding the entries of the body; a key already present is refused.\<close>

fun merge_body :: "string \<Rightarrow> fields \<Rightarrow> fields \<Rightarrow> api_error + fields" where
  "merge_body name f [] = Inr f"
| "merge_body name f ((k, v) # kvs) =
     (if key_in k f then Inl (BodyRedefinesTopic name k)
      else merge_body name (f @ [(k, v)]) kvs)"

text \<open>
  The three branches on the body: an object that is not an array contributes its entries
  (a byte array its indices), \<open>null\<close> and \<open>undefined\<close> nothing, anything else is the field
  \<open>value\<close>.
\<close>

fun add_body :: "string \<Rightarrow> fields \<Rightarrow> jsval \<Rightarrow> api_error + fields" where
  "add_body name f (JObject kvs) = merge_body name f kvs"
| "add_body name f (JBytes bs) =
     merge_body name f
       (zip (map nat_to_string [0..<length bs]) (map (\<lambda>b. JNumber (Some (of_nat (unat b)))) bs))"
| "add_body name f JNull = Inr f"
| "add_body name f JUndefined = Inr f"
| "add_body name f v = Inr (f @ [(''value'', v)])"

definition decode_event :: "'x platform \<Rightarrow> raw_contract_event \<Rightarrow> api_error + decoded_event" where
  "decode_event pf raw =
     (case raw_topic raw of
        [] \<Rightarrow> Inl NoTopics
      | nameTopic # idTopics \<Rightarrow>
          and_then (decode_sc_val pf nameTopic ''event name topic'')
          (\<lambda>nameVal. case nameVal of
             JString name \<Rightarrow>
               and_then (decode_topics pf name idTopics)
               (\<lambda>topicFields.
               and_then (decode_sc_val pf (raw_value raw) (name @ '' body''))
               (\<lambda>body.
               and_then (add_body name topicFields body)
               (\<lambda>f.
               and_then (parse_event_id (raw_id raw))
               (\<lambda>(toid, index).
                case date_of_text pf (raw_ledgerClosedAt raw) of
                  InvalidDate \<Rightarrow> Inl (BadClosedAt (raw_ledgerClosedAt raw))
                | Date closedAt \<Rightarrow>
                    Inr \<lparr>eventId = raw_id raw, eventIndex = index, ev_ledger = raw_ledger raw,
                         ledgerClosedAt = closedAt, ev_txHash = raw_txHash raw,
                         txIndex = (case raw_transactionIndex raw of None \<Rightarrow> 0 | Some i \<Rightarrow> i),
                         operationIndex = (case raw_operationIndex raw of None \<Rightarrow> 0 | Some i \<Rightarrow> i),
                         ev_contractId = raw_contractId raw, successful = raw_successful raw,
                         eventName = name, known = (is_milvance_event_name name \<noteq> None),
                         ev_fields = f, topicsXdr = raw_topic raw, valueXdr = raw_value raw\<rparr>))))
           | v \<Rightarrow> Inl (NameNotSymbol (typeof v))))"

section \<open>Chain order\<close>

definition compare_event_order :: "decoded_event \<Rightarrow> decoded_event \<Rightarrow> int" where
  "compare_event_order a b =
     (if ev_ledger a \<noteq> ev_ledger b then (if ev_ledger a < ev_ledger b then -1 else 1)
      else if txIndex a \<noteq> txIndex b then txIndex a - txIndex b
      else if operationIndex a \<noteq> operationIndex b then operationIndex a - operationIndex b
      else if eventIndex a \<noteq> eventIndex b then int (eventIndex a) - int (eventIndex b)
      else if eventId a < eventId b then -1
      else if eventId a > eventId b then 1 else 0)"

text \<open>\<open>Array.prototype.sort\<close> with a comparator: stable, so equal elements keep their order.\<close>

fun insert_by :: "('a \<Rightarrow> 'a \<Rightarrow> int) \<Rightarrow> 'a \<Rightarrow> 'a list \<Rightarrow> 'a list" where
  "insert_by cmp x [] = [x]"
| "insert_by cmp x (y # ys) = (if cmp x y \<le> 0 then x # y # ys else y # insert_by cmp x ys)"

definition js_sort :: "('a \<Rightarrow> 'a \<Rightarrow> int) \<Rightarrow> 'a list \<Rightarrow> 'a list" where
  "js_sort cmp xs = foldr (insert_by cmp) xs []"

text \<open>\<open>fieldsToJson\<close>: the stored payload.\<close>

definition fields_to_json :: "fields \<Rightarrow> jsval" where
  "fields_to_json f = to_json_safe (JObject f)"

section \<open>Topics and body\<close>

lemma decode_known_topic_Inr:
  "decode_known_topic pf name (k, t) = Inr (k', v) \<Longrightarrow>
     k' = k \<and> (\<exists>i. v = JBigInt i \<and> 0 \<le> i \<and> i \<le> U64_MAX)"
proof -
  assume "decode_known_topic pf name (k, t) = Inr (k', v)"
  then show ?thesis
    by (cases "decode_sc_val pf t (name @ '' topic '' @ k)", simp)
      (rename_tac val, case_tac val, auto simp: result_simps)
qed

lemma decode_known_topics_keys:
  assumes "decode_known_topics pf name ev topics = Inr f"
  shows "map fst f = TOPIC_FIELDS ev"
    and "(k, v) \<in> set f \<Longrightarrow> \<exists>i. v = JBigInt i \<and> 0 \<le> i \<and> i \<le> U64_MAX"
proof -
  let ?z = "zip (TOPIC_FIELDS ev) topics"
  from assms have len: "length topics = length (TOPIC_FIELDS ev)"
    and tr: "traverse (decode_known_topic pf name) ?z = Inr f"
    by (auto simp: decode_known_topics_def Let_def split: if_splits)
  have n: "length f = length (TOPIC_FIELDS ev)"
    using traverse_Inr_length [OF tr] len by simp
  show "map fst f = TOPIC_FIELDS ev"
  proof (rule nth_equalityI)
    show "length (map fst f) = length (TOPIC_FIELDS ev)" using n by simp
  next
    fix i assume "i < length (map fst f)"
    with n have i: "i < length (TOPIC_FIELDS ev)" by simp
    have "decode_known_topic pf name (TOPIC_FIELDS ev ! i, topics ! i) = Inr (f ! i)"
      using traverse_Inr_nth [OF tr, of i] i len by simp
    then have "fst (f ! i) = TOPIC_FIELDS ev ! i"
      by (metis decode_known_topic_Inr prod.collapse)
    then show "map fst f ! i = TOPIC_FIELDS ev ! i" using i n by simp
  qed
  show "\<exists>i. v = JBigInt i \<and> 0 \<le> i \<and> i \<le> U64_MAX" if "(k, v) \<in> set f"
    using traverse_Inr_set [OF tr that] by (auto dest!: decode_known_topic_Inr)
qed

lemma distinct_TOPIC_FIELDS [simp]: "distinct (TOPIC_FIELDS ev)"
  by (cases ev) simp_all

lemma value_not_topic [simp]: "''value'' \<notin> set (TOPIC_FIELDS ev)"
  by (cases ev) simp_all

lemma merge_body_Inr:
  "merge_body name f kvs = Inr g \<Longrightarrow> distinct (map fst f) \<Longrightarrow>
     (\<exists>new. g = f @ new) \<and> distinct (map fst g)"
proof (induction name f kvs rule: merge_body.induct)
  case (2 name f k v kvs)
  then show ?case
    by (auto simp: key_in_def split: if_splits)
qed simp

lemma add_body_Inr:
  assumes "add_body name f v = Inr g" and "distinct (map fst f)" and "''value'' \<notin> fst ` set f"
  shows "(\<exists>new. g = f @ new) \<and> distinct (map fst g)"
  using assms by (cases v) (auto dest: merge_body_Inr)

lemma get_field_append:
  assumes "k \<in> fst ` set f"
  shows "get_field (f @ g) k = get_field f k"
proof -
  from assms obtain v where "map_of f k = Some v"
    by (metis map_of_eq_None_iff not_Some_eq)
  then show ?thesis by (simp add: get_field_def map_add_def)
qed

text \<open>What a successful decode went through.\<close>

lemma decode_event_Inr:
  assumes "decode_event pf raw = Inr e"
  obtains topics body toid where
    "decode_topics pf (eventName e) (tl (raw_topic raw)) = Inr topics"
    "add_body (eventName e) topics body = Inr (ev_fields e)"
    "decode_sc_val pf (raw_value raw) (eventName e @ '' body'') = Inr body"
    "known e \<longleftrightarrow> is_milvance_event_name (eventName e) \<noteq> None"
    "raw_topic raw \<noteq> []" "eventId e = raw_id raw"
    "parse_event_id (raw_id raw) = Inr (toid, eventIndex e)"
proof -
  from assms obtain nameTopic idTopics nameVal where
    tp: "raw_topic raw = nameTopic # idTopics"
    and nv: "decode_sc_val pf nameTopic ''event name topic'' = Inr nameVal"
    unfolding decode_event_def by (auto simp: result_simps split: list.splits)
  from assms tp nv obtain name where name: "nameVal = JString name"
    unfolding decode_event_def by (cases nameVal) simp_all
  show thesis
    using assms tp nv name that
    unfolding decode_event_def
    by (cases "date_of_text pf (raw_ledgerClosedAt raw)") (auto simp: result_simps)
qed

text \<open>
  C13: a decoded event of a kind this build knows carries every identifier its topics
  announce, each a \<open>bigint\<close> within \<open>u64\<close>, under keys that are all distinct: a body can
  never overwrite a topic, and no identifier is dropped.
\<close>

theorem decode_event_identifiers:
  assumes "decode_event pf raw = Inr e"
    and "is_milvance_event_name (eventName e) = Some ev"
  shows "known e \<and> distinct (map fst (ev_fields e))
    \<and> (\<forall>k\<in>set (TOPIC_FIELDS ev). \<exists>i. get_field (ev_fields e) k = JBigInt i \<and> 0 \<le> i \<and> i \<le> U64_MAX)"
proof -
  from assms(1) obtain topics body toid where
    t: "decode_topics pf (eventName e) (tl (raw_topic raw)) = Inr topics"
    and b: "add_body (eventName e) topics body = Inr (ev_fields e)"
    and k: "known e \<longleftrightarrow> is_milvance_event_name (eventName e) \<noteq> None"
    by (rule decode_event_Inr)
  from t assms(2) have t': "decode_known_topics pf (eventName e) ev (tl (raw_topic raw)) = Inr topics"
    by (simp add: decode_topics_def)
  note keys = decode_known_topics_keys [OF t']
  from keys(1) have dist: "distinct (map fst topics)" and nv: "''value'' \<notin> fst ` set topics"
    by (metis distinct_TOPIC_FIELDS, metis image_set value_not_topic)
  from add_body_Inr [OF b dist nv] obtain new where
    f: "ev_fields e = topics @ new" and d: "distinct (map fst (ev_fields e))" by blast
  have "\<exists>i. get_field (ev_fields e) key = JBigInt i \<and> 0 \<le> i \<and> i \<le> U64_MAX"
    if "key \<in> set (TOPIC_FIELDS ev)" for key
  proof -
    from that keys(1) have "key \<in> fst ` set topics" by (metis image_set)
    then obtain v where "(key, v) \<in> set topics" and "get_field (ev_fields e) key = v"
      using dist get_field_append [of key topics new]
      by (auto simp: f get_field_def)
    with keys(2) show ?thesis by blast
  qed
  with k d assms(2) show ?thesis by simp
qed

definition text_platform :: "string platform" where
  "text_platform =
     \<lparr>from_xdr = Some, sc_val_to_native = \<lambda>x. Some (if x = ''7'' then JBigInt 7 else JString x),
      date_of_text = \<lambda>s. Date 0\<rparr>"

definition sample_raw :: raw_contract_event where
  "sample_raw =
     \<lparr>raw_id = ''0000000000000000042-0000000003'', raw_type = ''contract'', raw_ledger = 9,
      raw_ledgerClosedAt = ''now'', raw_contractId = ''C'', raw_txHash = ''t'',
      raw_topic = [''order_accepted'', ''7''], raw_value = ''yes'', raw_successful = True,
      raw_operationIndex = None, raw_transactionIndex = Some 2\<rparr>"

lemma sample_raw_id: "parse_event_id (raw_id sample_raw) = Inr (42, 3)"
proof -
  have "takeWhile is_digit (raw_id sample_raw) = ''0000000000000000042''"
    and "dropWhile is_digit (raw_id sample_raw) = ''-0000000003''"
    and "all_digits ''0000000003''" by code_simp+
  moreover have "nat_of_digits ''0000000000000000042'' = 42" "nat_of_digits ''0000000003'' = 3"
    by code_simp+
  ultimately show ?thesis by (simp add: parse_event_id_def nearest_double_def)
qed

lemma sample_raw_decodes:
  "\<exists>e. decode_event text_platform sample_raw = Inr e \<and> eventName e = ''order_accepted''
     \<and> get_field (ev_fields e) ''order_id'' = JBigInt 7"
proof -
  have "decode_topics text_platform ''order_accepted'' [''7''] = Inr [(''order_id'', JBigInt 7)]"
    by code_simp
  moreover have "decode_sc_val text_platform ''order_accepted'' w = Inr (JString ''order_accepted'')"
    and "decode_sc_val text_platform ''yes'' w = Inr (JString ''yes'')" for w
    by (simp_all add: decode_sc_val_def text_platform_def)
  moreover have "date_of_text text_platform s = Date 0" for s by (simp add: text_platform_def)
  ultimately show ?thesis
    using sample_raw_id by (simp add: decode_event_def sample_raw_def get_field_def)
qed

lemma decode_event_identifiers_witness:
  "\<exists>e. decode_event text_platform sample_raw = Inr e \<and> get_field (ev_fields e) ''order_id'' = JBigInt 7
     \<and> distinct (map fst (ev_fields e))"
proof -
  obtain e where run: "decode_event text_platform sample_raw = Inr e"
    and "eventName e = ''order_accepted''" "get_field (ev_fields e) ''order_id'' = JBigInt 7"
    using sample_raw_decodes by blast
  moreover have "is_milvance_event_name ''order_accepted'' = Some OrderAccepted" by code_simp
  ultimately show ?thesis using decode_event_identifiers [OF run, of OrderAccepted] by auto
qed

end
