(* ===== verification/EventOrder.thy ===== *)
theory EventOrder
  imports EventDecoder "HOL-Library.Multiset"
begin

text \<open>
  The chain order of \<open>decoder.ts\<close>: the comparator \<open>compareEventOrder\<close> is the linear order
  of an event's position on chain, so sorting a page gives the same list whatever order
  the RPC delivered it in; and the textual order of event ids in the RPC's fixed-width
  format, on which the projector's monotonic guard relies, is the order of the positions
  they encode.
\<close>

section \<open>Positions on chain as a linear order\<close>

datatype event_key =
  EventKey (key_ledger: int) (key_tx: int) (key_op: int) (key_index: nat) (key_id: string)

fun key_tuple :: "event_key \<Rightarrow> int \<times> int \<times> int \<times> nat \<times> string" where
  "key_tuple (EventKey l t p i s) = (l, t, p, i, s)"

lemma key_tuple_inject [simp]: "key_tuple k = key_tuple k' \<longleftrightarrow> k = k'"
  by (cases k; cases k') auto

instantiation event_key :: linorder
begin

definition less_eq_event_key :: "event_key \<Rightarrow> event_key \<Rightarrow> bool" where
  "less_eq_event_key k k' \<longleftrightarrow> key_tuple k \<le> key_tuple k'"

definition less_event_key :: "event_key \<Rightarrow> event_key \<Rightarrow> bool" where
  "less_event_key k k' \<longleftrightarrow> key_tuple k < key_tuple k'"

instance
proof
  fix x y z :: event_key
  show "x < y \<longleftrightarrow> x \<le> y \<and> \<not> y \<le> x"
    unfolding less_event_key_def less_eq_event_key_def by (rule less_le_not_le)
  show "x \<le> x"
    by (simp add: less_eq_event_key_def)
  show "x \<le> y \<Longrightarrow> y \<le> z \<Longrightarrow> x \<le> z"
    by (auto simp: less_eq_event_key_def)
  show "x \<le> y \<Longrightarrow> y \<le> x \<Longrightarrow> x = y"
    by (metis antisym key_tuple_inject less_eq_event_key_def)
  show "x \<le> y \<or> y \<le> x"
    by (auto simp: less_eq_event_key_def)
qed

end

definition event_key_of :: "decoded_event \<Rightarrow> event_key" where
  "event_key_of e = EventKey (ev_ledger e) (txIndex e) (operationIndex e) (eventIndex e) (eventId e)"

lemma compare_le_iff: "compare_event_order a b \<le> 0 \<longleftrightarrow> event_key_of a \<le> event_key_of b"
  by (auto simp: compare_event_order_def event_key_of_def less_eq_event_key_def)

lemma compare_less_iff: "compare_event_order a b < 0 \<longleftrightarrow> event_key_of a < event_key_of b"
  by (auto simp: compare_event_order_def event_key_of_def less_event_key_def)

section \<open>Sorting a page\<close>

lemma insert_by_compare: "insert_by compare_event_order x ys = insort_key event_key_of x ys"
  by (induction ys) (auto simp: compare_le_iff)

lemma js_sort_compare: "js_sort compare_event_order es = sort_key event_key_of es"
proof -
  have "insert_by compare_event_order = insort_key event_key_of"
    by (intro ext) (rule insert_by_compare)
  then show ?thesis by (simp add: js_sort_def sort_key_def)
qed

lemma set_js_sort [simp]: "set (js_sort compare_event_order es) = set es"
  by (simp add: js_sort_compare)

lemma length_js_sort [simp]: "length (js_sort compare_event_order es) = length es"
  by (simp add: js_sort_compare)

lemma mset_js_sort [simp]: "mset (js_sort compare_event_order es) = mset es"
  by (simp add: js_sort_compare)

lemma event_key_of_inj_on:
  "inj_on eventId (set es) \<Longrightarrow> inj_on event_key_of (set es)"
  by (auto simp: inj_on_def event_key_of_def)

text \<open>
  The order a page is applied in does not depend on the order the RPC delivered it
  in: two deliveries of the same events, whose ids identify them, sort to the same list,
  and that list is ascending in ledger, transaction, operation and event index.
\<close>

theorem sorted_page_is_canonical:
  assumes "mset es = mset es'" and "inj_on eventId (set es)"
  shows "js_sort compare_event_order es = js_sort compare_event_order es'
    \<and> sorted (map event_key_of (js_sort compare_event_order es))"
proof -
  have "sort_key event_key_of es = sort_key event_key_of es'"
    using assms event_key_of_inj_on [OF assms(2)] by (intro sort_key_eq_sort_key) auto
  then show ?thesis by (simp add: js_sort_compare)
qed

section \<open>Event ids in the RPC's format\<close>

lemma less_char_iff: "c < d \<longleftrightarrow> code c < code d"
  by (simp add: less_char_def code_def)

lemma digit_less_iff:
  "is_digit c \<Longrightarrow> is_digit d \<Longrightarrow> c < d \<longleftrightarrow> digit_val c < digit_val d"
  by (auto simp: less_char_iff is_digit_def digit_val_def)

lemma digit_val_eq_iff:
  "is_digit c \<Longrightarrow> is_digit d \<Longrightarrow> digit_val c = digit_val d \<longleftrightarrow> c = d"
  by (metis digit_char_digit_val)

lemma nat_of_digits_Cons:
  "nat_of_digits (c # s) = digit_val c * 10 ^ length s + nat_of_digits s"
  using nat_of_digits_append [of "[c]" s] by (simp add: nat_of_digits_def)

lemma digits_less_iff:
  "length s = length t \<Longrightarrow> list_all is_digit s \<Longrightarrow> list_all is_digit t \<Longrightarrow>
     (s < t \<longleftrightarrow> nat_of_digits s < nat_of_digits t)
     \<and> (s = t \<longleftrightarrow> nat_of_digits s = nat_of_digits t)"
proof (induction s t rule: list_induct2)
  case (Cons c s d t)
  then have c: "is_digit c" and d: "is_digit d"
    and IH: "s < t \<longleftrightarrow> nat_of_digits s < nat_of_digits t" "s = t \<longleftrightarrow> nat_of_digits s = nat_of_digits t"
    and bs: "nat_of_digits s < 10 ^ length t" and bt: "nat_of_digits t < 10 ^ length t"
    using nat_of_digits_less [of s] nat_of_digits_less [of t] by auto
  have step: "p * B + x < q * B + y" if "p < q" "x < B" for p q x y B :: nat
  proof -
    from that have "p * B + x < Suc p * B" by simp
    also have "\<dots> \<le> q * B" using that by (intro mult_le_mono1) simp
    finally show ?thesis by simp
  qed
  show ?case
    using IH bs bt c d Cons.hyps
      step [of "digit_val c" "digit_val d" "nat_of_digits s" "10 ^ length t" "nat_of_digits t"]
      step [of "digit_val d" "digit_val c" "nat_of_digits t" "10 ^ length t" "nat_of_digits s"]
      digit_less_iff [OF c d] digit_val_eq_iff [OF c d]
    by (cases "digit_val c" "digit_val d" rule: linorder_cases)
      (auto simp: nat_of_digits_Cons)
qed simp

text \<open>
  The documented format: a TOID of 19 digits and an event index of 10, zero padded,
  joined by a hyphen.
\<close>

definition rpc_event_id :: "nat \<Rightarrow> nat \<Rightarrow> string" where
  "rpc_event_id toid index =
     pad_start 19 (CHR ''0'') (nat_to_string toid) @ [CHR ''-'']
       @ pad_start 10 (CHR ''0'') (nat_to_string index)"

lemma length_nat_to_string: "n < 10 ^ k \<Longrightarrow> 0 < k \<Longrightarrow> length (nat_to_string n) \<le> k"
proof (induction n arbitrary: k rule: nat_to_string.induct)
  case (1 n)
  show ?case
  proof (cases "n < 10")
    case True
    with 1 show ?thesis by (subst nat_to_string.simps) simp
  next
    case False
    then obtain j where k: "k = Suc j" and j: "0 < j"
      using 1 by (cases k; cases "k - 1") auto
    with 1 have "n div 10 < 10 ^ j" by simp
    with 1 False j have "length (nat_to_string (n div 10)) \<le> j" by blast
    with False k show ?thesis by (subst nat_to_string.simps) simp
  qed
qed

lemma nat_of_digits_zeros: "nat_of_digits (replicate k (CHR ''0'')) = 0"
  by (induction k) (simp_all add: nat_of_digits_Cons digit_val_def code_def)

lemma digits_replicate: "list_all is_digit (replicate k (CHR ''0''))"
  by (induction k) simp_all

lemma padded:
  assumes "n < 10 ^ k" and "0 < k"
  defines "s \<equiv> pad_start k (CHR ''0'') (nat_to_string n)"
  shows "length s = k" "list_all is_digit s" "nat_of_digits s = n"
  using length_nat_to_string [OF assms(1,2)] unfolding s_def
  by (simp_all add: pad_start_def nat_of_digits_append nat_of_digits_zeros digits_replicate)

lemma lex_append:
  fixes s t u v :: string
  shows "length s = length t \<Longrightarrow> s @ u < t @ v \<longleftrightarrow> s < t \<or> s = t \<and> u < v"
  by (induction s t rule: list_induct2) auto

lemma dropWhile_all: "list_all P s \<Longrightarrow> \<not> P c \<Longrightarrow> dropWhile P (s @ c # t) = c # t"
  by (induction s) auto

lemma takeWhile_all: "list_all P s \<Longrightarrow> \<not> P c \<Longrightarrow> takeWhile P (s @ c # t) = s"
  by (induction s) auto

text \<open>
  C14: for ids in the RPC's format, \<open>parseEventId\<close> recovers the TOID and the event index
  exactly, and comparing two ids as plain strings is comparing the pairs they encode: an
  id is greater exactly when its event is later.
\<close>

theorem event_id_order:
  assumes "t < 10 ^ 19" "i < 10 ^ 10" "t' < 10 ^ 19" "i' < 10 ^ 10"
  shows "parse_event_id (rpc_event_id t i) = Inr (int t, i)
    \<and> (rpc_event_id t i < rpc_event_id t' i' \<longleftrightarrow> t < t' \<or> t = t' \<and> i < i')"
proof -
  note pt = padded [OF assms(1)] and pi = padded [OF assms(2)]
    and pt' = padded [OF assms(3)] and pi' = padded [OF assms(4)]
  have "all_digits (pad_start 10 (CHR ''0'') (nat_to_string i))"
    using pi by (auto simp: all_digits_def simp flip: length_0_conv)
  moreover have "pad_start 19 (CHR ''0'') (nat_to_string t) \<noteq> []"
    using pt by (auto simp flip: length_0_conv)
  moreover have "i < 2 ^ 53" using assms(2) by simp
  ultimately have "parse_event_id (rpc_event_id t i) = Inr (int t, i)"
    using pt pi by (simp add: parse_event_id_def rpc_event_id_def Let_def
        takeWhile_all dropWhile_all nearest_double_def)
  moreover have "rpc_event_id t i < rpc_event_id t' i' \<longleftrightarrow> t < t' \<or> t = t' \<and> i < i'"
    using pt pi pt' pi' by (simp add: rpc_event_id_def lex_append digits_less_iff)
  ultimately show ?thesis by simp
qed

lemma event_id_order_witness:
  "parse_event_id (rpc_event_id 42 3) = Inr (42, 3) \<and> rpc_event_id 42 3 < rpc_event_id 100 0"
  using event_id_order [of 42 3 100 0] by simp

end
