(* ===== verification/ReadModels.thy ===== *)
theory ReadModels
  imports EventOrder
begin

text \<open>
  The PostgreSQL read models of \<open>apps/api/prisma/schema.prisma\<close> and its migrations: one
  record per model, one list of rows per table, and the statements the API issues on them
  (\<open>findUnique\<close>, \<open>create\<close>, \<open>update\<close>, \<open>updateMany\<close>, \<open>deleteMany\<close>) with the unique
  indexes and check constraints the migrations declare. A row is identified by its declared
  identity; the surrogate \<open>id\<close> (a random UUID) and the foreign keys through it are that
  identity. Not modelled: column widths and the order PostgreSQL returns rows in, which is
  the order of insertion here.

  The locale \<open>keyed_rows\<close> is what the projector relies on: the laws of looking a row up
  after inserting or updating one. It is interpreted on every table the projector updates.
\<close>

section \<open>Rows\<close>

record projection_context =
  network :: string
  contractId :: string

datatype order_status = OS_CREATED | OS_ACTIVE | OS_COMPLETED | OS_CANCELLED

datatype milestone_status =
    UNFUNDED | FUNDED | FINANCE_REQUESTED | FINANCED | SUBMITTED | VERIFIED
  | DISPUTED | SETTLED | REFUNDED

datatype request_status = RQ_OPEN | RQ_ACCEPTED | RQ_CANCELLED
datatype offer_status = OF_OPEN | OF_CANCELLED | OF_ACCEPTED | OF_FUNDED
datatype position_status = PS_ACTIVE | PS_REPAID | PS_CLOSED
datatype dispute_status = DS_OPEN | DS_RESOLVED_SETTLE | DS_RESOLVED_REFUND

record order_row =
  o_ctx :: projection_context
  o_orderId :: int
  o_buyer :: string
  o_supplier :: string
  o_attestor :: string
  o_resolver :: string
  o_asset :: string
  o_status :: order_status
  o_createdLedger :: int
  o_createdTxHash :: string
  o_createdAt :: int
  o_lastEventId :: string
  o_lastLedger :: int

record milestone_row =
  m_ctx :: projection_context
  m_milestoneId :: int
  m_orderId :: int
  m_index :: int
  m_amount :: int
  m_fundedAmount :: int
  m_deadline :: "int option"
  m_evidenceHash :: "string option"
  m_status :: milestone_status
  m_createdLedger :: int
  m_createdTxHash :: string
  m_createdAt :: int
  m_lastEventId :: string
  m_lastLedger :: int

record request_row =
  q_ctx :: projection_context
  q_milestoneId :: int
  q_supplier :: string
  q_requestedPrincipal :: int
  q_protectedAmount :: int
  q_status :: request_status
  q_expiresAt :: int
  q_cancelledWhileExpired :: "bool option"
  q_createdLedger :: int
  q_createdTxHash :: string
  q_createdAt :: int
  q_lastEventId :: string
  q_lastLedger :: int

record offer_row =
  f_ctx :: projection_context
  f_offerId :: int
  f_milestoneId :: int
  f_funder :: string
  f_principal :: int
  f_repayment :: int
  f_status :: offer_status
  f_expiresAt :: int
  f_createdLedger :: int
  f_createdTxHash :: string
  f_createdAt :: int
  f_lastEventId :: string
  f_lastLedger :: int

record position_row =
  p_ctx :: projection_context
  p_milestoneId :: int
  p_offerId :: int
  p_funder :: string
  p_supplier :: string
  p_principal :: int
  p_repayment :: int
  p_protectedAmountAtFunding :: int
  p_status :: position_status
  p_fundedLedger :: int
  p_fundedTxHash :: string
  p_fundedAt :: int
  p_repaidAt :: "int option"
  p_closedAt :: "int option"
  p_lastEventId :: string
  p_lastLedger :: int

record dispute_row =
  d_ctx :: projection_context
  d_disputeId :: int
  d_milestoneId :: int
  d_openedBy :: string
  d_resolver :: string
  d_status :: dispute_status
  d_openedLedger :: int
  d_openedTxHash :: string
  d_openedAt :: int
  d_resolvedAt :: "int option"
  d_resolvedTxHash :: "string option"
  d_lastEventId :: string
  d_lastLedger :: int

record settlement_row =
  s_ctx :: projection_context
  s_milestoneId :: int
  s_orderId :: int
  s_protectedAmount :: int
  s_funderRepayment :: int
  s_supplierPayout :: int
  s_settledLedger :: int
  s_settledTxHash :: string
  s_settledAt :: int
  s_lastEventId :: string

record refund_row =
  r_ctx :: projection_context
  r_milestoneId :: int
  r_orderId :: int
  r_buyer :: string
  r_refundedAmount :: int
  r_funderAdvanceOutstanding :: int
  r_refundedLedger :: int
  r_refundedTxHash :: string
  r_refundedAt :: int
  r_lastEventId :: string

record evidence_object =
  e_ctx :: projection_context
  e_milestoneId :: "int option"
  e_milestoneRow :: "int option"
  e_contentHash :: string
  e_filename :: string
  e_mimeType :: string
  e_byteSize :: int
  e_storageKey :: string
  e_storageDriver :: string
  e_uploadedBy :: "string option"
  e_documentLabel :: "string option"
  e_anchoredOnChain :: bool
  e_anchoredAt :: "int option"
  e_anchoredTxHash :: "string option"
  e_createdAt :: int

record evidence_anchor =
  a_ctx :: projection_context
  a_milestoneId :: int
  a_contentHash :: string
  a_submittedLedger :: int
  a_submittedTxHash :: string
  a_submittedAt :: int
  a_lastEventId :: string

record log_row =
  l_ctx :: projection_context
  l_eventId :: string
  l_ledger :: int
  l_txHash :: string
  l_eventIndex :: nat
  l_txIndex :: int
  l_operationIndex :: int
  l_eventName :: string
  l_successful :: bool
  l_ledgerClosedAt :: int
  l_payload :: jsval
  l_topicsXdr :: "string list"
  l_valueXdr :: string
  l_projected :: bool

record daily_counts =
  ordersCreated :: nat
  milestonesFunded :: nat
  advancesFunded :: nat
  milestonesSettled :: nat
  milestonesRefunded :: nat
  disputesOpened :: nat

record daily_row =
  y_ctx :: projection_context
  y_day :: int
  y_counts :: daily_counts

record cursor_row =
  c_ctx :: projection_context
  c_startLedger :: int
  c_lastEventId :: "string option"
  c_lastLedger :: "int option"
  c_scannedThroughLedger :: "int option"
  c_eventsIngested :: int
  c_lastPollAt :: "int option"
  c_lastEventAt :: "int option"
  c_lastErrorAt :: "int option"
  c_lastError :: "string option"

datatype anchor_direction = TRY_TO_USDC | USDC_TO_TRY
datatype stellar_leg_status = UNCHECKED | CONFIRMED | MISMATCHED | UNVERIFIABLE

text \<open>An amount column of type \<open>Decimal(39, 7)\<close> is its count of units of \<open>10^-7\<close>.\<close>

record anchor_transaction =
  t_network :: string
  t_anchorDomain :: string
  t_direction :: anchor_direction
  t_walletAddress :: string
  t_anchorTransactionId :: "string option"
  t_stellarTxHash :: "string option"
  t_sourceAsset :: string
  t_sourceAmount :: "int option"
  t_destinationAsset :: string
  t_destinationAmount :: "int option"
  t_status :: string
  t_quoteId :: "string option"
  t_stellarLegStatus :: stellar_leg_status
  t_stellarLegCheckedAt :: "int option"
  t_stellarLegDetail :: "string option"
  t_stellarLegAt :: "int option"

record cycle_read_model =
  k_ctx :: projection_context
  k_milestoneId :: int
  k_anchorTransactionId :: "string option"
  k_verified :: bool
  k_verifiedAt :: "int option"

record demo_participant =
  w_network :: string
  w_walletAddress :: string
  w_isTeam :: bool
  w_consentToCount :: bool
  w_source :: "string option"
  w_firstSeenAt :: int

section \<open>The database\<close>

record db =
  orders :: "order_row list"
  milestones :: "milestone_row list"
  requests :: "request_row list"
  offers :: "offer_row list"
  positions :: "position_row list"
  disputes :: "dispute_row list"
  settlements :: "settlement_row list"
  refunds :: "refund_row list"
  evidence_objects :: "evidence_object list"
  evidence_anchors :: "evidence_anchor list"
  event_log :: "log_row list"
  daily :: "daily_row list"
  cursors :: "cursor_row list"
  anchor_transactions :: "anchor_transaction list"
  cycles :: "cycle_read_model list"
  participants :: "demo_participant list"

section \<open>Statements on a table\<close>

definition find_row :: "('r \<Rightarrow> 'k) \<Rightarrow> 'k \<Rightarrow> 'r list \<Rightarrow> 'r option" where
  "find_row key k t = List.find (\<lambda>r. key r = k) t"

definition update_rows :: "('r \<Rightarrow> bool) \<Rightarrow> ('r \<Rightarrow> 'r) \<Rightarrow> 'r list \<Rightarrow> 'r list" where
  "update_rows P f t = map (\<lambda>r. if P r then f r else r) t"

definition count_rows :: "('r \<Rightarrow> bool) \<Rightarrow> 'r list \<Rightarrow> nat" where
  "count_rows P t = length (filter P t)"

definition delete_rows :: "('r \<Rightarrow> bool) \<Rightarrow> 'r list \<Rightarrow> 'r list" where
  "delete_rows P t = filter (\<lambda>r. \<not> P r) t"

definition update_row :: "('r \<Rightarrow> 'k) \<Rightarrow> 'k \<Rightarrow> ('r \<Rightarrow> 'r) \<Rightarrow> 'r list \<Rightarrow> 'r list" where
  "update_row key k f t = update_rows (\<lambda>r. key r = k) f t"

definition insert_row :: "('r \<Rightarrow> 'k) \<Rightarrow> string \<Rightarrow> 'r \<Rightarrow> 'r list \<Rightarrow> api_error + 'r list" where
  "insert_row key index r t =
     (if find_row key (key r) t = None then Inr (t @ [r]) else Inl (UniqueViolation index))"

text \<open>An \<open>upsert\<close> with an empty update: insert unless the identity is taken.\<close>

definition insert_if_absent :: "('r \<Rightarrow> 'k) \<Rightarrow> 'r \<Rightarrow> 'r list \<Rightarrow> 'r list" where
  "insert_if_absent key r t = (if find_row key (key r) t = None then t @ [r] else t)"

text \<open>Writing a date column: the client refuses the invalid date.\<close>

fun date_column :: "js_date \<Rightarrow> api_error + int" where
  "date_column (Date ms) = Inr ms"
| "date_column InvalidDate = Inl InvalidDateValue"

fun optional_date_column :: "js_date option \<Rightarrow> api_error + int option" where
  "optional_date_column None = Inr None"
| "optional_date_column (Some d) = and_then (date_column d) (\<lambda>ms. Inr (Some ms))"

section \<open>The interface of a table\<close>

definition distinct_keys :: "('r \<Rightarrow> 'k) \<Rightarrow> 'r list \<Rightarrow> bool" where
  "distinct_keys key t \<longleftrightarrow> distinct (map key t)"

locale keyed_rows =
  fixes key :: "'r \<Rightarrow> 'k"
    and lookup :: "'k \<Rightarrow> 't \<Rightarrow> 'r option"
    and modify :: "'k \<Rightarrow> ('r \<Rightarrow> 'r) \<Rightarrow> 't \<Rightarrow> 't"
    and insert :: "'r \<Rightarrow> 't \<Rightarrow> api_error + 't"
  assumes lookup_key: "lookup k t = Some r \<Longrightarrow> key r = k"
    and lookup_modify:
      "(\<And>r. key (f r) = key r) \<Longrightarrow>
         lookup k' (modify k f t) = (if k' = k then map_option f (lookup k t) else lookup k' t)"
    and insert_fresh: "insert r t = Inr t' \<Longrightarrow> lookup (key r) t = None"
    and lookup_insert:
      "insert r t = Inr t' \<Longrightarrow> lookup k t' = (if k = key r then Some r else lookup k t)"
    and insert_total: "lookup (key r) t = None \<Longrightarrow> \<exists>t'. insert r t = Inr t'"
begin

text \<open>
  A guarded update, as the projector writes it: the row is read, compared, and moved only
  if the event is newer than the row's stamp.
\<close>

definition advance :: "('r \<Rightarrow> string) \<Rightarrow> 'k \<Rightarrow> string \<Rightarrow> ('r \<Rightarrow> 'r) \<Rightarrow> 't \<Rightarrow> 't" where
  "advance stamp_of k ev f t =
     (case lookup k t of
        None \<Rightarrow> t
      | Some r \<Rightarrow> if stamp_of r < ev then modify k f t else t)"

lemma lookup_advance:
  assumes "\<And>r. key (f r) = key r"
  shows "lookup k' (advance stamp_of k ev f t) =
    (if k' = k then map_option (\<lambda>r. if stamp_of r < ev then f r else r) (lookup k t) else lookup k' t)"
  using lookup_modify [OF assms, of k' k t]
  by (auto simp: advance_def split: option.splits)

lemma advance_monotone:
  assumes "\<And>r. key (f r) = key r" and "\<And>r. stamp_of (f r) = ev"
    and "lookup k' t = Some r" and "lookup k' (advance stamp_of k ev f t) = Some r'"
  shows "stamp_of r \<le> stamp_of r'"
  using assms(3,4) lookup_advance [OF assms(1), of k' stamp_of k ev t]
  by (auto simp: assms(2) split: if_splits)

lemma advance_stale:
  assumes "lookup k t = Some r" and "ev \<le> stamp_of r"
  shows "advance stamp_of k ev f t = t"
  using assms by (simp add: advance_def leD)

lemma advance_again:
  assumes "\<And>r. key (f r) = key r" and "\<And>r. stamp_of (f r) = ev"
  shows "advance stamp_of k ev g (advance stamp_of k ev f t) = advance stamp_of k ev f t"
  using lookup_advance [OF assms(1), of k stamp_of k ev t]
  by (auto simp: advance_def [where f = g] assms(2) split: option.split)

end

text \<open>A list of rows under one unique index is such a table.\<close>

lemma find_row_key: "find_row key k t = Some r \<Longrightarrow> key r = k"
  by (auto simp: find_row_def dest: find_Some_in)

lemma find_row_in: "find_row key k t = Some r \<Longrightarrow> r \<in> set t"
  by (auto simp: find_row_def dest: find_Some_in)

lemma find_row_None: "find_row key k t = None \<longleftrightarrow> k \<notin> key ` set t"
  by (auto simp: find_row_def find_None_iff)

lemma find_row_Nil [simp]: "find_row key k [] = None"
  by (simp add: find_row_def)

lemma find_row_Cons: "find_row key k (r # t) = (if key r = k then Some r else find_row key k t)"
  by (simp add: find_row_def)

lemma find_row_update_row:
  assumes "\<And>r. key (f r) = key r"
  shows "find_row key k' (update_row key k f t) =
    (if k' = k then map_option f (find_row key k t) else find_row key k' t)"
  by (induction t) (auto simp: update_row_def update_rows_def find_row_Cons assms)

lemma find_row_append:
  "find_row key k (t @ u) = (case find_row key k t of None \<Rightarrow> find_row key k u | Some r \<Rightarrow> Some r)"
  by (induction t) (auto simp: find_row_Cons)

lemma insert_row_Inr [result_simps]:
  "insert_row key index r t = Inr t' \<longleftrightarrow> find_row key (key r) t = None \<and> t' = t @ [r]"
  by (auto simp: insert_row_def)

lemma list_table: "keyed_rows key (find_row key) (update_row key) (insert_row key index)"
proof (unfold_locales, goal_cases)
  case (1 k t r)
  then show ?case by (rule find_row_key)
next
  case (2 f k' k t)
  then show ?case by (rule find_row_update_row)
next
  case (3 r t t')
  then show ?case by (simp add: insert_row_Inr)
next
  case (4 r t t' k)
  then show ?case
    by (auto simp: insert_row_Inr find_row_append find_row_Cons split: option.split)
next
  case (5 r t)
  then show ?case by (simp add: insert_row_Inr)
qed

section \<open>The tables and their identities\<close>

definition order_key :: "order_row \<Rightarrow> projection_context \<times> int" where
  "order_key r = (o_ctx r, o_orderId r)"

definition milestone_key :: "milestone_row \<Rightarrow> projection_context \<times> int" where
  "milestone_key r = (m_ctx r, m_milestoneId r)"

definition request_key :: "request_row \<Rightarrow> projection_context \<times> int" where
  "request_key r = (q_ctx r, q_milestoneId r)"

definition offer_key :: "offer_row \<Rightarrow> projection_context \<times> int" where
  "offer_key r = (f_ctx r, f_offerId r)"

definition position_key :: "position_row \<Rightarrow> projection_context \<times> int \<times> int" where
  "position_key r = (p_ctx r, p_milestoneId r, p_offerId r)"

definition dispute_key :: "dispute_row \<Rightarrow> projection_context \<times> int" where
  "dispute_key r = (d_ctx r, d_disputeId r)"

definition settlement_key :: "settlement_row \<Rightarrow> projection_context \<times> int" where
  "settlement_key r = (s_ctx r, s_milestoneId r)"

definition refund_key :: "refund_row \<Rightarrow> projection_context \<times> int" where
  "refund_key r = (r_ctx r, r_milestoneId r)"

definition anchor_key :: "evidence_anchor \<Rightarrow> projection_context \<times> int" where
  "anchor_key r = (a_ctx r, a_milestoneId r)"

definition log_key :: "log_row \<Rightarrow> projection_context \<times> string" where
  "log_key r = (l_ctx r, l_eventId r)"

definition log_chain_key :: "log_row \<Rightarrow> projection_context \<times> int \<times> string \<times> nat" where
  "log_chain_key r = (l_ctx r, l_ledger r, l_txHash r, l_eventIndex r)"

definition daily_key :: "daily_row \<Rightarrow> projection_context \<times> int" where
  "daily_key r = (y_ctx r, y_day r)"

definition cursor_key :: "cursor_row \<Rightarrow> projection_context" where
  "cursor_key r = c_ctx r"

interpretation order_table:
  keyed_rows order_key "find_row order_key" "update_row order_key"
    "insert_row order_key ''order_identity''"
  by (rule list_table)

interpretation milestone_table:
  keyed_rows milestone_key "find_row milestone_key" "update_row milestone_key"
    "insert_row milestone_key ''milestone_identity''"
  by (rule list_table)

interpretation request_table:
  keyed_rows request_key "find_row request_key" "update_row request_key"
    "insert_row request_key ''finance_request_identity''"
  by (rule list_table)

interpretation offer_table:
  keyed_rows offer_key "find_row offer_key" "update_row offer_key"
    "insert_row offer_key ''offer_identity''"
  by (rule list_table)

interpretation dispute_table:
  keyed_rows dispute_key "find_row dispute_key" "update_row dispute_key"
    "insert_row dispute_key ''dispute_identity''"
  by (rule list_table)

interpretation anchor_table:
  keyed_rows anchor_key "find_row anchor_key" "update_row anchor_key"
    "insert_row anchor_key ''evidence_anchor_identity''"
  by (rule list_table)

interpretation cursor_table:
  keyed_rows cursor_key "find_row cursor_key" "update_row cursor_key"
    "insert_row cursor_key ''cursor_stream''"
  by (rule list_table)

section \<open>Constraints\<close>

text \<open>\<open>milestone_funded_within_amount\<close>.\<close>

definition funded_within_amount :: "milestone_row \<Rightarrow> bool" where
  "funded_within_amount m \<longleftrightarrow> 0 \<le> m_fundedAmount m \<and> 0 \<le> m_amount m \<and> m_fundedAmount m \<le> m_amount m"

definition is_active_on :: "projection_context \<Rightarrow> int \<Rightarrow> position_row \<Rightarrow> bool" where
  "is_active_on ctx milestoneId p \<longleftrightarrow>
     p_ctx p = ctx \<and> p_milestoneId p = milestoneId \<and> p_status p = PS_ACTIVE"

text \<open>The partial unique index \<open>finance_position_one_active_per_milestone\<close>.\<close>

definition one_active_per_milestone :: "position_row list \<Rightarrow> bool" where
  "one_active_per_milestone ps \<longleftrightarrow> (\<forall>ctx mid. count_rows (is_active_on ctx mid) ps \<le> 1)"

section \<open>Statements on the database\<close>

definition find_order :: "projection_context \<Rightarrow> int \<Rightarrow> db \<Rightarrow> order_row option" where
  "find_order ctx orderId d = find_row order_key (ctx, orderId) (orders d)"

definition find_milestone :: "projection_context \<Rightarrow> int \<Rightarrow> db \<Rightarrow> milestone_row option" where
  "find_milestone ctx milestoneId d = find_row milestone_key (ctx, milestoneId) (milestones d)"

definition find_request :: "projection_context \<Rightarrow> int \<Rightarrow> db \<Rightarrow> request_row option" where
  "find_request ctx milestoneId d = find_row request_key (ctx, milestoneId) (requests d)"

definition find_offer :: "projection_context \<Rightarrow> int \<Rightarrow> db \<Rightarrow> offer_row option" where
  "find_offer ctx offerId d = find_row offer_key (ctx, offerId) (offers d)"

definition find_dispute :: "projection_context \<Rightarrow> int \<Rightarrow> db \<Rightarrow> dispute_row option" where
  "find_dispute ctx disputeId d = find_row dispute_key (ctx, disputeId) (disputes d)"

definition find_anchor :: "projection_context \<Rightarrow> int \<Rightarrow> db \<Rightarrow> evidence_anchor option" where
  "find_anchor ctx milestoneId d = find_row anchor_key (ctx, milestoneId) (evidence_anchors d)"

definition find_cursor :: "projection_context \<Rightarrow> db \<Rightarrow> cursor_row option" where
  "find_cursor ctx d = find_row cursor_key ctx (cursors d)"

definition create_order :: "order_row \<Rightarrow> db \<Rightarrow> api_error + db" where
  "create_order r d =
     and_then (insert_row order_key ''order_identity'' r (orders d)) (\<lambda>t. Inr (d\<lparr>orders := t\<rparr>))"

definition update_order ::
  "projection_context \<Rightarrow> int \<Rightarrow> (order_row \<Rightarrow> order_row) \<Rightarrow> db \<Rightarrow> api_error + db" where
  "update_order ctx orderId f d =
     Inr (d\<lparr>orders := update_row order_key (ctx, orderId) f (orders d)\<rparr>)"

definition upsert_milestone :: "milestone_row \<Rightarrow> db \<Rightarrow> api_error + db" where
  "upsert_milestone r d =
     (if find_row milestone_key (milestone_key r) (milestones d) = None \<and> \<not> funded_within_amount r
      then Inl (CheckViolation ''milestone_funded_within_amount'')
      else Inr (d\<lparr>milestones := insert_if_absent milestone_key r (milestones d)\<rparr>))"

definition update_milestone ::
  "projection_context \<Rightarrow> int \<Rightarrow> (milestone_row \<Rightarrow> milestone_row) \<Rightarrow> db \<Rightarrow> api_error + db" where
  "update_milestone ctx milestoneId f d =
     (if list_all (\<lambda>m. milestone_key m = (ctx, milestoneId) \<longrightarrow> funded_within_amount (f m)) (milestones d)
      then Inr (d\<lparr>milestones := update_row milestone_key (ctx, milestoneId) f (milestones d)\<rparr>)
      else Inl (CheckViolation ''milestone_funded_within_amount''))"

definition create_request :: "request_row \<Rightarrow> db \<Rightarrow> api_error + db" where
  "create_request r d =
     and_then (insert_row request_key ''finance_request_identity'' r (requests d))
       (\<lambda>t. Inr (d\<lparr>requests := t\<rparr>))"

definition update_request ::
  "projection_context \<Rightarrow> int \<Rightarrow> (request_row \<Rightarrow> request_row) \<Rightarrow> db \<Rightarrow> api_error + db" where
  "update_request ctx milestoneId f d =
     Inr (d\<lparr>requests := update_row request_key (ctx, milestoneId) f (requests d)\<rparr>)"

definition upsert_offer :: "offer_row \<Rightarrow> db \<Rightarrow> api_error + db" where
  "upsert_offer r d = Inr (d\<lparr>offers := insert_if_absent offer_key r (offers d)\<rparr>)"

definition update_offer ::
  "projection_context \<Rightarrow> int \<Rightarrow> (offer_row \<Rightarrow> offer_row) \<Rightarrow> db \<Rightarrow> api_error + db" where
  "update_offer ctx offerId f d =
     Inr (d\<lparr>offers := update_row offer_key (ctx, offerId) f (offers d)\<rparr>)"

text \<open>\<open>updateMany\<close> on the offers of one id: the new database and the count.\<close>

definition update_offers ::
  "projection_context \<Rightarrow> int \<Rightarrow> (offer_row \<Rightarrow> offer_row) \<Rightarrow> db \<Rightarrow> api_error + (nat \<times> db)" where
  "update_offers ctx offerId f d =
     and_then (update_offer ctx offerId f d)
       (\<lambda>d'. Inr (count_rows (\<lambda>r. offer_key r = (ctx, offerId)) (offers d), d'))"

definition upsert_position :: "position_row \<Rightarrow> db \<Rightarrow> api_error + db" where
  "upsert_position r d =
     (if find_row position_key (position_key r) (positions d) \<noteq> None then Inr d
      else if 0 < count_rows (is_active_on (p_ctx r) (p_milestoneId r)) (positions d)
              \<and> p_status r = PS_ACTIVE
      then Inl (UniqueViolation ''finance_position_one_active_per_milestone'')
      else Inr (d\<lparr>positions := positions d @ [r]\<rparr>))"

text \<open>\<open>updateMany\<close> on the active positions of a milestone.\<close>

definition update_active_positions ::
  "projection_context \<Rightarrow> int \<Rightarrow> (position_row \<Rightarrow> position_row) \<Rightarrow> db \<Rightarrow> api_error + (nat \<times> db)" where
  "update_active_positions ctx milestoneId f d =
     Inr (count_rows (is_active_on ctx milestoneId) (positions d),
          d\<lparr>positions := update_rows (is_active_on ctx milestoneId) f (positions d)\<rparr>)"

definition upsert_dispute :: "dispute_row \<Rightarrow> db \<Rightarrow> api_error + db" where
  "upsert_dispute r d = Inr (d\<lparr>disputes := insert_if_absent dispute_key r (disputes d)\<rparr>)"

definition update_dispute ::
  "projection_context \<Rightarrow> int \<Rightarrow> (dispute_row \<Rightarrow> dispute_row) \<Rightarrow> db \<Rightarrow> api_error + db" where
  "update_dispute ctx disputeId f d =
     Inr (d\<lparr>disputes := update_row dispute_key (ctx, disputeId) f (disputes d)\<rparr>)"

definition upsert_settlement :: "settlement_row \<Rightarrow> db \<Rightarrow> api_error + db" where
  "upsert_settlement r d = Inr (d\<lparr>settlements := insert_if_absent settlement_key r (settlements d)\<rparr>)"

definition upsert_refund :: "refund_row \<Rightarrow> db \<Rightarrow> api_error + db" where
  "upsert_refund r d = Inr (d\<lparr>refunds := insert_if_absent refund_key r (refunds d)\<rparr>)"

definition create_anchor :: "evidence_anchor \<Rightarrow> db \<Rightarrow> api_error + db" where
  "create_anchor r d =
     and_then (insert_row anchor_key ''evidence_anchor_identity'' r (evidence_anchors d))
       (\<lambda>t. Inr (d\<lparr>evidence_anchors := t\<rparr>))"

definition update_anchor ::
  "projection_context \<Rightarrow> int \<Rightarrow> (evidence_anchor \<Rightarrow> evidence_anchor) \<Rightarrow> db \<Rightarrow> api_error + db" where
  "update_anchor ctx milestoneId f d =
     Inr (d\<lparr>evidence_anchors := update_row anchor_key (ctx, milestoneId) f (evidence_anchors d)\<rparr>)"

definition update_evidence_objects ::
  "projection_context \<Rightarrow> string \<Rightarrow> (evidence_object \<Rightarrow> evidence_object) \<Rightarrow> db \<Rightarrow> api_error + db" where
  "update_evidence_objects ctx digest f d =
     Inr (d\<lparr>evidence_objects :=
            update_rows (\<lambda>e. e_ctx e = ctx \<and> e_contentHash e = digest) f (evidence_objects d)\<rparr>)"

end
