(* ===== verification/Projector.thy ===== *)
theory Projector
  imports ReadModels
begin

text \<open>
  \<open>apps/api/src/indexer/projector.ts\<close>: how one decoded event changes the read models. One
  definition per case of \<open>projectEvent\<close>'s switch, in its order; each takes the database and
  returns the error it throws, or whether the event produced a projection and the new
  database. A throw discards every write of the case, because the caller rolls its
  transaction back.
\<close>

section \<open>Reading event fields\<close>

definition str :: "fields \<Rightarrow> string \<Rightarrow> api_error + string" where
  "str f key = (case get_field f key of JString s \<Rightarrow> Inr s | _ \<Rightarrow> Inl (FieldNotString key))"

definition u64 :: "fields \<Rightarrow> string \<Rightarrow> api_error + int" where
  "u64 f key = and_then (to_big_int (get_field f key)) (\<lambda>v. assert_u64 v key)"

definition i128 :: "fields \<Rightarrow> string \<Rightarrow> api_error + int" where
  "i128 f key = and_then (to_big_int (get_field f key)) (\<lambda>v. assert_non_negative_i128 v key)"

definition u32 :: "fields \<Rightarrow> string \<Rightarrow> api_error + int" where
  "u32 f key =
     (case get_field f key of
        JNumber (Some r) \<Rightarrow>
          if snd (quotient_of r) = 1 \<and> 0 \<le> r \<and> r \<le> 4294967295
          then Inr (fst (quotient_of r)) else Inl (FieldNotU32 key)
      | _ \<Rightarrow> Inl (FieldNotU32 key))"

definition bool_field :: "fields \<Rightarrow> string \<Rightarrow> api_error + bool" where
  "bool_field f key = (case get_field f key of JBool b \<Rightarrow> Inr b | _ \<Rightarrow> Inl (FieldNotBool key))"

text \<open>
  The text tested against \<open>/^[0-9a-f]{64}$/\<close>: the hex of a byte array, else the lower-cased
  \<open>String(value)\<close>. The remaining kinds of values print with fewer than 64 characters or
  with one outside the class.
\<close>

fun digest_text :: "jsval \<Rightarrow> string option" where
  "digest_text (JBytes bs) = Some (bytes_to_hex bs)"
| "digest_text (JString s) = Some (to_lower s)"
| "digest_text (JBigInt v) = Some (to_lower (int_to_string v))"
| "digest_text (JArray [JString s]) = Some (to_lower s)"
| "digest_text _ = None"

definition hex32 :: "fields \<Rightarrow> string \<Rightarrow> api_error + string" where
  "hex32 f key =
     (case digest_text (get_field f key) of
        Some hex \<Rightarrow> if is_hex64 hex then Inr hex else Inl (FieldNotDigest key)
      | None \<Rightarrow> Inl (FieldNotDigest key))"

definition optional_deadline :: "fields \<Rightarrow> api_error + js_date option" where
  "optional_deadline f =
     (case get_field f ''deadline'' of
        JUndefined \<Rightarrow> Inr None
      | JNull \<Rightarrow> Inr None
      | v \<Rightarrow> and_then (to_big_int v)
               (\<lambda>t. and_then (assert_u64 t ''deadline'') ledger_time_to_date))"

text \<open>A required expiry: \<open>ledgerTimeToDate\<close> of a \<open>u64\<close>, refused when it is \<open>null\<close>.\<close>

definition required_expiry :: "fields \<Rightarrow> string \<Rightarrow> api_error + js_date" where
  "required_expiry f what =
     and_then (u64 f ''expires_at'')
     (\<lambda>t. and_then (ledger_time_to_date t)
     (\<lambda>d. case d of None \<Rightarrow> Inl (NoExpiry what) | Some e \<Rightarrow> Inr e))"

definition is_newer :: "string \<Rightarrow> string \<Rightarrow> bool" where
  "is_newer existingEventId incoming \<longleftrightarrow> existingEventId < incoming"

section \<open>Stamps\<close>

text \<open>\<open>...stamp(event)\<close>, on each kind of row.\<close>

definition stamp_order :: "decoded_event \<Rightarrow> order_row \<Rightarrow> order_row" where
  "stamp_order ev r = r\<lparr>o_lastEventId := eventId ev, o_lastLedger := ev_ledger ev\<rparr>"

definition stamp_milestone :: "decoded_event \<Rightarrow> milestone_row \<Rightarrow> milestone_row" where
  "stamp_milestone ev r = r\<lparr>m_lastEventId := eventId ev, m_lastLedger := ev_ledger ev\<rparr>"

definition stamp_request :: "decoded_event \<Rightarrow> request_row \<Rightarrow> request_row" where
  "stamp_request ev r = r\<lparr>q_lastEventId := eventId ev, q_lastLedger := ev_ledger ev\<rparr>"

definition stamp_offer :: "decoded_event \<Rightarrow> offer_row \<Rightarrow> offer_row" where
  "stamp_offer ev r = r\<lparr>f_lastEventId := eventId ev, f_lastLedger := ev_ledger ev\<rparr>"

definition stamp_position :: "decoded_event \<Rightarrow> position_row \<Rightarrow> position_row" where
  "stamp_position ev r = r\<lparr>p_lastEventId := eventId ev, p_lastLedger := ev_ledger ev\<rparr>"

definition stamp_dispute :: "decoded_event \<Rightarrow> dispute_row \<Rightarrow> dispute_row" where
  "stamp_dispute ev r = r\<lparr>d_lastEventId := eventId ev, d_lastLedger := ev_ledger ev\<rparr>"

lemmas stamp_defs = stamp_order_def stamp_milestone_def stamp_request_def stamp_offer_def
  stamp_position_def stamp_dispute_def

definition require_milestone ::
  "projection_context \<Rightarrow> int \<Rightarrow> db \<Rightarrow> api_error + milestone_row" where
  "require_milestone ctx milestoneId d =
     (case find_milestone ctx milestoneId d of
        None \<Rightarrow> Inl (NoProjection ''milestone'' milestoneId)
      | Some m \<Rightarrow> Inr m)"

text \<open>
  The recurring guarded writes: \<open>if (isNewer(row.lastEventId, event.eventId)) await
  db.update(...)\<close>, on the row read before.
\<close>

definition advance_milestone ::
  "projection_context \<Rightarrow> decoded_event \<Rightarrow> milestone_row \<Rightarrow> (milestone_row \<Rightarrow> milestone_row)
    \<Rightarrow> db \<Rightarrow> api_error + db" where
  "advance_milestone ctx ev milestone upd d =
     (if is_newer (m_lastEventId milestone) (eventId ev)
      then update_milestone ctx (m_milestoneId milestone) (stamp_milestone ev \<circ> upd) d
      else Inr d)"

definition advance_request ::
  "projection_context \<Rightarrow> decoded_event \<Rightarrow> request_row \<Rightarrow> (request_row \<Rightarrow> request_row)
    \<Rightarrow> db \<Rightarrow> api_error + db" where
  "advance_request ctx ev request upd d =
     (if is_newer (q_lastEventId request) (eventId ev)
      then update_request ctx (q_milestoneId request) (stamp_request ev \<circ> upd) d
      else Inr d)"

section \<open>Orders\<close>

definition project_order_created ::
  "projection_context \<Rightarrow> decoded_event \<Rightarrow> db \<Rightarrow> api_error + (bool \<times> db)" where
  "project_order_created ctx ev d =
     (let f = ev_fields ev in
      and_then (u64 f ''order_id'') (\<lambda>orderId.
      case find_order ctx orderId d of
        Some _ \<Rightarrow> Inr (False, d)
      | None \<Rightarrow>
          and_then (str f ''buyer'') (\<lambda>buyer.
          and_then (str f ''supplier'') (\<lambda>supplier.
          and_then (str f ''attestor'') (\<lambda>attestor.
          and_then (str f ''resolver'') (\<lambda>resolver.
          and_then (str f ''asset'') (\<lambda>asset.
          and_then (create_order
            \<lparr>o_ctx = ctx, o_orderId = orderId, o_buyer = buyer, o_supplier = supplier,
             o_attestor = attestor, o_resolver = resolver, o_asset = asset,
             o_status = OS_CREATED, o_createdLedger = ev_ledger ev,
             o_createdTxHash = ev_txHash ev, o_createdAt = ledgerClosedAt ev,
             o_lastEventId = eventId ev, o_lastLedger = ev_ledger ev\<rparr> d)
          (\<lambda>d'. Inr (True, d')))))))))"

definition order_status_after :: "string \<Rightarrow> order_status" where
  "order_status_after name =
     (if name = ''order_accepted'' then OS_ACTIVE
      else if name = ''order_cancelled'' then OS_CANCELLED else OS_COMPLETED)"

definition project_order_moved ::
  "projection_context \<Rightarrow> decoded_event \<Rightarrow> db \<Rightarrow> api_error + (bool \<times> db)" where
  "project_order_moved ctx ev d =
     and_then (u64 (ev_fields ev) ''order_id'') (\<lambda>orderId.
     case find_order ctx orderId d of
       None \<Rightarrow> Inl (NoProjection ''order'' orderId)
     | Some order \<Rightarrow>
         if \<not> is_newer (o_lastEventId order) (eventId ev) then Inr (False, d)
         else and_then
           (update_order ctx orderId
             (\<lambda>r. stamp_order ev (r\<lparr>o_status := order_status_after (eventName ev)\<rparr>)) d)
           (\<lambda>d'. Inr (True, d')))"

section \<open>Milestones\<close>

definition project_milestone_created ::
  "projection_context \<Rightarrow> decoded_event \<Rightarrow> db \<Rightarrow> api_error + (bool \<times> db)" where
  "project_milestone_created ctx ev d =
     (let f = ev_fields ev in
      and_then (u64 f ''order_id'') (\<lambda>orderId.
      and_then (u64 f ''milestone_id'') (\<lambda>milestoneId.
      case find_order ctx orderId d of
        None \<Rightarrow> Inl (NoProjection ''order'' orderId)
      | Some order \<Rightarrow>
          and_then (u32 f ''index'') (\<lambda>index.
          and_then (i128 f ''amount'') (\<lambda>amount.
          and_then (optional_deadline f) (\<lambda>deadline.
          and_then (optional_date_column deadline) (\<lambda>deadline.
          and_then (upsert_milestone
            \<lparr>m_ctx = ctx, m_milestoneId = milestoneId, m_orderId = orderId, m_index = index,
             m_amount = amount, m_fundedAmount = 0, m_deadline = deadline,
             m_evidenceHash = None, m_status = UNFUNDED, m_createdLedger = ev_ledger ev,
             m_createdTxHash = ev_txHash ev, m_createdAt = ledgerClosedAt ev,
             m_lastEventId = eventId ev, m_lastLedger = ev_ledger ev\<rparr> d)
          (\<lambda>d'. Inr (True, d')))))))))"

definition project_milestone_funded ::
  "projection_context \<Rightarrow> decoded_event \<Rightarrow> db \<Rightarrow> api_error + (bool \<times> db)" where
  "project_milestone_funded ctx ev d =
     (let f = ev_fields ev in
      and_then (u64 f ''milestone_id'') (\<lambda>milestoneId.
      and_then (require_milestone ctx milestoneId d) (\<lambda>milestone.
      if \<not> is_newer (m_lastEventId milestone) (eventId ev) then Inr (False, d)
      else
        and_then (i128 f ''funded_amount'') (\<lambda>fundedAmount.
        and_then (bool_field f ''fully_funded'') (\<lambda>fully.
        and_then (update_milestone ctx milestoneId
          (stamp_milestone ev \<circ>
            (\<lambda>m. m\<lparr>m_fundedAmount := fundedAmount,
                  m_status := (if fully then FUNDED else UNFUNDED)\<rparr>)) d)
        (\<lambda>d'. Inr (True, d')))))))"

definition project_partial_funding_cancelled ::
  "projection_context \<Rightarrow> decoded_event \<Rightarrow> db \<Rightarrow> api_error + (bool \<times> db)" where
  "project_partial_funding_cancelled ctx ev d =
     and_then (u64 (ev_fields ev) ''milestone_id'') (\<lambda>milestoneId.
     and_then (require_milestone ctx milestoneId d) (\<lambda>milestone.
     if \<not> is_newer (m_lastEventId milestone) (eventId ev) then Inr (False, d)
     else and_then (update_milestone ctx milestoneId
         (stamp_milestone ev \<circ> (\<lambda>m. m\<lparr>m_fundedAmount := 0, m_status := UNFUNDED\<rparr>)) d)
       (\<lambda>d'. Inr (True, d'))))"

section \<open>Finance requests\<close>

definition project_finance_requested ::
  "projection_context \<Rightarrow> decoded_event \<Rightarrow> db \<Rightarrow> api_error + (bool \<times> db)" where
  "project_finance_requested ctx ev d =
     (let f = ev_fields ev in
      and_then (u64 f ''milestone_id'') (\<lambda>milestoneId.
      and_then (require_milestone ctx milestoneId d) (\<lambda>milestone.
      and_then (required_expiry f ''finance_requested'') (\<lambda>expiresAt.
      and_then (str f ''supplier'') (\<lambda>supplier.
      and_then (i128 f ''requested_principal'') (\<lambda>requestedPrincipal.
      and_then (i128 f ''protected_amount'') (\<lambda>protectedAmount.
      and_then
        (case find_request ctx milestoneId d of
           None \<Rightarrow>
             and_then (date_column expiresAt) (\<lambda>expiresAt.
             create_request
               \<lparr>q_ctx = ctx, q_milestoneId = milestoneId, q_supplier = supplier,
                q_requestedPrincipal = requestedPrincipal, q_protectedAmount = protectedAmount,
                q_status = RQ_OPEN, q_expiresAt = expiresAt, q_cancelledWhileExpired = None,
                q_createdLedger = ev_ledger ev, q_createdTxHash = ev_txHash ev,
                q_createdAt = ledgerClosedAt ev, q_lastEventId = eventId ev,
                q_lastLedger = ev_ledger ev\<rparr> d)
         | Some existing \<Rightarrow>
             if is_newer (q_lastEventId existing) (eventId ev)
             then and_then (date_column expiresAt) (\<lambda>expiresAt.
               update_request ctx milestoneId
                 (\<lambda>q. stamp_request ev
                    (q\<lparr>q_supplier := supplier, q_requestedPrincipal := requestedPrincipal,
                       q_protectedAmount := protectedAmount, q_status := RQ_OPEN,
                       q_expiresAt := expiresAt, q_cancelledWhileExpired := None\<rparr>)) d)
             else Inr d)
      (\<lambda>d1.
      and_then (advance_milestone ctx ev milestone (\<lambda>m. m\<lparr>m_status := FINANCE_REQUESTED\<rparr>) d1)
      (\<lambda>d2. Inr (True, d2))))))))))"

definition project_finance_request_cancelled ::
  "projection_context \<Rightarrow> decoded_event \<Rightarrow> db \<Rightarrow> api_error + (bool \<times> db)" where
  "project_finance_request_cancelled ctx ev d =
     (let f = ev_fields ev in
      and_then (u64 f ''milestone_id'') (\<lambda>milestoneId.
      and_then (require_milestone ctx milestoneId d) (\<lambda>milestone.
      case find_request ctx milestoneId d of
        None \<Rightarrow> Inl (NoProjection ''finance request'' milestoneId)
      | Some request \<Rightarrow>
          and_then
            (if is_newer (q_lastEventId request) (eventId ev)
             then and_then (bool_field f ''was_expired'') (\<lambda>expired.
               update_request ctx milestoneId
                 (stamp_request ev \<circ>
                   (\<lambda>q. q\<lparr>q_status := RQ_CANCELLED, q_cancelledWhileExpired := Some expired\<rparr>)) d)
             else Inr d)
          (\<lambda>d1.
          and_then (advance_milestone ctx ev milestone (\<lambda>m. m\<lparr>m_status := FUNDED\<rparr>) d1)
          (\<lambda>d2. Inr (True, d2))))))"

section \<open>Offers\<close>

definition project_funding_offer_created ::
  "projection_context \<Rightarrow> decoded_event \<Rightarrow> db \<Rightarrow> api_error + (bool \<times> db)" where
  "project_funding_offer_created ctx ev d =
     (let f = ev_fields ev in
      and_then (u64 f ''milestone_id'') (\<lambda>milestoneId.
      and_then (u64 f ''offer_id'') (\<lambda>offerId.
      and_then (require_milestone ctx milestoneId d) (\<lambda>milestone.
      and_then (required_expiry f ''funding_offer_created'') (\<lambda>expiresAt.
      and_then (str f ''funder'') (\<lambda>funder.
      and_then (i128 f ''principal'') (\<lambda>principal.
      and_then (i128 f ''repayment'') (\<lambda>repayment.
      and_then (date_column expiresAt) (\<lambda>expiresAt.
      and_then (upsert_offer
        \<lparr>f_ctx = ctx, f_offerId = offerId, f_milestoneId = milestoneId, f_funder = funder,
         f_principal = principal, f_repayment = repayment, f_status = OF_OPEN,
         f_expiresAt = expiresAt, f_createdLedger = ev_ledger ev,
         f_createdTxHash = ev_txHash ev, f_createdAt = ledgerClosedAt ev,
         f_lastEventId = eventId ev, f_lastLedger = ev_ledger ev\<rparr> d)
      (\<lambda>d'. Inr (True, d')))))))))))"

definition project_offer_decided ::
  "projection_context \<Rightarrow> decoded_event \<Rightarrow> db \<Rightarrow> api_error + (bool \<times> db)" where
  "project_offer_decided ctx ev d =
     (let f = ev_fields ev; accepted = (eventName ev = ''offer_accepted'') in
      and_then (u64 f ''offer_id'') (\<lambda>offerId.
      case find_offer ctx offerId d of
        None \<Rightarrow> Inl (NoProjection ''funding offer'' offerId)
      | Some offer \<Rightarrow>
          if \<not> is_newer (f_lastEventId offer) (eventId ev) then Inr (False, d)
          else
            and_then (update_offer ctx offerId
              (\<lambda>r. stamp_offer ev (r\<lparr>f_status := (if accepted then OF_ACCEPTED else OF_CANCELLED)\<rparr>)) d)
            (\<lambda>d1.
            and_then
              (if accepted
               then and_then (u64 f ''milestone_id'') (\<lambda>milestoneId.
                 case find_request ctx milestoneId d1 of
                   None \<Rightarrow> Inl (NoProjection ''finance request for accepted offer'' offerId)
                 | Some request \<Rightarrow>
                     advance_request ctx ev request (\<lambda>q. q\<lparr>q_status := RQ_ACCEPTED\<rparr>) d1)
               else Inr d1)
            (\<lambda>d2. Inr (True, d2)))))"

definition project_advance_funded ::
  "projection_context \<Rightarrow> decoded_event \<Rightarrow> db \<Rightarrow> api_error + (bool \<times> db)" where
  "project_advance_funded ctx ev d =
     (let f = ev_fields ev in
      and_then (u64 f ''milestone_id'') (\<lambda>milestoneId.
      and_then (u64 f ''offer_id'') (\<lambda>offerId.
      and_then (require_milestone ctx milestoneId d) (\<lambda>milestone.
      and_then (str f ''funder'') (\<lambda>funder.
      and_then (str f ''supplier'') (\<lambda>supplier.
      and_then (i128 f ''principal'') (\<lambda>principal.
      and_then (i128 f ''repayment'') (\<lambda>repayment.
      and_then (i128 f ''protected_amount'') (\<lambda>protectedAmount.
      and_then (upsert_position
        \<lparr>p_ctx = ctx, p_milestoneId = milestoneId, p_offerId = offerId, p_funder = funder,
         p_supplier = supplier, p_principal = principal, p_repayment = repayment,
         p_protectedAmountAtFunding = protectedAmount, p_status = PS_ACTIVE,
         p_fundedLedger = ev_ledger ev, p_fundedTxHash = ev_txHash ev,
         p_fundedAt = ledgerClosedAt ev, p_repaidAt = None, p_closedAt = None,
         p_lastEventId = eventId ev, p_lastLedger = ev_ledger ev\<rparr> d)
      (\<lambda>d1.
      and_then (update_offers ctx offerId (\<lambda>r. stamp_offer ev (r\<lparr>f_status := OF_FUNDED\<rparr>)) d1)
      (\<lambda>(count, d2).
      if count \<noteq> 1 then Inl (NoProjection ''funded offer'' offerId)
      else
        and_then (advance_milestone ctx ev milestone (\<lambda>m. m\<lparr>m_status := FINANCED\<rparr>) d2)
        (\<lambda>d3. Inr (True, d3)))))))))))))"

definition project_acceptance_released ::
  "projection_context \<Rightarrow> decoded_event \<Rightarrow> db \<Rightarrow> api_error + (bool \<times> db)" where
  "project_acceptance_released ctx ev d =
     (let f = ev_fields ev in
      and_then (u64 f ''milestone_id'') (\<lambda>milestoneId.
      and_then (u64 f ''offer_id'') (\<lambda>offerId.
      and_then (require_milestone ctx milestoneId d) (\<lambda>milestone.
      and_then (bool_field f ''request_reopened'') (\<lambda>reopened.
      and_then (update_offers ctx offerId (\<lambda>r. stamp_offer ev (r\<lparr>f_status := OF_CANCELLED\<rparr>)) d)
      (\<lambda>(count, d1).
      if count \<noteq> 1 then Inl (NoProjection ''released offer'' offerId)
      else
        case find_request ctx milestoneId d1 of
          None \<Rightarrow> Inl (NoProjection ''finance request for released offer'' offerId)
        | Some request \<Rightarrow>
            and_then (advance_request ctx ev request
              (\<lambda>q. q\<lparr>q_status := (if reopened then RQ_OPEN else RQ_CANCELLED)\<rparr>) d1)
            (\<lambda>d2.
            and_then (advance_milestone ctx ev milestone
              (\<lambda>m. m\<lparr>m_status := (if reopened then FINANCE_REQUESTED else FUNDED)\<rparr>) d2)
            (\<lambda>d3. Inr (True, d3)))))))))"

section \<open>Evidence and verification\<close>

definition project_evidence_submitted ::
  "projection_context \<Rightarrow> decoded_event \<Rightarrow> db \<Rightarrow> api_error + (bool \<times> db)" where
  "project_evidence_submitted ctx ev d =
     (let f = ev_fields ev in
      and_then (u64 f ''milestone_id'') (\<lambda>milestoneId.
      and_then (require_milestone ctx milestoneId d) (\<lambda>milestone.
      and_then (hex32 f ''evidence_hash'') (\<lambda>digest.
      and_then
        (advance_milestone ctx ev milestone
          (\<lambda>m. m\<lparr>m_evidenceHash := Some digest, m_status := SUBMITTED\<rparr>) d)
      (\<lambda>d1.
      and_then
        (case find_anchor ctx milestoneId d1 of
           None \<Rightarrow>
             create_anchor
               \<lparr>a_ctx = ctx, a_milestoneId = milestoneId, a_contentHash = digest,
                a_submittedLedger = ev_ledger ev, a_submittedTxHash = ev_txHash ev,
                a_submittedAt = ledgerClosedAt ev, a_lastEventId = eventId ev\<rparr> d1
         | Some anchor \<Rightarrow>
             if is_newer (a_lastEventId anchor) (eventId ev)
             then update_anchor ctx milestoneId
               (\<lambda>a. a\<lparr>a_contentHash := digest, a_submittedLedger := ev_ledger ev,
                      a_submittedTxHash := ev_txHash ev, a_submittedAt := ledgerClosedAt ev,
                      a_lastEventId := eventId ev\<rparr>) d1
             else Inr d1)
      (\<lambda>d2.
      and_then
        (update_evidence_objects ctx digest
          (\<lambda>e. e\<lparr>e_anchoredOnChain := True, e_anchoredAt := Some (ledgerClosedAt ev),
                 e_anchoredTxHash := Some (ev_txHash ev)\<rparr>) d2)
      (\<lambda>d3. Inr (True, d3))))))))"

definition project_milestone_verified ::
  "projection_context \<Rightarrow> decoded_event \<Rightarrow> db \<Rightarrow> api_error + (bool \<times> db)" where
  "project_milestone_verified ctx ev d =
     (let f = ev_fields ev in
      and_then (u64 f ''milestone_id'') (\<lambda>milestoneId.
      and_then (require_milestone ctx milestoneId d) (\<lambda>milestone.
      if \<not> is_newer (m_lastEventId milestone) (eventId ev) then Inr (False, d)
      else
        and_then (hex32 f ''evidence_hash'') (\<lambda>digest.
        and_then (update_milestone ctx milestoneId
          (stamp_milestone ev \<circ> (\<lambda>m. m\<lparr>m_evidenceHash := Some digest, m_status := VERIFIED\<rparr>)) d)
        (\<lambda>d'. Inr (True, d'))))))"

section \<open>Settlement and refund\<close>

definition project_milestone_settled ::
  "projection_context \<Rightarrow> decoded_event \<Rightarrow> db \<Rightarrow> api_error + (bool \<times> db)" where
  "project_milestone_settled ctx ev d =
     (let f = ev_fields ev in
      and_then (u64 f ''milestone_id'') (\<lambda>milestoneId.
      and_then (u64 f ''order_id'') (\<lambda>orderId.
      and_then (require_milestone ctx milestoneId d) (\<lambda>milestone.
      and_then (i128 f ''funder_repayment'') (\<lambda>funderRepayment.
      and_then (i128 f ''protected_amount'') (\<lambda>protectedAmount.
      and_then (i128 f ''supplier_payout'') (\<lambda>supplierPayout.
      and_then (upsert_settlement
        \<lparr>s_ctx = ctx, s_milestoneId = milestoneId, s_orderId = orderId,
         s_protectedAmount = protectedAmount, s_funderRepayment = funderRepayment,
         s_supplierPayout = supplierPayout, s_settledLedger = ev_ledger ev,
         s_settledTxHash = ev_txHash ev, s_settledAt = ledgerClosedAt ev,
         s_lastEventId = eventId ev\<rparr> d)
      (\<lambda>d1.
      and_then
        (advance_milestone ctx ev milestone (\<lambda>m. m\<lparr>m_status := SETTLED, m_fundedAmount := 0\<rparr>) d1)
      (\<lambda>d2.
      if 0 < funderRepayment
      then
        and_then (update_active_positions ctx milestoneId
          (\<lambda>p. stamp_position ev (p\<lparr>p_status := PS_REPAID, p_repaidAt := Some (ledgerClosedAt ev)\<rparr>)) d2)
        (\<lambda>(count, d3).
        if count \<noteq> 1 then Inl (NoActivePosition milestoneId) else Inr (True, d3))
      else Inr (True, d2))))))))))"

definition project_milestone_refunded ::
  "projection_context \<Rightarrow> decoded_event \<Rightarrow> db \<Rightarrow> api_error + (bool \<times> db)" where
  "project_milestone_refunded ctx ev d =
     (let f = ev_fields ev in
      and_then (u64 f ''milestone_id'') (\<lambda>milestoneId.
      and_then (require_milestone ctx milestoneId d) (\<lambda>milestone.
      and_then (u64 f ''order_id'') (\<lambda>orderId.
      and_then (str f ''buyer'') (\<lambda>buyer.
      and_then (i128 f ''refunded_amount'') (\<lambda>refundedAmount.
      and_then (i128 f ''funder_advance_outstanding'') (\<lambda>outstanding.
      and_then (upsert_refund
        \<lparr>r_ctx = ctx, r_milestoneId = milestoneId, r_orderId = orderId, r_buyer = buyer,
         r_refundedAmount = refundedAmount, r_funderAdvanceOutstanding = outstanding,
         r_refundedLedger = ev_ledger ev, r_refundedTxHash = ev_txHash ev,
         r_refundedAt = ledgerClosedAt ev, r_lastEventId = eventId ev\<rparr> d)
      (\<lambda>d1.
      and_then
        (advance_milestone ctx ev milestone (\<lambda>m. m\<lparr>m_status := REFUNDED, m_fundedAmount := 0\<rparr>) d1)
      (\<lambda>d2.
      and_then (update_active_positions ctx milestoneId
        (\<lambda>p. stamp_position ev (p\<lparr>p_status := PS_CLOSED, p_closedAt := Some (ledgerClosedAt ev)\<rparr>)) d2)
      (\<lambda>(count, d3).
      let expectedClosed = (if 0 < outstanding then 1 else 0) in
      if count \<noteq> expectedClosed
      then Inl (RefundClosedPositions milestoneId count expectedClosed)
      else Inr (True, d3)))))))))))"

section \<open>Disputes\<close>

definition project_dispute_opened ::
  "projection_context \<Rightarrow> decoded_event \<Rightarrow> db \<Rightarrow> api_error + (bool \<times> db)" where
  "project_dispute_opened ctx ev d =
     (let f = ev_fields ev in
      and_then (u64 f ''milestone_id'') (\<lambda>milestoneId.
      and_then (u64 f ''dispute_id'') (\<lambda>disputeId.
      and_then (require_milestone ctx milestoneId d) (\<lambda>milestone.
      and_then (str f ''opened_by'') (\<lambda>openedBy.
      and_then (str f ''resolver'') (\<lambda>resolver.
      and_then (upsert_dispute
        \<lparr>d_ctx = ctx, d_disputeId = disputeId, d_milestoneId = milestoneId,
         d_openedBy = openedBy, d_resolver = resolver, d_status = DS_OPEN,
         d_openedLedger = ev_ledger ev, d_openedTxHash = ev_txHash ev,
         d_openedAt = ledgerClosedAt ev, d_resolvedAt = None, d_resolvedTxHash = None,
         d_lastEventId = eventId ev, d_lastLedger = ev_ledger ev\<rparr> d)
      (\<lambda>d1.
      and_then (advance_milestone ctx ev milestone (\<lambda>m. m\<lparr>m_status := DISPUTED\<rparr>) d1)
      (\<lambda>d2. Inr (True, d2)))))))))"

definition project_dispute_resolved ::
  "projection_context \<Rightarrow> decoded_event \<Rightarrow> db \<Rightarrow> api_error + (bool \<times> db)" where
  "project_dispute_resolved ctx ev d =
     (let f = ev_fields ev in
      and_then (u64 f ''dispute_id'') (\<lambda>disputeId.
      and_then (bool_field f ''settled'') (\<lambda>settled.
      case find_dispute ctx disputeId d of
        None \<Rightarrow> Inl (NoProjection ''dispute'' disputeId)
      | Some dispute \<Rightarrow>
          if \<not> is_newer (d_lastEventId dispute) (eventId ev) then Inr (False, d)
          else
            and_then (update_dispute ctx disputeId
              (\<lambda>r. stamp_dispute ev
                 (r\<lparr>d_status := (if settled then DS_RESOLVED_SETTLE else DS_RESOLVED_REFUND),
                    d_resolvedAt := Some (ledgerClosedAt ev),
                    d_resolvedTxHash := Some (ev_txHash ev)\<rparr>)) d)
            (\<lambda>d1.
            and_then (require_milestone ctx (d_milestoneId dispute) d1) (\<lambda>milestone.
            and_then
              (if settled
               then advance_milestone ctx ev milestone (\<lambda>m. m\<lparr>m_status := VERIFIED\<rparr>) d1
               else Inr d1)
            (\<lambda>d2. Inr (True, d2)))))))"

section \<open>The switch\<close>

fun project_known ::
  "event_name \<Rightarrow> projection_context \<Rightarrow> decoded_event \<Rightarrow> db \<Rightarrow> api_error + (bool \<times> db)" where
  "project_known OrderCreated = project_order_created"
| "project_known OrderAccepted = project_order_moved"
| "project_known OrderCancelled = project_order_moved"
| "project_known OrderCompleted = project_order_moved"
| "project_known MilestoneCreated = project_milestone_created"
| "project_known MilestoneFunded = project_milestone_funded"
| "project_known PartialFundingCancelled = project_partial_funding_cancelled"
| "project_known FinanceRequested = project_finance_requested"
| "project_known FinanceRequestCancelled = project_finance_request_cancelled"
| "project_known FundingOfferCreated = project_funding_offer_created"
| "project_known FundingOfferCancelled = project_offer_decided"
| "project_known OfferAccepted = project_offer_decided"
| "project_known AdvanceFunded = project_advance_funded"
| "project_known AcceptanceReleased = project_acceptance_released"
| "project_known EvidenceSubmitted = project_evidence_submitted"
| "project_known MilestoneVerified = project_milestone_verified"
| "project_known MilestoneSettled = project_milestone_settled"
| "project_known MilestoneRefunded = project_milestone_refunded"
| "project_known DisputeOpened = project_dispute_opened"
| "project_known DisputeResolved = project_dispute_resolved"

definition project_event ::
  "projection_context \<Rightarrow> decoded_event \<Rightarrow> db \<Rightarrow> api_error + (bool \<times> db)" where
  "project_event ctx ev d =
     (if \<not> known ev then Inr (False, d)
      else if \<not> successful ev then Inr (False, d)
      else case is_milvance_event_name (eventName ev) of
             Some name \<Rightarrow> project_known name ctx ev d
           | None \<Rightarrow> Inl (UnhandledEvent (eventName ev)))"

definition event_log_row ::
  "projection_context \<Rightarrow> decoded_event \<Rightarrow> jsval \<Rightarrow> bool \<Rightarrow> log_row" where
  "event_log_row ctx ev payload projected =
     \<lparr>l_ctx = ctx, l_eventId = eventId ev, l_ledger = ev_ledger ev, l_txHash = ev_txHash ev,
      l_eventIndex = eventIndex ev, l_txIndex = txIndex ev,
      l_operationIndex = operationIndex ev, l_eventName = eventName ev,
      l_successful = successful ev, l_ledgerClosedAt = ledgerClosedAt ev, l_payload = payload,
      l_topicsXdr = topicsXdr ev, l_valueXdr = valueXdr ev, l_projected = projected\<rparr>"

end
