(* ===== verification/ProjectionWrites.thy ===== *)
theory ProjectionWrites
  imports Projector
begin

text \<open>
  What the projector can write. \<open>projection_write escrow ctx ev\<close> relates two databases that differ
  by one statement the projector issues for event \<open>ev\<close> in scope \<open>ctx\<close>, and
  \<open>project_event_writes\<close> shows that every projection is a sequence of such statements. An
  invariant of the read models is then shown once per kind of statement, by rule
  induction, and holds for all twenty cases of the projector.
\<close>

section \<open>One statement\<close>

text \<open>The terms of a milestone: the columns only its creation writes.\<close>

definition milestone_terms ::
  "milestone_row \<Rightarrow> projection_context \<times> int \<times> int \<times> int \<times> int \<times> int option \<times> int \<times> string \<times> int" where
  "milestone_terms m =
     (m_ctx m, m_milestoneId m, m_orderId m, m_index m, m_amount m, m_deadline m,
      m_createdLedger m, m_createdTxHash m, m_createdAt m)"

text \<open>
  What an update may change of a milestone: its state, never its terms; its escrow balance
  only when \<open>escrow\<close> allows it; an evidence hash only by a digest.
\<close>

definition state_update :: "bool \<Rightarrow> (milestone_row \<Rightarrow> milestone_row) \<Rightarrow> bool" where
  "state_update escrow upd \<longleftrightarrow>
     (\<forall>m. milestone_terms (upd m) = milestone_terms m
        \<and> (escrow \<or> m_fundedAmount (upd m) = m_fundedAmount m)
        \<and> (\<forall>h. m_evidenceHash (upd m) = Some h \<longrightarrow> m_evidenceHash m = Some h \<or> is_hex64 h))"

definition request_update :: "(request_row \<Rightarrow> request_row) \<Rightarrow> bool" where
  "request_update upd \<longleftrightarrow>
     (\<forall>q. q_ctx (upd q) = q_ctx q \<and> q_milestoneId (upd q) = q_milestoneId q)"

inductive projection_write :: "bool \<Rightarrow> projection_context \<Rightarrow> decoded_event \<Rightarrow> db \<Rightarrow> db \<Rightarrow> bool"
  for escrow :: bool and ctx :: projection_context and ev :: decoded_event where
  order_inserted:
    "o_ctx r = ctx \<Longrightarrow> o_lastEventId r = eventId ev \<Longrightarrow> create_order r d = Inr d'
     \<Longrightarrow> projection_write escrow ctx ev d d'"
| order_moved:
    "find_order ctx i d = Some r \<Longrightarrow> o_lastEventId r < eventId ev
     \<Longrightarrow> update_order ctx i (\<lambda>r. stamp_order ev (r\<lparr>o_status := st\<rparr>)) d = Inr d'
     \<Longrightarrow> projection_write escrow ctx ev d d'"
| milestone_upserted:
    "m_ctx m = ctx \<Longrightarrow> m_lastEventId m = eventId ev \<Longrightarrow> m_fundedAmount m = 0
     \<Longrightarrow> m_evidenceHash m = None \<Longrightarrow> upsert_milestone m d = Inr d'
     \<Longrightarrow> projection_write escrow ctx ev d d'"
| milestone_moved:
    "find_milestone ctx i d = Some m \<Longrightarrow> m_lastEventId m < eventId ev \<Longrightarrow> state_update escrow upd
     \<Longrightarrow> update_milestone ctx i (stamp_milestone ev \<circ> upd) d = Inr d'
     \<Longrightarrow> projection_write escrow ctx ev d d'"
| request_inserted:
    "q_ctx q = ctx \<Longrightarrow> q_lastEventId q = eventId ev \<Longrightarrow> create_request q d = Inr d'
     \<Longrightarrow> projection_write escrow ctx ev d d'"
| request_moved:
    "find_request ctx i d = Some q \<Longrightarrow> q_lastEventId q < eventId ev \<Longrightarrow> request_update rupd
     \<Longrightarrow> update_request ctx i (stamp_request ev \<circ> rupd) d = Inr d'
     \<Longrightarrow> projection_write escrow ctx ev d d'"
| offer_upserted:
    "f_ctx f = ctx \<Longrightarrow> f_lastEventId f = eventId ev \<Longrightarrow> upsert_offer f d = Inr d'
     \<Longrightarrow> projection_write escrow ctx ev d d'"
| offer_written:
    "update_offer ctx i (\<lambda>r. stamp_offer ev (r\<lparr>f_status := ost\<rparr>)) d = Inr d'
     \<Longrightarrow> projection_write escrow ctx ev d d'"
| position_upserted:
    "p_ctx p = ctx \<Longrightarrow> p_status p = PS_ACTIVE \<Longrightarrow> p_repaidAt p = None \<Longrightarrow> p_closedAt p = None
     \<Longrightarrow> upsert_position p d = Inr d' \<Longrightarrow> projection_write escrow ctx ev d d'"
| positions_repaid:
    "update_active_positions ctx i
       (\<lambda>p. stamp_position ev (p\<lparr>p_status := PS_REPAID, p_repaidAt := Some t\<rparr>)) d = Inr (n, d')
     \<Longrightarrow> projection_write escrow ctx ev d d'"
| positions_closed:
    "update_active_positions ctx i
       (\<lambda>p. stamp_position ev (p\<lparr>p_status := PS_CLOSED, p_closedAt := Some t\<rparr>)) d = Inr (n, d')
     \<Longrightarrow> projection_write escrow ctx ev d d'"
| dispute_upserted:
    "d_ctx r = ctx \<Longrightarrow> d_lastEventId r = eventId ev \<Longrightarrow> d_status r = DS_OPEN \<Longrightarrow> d_resolvedAt r = None \<Longrightarrow> d_resolvedTxHash r = None
     \<Longrightarrow> upsert_dispute r d = Inr d' \<Longrightarrow> projection_write escrow ctx ev d d'"
| dispute_moved:
    "find_dispute ctx i d = Some dr \<Longrightarrow> d_lastEventId dr < eventId ev \<Longrightarrow> dst \<noteq> DS_OPEN
     \<Longrightarrow> update_dispute ctx i
           (\<lambda>r. stamp_dispute ev (r\<lparr>d_status := dst, d_resolvedAt := Some t,
                                   d_resolvedTxHash := Some h\<rparr>)) d = Inr d'
     \<Longrightarrow> projection_write escrow ctx ev d d'"
| settlement_upserted:
    "s_ctx s = ctx \<Longrightarrow> upsert_settlement s d = Inr d' \<Longrightarrow> projection_write escrow ctx ev d d'"
| refund_upserted:
    "r_ctx rf = ctx \<Longrightarrow> upsert_refund rf d = Inr d' \<Longrightarrow> projection_write escrow ctx ev d d'"
| anchor_inserted:
    "a_ctx a = ctx \<Longrightarrow> a_lastEventId a = eventId ev \<Longrightarrow> is_hex64 (a_contentHash a)
     \<Longrightarrow> create_anchor a d = Inr d' \<Longrightarrow> projection_write escrow ctx ev d d'"
| anchor_moved:
    "find_anchor ctx i d = Some a \<Longrightarrow> a_lastEventId a < eventId ev \<Longrightarrow> is_hex64 digest
     \<Longrightarrow> update_anchor ctx i
           (\<lambda>a. a\<lparr>a_contentHash := digest, a_submittedLedger := l, a_submittedTxHash := h,
                  a_submittedAt := t, a_lastEventId := eventId ev\<rparr>) d = Inr d'
     \<Longrightarrow> projection_write escrow ctx ev d d'"
| evidence_marked:
    "is_hex64 digest
     \<Longrightarrow> update_evidence_objects ctx digest
           (\<lambda>e. e\<lparr>e_anchoredOnChain := True, e_anchoredAt := Some t,
                  e_anchoredTxHash := Some h\<rparr>) d = Inr d'
     \<Longrightarrow> projection_write escrow ctx ev d d'"

abbreviation projection_writes :: "bool \<Rightarrow> projection_context \<Rightarrow> decoded_event \<Rightarrow> db \<Rightarrow> db \<Rightarrow> bool" where
  "projection_writes escrow ctx ev \<equiv> (projection_write escrow ctx ev)\<^sup>*\<^sup>*"

section \<open>Every projection is a sequence of statements\<close>

lemmas statement_defs = create_order_def update_order_def upsert_milestone_def
  update_milestone_def create_request_def update_request_def upsert_offer_def
  update_offer_def update_offers_def upsert_position_def update_active_positions_def
  upsert_dispute_def update_dispute_def upsert_settlement_def upsert_refund_def
  create_anchor_def update_anchor_def update_evidence_objects_def

lemmas finder_defs = find_order_def find_milestone_def find_request_def find_offer_def
  find_dispute_def find_anchor_def

lemma find_key [dest]:
  "find_order ctx i d = Some r \<Longrightarrow> o_ctx r = ctx \<and> o_orderId r = i"
  "find_milestone ctx i d = Some m \<Longrightarrow> m_ctx m = ctx \<and> m_milestoneId m = i"
  "find_request ctx i d = Some q \<Longrightarrow> q_ctx q = ctx \<and> q_milestoneId q = i"
  "find_offer ctx i d = Some f \<Longrightarrow> f_ctx f = ctx \<and> f_offerId f = i"
  "find_dispute ctx i d = Some p \<Longrightarrow> d_ctx p = ctx \<and> d_disputeId p = i"
  "find_anchor ctx i d = Some a \<Longrightarrow> a_ctx a = ctx \<and> a_milestoneId a = i"
  unfolding finder_defs
  by (drule find_row_key, simp add: order_key_def milestone_key_def request_key_def
      offer_key_def dispute_key_def anchor_key_def)+

lemma require_milestone_Inr [result_simps]:
  "require_milestone ctx i d = Inr m \<longleftrightarrow> find_milestone ctx i d = Some m"
  by (simp add: require_milestone_def split: option.split)

lemma hex32_Inr: "hex32 f k = Inr h \<Longrightarrow> is_hex64 h"
  by (auto simp: hex32_def split: option.splits if_splits)

lemma state_updates [simp, intro]:
  "state_update escrow (\<lambda>m. m\<lparr>m_status := st\<rparr>)"
  "state_update True (\<lambda>m. m\<lparr>m_status := st, m_fundedAmount := a\<rparr>)"
  "state_update True (\<lambda>m. m\<lparr>m_fundedAmount := a, m_status := st\<rparr>)"
  "is_hex64 h \<Longrightarrow> state_update escrow (\<lambda>m. m\<lparr>m_evidenceHash := Some h, m_status := st\<rparr>)"
  by (simp_all add: state_update_def milestone_terms_def)

lemma request_updates [simp, intro]:
  "request_update (\<lambda>q. q\<lparr>q_status := st\<rparr>)"
  "request_update (\<lambda>q. q\<lparr>q_status := st, q_cancelledWhileExpired := x\<rparr>)"
  "request_update (\<lambda>q. q\<lparr>q_supplier := s, q_requestedPrincipal := a, q_protectedAmount := b,
                         q_status := st, q_expiresAt := t, q_cancelledWhileExpired := x\<rparr>)"
  by (simp_all add: request_update_def)

lemma advance_milestone_writes:
  assumes "advance_milestone ctx ev m upd d = Inr d'" and "find_milestone ctx i d = Some m"
    and "state_update escrow upd"
  shows "projection_writes escrow ctx ev d d'"
  using assms find_key(2) [OF assms(2)]
  by (auto simp: advance_milestone_def is_newer_def split: if_splits
      intro: projection_write.milestone_moved)

lemma advance_request_writes:
  assumes "advance_request ctx ev q upd d = Inr d'" and "find_request ctx i d = Some q"
    and "request_update upd"
  shows "projection_writes escrow ctx ev d d'"
  using assms find_key(3) [OF assms(2)]
  by (auto simp: advance_request_def is_newer_def split: if_splits
      intro: projection_write.request_moved)


lemma update_offers_Inr [result_simps]:
  "update_offers ctx i f d = Inr (n, d') \<longleftrightarrow>
     update_offer ctx i f d = Inr d' \<and> n = count_rows (\<lambda>r. offer_key r = (ctx, i)) (offers d)"
  by (auto simp: update_offers_def update_offer_def result_simps)

text \<open>One statement as a sequence, in the form the cases below end with.\<close>

lemma order_step:
  "create_order r d = Inr d' \<Longrightarrow> o_ctx r = ctx \<Longrightarrow> o_lastEventId r = eventId ev
   \<Longrightarrow> projection_writes escrow ctx ev d d'"
  by (blast intro: projection_write.order_inserted)

lemma order_move_step:
  "update_order ctx i (\<lambda>r. stamp_order ev (r\<lparr>o_status := st\<rparr>)) d = Inr d'
   \<Longrightarrow> find_order ctx i d = Some r \<Longrightarrow> o_lastEventId r < eventId ev \<Longrightarrow> projection_writes escrow ctx ev d d'"
  by (blast intro: projection_write.order_moved)

lemma milestone_step:
  "update_milestone ctx i (stamp_milestone ev \<circ> upd) d = Inr d' \<Longrightarrow> find_milestone ctx i d = Some m
   \<Longrightarrow> m_lastEventId m < eventId ev \<Longrightarrow> state_update escrow upd \<Longrightarrow> projection_writes escrow ctx ev d d'"
  by (blast intro: projection_write.milestone_moved)

lemma request_step:
  "update_request ctx i (stamp_request ev \<circ> upd) d = Inr d' \<Longrightarrow> find_request ctx i d = Some q
   \<Longrightarrow> q_lastEventId q < eventId ev \<Longrightarrow> request_update upd \<Longrightarrow> projection_writes escrow ctx ev d d'"
  by (blast intro: projection_write.request_moved)

text \<open>A projection that returned, statement by statement.\<close>

lemma and_thenE:
  assumes "and_then m k = Inr y" obtains x where "m = Inr x" and "k x = Inr y"
  using assms by (auto simp: and_then_Inr)

lemma if_InrE:
  assumes "(if c then r else s) = Inr y"
  obtains "c" and "r = Inr y" | "\<not> c" and "s = Inr y"
  using assms by (auto split: if_splits)

lemma case_option_InrE:
  assumes "(case v of None \<Rightarrow> r | Some x \<Rightarrow> s x) = Inr y"
  obtains "v = None" and "r = Inr y" | x where "v = Some x" and "s x = Inr y"
  using assms by (auto split: option.splits)

lemmas run_elims = and_thenE if_InrE case_option_InrE

lemma order_created_writes:
  "project_order_created ctx ev d = Inr (b, d') \<Longrightarrow> projection_writes escrow ctx ev d d' \<and> (b \<or> d' = d)"
  by (auto simp: project_order_created_def Let_def elim!: run_elims elim: order_step)

lemma order_moved_writes:
  "project_order_moved ctx ev d = Inr (b, d') \<Longrightarrow> projection_writes escrow ctx ev d d' \<and> (b \<or> d' = d)"
  by (auto simp: project_order_moved_def is_newer_def elim!: run_elims
      elim: order_move_step)

lemma milestone_created_writes:
  "project_milestone_created ctx ev d = Inr (b, d') \<Longrightarrow> projection_writes escrow ctx ev d d' \<and> (b \<or> d' = d)"
  by (auto simp: project_milestone_created_def Let_def elim!: run_elims
      intro!: projection_write.milestone_upserted r_into_rtranclp)

lemma milestone_funded_writes:
  "project_milestone_funded ctx ev d = Inr (b, d') \<Longrightarrow> projection_writes True ctx ev d d' \<and> (b \<or> d' = d)"
  by (auto simp: project_milestone_funded_def Let_def is_newer_def require_milestone_Inr
      simp del: o_apply elim!: run_elims elim: milestone_step)

lemma partial_funding_cancelled_writes:
  "project_partial_funding_cancelled ctx ev d = Inr (b, d')
   \<Longrightarrow> projection_writes True ctx ev d d' \<and> (b \<or> d' = d)"
  by (auto simp: project_partial_funding_cancelled_def is_newer_def require_milestone_Inr
      elim!: run_elims elim: milestone_step)

lemma milestone_verified_writes:
  "project_milestone_verified ctx ev d = Inr (b, d') \<Longrightarrow> projection_writes escrow ctx ev d d' \<and> (b \<or> d' = d)"
  by (auto simp: project_milestone_verified_def Let_def is_newer_def require_milestone_Inr
      elim!: run_elims elim: milestone_step dest!: hex32_Inr)

text \<open>
  The remaining cases issue several statements. A row read before another statement is the
  same row after it, because each statement writes one table.
\<close>

lemma milestone_kept:
  "create_request q d = Inr d' \<Longrightarrow> find_milestone c i d = Some m \<Longrightarrow> find_milestone c i d' = Some m"
  "update_request ctx k qf d = Inr d' \<Longrightarrow> find_milestone c i d = Some m \<Longrightarrow> find_milestone c i d' = Some m"
  "advance_request ctx ev r qf d = Inr d' \<Longrightarrow> find_milestone c i d = Some m
   \<Longrightarrow> find_milestone c i d' = Some m"
  "update_offer ctx k ff d = Inr d' \<Longrightarrow> find_milestone c i d = Some m \<Longrightarrow> find_milestone c i d' = Some m"
  "upsert_position p d = Inr d' \<Longrightarrow> find_milestone c i d = Some m \<Longrightarrow> find_milestone c i d' = Some m"
  "upsert_dispute x d = Inr d' \<Longrightarrow> find_milestone c i d = Some m \<Longrightarrow> find_milestone c i d' = Some m"
  "update_dispute ctx k xf d = Inr d' \<Longrightarrow> find_milestone c i d = Some m \<Longrightarrow> find_milestone c i d' = Some m"
  "upsert_settlement s d = Inr d' \<Longrightarrow> find_milestone c i d = Some m \<Longrightarrow> find_milestone c i d' = Some m"
  "upsert_refund rf d = Inr d' \<Longrightarrow> find_milestone c i d = Some m \<Longrightarrow> find_milestone c i d' = Some m"
  by (auto simp: statement_defs finder_defs advance_request_def result_simps split: if_splits)

lemma advance_milestone_step:
  "advance_milestone ctx ev m upd d' = Inr d'' \<Longrightarrow> projection_writes escrow ctx ev d d'
   \<Longrightarrow> find_milestone ctx i d' = Some m \<Longrightarrow> state_update escrow upd \<Longrightarrow> projection_writes escrow ctx ev d d''"
  by (meson advance_milestone_writes rtranclp_trans)

lemma advance_request_step:
  "advance_request ctx ev q upd d' = Inr d'' \<Longrightarrow> projection_writes escrow ctx ev d d'
   \<Longrightarrow> find_request ctx i d' = Some q \<Longrightarrow> request_update upd \<Longrightarrow> projection_writes escrow ctx ev d d''"
  by (meson advance_request_writes rtranclp_trans)

text \<open>
  Each case below is split into its returning paths, which end with the statements issued;
  \<open>case_steps\<close> chains them backwards from the last.
\<close>

lemma request_inserted_step:
  "create_request \<lparr>q_ctx = ctx, q_milestoneId = i, q_supplier = s, q_requestedPrincipal = rp,
     q_protectedAmount = pa, q_status = st, q_expiresAt = e, q_cancelledWhileExpired = x,
     q_createdLedger = l, q_createdTxHash = h, q_createdAt = t, q_lastEventId = eventId ev,
     q_lastLedger = l'\<rparr> d = Inr d' \<Longrightarrow> projection_writes escrow ctx ev d d'"
  by (rule r_into_rtranclp, rule projection_write.request_inserted [rotated 2]) auto

lemma offer_inserted_step:
  "upsert_offer \<lparr>f_ctx = ctx, f_offerId = i, f_milestoneId = m, f_funder = a, f_principal = p,
     f_repayment = r, f_status = st, f_expiresAt = e, f_createdLedger = l, f_createdTxHash = h,
     f_createdAt = t, f_lastEventId = eventId ev, f_lastLedger = l'\<rparr> d = Inr d'
   \<Longrightarrow> projection_writes escrow ctx ev d d'"
  by (rule r_into_rtranclp, rule projection_write.offer_upserted [rotated 2]) auto

lemma offer_moved_step:
  "update_offer ctx i (\<lambda>r. stamp_offer ev (r\<lparr>f_status := st\<rparr>)) d' = Inr d''
   \<Longrightarrow> projection_writes escrow ctx ev d d' \<Longrightarrow> projection_writes escrow ctx ev d d''"
  by (rule rtranclp.rtrancl_into_rtrancl, assumption, rule projection_write.offer_written)

lemma position_inserted_step:
  "upsert_position \<lparr>p_ctx = ctx, p_milestoneId = m, p_offerId = i, p_funder = a, p_supplier = s,
     p_principal = p, p_repayment = r, p_protectedAmountAtFunding = pa, p_status = PS_ACTIVE,
     p_fundedLedger = l, p_fundedTxHash = h, p_fundedAt = t, p_repaidAt = None, p_closedAt = None,
     p_lastEventId = ei, p_lastLedger = l'\<rparr> d = Inr d' \<Longrightarrow> projection_writes escrow ctx ev d d'"
  by (rule r_into_rtranclp, rule projection_write.position_upserted [rotated 4]) auto

lemma positions_step:
  "update_active_positions ctx i
     (\<lambda>p. stamp_position ev (p\<lparr>p_status := PS_REPAID, p_repaidAt := Some t\<rparr>)) d' = Inr (n, d'')
   \<Longrightarrow> projection_writes escrow ctx ev d d' \<Longrightarrow> projection_writes escrow ctx ev d d''"
  "update_active_positions ctx i
     (\<lambda>p. stamp_position ev (p\<lparr>p_status := PS_CLOSED, p_closedAt := Some t\<rparr>)) d' = Inr (n, d'')
   \<Longrightarrow> projection_writes escrow ctx ev d d' \<Longrightarrow> projection_writes escrow ctx ev d d''"
  by (rule rtranclp.rtrancl_into_rtrancl, assumption,
      erule projection_write.positions_repaid projection_write.positions_closed)+

lemma dispute_inserted_step:
  "upsert_dispute \<lparr>d_ctx = ctx, d_disputeId = i, d_milestoneId = m, d_openedBy = a, d_resolver = r,
     d_status = DS_OPEN, d_openedLedger = l, d_openedTxHash = h, d_openedAt = t, d_resolvedAt = None,
     d_resolvedTxHash = None, d_lastEventId = eventId ev, d_lastLedger = l'\<rparr> d = Inr d'
   \<Longrightarrow> projection_writes escrow ctx ev d d'"
  by (rule r_into_rtranclp, rule projection_write.dispute_upserted [rotated 5]) auto

lemma dispute_moved_step:
  "update_dispute ctx i (\<lambda>r. stamp_dispute ev (r\<lparr>d_status := st, d_resolvedAt := Some t,
     d_resolvedTxHash := Some h\<rparr>)) d = Inr d'
   \<Longrightarrow> find_dispute ctx i d = Some dr \<Longrightarrow> d_lastEventId dr < eventId ev
   \<Longrightarrow> st = DS_RESOLVED_SETTLE \<or> st = DS_RESOLVED_REFUND \<Longrightarrow> projection_writes escrow ctx ev d d'"
  by (rule r_into_rtranclp, rule projection_write.dispute_moved) auto

lemma settlement_inserted_step:
  "upsert_settlement \<lparr>s_ctx = ctx, s_milestoneId = m, s_orderId = i, s_protectedAmount = pa,
     s_funderRepayment = r, s_supplierPayout = s, s_settledLedger = l, s_settledTxHash = h,
     s_settledAt = t, s_lastEventId = ei\<rparr> d = Inr d' \<Longrightarrow> projection_writes escrow ctx ev d d'"
  by (rule r_into_rtranclp, rule projection_write.settlement_upserted [rotated]) auto

lemma refund_inserted_step:
  "upsert_refund \<lparr>r_ctx = ctx, r_milestoneId = m, r_orderId = i, r_buyer = b, r_refundedAmount = ra,
     r_funderAdvanceOutstanding = fo, r_refundedLedger = l, r_refundedTxHash = h,
     r_refundedAt = t, r_lastEventId = ei\<rparr> d = Inr d' \<Longrightarrow> projection_writes escrow ctx ev d d'"
  by (rule r_into_rtranclp, rule projection_write.refund_upserted [rotated]) auto

lemma anchor_inserted_step:
  "create_anchor \<lparr>a_ctx = ctx, a_milestoneId = m, a_contentHash = c, a_submittedLedger = l,
     a_submittedTxHash = h, a_submittedAt = t, a_lastEventId = eventId ev\<rparr> d' = Inr d''
   \<Longrightarrow> projection_writes escrow ctx ev d d' \<Longrightarrow> is_hex64 c \<Longrightarrow> projection_writes escrow ctx ev d d''"
  by (rule rtranclp.rtrancl_into_rtrancl, assumption,
      rule projection_write.anchor_inserted [rotated 3]) auto

lemma anchor_moved_step:
  "update_anchor ctx i (\<lambda>a. a\<lparr>a_contentHash := c, a_submittedLedger := l, a_submittedTxHash := h,
     a_submittedAt := t, a_lastEventId := eventId ev\<rparr>) d' = Inr d''
   \<Longrightarrow> projection_writes escrow ctx ev d d' \<Longrightarrow> find_anchor ctx i d' = Some a
   \<Longrightarrow> a_lastEventId a < eventId ev \<Longrightarrow> is_hex64 c \<Longrightarrow> projection_writes escrow ctx ev d d''"
  by (rule rtranclp.rtrancl_into_rtrancl, assumption, rule projection_write.anchor_moved)

lemma evidence_marked_step:
  "update_evidence_objects ctx c
     (\<lambda>e. e\<lparr>e_anchoredOnChain := True, e_anchoredAt := Some t, e_anchoredTxHash := Some h\<rparr>) d' = Inr d''
   \<Longrightarrow> projection_writes escrow ctx ev d d' \<Longrightarrow> is_hex64 c \<Longrightarrow> projection_writes escrow ctx ev d d''"
  by (rule rtranclp.rtrancl_into_rtrancl, assumption, rule projection_write.evidence_marked)

lemmas case_steps = advance_milestone_step advance_request_step request_step
  request_step [unfolded comp_def] request_inserted_step offer_inserted_step offer_moved_step
  position_inserted_step positions_step dispute_inserted_step dispute_moved_step
  settlement_inserted_step refund_inserted_step anchor_inserted_step anchor_moved_step
  evidence_marked_step milestone_kept hex32_Inr

lemmas case_ends = rtranclp.rtrancl_refl state_updates request_updates
  disjI1 [OF refl] disjI2 [OF refl]

lemma finance_requested_writes:
  "project_finance_requested ctx ev d = Inr (b, d') \<Longrightarrow> projection_writes escrow ctx ev d d' \<and> (b \<or> d' = d)"
  by (auto simp: project_finance_requested_def Let_def require_milestone_Inr is_newer_def
      elim!: run_elims) (assumption | rule case_ends | erule case_steps)+

lemma finance_request_cancelled_writes:
  "project_finance_request_cancelled ctx ev d = Inr (b, d')
   \<Longrightarrow> projection_writes escrow ctx ev d d' \<and> (b \<or> d' = d)"
  by (auto simp: project_finance_request_cancelled_def Let_def is_newer_def require_milestone_Inr
        elim!: run_elims) (assumption | rule case_ends | erule case_steps)+

lemma funding_offer_created_writes:
  "project_funding_offer_created ctx ev d = Inr (b, d') \<Longrightarrow> projection_writes escrow ctx ev d d' \<and> (b \<or> d' = d)"
  by (auto simp: project_funding_offer_created_def Let_def elim!: run_elims) (assumption | rule case_ends | erule case_steps)+

lemma offer_decided_writes:
  "project_offer_decided ctx ev d = Inr (b, d') \<Longrightarrow> projection_writes escrow ctx ev d d' \<and> (b \<or> d' = d)"
  by (auto simp: project_offer_decided_def Let_def is_newer_def elim!: run_elims)
    (assumption | rule case_ends | erule case_steps)+

lemma advance_funded_writes:
  "project_advance_funded ctx ev d = Inr (b, d') \<Longrightarrow> projection_writes escrow ctx ev d d' \<and> (b \<or> d' = d)"
  by (auto simp: project_advance_funded_def Let_def require_milestone_Inr update_offers_Inr
      elim!: run_elims) (assumption | rule case_ends | erule case_steps)+

lemma acceptance_released_writes:
  "project_acceptance_released ctx ev d = Inr (b, d') \<Longrightarrow> projection_writes escrow ctx ev d d' \<and> (b \<or> d' = d)"
  by (auto simp: project_acceptance_released_def Let_def require_milestone_Inr update_offers_Inr
      elim!: run_elims) (assumption | rule case_ends | erule case_steps)+

lemma evidence_submitted_writes:
  "project_evidence_submitted ctx ev d = Inr (b, d') \<Longrightarrow> projection_writes escrow ctx ev d d' \<and> (b \<or> d' = d)"
  by (auto simp: project_evidence_submitted_def Let_def require_milestone_Inr is_newer_def
      elim!: run_elims) (assumption | rule case_ends | erule case_steps)+

lemma milestone_settled_writes:
  "project_milestone_settled ctx ev d = Inr (b, d') \<Longrightarrow> projection_writes True ctx ev d d' \<and> (b \<or> d' = d)"
  by (auto simp: project_milestone_settled_def Let_def require_milestone_Inr elim!: run_elims)
    (assumption | rule case_ends | erule case_steps)+

lemma milestone_refunded_writes:
  "project_milestone_refunded ctx ev d = Inr (b, d') \<Longrightarrow> projection_writes True ctx ev d d' \<and> (b \<or> d' = d)"
  by (auto simp: project_milestone_refunded_def Let_def require_milestone_Inr elim!: run_elims)
    (assumption | rule case_ends | erule case_steps)+

lemma dispute_opened_writes:
  "project_dispute_opened ctx ev d = Inr (b, d') \<Longrightarrow> projection_writes escrow ctx ev d d' \<and> (b \<or> d' = d)"
  by (auto simp: project_dispute_opened_def Let_def require_milestone_Inr elim!: run_elims)
    (assumption | rule case_ends | erule case_steps)+

lemma dispute_resolved_writes:
  "project_dispute_resolved ctx ev d = Inr (b, d') \<Longrightarrow> projection_writes escrow ctx ev d d' \<and> (b \<or> d' = d)"
  by (auto simp: project_dispute_resolved_def Let_def require_milestone_Inr is_newer_def
      elim!: run_elims) (assumption | rule case_ends | erule case_steps)+

text \<open>The events that move a milestone's escrow balance.\<close>

definition moves_escrow :: "decoded_event \<Rightarrow> bool" where
  "moves_escrow ev \<longleftrightarrow>
     eventName ev \<in> {''milestone_funded'', ''partial_funding_cancelled'', ''milestone_settled'',
                     ''milestone_refunded''}"

lemma project_event_writes:
  assumes "project_event ctx ev d = Inr (b, d')"
  shows "projection_writes (moves_escrow ev) ctx ev d d'" and "b \<or> d' = d"
proof -
  have known: "projection_writes (name \<in> {MilestoneFunded, PartialFundingCancelled, MilestoneSettled,
      MilestoneRefunded}) ctx ev d d' \<and> (b \<or> d' = d)"
    if "project_known name ctx ev d = Inr (b, d')" for name
    using that
    by (cases name)
      (simp_all add: order_created_writes order_moved_writes milestone_created_writes
        milestone_funded_writes partial_funding_cancelled_writes finance_requested_writes
        finance_request_cancelled_writes funding_offer_created_writes offer_decided_writes
        advance_funded_writes acceptance_released_writes evidence_submitted_writes
        milestone_verified_writes milestone_settled_writes milestone_refunded_writes
        dispute_opened_writes dispute_resolved_writes)
  have named: "name \<in> {MilestoneFunded, PartialFundingCancelled, MilestoneSettled, MilestoneRefunded}
      \<longleftrightarrow> moves_escrow ev" if "is_milvance_event_name (eventName ev) = Some name" for name
    using that
    by (auto simp: is_milvance_event_name_def MILVANCE_EVENT_NAMES_def moves_escrow_def split: if_splits)
  have "projection_writes (moves_escrow ev) ctx ev d d' \<and> (b \<or> d' = d)"
  proof (cases "known ev \<and> successful ev")
    case True
    with assms obtain name where name: "is_milvance_event_name (eventName ev) = Some name"
      and run: "project_known name ctx ev d = Inr (b, d')"
      by (auto simp: project_event_def split: option.splits)
    show ?thesis using known [OF run] unfolding named [OF name] .
  next
    case False
    with assms show ?thesis by (auto simp: project_event_def split: if_splits)
  qed
  then show "projection_writes (moves_escrow ev) ctx ev d d'" and "b \<or> d' = d" by auto
qed

end
