(* ===== verification/ProjectorProperties.thy ===== *)
theory ProjectorProperties
  imports ProjectionWrites
begin

text \<open>
  What the projector guarantees of the read models, for every event. The invariant
  \<open>db_ok\<close> (the unique indexes and check constraints of the migrations), the isolation of
  scopes and the forward movement of guarded rows are each shown for one statement
  (\<open>projection_write\<close>) and lifted to every projection; the functional behaviour of the
  money-carrying cases follows.
\<close>

section \<open>The read models are well formed\<close>

definition hash_ok :: "milestone_row \<Rightarrow> bool" where
  "hash_ok m \<longleftrightarrow> (case m_evidenceHash m of None \<Rightarrow> True | Some h \<Rightarrow> is_hex64 h)"

text \<open>A position's closing dates agree with its status, and a dispute's with its.\<close>

fun position_dates :: "position_status \<Rightarrow> int option \<Rightarrow> int option \<Rightarrow> bool" where
  "position_dates PS_ACTIVE repaidAt closedAt = (repaidAt = None \<and> closedAt = None)"
| "position_dates PS_REPAID repaidAt closedAt = (repaidAt \<noteq> None \<and> closedAt = None)"
| "position_dates PS_CLOSED repaidAt closedAt = (repaidAt = None \<and> closedAt \<noteq> None)"

definition position_state_ok :: "position_row \<Rightarrow> bool" where
  "position_state_ok p \<longleftrightarrow> position_dates (p_status p) (p_repaidAt p) (p_closedAt p)"

definition dispute_state_ok :: "dispute_row \<Rightarrow> bool" where
  "dispute_state_ok r \<longleftrightarrow>
     (d_status r = DS_OPEN \<longleftrightarrow> d_resolvedAt r = None)
   \<and> (d_resolvedAt r = None \<longleftrightarrow> d_resolvedTxHash r = None)"

definition db_ok :: "db \<Rightarrow> bool" where
  "db_ok d \<longleftrightarrow>
     distinct_keys order_key (orders d) \<and> distinct_keys milestone_key (milestones d)
   \<and> distinct_keys request_key (requests d) \<and> distinct_keys offer_key (offers d)
   \<and> distinct_keys position_key (positions d) \<and> distinct_keys dispute_key (disputes d)
   \<and> distinct_keys settlement_key (settlements d) \<and> distinct_keys refund_key (refunds d)
   \<and> distinct_keys anchor_key (evidence_anchors d)
   \<and> list_all (\<lambda>m. funded_within_amount m \<and> hash_ok m) (milestones d)
   \<and> one_active_per_milestone (positions d)
   \<and> list_all position_state_ok (positions d) \<and> list_all dispute_state_ok (disputes d)
   \<and> list_all (\<lambda>a. is_hex64 (a_contentHash a)) (evidence_anchors d)"

lemma hash_ok_iff: "hash_ok m \<longleftrightarrow> (\<forall>h. m_evidenceHash m = Some h \<longrightarrow> is_hex64 h)"
  by (simp add: hash_ok_def split: option.split)

lemma state_update_keeps:
  assumes "state_update escrow upd"
  shows "milestone_terms (stamp_milestone ev (upd r)) = milestone_terms r"
    and "milestone_key (stamp_milestone ev (upd r)) = milestone_key r"
    and "hash_ok r \<Longrightarrow> hash_ok (stamp_milestone ev (upd r))"
    and "m_lastEventId (stamp_milestone ev (upd r)) = eventId ev"
  using assms
  by (auto simp: state_update_def milestone_terms_def milestone_key_def stamp_milestone_def hash_ok_iff)

lemma request_update_keeps:
  "request_update upd \<Longrightarrow> request_key (stamp_request ev (upd r)) = request_key r"
  "q_lastEventId (stamp_request ev (upd r)) = eventId ev"
  by (auto simp: request_update_def request_key_def stamp_request_def)

lemma distinct_keys_update_rows:
  "(\<And>r. key (f r) = key r) \<Longrightarrow> distinct_keys key (update_rows P f t) = distinct_keys key t"
  by (simp add: distinct_keys_def update_rows_def comp_def if_distrib cong: if_cong)

lemma distinct_keys_update_row:
  "(\<And>r. key (f r) = key r) \<Longrightarrow> distinct_keys key (update_row key k f t) = distinct_keys key t"
  by (simp add: update_row_def distinct_keys_update_rows)

lemma distinct_keys_append:
  "distinct_keys key t \<Longrightarrow> find_row key (key r) t = None \<Longrightarrow> distinct_keys key (t @ [r])"
  by (auto simp: distinct_keys_def find_row_None)

lemma distinct_keys_insert_if_absent:
  "distinct_keys key t \<Longrightarrow> distinct_keys key (insert_if_absent key r t)"
  by (simp add: insert_if_absent_def distinct_keys_append)

lemma list_all_update_row:
  "list_all Q t \<Longrightarrow> list_all (\<lambda>r. key r = k \<and> Q r \<longrightarrow> Q (f r)) t \<Longrightarrow> list_all Q (update_row key k f t)"
  by (auto simp: list_all_iff update_row_def update_rows_def)

lemma in_update_row:
  assumes "r \<in> set (update_row key k f t)"
  obtains "r \<in> set t" | r0 where "r0 \<in> set t" "key r0 = k" "r = f r0"
  using assms by (auto simp: update_row_def update_rows_def split: if_splits)

lemma list_all_insert_if_absent:
  "list_all Q t \<Longrightarrow> (find_row key (key r) t = None \<Longrightarrow> Q r) \<Longrightarrow> list_all Q (insert_if_absent key r t)"
  by (auto simp: insert_if_absent_def)

lemma list_all_update_rows:
  "list_all Q t \<Longrightarrow> (\<And>r. P r \<Longrightarrow> Q r \<Longrightarrow> Q (f r)) \<Longrightarrow> list_all Q (update_rows P f t)"
  by (auto simp: list_all_iff update_rows_def)

lemma active_position_closes:
  assumes "is_active_on ctx i p" and "position_state_ok p"
  shows "position_state_ok (stamp_position ev (p\<lparr>p_status := PS_REPAID, p_repaidAt := Some t\<rparr>))"
    and "position_state_ok (stamp_position ev (p\<lparr>p_status := PS_CLOSED, p_closedAt := Some t\<rparr>))"
  using assms by (auto simp: is_active_on_def position_state_ok_def stamp_position_def)

lemma count_rows_le:
  "(\<And>r. r \<in> set t \<Longrightarrow> P (f r) \<Longrightarrow> P r) \<Longrightarrow> count_rows P (map f t) \<le> count_rows P t"
  by (induction t) (auto simp: count_rows_def le_SucI)

lemma one_active_deactivate:
  assumes "one_active_per_milestone ps"
    and "\<And>p. p_status (f p) \<noteq> PS_ACTIVE"
  shows "one_active_per_milestone (update_rows P f ps)"
  unfolding one_active_per_milestone_def
proof (intro allI)
  fix ctx mid
  have "count_rows (is_active_on ctx mid) (update_rows P f ps) \<le> count_rows (is_active_on ctx mid) ps"
    unfolding update_rows_def
    by (rule count_rows_le) (auto simp: is_active_on_def assms(2) split: if_splits)
  also have "\<dots> \<le> 1" using assms(1) by (simp add: one_active_per_milestone_def)
  finally show "count_rows (is_active_on ctx mid) (update_rows P f ps) \<le> 1" .
qed

lemma one_active_append:
  assumes "one_active_per_milestone ps"
    and "p_status p = PS_ACTIVE \<Longrightarrow> count_rows (is_active_on (p_ctx p) (p_milestoneId p)) ps = 0"
  shows "one_active_per_milestone (ps @ [p])"
  using assms by (fastforce simp: one_active_per_milestone_def count_rows_def is_active_on_def)

lemmas key_defs = order_key_def milestone_key_def request_key_def offer_key_def position_key_def
  dispute_key_def settlement_key_def refund_key_def anchor_key_def

lemma projection_write_ok:
  assumes "projection_write escrow ctx ev d d'" and "db_ok d"
  shows "db_ok d'"
  using assms
proof (induction rule: projection_write.induct)
  case (milestone_moved i d m upd d')
  note keeps = state_update_keeps [OF \<open>state_update escrow upd\<close>, where ev = ev]
  from milestone_moved show ?case
    by (auto simp: update_milestone_def db_ok_def distinct_keys_update_row keeps list_all_iff
        elim!: in_update_row split: if_splits)
next
  case (request_moved i d q rupd d')
  then show ?case
    by (auto simp: update_request_def db_ok_def distinct_keys_update_row request_update_keeps)
next
  case milestone_upserted
  then show ?case
    by (auto simp: upsert_milestone_def db_ok_def hash_ok_def distinct_keys_insert_if_absent
        intro!: list_all_insert_if_absent split: if_splits)
next
  case anchor_moved
  then show ?case
    by (auto simp: update_anchor_def db_ok_def key_defs list_all_iff
        intro!: distinct_keys_update_row [THEN iffD2] elim!: in_update_row)
next
  case position_upserted
  then show ?case
    by (auto simp: upsert_position_def db_ok_def distinct_keys_append
        intro!: one_active_append split: if_splits) (simp add: position_state_ok_def)
next
  case positions_repaid
  then show ?case
    by (auto simp: update_active_positions_def db_ok_def distinct_keys_update_rows key_defs stamp_defs
        intro!: one_active_deactivate list_all_update_rows
        elim: active_position_closes [unfolded stamp_position_def, simplified])
next
  case positions_closed
  then show ?case
    by (auto simp: update_active_positions_def db_ok_def distinct_keys_update_rows key_defs stamp_defs
        intro!: one_active_deactivate list_all_update_rows
        elim: active_position_closes [unfolded stamp_position_def, simplified])
next
  case dispute_upserted
  then show ?case
    by (auto simp: upsert_dispute_def db_ok_def distinct_keys_insert_if_absent dispute_state_ok_def
        intro!: list_all_insert_if_absent)
next
  case dispute_moved
  then show ?case
    by (auto simp: update_dispute_def db_ok_def key_defs stamp_defs dispute_state_ok_def list_all_iff
        intro!: distinct_keys_update_row [THEN iffD2] elim!: in_update_row)
qed (auto simp: statement_defs db_ok_def distinct_keys_update_row distinct_keys_insert_if_absent
    distinct_keys_append result_simps key_defs [abs_def] stamp_defs)

lemma projection_writes_ok:
  "projection_writes escrow ctx ev d d' \<Longrightarrow> db_ok d \<Longrightarrow> db_ok d'"
  by (induction rule: rtranclp_induct) (auto intro: projection_write_ok)

lemma projection_preserves_ok:
  "project_event ctx ev d = Inr (b, d') \<Longrightarrow> db_ok d \<Longrightarrow> db_ok d'"
  by (drule project_event_writes(1), rule projection_writes_ok)

section \<open>Scopes are isolated\<close>

text \<open>The rows of the projected tables that belong to another network or contract.\<close>

definition rows_outside :: "projection_context \<Rightarrow> db \<Rightarrow> db" where
  "rows_outside ctx d =
     d\<lparr>orders := filter (\<lambda>r. o_ctx r \<noteq> ctx) (orders d),
       milestones := filter (\<lambda>r. m_ctx r \<noteq> ctx) (milestones d),
       requests := filter (\<lambda>r. q_ctx r \<noteq> ctx) (requests d),
       offers := filter (\<lambda>r. f_ctx r \<noteq> ctx) (offers d),
       positions := filter (\<lambda>r. p_ctx r \<noteq> ctx) (positions d),
       disputes := filter (\<lambda>r. d_ctx r \<noteq> ctx) (disputes d),
       settlements := filter (\<lambda>r. s_ctx r \<noteq> ctx) (settlements d),
       refunds := filter (\<lambda>r. r_ctx r \<noteq> ctx) (refunds d),
       evidence_objects := filter (\<lambda>r. e_ctx r \<noteq> ctx) (evidence_objects d),
       evidence_anchors := filter (\<lambda>r. a_ctx r \<noteq> ctx) (evidence_anchors d)\<rparr>"

lemma filter_update_rows:
  "(\<And>r. r \<in> set t \<Longrightarrow> P r \<Longrightarrow> \<not> Q r) \<Longrightarrow> (\<And>r. r \<in> set t \<Longrightarrow> P r \<Longrightarrow> \<not> Q (f r))
   \<Longrightarrow> filter Q (update_rows P f t) = filter Q t"
  by (induction t) (auto simp: update_rows_def)

lemma scope_update_rows:
  assumes "\<forall>r. P r \<longrightarrow> c r = ctx \<and> c (f r) = ctx"
  shows "filter (\<lambda>r. c r \<noteq> ctx) (update_rows P f t) = filter (\<lambda>r. c r \<noteq> ctx) t"
  using assms by (simp add: filter_update_rows)

lemma scope_update_row:
  assumes "\<forall>r. key r = k \<longrightarrow> c r = ctx \<and> c (f r) = ctx"
  shows "filter (\<lambda>r. c r \<noteq> ctx) (update_row key k f t) = filter (\<lambda>r. c r \<noteq> ctx) t"
  using assms by (simp add: update_row_def filter_update_rows)

lemma filter_insert_if_absent: "\<not> Q r \<Longrightarrow> filter Q (insert_if_absent key r t) = filter Q t"
  by (simp add: insert_if_absent_def)

lemma projection_write_scope:
  assumes "projection_write escrow ctx ev d d'"
  shows "rows_outside ctx d' = rows_outside ctx d"
  using assms
proof (induction rule: projection_write.induct)
  case (milestone_moved i d m upd d')
  have "m_ctx r = ctx" "m_ctx (stamp_milestone ev (upd r)) = ctx" if "milestone_key r = (ctx, i)" for r
    using that \<open>state_update escrow upd\<close>
    by (auto simp: state_update_def milestone_terms_def stamp_milestone_def milestone_key_def)
  with milestone_moved show ?case
    by (auto simp: update_milestone_def rows_outside_def scope_update_row split: if_splits)
next
  case (request_moved i d q rupd d')
  have "q_ctx r = ctx" "q_ctx (stamp_request ev (rupd r)) = ctx" if "request_key r = (ctx, i)" for r
    using that \<open>request_update rupd\<close>
    by (auto simp: request_update_def stamp_request_def request_key_def)
  with request_moved show ?case
    by (auto simp: update_request_def rows_outside_def scope_update_row)
qed (auto simp: statement_defs rows_outside_def scope_update_row scope_update_rows
    filter_insert_if_absent result_simps key_defs stamp_defs is_active_on_def split: if_splits)

lemma projection_stays_in_scope:
  assumes "project_event ctx ev d = Inr (b, d')"
  shows "rows_outside ctx d' = rows_outside ctx d"
  using project_event_writes(1) [OF assms]
  by (induction rule: rtranclp_induct) (simp_all add: projection_write_scope)

section \<open>Guarded rows only move forward\<close>

definition moved_forward :: "('r \<Rightarrow> string) \<Rightarrow> string \<Rightarrow> 'r option \<Rightarrow> 'r option \<Rightarrow> bool" where
  "moved_forward stamp_of ev before after \<longleftrightarrow>
     (case before of
        None \<Rightarrow> True
      | Some r \<Rightarrow> (case after of
            None \<Rightarrow> False
          | Some r' \<Rightarrow> r' = r \<or> (stamp_of r < ev \<and> stamp_of r' = ev)))"

lemma moved_forward_trans:
  "moved_forward s ev x y \<Longrightarrow> moved_forward s ev y z \<Longrightarrow> moved_forward s ev x z"
  by (auto simp: moved_forward_def split: option.splits)

lemma moved_forward_refl [simp]: "moved_forward s ev x x"
  by (auto simp: moved_forward_def split: option.splits)

lemma moved_forward_append:
  "moved_forward s ev (find_row key k t) (find_row key k (t @ [r]))"
  by (auto simp: moved_forward_def find_row_append split: option.splits)

lemma moved_forward_insert_if_absent:
  "moved_forward s ev (find_row key k t) (find_row key k (insert_if_absent key r t))"
  by (simp add: insert_if_absent_def moved_forward_append)

lemma moved_forward_update:
  assumes "find_row key k t = Some r0" and "s r0 < ev"
    and "\<And>r. key (f r) = key r" and "\<And>r. s (f r) = ev"
  shows "moved_forward s ev (find_row key k' t) (find_row key k' (update_row key k f t))"
  using assms find_row_update_row [of key f k' k t, OF assms(3)]
  by (auto simp: moved_forward_def split: option.splits)

definition rows_moved_forward :: "string \<Rightarrow> db \<Rightarrow> db \<Rightarrow> bool" where
  "rows_moved_forward ev d d' \<longleftrightarrow>
     (\<forall>c i. moved_forward o_lastEventId ev (find_order c i d) (find_order c i d')
          \<and> moved_forward m_lastEventId ev (find_milestone c i d) (find_milestone c i d')
          \<and> moved_forward q_lastEventId ev (find_request c i d) (find_request c i d')
          \<and> moved_forward d_lastEventId ev (find_dispute c i d) (find_dispute c i d')
          \<and> moved_forward a_lastEventId ev (find_anchor c i d) (find_anchor c i d'))"

lemma projection_write_forward:
  assumes "projection_write escrow ctx ev d d'"
  shows "rows_moved_forward (eventId ev) d d'"
  using assms
proof (induction rule: projection_write.induct)
  case milestone_moved
  then show ?case
    by (auto simp: update_milestone_def rows_moved_forward_def finder_defs state_update_keeps
        intro!: moved_forward_update split: if_splits)
next
  case request_moved
  then show ?case
    by (auto simp: update_request_def rows_moved_forward_def finder_defs request_update_keeps
        intro!: moved_forward_update)
qed (auto simp: statement_defs rows_moved_forward_def finder_defs result_simps key_defs [abs_def]
    stamp_defs moved_forward_append moved_forward_insert_if_absent
    intro!: moved_forward_update split: if_splits)

lemma projection_moves_forward:
  assumes "project_event ctx ev d = Inr (b, d')"
  shows "rows_moved_forward (eventId ev) d d'"
  using project_event_writes(1) [OF assms]
proof (induction rule: rtranclp_induct)
  case base
  then show ?case by (simp add: rows_moved_forward_def)
next
  case (step y z)
  then show ?case
    using projection_write_forward [of _ ctx ev y z] unfolding rows_moved_forward_def
    by (blast intro: moved_forward_trans)
qed

section \<open>History is kept\<close>

text \<open>
  Settlements and refunds are only appended, a position that is no longer active never
  changes, and nothing a milestone's creation wrote is altered.
\<close>

definition position_kept :: "position_row \<Rightarrow> position_row \<Rightarrow> bool" where
  "position_kept p p' \<longleftrightarrow>
     p' = p
   \<or> (p_status p = PS_ACTIVE \<and> p_status p' \<noteq> PS_ACTIVE \<and> position_key p' = position_key p
      \<and> p_funder p' = p_funder p \<and> p_principal p' = p_principal p
      \<and> p_repayment p' = p_repayment p)"

definition kept_rows :: "('r \<Rightarrow> 'r \<Rightarrow> bool) \<Rightarrow> 'r list \<Rightarrow> 'r list \<Rightarrow> bool" where
  "kept_rows R t t' \<longleftrightarrow> list_all2 R t (take (length t) t')"

definition history_kept :: "db \<Rightarrow> db \<Rightarrow> bool" where
  "history_kept d d' \<longleftrightarrow>
     kept_rows (=) (settlements d) (settlements d')
   \<and> kept_rows (=) (refunds d) (refunds d')
   \<and> kept_rows position_kept (positions d) (positions d')
   \<and> kept_rows (\<lambda>m m'. milestone_terms m' = milestone_terms m) (milestones d) (milestones d')"

lemma position_kept_refl [simp]: "position_kept p p"
  by (simp add: position_kept_def)

lemma position_kept_trans: "position_kept p q \<Longrightarrow> position_kept q r \<Longrightarrow> position_kept p r"
  by (auto simp: position_kept_def)

lemma kept_rows_append: "(\<And>r. R r r) \<Longrightarrow> kept_rows R t (t @ new)"
  by (simp add: kept_rows_def list_all2_refl)

lemma kept_rows_refl: "(\<And>r. R r r) \<Longrightarrow> kept_rows R t t"
  by (simp add: kept_rows_def list_all2_refl)

lemma kept_rows_insert_if_absent: "(\<And>r. R r r) \<Longrightarrow> kept_rows R t (insert_if_absent key r t)"
  by (simp add: insert_if_absent_def kept_rows_append kept_rows_refl)

lemma kept_rows_update_rows:
  "(\<And>r. P r \<Longrightarrow> R r (f r)) \<Longrightarrow> (\<And>r. R r r) \<Longrightarrow> kept_rows R t (update_rows P f t)"
  by (auto simp: kept_rows_def update_rows_def list_all2_map2 intro: list_all2_refl)

lemma kept_rows_trans:
  assumes "kept_rows R x y" and "kept_rows R y z" and "\<And>p q r. R p q \<Longrightarrow> R q r \<Longrightarrow> R p r"
  shows "kept_rows R x z"
proof -
  have len: "length x \<le> length y" "length y \<le> length z"
    using assms(1,2) by (auto simp: kept_rows_def dest: list_all2_lengthD)
  have "list_all2 R (take (length x) y) (take (length x) z)"
    using assms(2) list_all2_takeI [of R y "take (length y) z" "length x"] len
    by (simp add: kept_rows_def min_absorb1)
  with assms(1) show ?thesis
    unfolding kept_rows_def by (rule list_all2_trans [rotated, OF _ _]) (fact assms(3))
qed

lemma history_kept_refl [simp]: "history_kept d d"
  by (simp add: history_kept_def kept_rows_refl)

lemma history_kept_trans: "history_kept x y \<Longrightarrow> history_kept y z \<Longrightarrow> history_kept x z"
  by (auto simp: history_kept_def elim!: kept_rows_trans elim: position_kept_trans)

lemma projection_write_history:
  assumes "projection_write escrow ctx ev d d'"
  shows "history_kept d d'"
  using assms
proof (induction rule: projection_write.induct)
  case milestone_moved
  then show ?case
    by (auto simp: update_milestone_def history_kept_def kept_rows_refl update_row_def
        state_update_keeps intro!: kept_rows_update_rows split: if_splits)
next
  case positions_repaid
  then show ?case
    by (auto simp: update_active_positions_def history_kept_def kept_rows_refl position_kept_def
        key_defs stamp_defs is_active_on_def intro!: kept_rows_update_rows)
next
  case positions_closed
  then show ?case
    by (auto simp: update_active_positions_def history_kept_def kept_rows_refl position_kept_def
        key_defs stamp_defs is_active_on_def intro!: kept_rows_update_rows)
qed (auto simp: statement_defs history_kept_def kept_rows_refl kept_rows_append
    kept_rows_insert_if_absent result_simps split: if_splits)

lemma projection_keeps_history:
  assumes "project_event ctx ev d = Inr (b, d')"
  shows "history_kept d d'"
  using project_event_writes(1) [OF assms]
  by (induction rule: rtranclp_induct) (auto intro: history_kept_trans projection_write_history)

section \<open>Escrow\<close>

text \<open>Every milestone the projector already knows keeps its escrow balance.\<close>

definition escrow_kept :: "db \<Rightarrow> db \<Rightarrow> bool" where
  "escrow_kept d d' \<longleftrightarrow>
     kept_rows (\<lambda>m m'. milestone_key m' = milestone_key m \<and> m_fundedAmount m' = m_fundedAmount m)
       (milestones d) (milestones d')"

lemma projection_write_escrow:
  assumes "projection_write False ctx ev d d'"
  shows "escrow_kept d d'"
  using assms
proof (induction rule: projection_write.induct)
  case (milestone_moved i d m upd d')
  then have "m_fundedAmount (stamp_milestone ev (upd r)) = m_fundedAmount r" for r
    by (simp add: state_update_def stamp_milestone_def)
  with milestone_moved show ?case
    by (auto simp: update_milestone_def escrow_kept_def update_row_def state_update_keeps
        intro!: kept_rows_update_rows split: if_splits)
qed (auto simp: statement_defs escrow_kept_def kept_rows_refl kept_rows_append
    kept_rows_insert_if_absent result_simps split: if_splits)

lemma projection_keeps_escrow:
  assumes "project_event ctx ev d = Inr (b, d')" and "\<not> moves_escrow ev"
  shows "escrow_kept d d'"
proof -
  have "projection_writes False ctx ev d d'"
    using project_event_writes(1) [OF assms(1)] assms(2) by simp
  then show ?thesis
  proof (induction rule: rtranclp_induct)
    case base
    then show ?case by (simp add: escrow_kept_def kept_rows_refl)
  next
    case (step y z)
    then show ?case
      using projection_write_escrow [OF step.hyps(2)] unfolding escrow_kept_def
      by (auto elim!: kept_rows_trans)
  qed
qed

end
