(* ===== verification/MoneyEvents.thy ===== *)
theory MoneyEvents
  imports ProjectorProperties
begin

text \<open>
  What the cases that carry money do to the read models: settling, refunding and financing a
  milestone, and releasing an accepted offer. Each is described by the rows it leaves, on the
  path where it returns; the last section shows what redelivering such an event does.
\<close>

section \<open>Reading back after a statement\<close>

lemma find_updated_milestone:
  assumes "update_milestone ctx i f d = Inr d'" and "\<And>m. milestone_key (f m) = milestone_key m"
    and "find_milestone ctx i d = Some m"
  shows "find_milestone ctx i d' = Some (f m)"
  using assms milestone_table.lookup_modify [OF assms(2), of "(ctx, i)" "(ctx, i)" "milestones d"]
  by (auto simp: update_milestone_def find_milestone_def split: if_splits)

lemma find_advanced_milestone:
  assumes "advance_milestone ctx ev m upd d = Inr d'" and "find_milestone ctx i d = Some m"
    and "state_update escrow upd"
  shows "find_milestone ctx i d' =
    Some (if m_lastEventId m < eventId ev then stamp_milestone ev (upd m) else m)"
  using assms find_key(2) [OF assms(2)]
    find_updated_milestone [of ctx i "stamp_milestone ev \<circ> upd" d d' m]
    state_update_keeps(2) [OF assms(3), of ev]
  by (auto simp: advance_milestone_def is_newer_def split: if_splits)

lemma advance_milestone_tables:
  assumes "advance_milestone ctx ev m upd d = Inr d'"
  shows "orders d' = orders d" and "requests d' = requests d" and "offers d' = offers d"
    and "positions d' = positions d" and "settlements d' = settlements d"
    and "refunds d' = refunds d" and "disputes d' = disputes d"
  using assms by (auto simp: advance_milestone_def update_milestone_def split: if_splits)

lemma find_insert_if_absent: "\<exists>r'. find_row key (key r) (insert_if_absent key r t) = Some r'"
  by (cases "find_row key (key r) t")
    (auto simp: insert_if_absent_def find_row_append find_row_Cons)

lemma count_rows_None: "count_rows (\<lambda>r. key r = k) t = 0 \<longleftrightarrow> k \<notin> key ` set t"
  by (auto simp: count_rows_def filter_empty_conv image_iff)

lemma count_rows_deactivated:
  assumes "\<And>p. p_status (f p) \<noteq> PS_ACTIVE"
  shows "count_rows (is_active_on c i) (update_rows (is_active_on c i) f ps) = 0"
  unfolding count_rows_def update_rows_def
  by (auto simp: filter_empty_conv is_active_on_def assms)

section \<open>Settlement\<close>

lemma settled_outcome:
  assumes "project_milestone_settled ctx ev d = Inr (b, d')"
    and "u64 (ev_fields ev) ''milestone_id'' = Inr mid"
    and "i128 (ev_fields ev) ''funder_repayment'' = Inr repayment"
    and "find_milestone ctx mid d = Some m"
  shows "b"
    and "find_milestone ctx mid d' =
      Some (if m_lastEventId m < eventId ev
            then stamp_milestone ev (m\<lparr>m_status := SETTLED, m_fundedAmount := 0\<rparr>) else m)"
    and "find_row settlement_key (ctx, mid) (settlements d') \<noteq> None"
    and "0 < repayment \<Longrightarrow> count_rows (is_active_on ctx mid) (positions d) = 1"
    and "0 < repayment \<Longrightarrow> count_rows (is_active_on ctx mid) (positions d') = 0"
    and "repayment \<le> 0 \<Longrightarrow> positions d' = positions d"
    and "orders d' = orders d" and "offers d' = offers d" and "requests d' = requests d"
proof -
  from assms obtain s d1 d2 where b: b and s: "settlement_key s = (ctx, mid)"
    and d1: "upsert_settlement s d = Inr d1"
    and d2: "advance_milestone ctx ev m (\<lambda>m. m\<lparr>m_status := SETTLED, m_fundedAmount := 0\<rparr>) d1 = Inr d2"
    and last: "0 < repayment \<and> count_rows (is_active_on ctx mid) (positions d2) = 1
        \<and> d' = d2\<lparr>positions := update_rows (is_active_on ctx mid)
             (\<lambda>p. stamp_position ev (p\<lparr>p_status := PS_REPAID, p_repaidAt := Some (ledgerClosedAt ev)\<rparr>))
             (positions d2)\<rparr>
      \<or> repayment \<le> 0 \<and> d' = d2"
    unfolding project_milestone_settled_def Let_def
    by (force simp: require_milestone_Inr update_active_positions_def settlement_key_def elim!: run_elims)
  note unchanged = advance_milestone_tables [OF d2]
  have d1': "d1 = d\<lparr>settlements := insert_if_absent settlement_key s (settlements d)\<rparr>"
    using d1 by (simp add: upsert_settlement_def)
  have m: "find_milestone ctx mid d1 = Some m"
    using assms(4) by (simp add: d1' find_milestone_def)
  show b by (fact b)
  show "find_milestone ctx mid d' =
      Some (if m_lastEventId m < eventId ev
            then stamp_milestone ev (m\<lparr>m_status := SETTLED, m_fundedAmount := 0\<rparr>) else m)"
    using find_advanced_milestone [OF d2 m state_updates(2)] last by (auto simp: find_milestone_def)
  show "find_row settlement_key (ctx, mid) (settlements d') \<noteq> None"
    using find_insert_if_absent [of settlement_key s "settlements d"] s last
    by (auto simp: unchanged d1')
  show "0 < repayment \<Longrightarrow> count_rows (is_active_on ctx mid) (positions d) = 1"
    and "0 < repayment \<Longrightarrow> count_rows (is_active_on ctx mid) (positions d') = 0"
    and "repayment \<le> 0 \<Longrightarrow> positions d' = positions d"
    and "orders d' = orders d" and "offers d' = offers d" and "requests d' = requests d"
    using last by (auto simp: unchanged d1' stamp_position_def count_rows_deactivated)
qed

section \<open>Refund\<close>

lemma refunded_outcome:
  assumes "project_milestone_refunded ctx ev d = Inr (b, d')"
    and "u64 (ev_fields ev) ''milestone_id'' = Inr mid"
    and "i128 (ev_fields ev) ''funder_advance_outstanding'' = Inr outstanding"
    and "find_milestone ctx mid d = Some m"
  shows "b"
    and "find_milestone ctx mid d' =
      Some (if m_lastEventId m < eventId ev
            then stamp_milestone ev (m\<lparr>m_status := REFUNDED, m_fundedAmount := 0\<rparr>) else m)"
    and "find_row refund_key (ctx, mid) (refunds d') \<noteq> None"
    and "count_rows (is_active_on ctx mid) (positions d) = (if 0 < outstanding then 1 else 0)"
    and "count_rows (is_active_on ctx mid) (positions d') = 0"
    and "orders d' = orders d" and "offers d' = offers d" and "requests d' = requests d"
    and "settlements d' = settlements d"
proof -
  from assms obtain s d1 d2 where b: b and s: "refund_key s = (ctx, mid)"
    and d1: "upsert_refund s d = Inr d1"
    and d2: "advance_milestone ctx ev m (\<lambda>m. m\<lparr>m_status := REFUNDED, m_fundedAmount := 0\<rparr>) d1 = Inr d2"
    and cnt: "count_rows (is_active_on ctx mid) (positions d2) = (if 0 < outstanding then 1 else 0)"
    and last: "d' = d2\<lparr>positions := update_rows (is_active_on ctx mid)
             (\<lambda>p. stamp_position ev (p\<lparr>p_status := PS_CLOSED, p_closedAt := Some (ledgerClosedAt ev)\<rparr>))
             (positions d2)\<rparr>"
    unfolding project_milestone_refunded_def Let_def
    by (force simp: require_milestone_Inr update_active_positions_def refund_key_def elim!: run_elims)
  note unchanged = advance_milestone_tables [OF d2]
  have d1': "d1 = d\<lparr>refunds := insert_if_absent refund_key s (refunds d)\<rparr>"
    using d1 by (simp add: upsert_refund_def)
  have m: "find_milestone ctx mid d1 = Some m"
    using assms(4) by (simp add: d1' find_milestone_def)
  show b by (fact b)
  show "find_milestone ctx mid d' =
      Some (if m_lastEventId m < eventId ev
            then stamp_milestone ev (m\<lparr>m_status := REFUNDED, m_fundedAmount := 0\<rparr>) else m)"
    using find_advanced_milestone [OF d2 m state_updates(2)] last by (auto simp: find_milestone_def)
  show "find_row refund_key (ctx, mid) (refunds d') \<noteq> None"
    using find_insert_if_absent [of refund_key s "refunds d"] s last by (auto simp: unchanged d1')
  show "count_rows (is_active_on ctx mid) (positions d) = (if 0 < outstanding then 1 else 0)"
    and "count_rows (is_active_on ctx mid) (positions d') = 0"
    and "orders d' = orders d" and "offers d' = offers d" and "requests d' = requests d"
    and "settlements d' = settlements d"
    using last cnt by (auto simp: unchanged d1' stamp_position_def count_rows_deactivated)
qed

section \<open>Financing\<close>

lemma advance_funded_outcome:
  assumes "project_advance_funded ctx ev d = Inr (b, d')"
    and "u64 (ev_fields ev) ''milestone_id'' = Inr mid"
    and "u64 (ev_fields ev) ''offer_id'' = Inr oid"
    and "find_milestone ctx mid d = Some m"
    and "find_row position_key (ctx, mid, oid) (positions d) = None"
  shows "b"
    and "find_milestone ctx mid d' =
      Some (if m_lastEventId m < eventId ev then stamp_milestone ev (m\<lparr>m_status := FINANCED\<rparr>) else m)"
    and "count_rows (is_active_on ctx mid) (positions d) = 0"
    and "count_rows (is_active_on ctx mid) (positions d') = 1"
    and "\<exists>f. find_offer ctx oid d = Some f \<and> find_offer ctx oid d' = Some (stamp_offer ev (f\<lparr>f_status := OF_FUNDED\<rparr>))"
    and "orders d' = orders d" and "requests d' = requests d" and "settlements d' = settlements d"
    and "refunds d' = refunds d"
proof -
  from assms obtain p d1 d2 where b: b
    and p: "position_key p = (ctx, mid, oid)" "p_ctx p = ctx" "p_milestoneId p = mid" "p_status p = PS_ACTIVE"
    and d1: "upsert_position p d = Inr d1"
    and d2: "update_offer ctx oid (\<lambda>r. stamp_offer ev (r\<lparr>f_status := OF_FUNDED\<rparr>)) d1 = Inr d2"
    and cnt: "count_rows (\<lambda>r. offer_key r = (ctx, oid)) (offers d1) = 1"
    and last: "advance_milestone ctx ev m (\<lambda>m. m\<lparr>m_status := FINANCED\<rparr>) d2 = Inr d'"
    unfolding project_advance_funded_def Let_def
    by (force simp: require_milestone_Inr update_offers_Inr position_key_def elim!: run_elims)
  note unchanged = advance_milestone_tables [OF last]
  have d1': "d1 = d\<lparr>positions := positions d @ [p]\<rparr>"
    and none: "count_rows (is_active_on ctx mid) (positions d) = 0"
    using d1 p assms(5) by (auto simp: upsert_position_def split: if_splits)
  have d2': "d2 = d1\<lparr>offers := update_row offer_key (ctx, oid)
      (\<lambda>r. stamp_offer ev (r\<lparr>f_status := OF_FUNDED\<rparr>)) (offers d1)\<rparr>"
    using d2 by (simp add: update_offer_def)
  have m: "find_milestone ctx mid d2 = Some m"
    using assms(4) by (simp add: d2' d1' find_milestone_def)
  show b by (fact b)
  show "find_milestone ctx mid d' =
      Some (if m_lastEventId m < eventId ev then stamp_milestone ev (m\<lparr>m_status := FINANCED\<rparr>) else m)"
    by (rule find_advanced_milestone [OF last m state_updates(1)])
  show "count_rows (is_active_on ctx mid) (positions d) = 0" by (fact none)
  then show "count_rows (is_active_on ctx mid) (positions d') = 1"
    using p by (simp add: unchanged d2' d1' count_rows_def is_active_on_def)
  have "find_row offer_key (ctx, oid) (offers d1) \<noteq> None"
    using cnt by (auto simp: find_row_None count_rows_None [symmetric])
  then show "\<exists>f. find_offer ctx oid d = Some f
      \<and> find_offer ctx oid d' = Some (stamp_offer ev (f\<lparr>f_status := OF_FUNDED\<rparr>))"
    by (auto simp: find_offer_def unchanged d2' d1' offer_key_def stamp_offer_def
        offer_table.lookup_modify)
  show "orders d' = orders d" and "requests d' = requests d" and "settlements d' = settlements d"
    and "refunds d' = refunds d"
    by (simp_all add: unchanged d2' d1')
qed

section \<open>Redelivery\<close>

text \<open>
  A financed settlement cannot be projected twice: after the first run the milestone has no
  active position, and the second run throws instead of doing nothing.
\<close>

lemma settled_again:
  assumes run: "project_milestone_settled ctx ev d = Inr (b, d')"
    and mid: "u64 (ev_fields ev) ''milestone_id'' = Inr mid"
    and repay: "i128 (ev_fields ev) ''funder_repayment'' = Inr repayment" and "0 < repayment"
  shows "project_milestone_settled ctx ev d' = Inl (NoActivePosition mid)"
proof -
  from run mid obtain m oid pa sp where m: "find_milestone ctx mid d = Some m"
    and fields: "u64 (ev_fields ev) ''order_id'' = Inr oid"
      "i128 (ev_fields ev) ''protected_amount'' = Inr pa"
      "i128 (ev_fields ev) ''supplier_payout'' = Inr sp"
    unfolding project_milestone_settled_def Let_def by (force simp: require_milestone_Inr elim!: run_elims)
  note outcome = settled_outcome [OF run mid repay m]
  obtain m' where m': "find_milestone ctx mid d' = Some m'" and "\<not> m_lastEventId m' < eventId ev"
    using outcome(2) by (auto simp: stamp_milestone_def split: if_splits)
  moreover have "count_rows (is_active_on ctx mid) (positions d') = 0"
    using outcome(5) \<open>0 < repayment\<close> .
  ultimately show ?thesis
    using mid repay fields \<open>0 < repayment\<close>
    by (simp add: project_milestone_settled_def Let_def require_milestone_def upsert_settlement_def
        advance_milestone_def is_newer_def update_active_positions_def)
qed

text \<open>
  The offer an advance funds is stamped without a comparison: a redelivered older
  \<open>acceptance_released\<close> overwrites a newer status and moves the stamp back.
\<close>

lemma released_outcome:
  assumes "project_acceptance_released ctx ev d = Inr (b, d')"
    and "u64 (ev_fields ev) ''offer_id'' = Inr oid"
  shows "\<exists>f. find_offer ctx oid d = Some f
           \<and> find_offer ctx oid d' = Some (stamp_offer ev (f\<lparr>f_status := OF_CANCELLED\<rparr>))"
proof -
  from assms obtain d1 m q mid st st' d2 where
    d1: "update_offer ctx oid (\<lambda>r. stamp_offer ev (r\<lparr>f_status := OF_CANCELLED\<rparr>)) d = Inr d1"
    and cnt: "count_rows (\<lambda>r. offer_key r = (ctx, oid)) (offers d) = 1"
    and d2: "advance_request ctx ev q (\<lambda>q. q\<lparr>q_status := st\<rparr>) d1 = Inr d2"
    and d': "advance_milestone ctx ev m (\<lambda>m. m\<lparr>m_status := st'\<rparr>) d2 = Inr d'"
    unfolding project_acceptance_released_def Let_def
    by (force simp: update_offers_Inr elim!: run_elims)
  have "find_row offer_key (ctx, oid) (offers d) \<noteq> None"
    using cnt by (auto simp: find_row_None count_rows_None [symmetric])
  moreover have "offers d' = offers d1"
    using d2 advance_milestone_tables(3) [OF d']
    by (auto simp: advance_request_def update_request_def split: if_splits)
  ultimately show ?thesis
    using d1 by (auto simp: update_offer_def find_offer_def offer_key_def stamp_offer_def
        offer_table.lookup_modify)
qed

end
