(* ===== verification/IndexerService.thy ===== *)
theory IndexerService
  imports MoneyEvents
begin

text \<open>
  \<open>apps/api/src/indexer/rpc.ts\<close>, \<open>indexer.service.ts\<close>, \<open>indexer.main.ts\<close> and
  \<open>metrics/daily.ts\<close>: fetching a page of events, applying it in one transaction with the
  cursor, catching up to the chain head, resetting and replaying. The RPC server, the clock
  and the other workers on the same database are the fields of a \<open>world\<close>, by iteration of
  the loop.
\<close>

section \<open>The event source\<close>

record event_query =
  eq_contractId :: string
  eq_startLedger :: "int option"
  eq_cursor :: "string option"
  eq_limit :: nat

record event_page =
  pg_events :: "decoded_event list"
  pg_cursor :: "string option"
  pg_latestLedger :: int
  pg_scannedThroughLedger :: int

record events_result =
  er_events :: "raw_contract_event list"
  er_cursor :: "string option"
  er_latestLedger :: int

text \<open>What \<open>fetch\<close> and the JSON-RPC body amount to.\<close>

datatype 'r rpc_reply =
    Unreachable
  | HttpStatus int
  | ErrorBody int string
  | EmptyBody
  | Result 'r

text \<open>\<open>/must be within the ledger range:\s*(\d+)\s*-\s*(\d+)/i\<close>, from the start of a text.\<close>

definition range_marker :: string where
  "range_marker = ''must be within the ledger range:''"

definition range_here :: "string \<Rightarrow> bool" where
  "range_here s \<longleftrightarrow>
     take (length range_marker) (to_lower s) = range_marker
   \<and> (let t = dropWhile is_space (drop (length range_marker) s);
          u = dropWhile is_space (dropWhile is_digit t)
      in takeWhile is_digit t \<noteq> [] \<and> take 1 u = ''-''
         \<and> takeWhile is_digit (dropWhile is_space (drop 1 u)) \<noteq> [])"

fun out_of_range :: "string \<Rightarrow> bool" where
  "out_of_range [] = range_here []"
| "out_of_range (c # s) = (range_here (c # s) \<or> out_of_range s)"

definition rpc_call :: "string \<Rightarrow> 'r rpc_reply \<Rightarrow> api_error + 'r" where
  "rpc_call meth reply =
     (case reply of
        Unreachable \<Rightarrow> Inl (RpcUnreachable meth)
      | HttpStatus s \<Rightarrow> Inl (RpcHttpStatus s meth)
      | ErrorBody errCode msg \<Rightarrow>
          if out_of_range msg then Inl (LedgerOutOfRange msg) else Inl (RpcFailure msg)
      | EmptyBody \<Rightarrow> Inl (RpcNoResult meth)
      | Result r \<Rightarrow> Inr r)"

text \<open>The body of a call, and the parameters of \<open>getEvents\<close>.\<close>

definition rpc_body :: "string \<Rightarrow> jsval \<Rightarrow> jsval" where
  "rpc_body meth params = JObject
     [(''jsonrpc'', JString ''2.0''), (''id'', JNumber (Some 1)), (''method'', JString meth),
      (''params'', params)]"

definition events_params :: "event_query \<Rightarrow> jsval" where
  "events_params q = JObject
     ([(''filters'', JArray [JObject [(''type'', JString ''contract''),
         (''contractIds'', JArray [JString (eq_contractId q)])]]),
       (''pagination'', JObject ([(''limit'', JNumber (Some (of_nat (eq_limit q))))]
         @ (case eq_cursor q of None \<Rightarrow> [] | Some k \<Rightarrow> [(''cursor'', JString k)]))),
       (''xdrFormat'', JString ''base64'')]
      @ (case (eq_cursor q, eq_startLedger q) of
           (None, Some l) \<Rightarrow> [(''startLedger'', JNumber (Some (of_int l)))]
         | _ \<Rightarrow> []))"

text \<open>\<open>latestLedger\<close>: the \<open>sequence\<close> of the result.\<close>

definition latest_ledger :: "int rpc_reply \<Rightarrow> api_error + int" where
  "latest_ledger reply = rpc_call ''getLatestLedger'' reply"

definition highest_event_ledger :: "decoded_event list \<Rightarrow> int" where
  "highest_event_ledger events =
     foldl (\<lambda>highest e. if highest < ev_ledger e then ev_ledger e else highest) 0 events"

definition get_events :: "'x platform \<Rightarrow> events_result rpc_reply \<Rightarrow> api_error + event_page" where
  "get_events pf reply =
     and_then (rpc_call ''getEvents'' reply) (\<lambda>r.
     and_then (traverse (decode_event pf) (er_events r)) (\<lambda>events.
     let highest = highest_event_ledger events in
     Inr \<lparr>pg_events = events, pg_cursor = er_cursor r, pg_latestLedger = er_latestLedger r,
          pg_scannedThroughLedger = (if 0 < highest then highest else er_latestLedger r)\<rparr>))"

section \<open>Daily counts\<close>

definition no_counts :: daily_counts where
  "no_counts = \<lparr>ordersCreated = 0, milestonesFunded = 0, advancesFunded = 0,
     milestonesSettled = 0, milestonesRefunded = 0, disputesOpened = 0\<rparr>"

definition daily_metric :: "decoded_event \<Rightarrow> daily_counts" where
  "daily_metric ev =
     \<lparr>ordersCreated = (if eventName ev = ''order_created'' then 1 else 0),
      milestonesFunded =
        (if eventName ev = ''milestone_funded'' \<and> get_field (ev_fields ev) ''fully_funded'' = JBool True
         then 1 else 0),
      advancesFunded = (if eventName ev = ''advance_funded'' then 1 else 0),
      milestonesSettled = (if eventName ev = ''milestone_settled'' then 1 else 0),
      milestonesRefunded = (if eventName ev = ''milestone_refunded'' then 1 else 0),
      disputesOpened = (if eventName ev = ''dispute_opened'' then 1 else 0)\<rparr>"

definition add_counts :: "daily_counts \<Rightarrow> daily_counts \<Rightarrow> daily_counts" where
  "add_counts a b =
     \<lparr>ordersCreated = ordersCreated a + ordersCreated b,
      milestonesFunded = milestonesFunded a + milestonesFunded b,
      advancesFunded = advancesFunded a + advancesFunded b,
      milestonesSettled = milestonesSettled a + milestonesSettled b,
      milestonesRefunded = milestonesRefunded a + milestonesRefunded b,
      disputesOpened = disputesOpened a + disputesOpened b\<rparr>"

text \<open>
  \<open>new Date(iso.slice(0, 10) + 'T00:00:00.000Z')\<close>. A year from 0 to 9999 prints with four
  digits and the ten characters are the date; any other prints with a sign and six, and they
  are its year and month, so the day is the first of that month.
\<close>

definition day_ms :: int where "day_ms = 86400000"

definition four_digit_year :: "int \<Rightarrow> bool" where
  "four_digit_year t \<longleftrightarrow> -62167219200000 \<le> t \<and> t < 253402300800000"

definition day_of_month :: "int \<Rightarrow> int" where
  "day_of_month z =
     (let doe = (z + 719468) mod 146097;
          yoe = (doe - doe div 1460 + doe div 36524 - doe div 146096) div 365;
          doy = doe - (365 * yoe + yoe div 4 - yoe div 100);
          mp = (5 * doy + 2) div 153
      in doy - (153 * mp + 2) div 5 + 1)"

definition metric_day :: "int \<Rightarrow> int" where
  "metric_day t =
     (let z = t div day_ms in
      if four_digit_year t then z * day_ms else (z - (day_of_month z - 1)) * day_ms)"

definition upsert_daily :: "projection_context \<Rightarrow> int \<Rightarrow> daily_counts \<Rightarrow> db \<Rightarrow> db" where
  "upsert_daily ctx day counts d =
     (case find_row daily_key (ctx, day) (daily d) of
        None \<Rightarrow> d\<lparr>daily := daily d @ [\<lparr>y_ctx = ctx, y_day = day, y_counts = counts\<rparr>]\<rparr>
      | Some _ \<Rightarrow> d\<lparr>daily := update_row daily_key (ctx, day)
                     (\<lambda>r. r\<lparr>y_counts := add_counts (y_counts r) counts\<rparr>) (daily d)\<rparr>)"

definition count_day :: "projection_context \<Rightarrow> decoded_event \<Rightarrow> bool \<Rightarrow> db \<Rightarrow> db" where
  "count_day ctx ev didProject d =
     (if didProject \<and> successful ev \<and> daily_metric ev \<noteq> no_counts
      then upsert_daily ctx (metric_day (ledgerClosedAt ev)) (daily_metric ev) d
      else d)"

section \<open>The cursor\<close>

definition ensure_cursor :: "projection_context \<Rightarrow> int \<Rightarrow> db \<Rightarrow> db" where
  "ensure_cursor ctx startLedger d =
     d\<lparr>cursors := insert_if_absent cursor_key
        \<lparr>c_ctx = ctx, c_startLedger = startLedger, c_lastEventId = None, c_lastLedger = None,
         c_scannedThroughLedger = None, c_eventsIngested = 0, c_lastPollAt = None,
         c_lastEventAt = None, c_lastErrorAt = None, c_lastError = None\<rparr> (cursors d)\<rparr>"

definition unprojected_successful_events :: "projection_context \<Rightarrow> db \<Rightarrow> nat" where
  "unprojected_successful_events ctx d =
     count_rows (\<lambda>r. l_ctx r = ctx \<and> l_successful r \<and> \<not> l_projected r) (event_log d)"

section \<open>Applying a page\<close>

record batch_counts =
  bc_ingested :: nat
  bc_projected :: nat
  bc_duplicates :: nat

definition create_log :: "log_row \<Rightarrow> db \<Rightarrow> api_error + db" where
  "create_log r d =
     (if find_row log_key (log_key r) (event_log d) \<noteq> None
      then Inl (UniqueViolation ''event_identity'')
      else if find_row log_chain_key (log_chain_key r) (event_log d) \<noteq> None
      then Inl (UniqueViolation ''event_chain_identity'')
      else Inr (d\<lparr>event_log := event_log d @ [r]\<rparr>))"

text \<open>The body of the loop for an event not seen before.\<close>

definition ingest_event ::
  "projection_context \<Rightarrow> decoded_event \<Rightarrow> db \<Rightarrow> api_error + (bool \<times> db)" where
  "ingest_event ctx ev d =
     and_then (project_event ctx ev d) (\<lambda>(didProject, d1).
     and_then (create_log (event_log_row ctx ev (fields_to_json (ev_fields ev)) didProject) d1)
     (\<lambda>d2. Inr (didProject, count_day ctx ev didProject d2)))"

fun apply_events ::
  "projection_context \<Rightarrow> decoded_event list \<Rightarrow> string list \<Rightarrow> batch_counts \<Rightarrow> db
    \<Rightarrow> api_error + (batch_counts \<times> db)" where
  "apply_events ctx [] seen n d = Inr (n, d)"
| "apply_events ctx (ev # evs) seen n d =
     (if ev_contractId ev \<noteq> contractId ctx then Inl (ForeignContract (eventId ev) (ev_contractId ev))
      else if List.member seen (eventId ev)
      then apply_events ctx evs seen (n\<lparr>bc_duplicates := bc_duplicates n + 1\<rparr>) d
      else and_then (ingest_event ctx ev d) (\<lambda>(didProject, d').
        apply_events ctx evs (eventId ev # seen)
          (n\<lparr>bc_ingested := bc_ingested n + 1,
             bc_projected := bc_projected n + (if didProject then 1 else 0)\<rparr>) d'))"

definition already_stored :: "projection_context \<Rightarrow> decoded_event list \<Rightarrow> db \<Rightarrow> string list" where
  "already_stored ctx events d =
     map l_eventId
       (filter (\<lambda>r. l_ctx r = ctx \<and> List.member (map eventId events) (l_eventId r)) (event_log d))"

definition advance_cursor ::
  "int \<Rightarrow> decoded_event list \<Rightarrow> event_page \<Rightarrow> nat \<Rightarrow> cursor_row \<Rightarrow> cursor_row" where
  "advance_cursor now events page ingested c =
     c\<lparr>c_lastEventId := (case pg_cursor page of None \<Rightarrow> c_lastEventId c | Some k \<Rightarrow> Some k),
       c_lastLedger := (case last_opt events of None \<Rightarrow> c_lastLedger c | Some e \<Rightarrow> Some (ev_ledger e)),
       c_lastEventAt :=
         (case last_opt events of None \<Rightarrow> c_lastEventAt c | Some e \<Rightarrow> Some (ledgerClosedAt e)),
       c_scannedThroughLedger := Some (pg_scannedThroughLedger page),
       c_eventsIngested := c_eventsIngested c + int ingested,
       c_lastPollAt := Some now, c_lastError := None, c_lastErrorAt := None\<rparr>"

definition apply_batch ::
  "projection_context \<Rightarrow> int \<Rightarrow> decoded_event list \<Rightarrow> event_page \<Rightarrow> string option \<Rightarrow> int option
    \<Rightarrow> db \<Rightarrow> api_error + (batch_counts \<times> db)" where
  "apply_batch ctx now events page expectedEventId expectedScannedLedger d =
     (case find_cursor ctx d of
        None \<Rightarrow> Inl StaleCursor
      | Some current \<Rightarrow>
          if c_lastEventId current \<noteq> expectedEventId
             \<or> c_scannedThroughLedger current \<noteq> expectedScannedLedger
          then Inl StaleCursor
          else
            and_then (apply_events ctx events (already_stored ctx events d)
                \<lparr>bc_ingested = 0, bc_projected = 0, bc_duplicates = 0\<rparr> d)
            (\<lambda>(n, d'). Inr (n, d'\<lparr>cursors :=
               update_row cursor_key ctx (advance_cursor now events page (bc_ingested n)) (cursors d')\<rparr>)))"

section \<open>Catching up\<close>

record run_result =
  pagesFetched :: nat
  run_ingested :: nat
  run_projected :: nat
  duplicatesSkipped :: nat
  caughtUp :: bool
  latestLedger :: int

text \<open>
  The surroundings of a run, by iteration: the RPC's reply to a query, what other workers
  commit to the database while the page is fetched, and the clock.
\<close>

record world =
  rpc :: "nat \<Rightarrow> event_query \<Rightarrow> events_result rpc_reply"
  others :: "nat \<Rightarrow> db \<Rightarrow> db"
  clock :: "nat \<Rightarrow> int"

definition events_query :: "projection_context \<Rightarrow> cursor_row \<Rightarrow> event_query" where
  "events_query ctx c =
     (case c_lastEventId c of
        None \<Rightarrow> \<lparr>eq_contractId = contractId ctx, eq_startLedger = Some (c_startLedger c),
                 eq_cursor = None, eq_limit = 100\<rparr>
      | Some k \<Rightarrow> \<lparr>eq_contractId = contractId ctx, eq_startLedger = None,
                   eq_cursor = Some k, eq_limit = 100\<rparr>)"

text \<open>
  The loop of \<open>catchUp\<close>. A stale page does not count towards \<open>maxPages\<close>, so other workers
  can keep it going: \<open>fuel\<close> bounds the iterations and \<open>None\<close> means it ran out. A throw
  carries the database as the committed pages left it.
\<close>

fun catch_up_loop ::
  "nat \<Rightarrow> 'x platform \<Rightarrow> world \<Rightarrow> projection_context \<Rightarrow> int \<Rightarrow> nat \<Rightarrow> nat \<Rightarrow> nat \<Rightarrow> run_result \<Rightarrow> db
    \<Rightarrow> ((api_error + run_result) \<times> db) option" where
  "catch_up_loop 0 pf w ctx start maxPages i page res d = None"
| "catch_up_loop (Suc fuel) pf w ctx start maxPages i page res d =
     (if \<not> page < maxPages then Some (Inr res, d)
      else
        let d0 = ensure_cursor ctx start d in
        (case find_cursor ctx d0 of
           None \<Rightarrow> None
         | Some cursor \<Rightarrow>
             (case get_events pf (rpc w i (events_query ctx cursor)) of
                Inl e \<Rightarrow> Some (Inl e, others w i d0)
              | Inr fetched \<Rightarrow>
                  let res1 = res\<lparr>pagesFetched := pagesFetched res + 1,
                                 latestLedger := pg_latestLedger fetched\<rparr>;
                      ordered = js_sort compare_event_order (pg_events fetched);
                      d1 = others w i d0
                  in
                  (case apply_batch ctx (clock w i) ordered fetched (c_lastEventId cursor)
                          (c_scannedThroughLedger cursor) d1 of
                     Inl e \<Rightarrow>
                       if e = StaleCursor
                       then catch_up_loop fuel pf w ctx start maxPages (i + 1) page res1 d1
                       else Some (Inl e, d1)
                   | Inr (n, d2) \<Rightarrow>
                       let res2 = res1\<lparr>run_ingested := run_ingested res1 + bc_ingested n,
                                       run_projected := run_projected res1 + bc_projected n,
                                       duplicatesSkipped := duplicatesSkipped res1 + bc_duplicates n\<rparr>
                       in if ordered = [] then Some (Inr (res2\<lparr>caughtUp := True\<rparr>), d2)
                          else catch_up_loop fuel pf w ctx start maxPages (i + 1) (page + 1) res2 d2))))"

definition record_error :: "projection_context \<Rightarrow> int \<Rightarrow> string \<Rightarrow> db \<Rightarrow> db" where
  "record_error ctx now message d =
     d\<lparr>cursors := update_row cursor_key ctx
        (\<lambda>c. c\<lparr>c_lastErrorAt := Some now, c_lastError := Some message\<rparr>) (cursors d)\<rparr>"

definition run_error_text :: "(api_error \<Rightarrow> string) \<Rightarrow> api_error \<Rightarrow> string" where
  "run_error_text redact e =
     (case e of
        LedgerOutOfRange _ \<Rightarrow>
          ''Indexer history is outside RPC retention; restore an archival event source before resuming''
      | _ \<Rightarrow> redact e)"

text \<open>A worker process: whether it is in a run, and the shared database.\<close>

record worker =
  running :: bool
  store :: db

definition empty_run :: run_result where
  "empty_run = \<lparr>pagesFetched = 0, run_ingested = 0, run_projected = 0, duplicatesSkipped = 0,
     caughtUp = False, latestLedger = 0\<rparr>"

definition catch_up ::
  "nat \<Rightarrow> 'x platform \<Rightarrow> world \<Rightarrow> (api_error \<Rightarrow> string) \<Rightarrow> int \<Rightarrow> projection_context \<Rightarrow> int \<Rightarrow> nat \<Rightarrow> worker
    \<Rightarrow> ((api_error + run_result) \<times> worker) option" where
  "catch_up fuel pf w redact now ctx start maxPages s =
     (if running s then Some (Inl RunInProgress, s)
      else
        case catch_up_loop fuel pf w ctx start maxPages 0 0 empty_run (store s) of
          None \<Rightarrow> None
        | Some (Inr res, d) \<Rightarrow> Some (Inr res, \<lparr>running = False, store = d\<rparr>)
        | Some (Inl e, d) \<Rightarrow>
            Some (Inl e, \<lparr>running = False, store = record_error ctx now (run_error_text redact e) d\<rparr>))"

section \<open>Reset\<close>

definition unanchored :: "evidence_object \<Rightarrow> evidence_object" where
  "unanchored e =
     e\<lparr>e_anchoredOnChain := False, e_anchoredAt := None, e_anchoredTxHash := None,
       e_milestoneRow := None\<rparr>"

definition rewound :: "cursor_row \<Rightarrow> cursor_row" where
  "rewound c =
     c\<lparr>c_lastEventId := None, c_lastLedger := None, c_scannedThroughLedger := None,
       c_eventsIngested := 0, c_lastError := None, c_lastErrorAt := None\<rparr>"

text \<open>
  Deleting a milestone also deletes its payment cycles (\<open>onDelete: Cascade\<close>); the other
  cascades remove rows the statements before it have deleted already.
\<close>

definition reset :: "projection_context \<Rightarrow> int \<Rightarrow> db \<Rightarrow> db" where
  "reset ctx start d =
     (let d0 = ensure_cursor ctx start d in
      d0\<lparr>settlements := delete_rows (\<lambda>r. s_ctx r = ctx) (settlements d0),
         refunds := delete_rows (\<lambda>r. r_ctx r = ctx) (refunds d0),
         disputes := delete_rows (\<lambda>r. d_ctx r = ctx) (disputes d0),
         evidence_anchors := delete_rows (\<lambda>r. a_ctx r = ctx) (evidence_anchors d0),
         positions := delete_rows (\<lambda>r. p_ctx r = ctx) (positions d0),
         offers := delete_rows (\<lambda>r. f_ctx r = ctx) (offers d0),
         requests := delete_rows (\<lambda>r. q_ctx r = ctx) (requests d0),
         milestones := delete_rows (\<lambda>r. m_ctx r = ctx) (milestones d0),
         cycles := delete_rows (\<lambda>r. k_ctx r = ctx) (cycles d0),
         orders := delete_rows (\<lambda>r. o_ctx r = ctx) (orders d0),
         event_log := delete_rows (\<lambda>r. l_ctx r = ctx) (event_log d0),
         daily := delete_rows (\<lambda>r. y_ctx r = ctx) (daily d0),
         evidence_objects := update_rows (\<lambda>e. e_ctx e = ctx) unanchored (evidence_objects d0),
         cursors := update_rows (\<lambda>c. c_ctx c = ctx) rewound (cursors d0)\<rparr>)"

end
