(* ===== verification/IndexerProperties.thy ===== *)
theory IndexerProperties
  imports IndexerService
begin

text \<open>
  What holds of the database whatever the workers do. \<open>service_step\<close> is one committed
  transaction of any worker on any stream; \<open>indexer_ok\<close> relates the log, the cursor and the
  daily counts to one another and holds in every reachable database.
\<close>

section \<open>What a projection leaves alone\<close>

definition bookkeeping :: "db \<Rightarrow> log_row list \<times> daily_row list \<times> cursor_row list" where
  "bookkeeping d = (event_log d, daily d, cursors d)"

lemma projection_write_frame:
  "projection_write escrow ctx ev d d' \<Longrightarrow>
     bookkeeping d' = bookkeeping d \<and> anchor_transactions d' = anchor_transactions d
   \<and> cycles d' = cycles d \<and> participants d' = participants d"
  by (induction rule: projection_write.induct)
    (auto simp: statement_defs bookkeeping_def result_simps split: if_splits)

lemma projection_frame:
  assumes "project_event ctx ev d = Inr (b, d')"
  shows "event_log d' = event_log d" and "daily d' = daily d" and "cursors d' = cursors d"
    and "anchor_transactions d' = anchor_transactions d" and "cycles d' = cycles d"
    and "participants d' = participants d"
proof -
  have "bookkeeping d' = bookkeeping d \<and> anchor_transactions d' = anchor_transactions d
      \<and> cycles d' = cycles d \<and> participants d' = participants d"
    using project_event_writes(1) [OF assms]
    by (induction rule: rtranclp_induct) (auto dest: projection_write_frame)
  then show "event_log d' = event_log d" and "daily d' = daily d" and "cursors d' = cursors d"
    and "anchor_transactions d' = anchor_transactions d" and "cycles d' = cycles d"
    and "participants d' = participants d"
    by (auto simp: bookkeeping_def)
qed

lemma db_ok_frame [simp]:
  "db_ok (d\<lparr>daily := y\<rparr>) = db_ok d" "db_ok (d\<lparr>event_log := l\<rparr>) = db_ok d"
  "db_ok (d\<lparr>cursors := c\<rparr>) = db_ok d" "db_ok (d\<lparr>evidence_objects := e\<rparr>) = db_ok d"
  by (simp_all add: db_ok_def)

section \<open>The daily counts are a recount of the log\<close>

text \<open>The contribution of a log row, read from what the log stored.\<close>

fun payload_field :: "jsval \<Rightarrow> string \<Rightarrow> jsval" where
  "payload_field (JObject f) k = get_field f k"
| "payload_field _ k = JUndefined"

definition log_metric :: "log_row \<Rightarrow> daily_counts" where
  "log_metric r =
     \<lparr>ordersCreated = (if l_eventName r = ''order_created'' then 1 else 0),
      milestonesFunded =
        (if l_eventName r = ''milestone_funded'' \<and> payload_field (l_payload r) ''fully_funded'' = JBool True
         then 1 else 0),
      advancesFunded = (if l_eventName r = ''advance_funded'' then 1 else 0),
      milestonesSettled = (if l_eventName r = ''milestone_settled'' then 1 else 0),
      milestonesRefunded = (if l_eventName r = ''milestone_refunded'' then 1 else 0),
      disputesOpened = (if l_eventName r = ''dispute_opened'' then 1 else 0)\<rparr>"

definition counts_on :: "projection_context \<Rightarrow> int \<Rightarrow> log_row \<Rightarrow> bool" where
  "counts_on ctx day r \<longleftrightarrow>
     l_ctx r = ctx \<and> l_successful r \<and> l_projected r \<and> metric_day (l_ledgerClosedAt r) = day"

definition recount :: "projection_context \<Rightarrow> int \<Rightarrow> log_row list \<Rightarrow> daily_counts" where
  "recount ctx day rows =
     foldr add_counts (map log_metric (filter (counts_on ctx day) rows)) no_counts"

definition stored_counts :: "projection_context \<Rightarrow> int \<Rightarrow> daily_row list \<Rightarrow> daily_counts" where
  "stored_counts ctx day t =
     (case find_row daily_key (ctx, day) t of None \<Rightarrow> no_counts | Some r \<Rightarrow> y_counts r)"

lemma add_counts_laws [simp]:
  "add_counts no_counts a = a" "add_counts a no_counts = a"
  "add_counts (add_counts a b) c = add_counts a (add_counts b c)"
  by (simp_all add: add_counts_def no_counts_def)

lemma recount_append:
  "recount ctx day (rows @ [r]) =
     (if counts_on ctx day r then add_counts (recount ctx day rows) (log_metric r)
      else recount ctx day rows)"
proof -
  have snoc: "foldr add_counts (xs @ [c]) no_counts = add_counts (foldr add_counts xs no_counts) c" for xs c
    by (induction xs) simp_all
  show ?thesis
    by (simp add: recount_def snoc del: foldr_append)
qed

lemma map_of_map_snd: "map_of (map (\<lambda>kv. (fst kv, g (snd kv))) f) k = map_option g (map_of f k)"
  by (induction f) auto

lemma json_true: "to_json_safe v = JBool True \<longleftrightarrow> v = JBool True"
  by (cases v) auto

lemma log_metric_row:
  "log_metric (event_log_row ctx ev (fields_to_json (ev_fields ev)) p) = daily_metric ev"
proof -
  have "payload_field (fields_to_json f) k = JBool True \<longleftrightarrow> get_field f k = JBool True" for f k
    by (auto simp: fields_to_json_def get_field_def map_of_map_snd json_true split: option.splits)
  then show ?thesis by (simp add: log_metric_def daily_metric_def event_log_row_def)
qed

section \<open>The invariant\<close>

definition cursor_counts_log :: "projection_context \<Rightarrow> db \<Rightarrow> bool" where
  "cursor_counts_log ctx d \<longleftrightarrow>
     (case find_cursor ctx d of
        None \<Rightarrow> count_rows (\<lambda>r. l_ctx r = ctx) (event_log d) = 0
      | Some c \<Rightarrow> c_eventsIngested c = int (count_rows (\<lambda>r. l_ctx r = ctx) (event_log d)))"

definition log_ok :: "db \<Rightarrow> bool" where
  "log_ok d \<longleftrightarrow>
     distinct_keys log_key (event_log d) \<and> distinct_keys log_chain_key (event_log d)
   \<and> list_all (\<lambda>r. l_projected r \<longrightarrow> l_successful r) (event_log d)"

definition daily_ok :: "db \<Rightarrow> bool" where
  "daily_ok d \<longleftrightarrow>
     distinct_keys daily_key (daily d)
   \<and> (\<forall>ctx day. stored_counts ctx day (daily d) = recount ctx day (event_log d))"

definition indexer_ok :: "db \<Rightarrow> bool" where
  "indexer_ok d \<longleftrightarrow>
     db_ok d \<and> log_ok d \<and> daily_ok d \<and> distinct_keys cursor_key (cursors d)
   \<and> (\<forall>ctx. cursor_counts_log ctx d)"

text \<open>The part of it that applying one event keeps; the cursor follows at the end of the page.\<close>

definition ingest_ok :: "db \<Rightarrow> bool" where
  "ingest_ok d \<longleftrightarrow> db_ok d \<and> log_ok d \<and> daily_ok d \<and> distinct_keys cursor_key (cursors d)"

lemma projected_is_successful: "project_event ctx ev d = Inr (True, d') \<Longrightarrow> successful ev"
  by (auto simp: project_event_def split: if_splits)

lemma create_log_Inr [result_simps]:
  "create_log r d = Inr d' \<longleftrightarrow>
     find_row log_key (log_key r) (event_log d) = None
   \<and> find_row log_chain_key (log_chain_key r) (event_log d) = None
   \<and> d' = d\<lparr>event_log := event_log d @ [r]\<rparr>"
  by (auto simp: create_log_def)

lemma count_day_tables:
  "event_log (count_day ctx ev p d) = event_log d" "cursors (count_day ctx ev p d) = cursors d"
  "db_ok (count_day ctx ev p d) = db_ok d"
  "anchor_transactions (count_day ctx ev p d) = anchor_transactions d"
  "evidence_objects (count_day ctx ev p d) = evidence_objects d"
  by (auto simp: count_day_def upsert_daily_def split: option.split)

lemma stored_counts_upsert:
  "stored_counts c k (daily (upsert_daily ctx day counts d)) =
     (if (c, k) = (ctx, day) then add_counts (stored_counts c k (daily d)) counts
      else stored_counts c k (daily d))"
  by (auto simp: stored_counts_def upsert_daily_def find_row_append find_row_Cons daily_key_def
      find_row_update_row split: option.splits)

lemma stored_counts_count_day:
  "stored_counts c k (daily (count_day ctx ev p d)) =
     (if p \<and> successful ev \<and> (c, k) = (ctx, metric_day (ledgerClosedAt ev))
      then add_counts (stored_counts c k (daily d)) (daily_metric ev) else stored_counts c k (daily d))"
  by (auto simp: count_day_def stored_counts_upsert)

lemma distinct_count_day: "distinct_keys daily_key (daily d) \<Longrightarrow> distinct_keys daily_key (daily (count_day ctx ev p d))"
  by (auto simp: count_day_def upsert_daily_def daily_key_def
      intro!: distinct_keys_append distinct_keys_update_row [THEN iffD2] split: option.split)

lemma ingest_event_Inr:
  assumes "ingest_event ctx ev d = Inr (p, d')"
  obtains d1 where "project_event ctx ev d = Inr (p, d1)"
    and "create_log (event_log_row ctx ev (fields_to_json (ev_fields ev)) p) d1
         = Inr (d1\<lparr>event_log := event_log d @ [event_log_row ctx ev (fields_to_json (ev_fields ev)) p]\<rparr>)"
    and "d' = count_day ctx ev p
         (d1\<lparr>event_log := event_log d @ [event_log_row ctx ev (fields_to_json (ev_fields ev)) p]\<rparr>)"
    and "event_log d' = event_log d @ [event_log_row ctx ev (fields_to_json (ev_fields ev)) p]"
    and "cursors d' = cursors d"
  using assms projection_frame(1,3)
  by (fastforce simp: ingest_event_def result_simps count_day_tables)

lemma ingest_event_keeps:
  assumes "ingest_event ctx ev d = Inr (p, d')" and "ingest_ok d"
  shows "ingest_ok d'"
proof -
  let ?r = "event_log_row ctx ev (fields_to_json (ev_fields ev)) p"
  from assms(1) obtain d1 where project: "project_event ctx ev d = Inr (p, d1)"
    and new: "create_log ?r d1 = Inr (d1\<lparr>event_log := event_log d @ [?r]\<rparr>)"
    and d': "d' = count_day ctx ev p (d1\<lparr>event_log := event_log d @ [?r]\<rparr>)"
    and tables: "event_log d' = event_log d @ [?r]" "cursors d' = cursors d"
    by (rule ingest_event_Inr)
  note frame = projection_frame [OF project]
  have "db_ok d1" using projection_preserves_ok [OF project] assms(2) by (simp add: ingest_ok_def)
  then have 1: "db_ok d'" by (simp add: d' count_day_tables)
  have "p \<longrightarrow> successful ev" using project projected_is_successful by (cases p) auto
  then have 2: "log_ok d'"
    using assms(2) new by (auto simp: ingest_ok_def log_ok_def tables frame create_log_Inr
        event_log_row_def intro!: distinct_keys_append)
  have "stored_counts c day (daily d') = recount c day (event_log d')" for c day
  proof -
    have "stored_counts c day (daily d) = recount c day (event_log d)"
      using assms(2) by (simp add: ingest_ok_def daily_ok_def)
    then show ?thesis
      by (simp add: tables recount_append log_metric_row)
        (auto simp: d' stored_counts_count_day frame counts_on_def event_log_row_def)
  qed
  moreover have "distinct_keys daily_key (daily d')"
    using assms(2) by (auto simp: d' ingest_ok_def daily_ok_def frame intro: distinct_count_day)
  ultimately have 3: "daily_ok d'" by (simp add: daily_ok_def)
  from 1 2 3 show ?thesis using assms(2) by (simp add: ingest_ok_def tables)
qed

section \<open>Applying a page\<close>

definition log_rows :: "projection_context \<Rightarrow> db \<Rightarrow> nat" where
  "log_rows ctx d = count_rows (\<lambda>r. l_ctx r = ctx) (event_log d)"

lemma cursor_counts_log_cong:
  "find_cursor k d' = find_cursor k d \<Longrightarrow> log_rows k d' = log_rows k d
   \<Longrightarrow> cursor_counts_log k d' = cursor_counts_log k d"
  by (cases "find_cursor k d") (simp_all add: cursor_counts_log_def log_rows_def)

lemma apply_events_Cons:
  assumes "apply_events ctx (ev # evs) seen n d = Inr r"
  obtains (duplicate) "ev_contractId ev = contractId ctx" "eventId ev \<in> set seen"
      "apply_events ctx evs seen (n\<lparr>bc_duplicates := bc_duplicates n + 1\<rparr>) d = Inr r"
  | (fresh) p d1 where "ev_contractId ev = contractId ctx" "eventId ev \<notin> set seen"
      "ingest_event ctx ev d = Inr (p, d1)"
      "apply_events ctx evs (eventId ev # seen)
          (n\<lparr>bc_ingested := bc_ingested n + 1, bc_projected := bc_projected n + (if p then 1 else 0)\<rparr>) d1
          = Inr r"
proof (cases "eventId ev \<in> set seen")
  case True
  with assms duplicate show thesis by (simp split: if_splits)
next
  case False
  with assms have here: "ev_contractId ev = contractId ctx"
    and "and_then (ingest_event ctx ev d) (\<lambda>(didProject, d').
        apply_events ctx evs (eventId ev # seen)
          (n\<lparr>bc_ingested := bc_ingested n + 1,
             bc_projected := bc_projected n + (if didProject then 1 else 0)\<rparr>) d') = Inr r"
    by (simp_all split: if_splits)
  from this(2) obtain p d1 where "ingest_event ctx ev d = Inr (p, d1)"
    and "apply_events ctx evs (eventId ev # seen)
          (n\<lparr>bc_ingested := bc_ingested n + 1, bc_projected := bc_projected n + (if p then 1 else 0)\<rparr>) d1
          = Inr r"
    unfolding and_then_Inr by (metis (no_types, lifting) case_prod_conv surj_pair)
  with here False show thesis by (rule fresh)
qed

lemma apply_events_keeps:
  "apply_events ctx evs seen n d = Inr (n', d') \<Longrightarrow> ingest_ok d \<Longrightarrow> ingest_ok d'"
  by (induction evs arbitrary: seen n d) (auto simp del: apply_events.simps(2) elim!: apply_events_Cons dest: ingest_event_keeps)

lemma apply_events_log:
  assumes "apply_events ctx evs seen n d = Inr (n', d')"
  shows "cursors d' = cursors d"
    and "bc_ingested n' + log_rows ctx d = bc_ingested n + log_rows ctx d'"
    and "c \<noteq> ctx \<Longrightarrow> log_rows c d' = log_rows c d"
    and "bc_ingested n' + bc_duplicates n' = bc_ingested n + bc_duplicates n + length evs"
proof -
  have "cursors d' = cursors d
      \<and> bc_ingested n' + log_rows ctx d = bc_ingested n + log_rows ctx d'
      \<and> (c \<noteq> ctx \<longrightarrow> log_rows c d' = log_rows c d)
      \<and> bc_ingested n' + bc_duplicates n' = bc_ingested n + bc_duplicates n + length evs"
    using assms
  proof (induction evs arbitrary: seen n d)
    case (Cons ev evs)
    from Cons.prems show ?case
    proof (cases rule: apply_events_Cons)
      case duplicate
      with Cons.IH [OF duplicate(3)] show ?thesis by simp
    next
      case (fresh p d1)
      have "event_log d1 = event_log d @ [event_log_row ctx ev (fields_to_json (ev_fields ev)) p]"
        and "cursors d1 = cursors d"
        using fresh(3) by (auto elim: ingest_event_Inr)
      then show ?thesis
        using Cons.IH [OF fresh(4)] by (simp add: log_rows_def count_rows_def event_log_row_def)
    qed
  qed simp
  then show "cursors d' = cursors d"
    and "bc_ingested n' + log_rows ctx d = bc_ingested n + log_rows ctx d'"
    and "c \<noteq> ctx \<Longrightarrow> log_rows c d' = log_rows c d"
    and "bc_ingested n' + bc_duplicates n' = bc_ingested n + bc_duplicates n + length evs"
    by auto
qed

lemma cursor_key_advance [simp]: "cursor_key (advance_cursor now evs page n c) = cursor_key c"
  by (simp add: cursor_key_def advance_cursor_def)

lemma find_cursor_update:
  assumes "\<And>c. cursor_key (f c) = cursor_key c"
  shows "find_cursor k (d\<lparr>cursors := update_row cursor_key ctx f (cursors d)\<rparr>) =
    (if k = ctx then map_option f (find_cursor ctx d) else find_cursor k d)"
  using assms by (simp add: find_cursor_def cursor_table.lookup_modify)

lemma apply_batch_Inr:
  assumes "apply_batch ctx now evs page eid esl d = Inr (n, d')"
  obtains c d1 where "find_cursor ctx d = Some c" "c_lastEventId c = eid"
    "c_scannedThroughLedger c = esl"
    "apply_events ctx evs (already_stored ctx evs d)
       \<lparr>bc_ingested = 0, bc_projected = 0, bc_duplicates = 0\<rparr> d = Inr (n, d1)"
    "d' = d1\<lparr>cursors := update_row cursor_key ctx (advance_cursor now evs page (bc_ingested n)) (cursors d1)\<rparr>"
  using assms by (auto simp: apply_batch_def result_simps split: option.splits if_splits)

lemma apply_batch_keeps:
  assumes "apply_batch ctx now evs page eid esl d = Inr (n, d')" and "indexer_ok d"
  shows "indexer_ok d'"
proof -
  from assms(1) obtain c d1 where c: "find_cursor ctx d = Some c"
    and run: "apply_events ctx evs (already_stored ctx evs d)
       \<lparr>bc_ingested = 0, bc_projected = 0, bc_duplicates = 0\<rparr> d = Inr (n, d1)"
    and d': "d' = d1\<lparr>cursors := update_row cursor_key ctx (advance_cursor now evs page (bc_ingested n)) (cursors d1)\<rparr>"
    by (rule apply_batch_Inr)
  note log = apply_events_log [OF run]
  have "ingest_ok d1"
    by (rule apply_events_keeps [OF run]) (use assms(2) in \<open>simp add: indexer_ok_def ingest_ok_def\<close>)
  then have "db_ok d'" "log_ok d'" "daily_ok d'" "distinct_keys cursor_key (cursors d')"
    by (auto simp: d' ingest_ok_def log_ok_def daily_ok_def distinct_keys_update_row)
  moreover have "cursor_counts_log k d'" for k
  proof -
    have before: "cursor_counts_log k d" using assms(2) by (simp add: indexer_ok_def)
    have cur: "find_cursor k d1 = find_cursor k d" for k by (simp add: find_cursor_def log(1))
    have log': "event_log d' = event_log d1" by (simp add: d')
    show ?thesis
    proof (cases "k = ctx")
      case True
      have "bc_ingested n + log_rows ctx d = log_rows ctx d1" using log(2) by simp
      with before c True show ?thesis
        unfolding cursor_counts_log_def log' unfolding d' find_cursor_update [OF cursor_key_advance] cur
        by (simp add: log_rows_def advance_cursor_def flip: of_nat_add)
    next
      case False
      have "log_rows k d1 = log_rows k d" using log(3) False by blast
      with before False show ?thesis
        unfolding cursor_counts_log_def log' unfolding d' find_cursor_update [OF cursor_key_advance] cur
        by (simp add: log_rows_def split: option.splits)
    qed
  qed
  ultimately show ?thesis by (simp add: indexer_ok_def)
qed

section \<open>Reset\<close>

lemma find_row_delete_none:
  "(\<And>r. key r = k \<Longrightarrow> P r) \<Longrightarrow> find_row key k (delete_rows P t) = None"
  by (auto simp: find_row_None delete_rows_def)

lemma find_row_delete_other:
  "(\<And>r. key r = k \<Longrightarrow> \<not> P r) \<Longrightarrow> find_row key k (delete_rows P t) = find_row key k t"
  by (induction t) (auto simp: delete_rows_def find_row_Cons)

lemma distinct_keys_delete: "distinct_keys key t \<Longrightarrow> distinct_keys key (delete_rows P t)"
  by (simp add: distinct_keys_def delete_rows_def distinct_map_filter)

lemma list_all_delete: "list_all Q t \<Longrightarrow> list_all Q (delete_rows P t)"
  by (auto simp: list_all_iff delete_rows_def)

lemma one_active_delete: "one_active_per_milestone ps \<Longrightarrow> one_active_per_milestone (delete_rows P ps)"
proof -
  have "count_rows Q (delete_rows P ps) \<le> count_rows Q ps" for Q
    by (induction ps) (auto simp: count_rows_def delete_rows_def)
  then show "one_active_per_milestone ps \<Longrightarrow> ?thesis"
    unfolding one_active_per_milestone_def using order_trans by blast
qed

lemma db_ok_reset: "db_ok d \<Longrightarrow> db_ok (reset ctx start d)"
  by (simp add: db_ok_def reset_def ensure_cursor_def Let_def distinct_keys_delete list_all_delete
      one_active_delete)

lemma ensure_cursor_tables [simp]:
  "event_log (ensure_cursor ctx start d) = event_log d" "daily (ensure_cursor ctx start d) = daily d"
  "db_ok (ensure_cursor ctx start d) = db_ok d"
  by (simp_all add: ensure_cursor_def)

lemma find_ensure_cursor:
  "\<exists>c. find_cursor ctx (ensure_cursor ctx start d) = Some c"
  using find_insert_if_absent [of cursor_key "\<lparr>c_ctx = ctx, c_startLedger = start, c_lastEventId = None,
      c_lastLedger = None, c_scannedThroughLedger = None, c_eventsIngested = 0, c_lastPollAt = None,
      c_lastEventAt = None, c_lastErrorAt = None, c_lastError = None\<rparr>" "cursors d"]
  by (simp add: find_cursor_def ensure_cursor_def cursor_key_def)

lemma find_ensure_cursor_other:
  "k \<noteq> ctx \<Longrightarrow> find_cursor k (ensure_cursor ctx start d) = find_cursor k d"
  by (auto simp: find_cursor_def ensure_cursor_def insert_if_absent_def find_row_append find_row_Cons
      cursor_key_def split: option.split)

lemma ensure_cursor_keeps: "indexer_ok d \<Longrightarrow> indexer_ok (ensure_cursor ctx start d)"
proof -
  assume ok: "indexer_ok d"
  have "cursor_counts_log k (ensure_cursor ctx start d)" for k
  proof -
    have "cursor_counts_log k d" using ok by (simp add: indexer_ok_def)
    then show ?thesis
      by (cases "k = ctx"; cases "find_cursor k d")
        (auto simp: cursor_counts_log_def find_ensure_cursor_other,
         auto simp: find_cursor_def ensure_cursor_def insert_if_absent_def find_row_append
           find_row_Cons cursor_key_def)
  qed
  with ok show ?thesis
    by (simp add: indexer_ok_def log_ok_def daily_ok_def)
      (simp add: ensure_cursor_def distinct_keys_insert_if_absent)
qed

lemma record_error_keeps: "indexer_ok d \<Longrightarrow> indexer_ok (record_error ctx now msg d)"
proof -
  assume ok: "indexer_ok d"
  have find: "find_cursor k (record_error ctx now msg d) =
      (if k = ctx then map_option (\<lambda>c. c\<lparr>c_lastErrorAt := Some now, c_lastError := Some msg\<rparr>) (find_cursor ctx d)
       else find_cursor k d)" for k
    unfolding record_error_def by (rule find_cursor_update) (simp add: cursor_key_def)
  have "cursor_counts_log k (record_error ctx now msg d)" for k
  proof -
    have "cursor_counts_log k d" using ok by (simp add: indexer_ok_def)
    then show ?thesis
      unfolding cursor_counts_log_def find by (auto simp: record_error_def split: option.splits)
  qed
  with ok show ?thesis
    by (simp add: indexer_ok_def log_ok_def daily_ok_def)
      (auto simp: record_error_def cursor_key_def intro!: distinct_keys_update_row [THEN iffD2])
qed

lemma reset_tables:
  "event_log (reset ctx start d) = delete_rows (\<lambda>r. l_ctx r = ctx) (event_log d)"
  "daily (reset ctx start d) = delete_rows (\<lambda>r. y_ctx r = ctx) (daily d)"
  "cursors (reset ctx start d) = update_row cursor_key ctx rewound (cursors (ensure_cursor ctx start d))"
  by (simp_all add: reset_def Let_def update_row_def cursor_key_def)

lemma filter_delete:
  "(\<And>r. Q r \<Longrightarrow> \<not> P r) \<Longrightarrow> filter Q (delete_rows P t) = filter Q t"
  "(\<And>r. Q r \<Longrightarrow> P r) \<Longrightarrow> filter Q (delete_rows P t) = []"
  by (induction t) (auto simp: delete_rows_def)

lemma find_cursor_reset:
  "find_cursor k (reset ctx start d) =
     (if k = ctx then map_option rewound (find_cursor ctx (ensure_cursor ctx start d))
      else find_cursor k d)"
proof -
  have "find_cursor k (reset ctx start d) =
      find_cursor k ((ensure_cursor ctx start d)\<lparr>cursors :=
        update_row cursor_key ctx rewound (cursors (ensure_cursor ctx start d))\<rparr>)"
    by (simp add: find_cursor_def reset_tables)
  also have "\<dots> = (if k = ctx then map_option rewound (find_cursor ctx (ensure_cursor ctx start d))
      else find_cursor k (ensure_cursor ctx start d))"
    by (rule find_cursor_update) (simp add: cursor_key_def rewound_def)
  finally show ?thesis by (simp add: find_ensure_cursor_other)
qed

lemma reset_keeps:
  assumes "indexer_ok d"
  shows "indexer_ok (reset ctx start d)"
proof -
  have "log_ok (reset ctx start d)"
    using assms by (simp add: indexer_ok_def log_ok_def reset_tables distinct_keys_delete list_all_delete)
  moreover have "daily_ok (reset ctx start d)"
  proof -
    have "stored_counts c day (daily (reset ctx start d)) = recount c day (event_log (reset ctx start d))" for c day
    proof (cases "c = ctx")
      case True
      have "find_row daily_key (ctx, day) (daily (reset ctx start d)) = None"
        unfolding reset_tables by (rule find_row_delete_none) (simp add: daily_key_def)
      moreover have "filter (counts_on ctx day) (event_log (reset ctx start d)) = []"
        unfolding reset_tables by (rule filter_delete(2)) (simp add: counts_on_def)
      ultimately show ?thesis by (simp add: True stored_counts_def recount_def)
    next
      case False
      have "stored_counts c day (daily d) = recount c day (event_log d)"
        using assms by (simp add: indexer_ok_def daily_ok_def)
      moreover have "find_row daily_key (c, day) (daily (reset ctx start d)) = find_row daily_key (c, day) (daily d)"
        unfolding reset_tables by (rule find_row_delete_other) (use False in \<open>simp add: daily_key_def\<close>)
      moreover have "filter (counts_on c day) (event_log (reset ctx start d)) = filter (counts_on c day) (event_log d)"
        unfolding reset_tables by (rule filter_delete(1)) (use False in \<open>simp add: counts_on_def\<close>)
      ultimately show ?thesis by (simp add: stored_counts_def recount_def)
    qed
    then show ?thesis
      using assms by (simp add: daily_ok_def indexer_ok_def reset_tables distinct_keys_delete)
  qed
  moreover have "distinct_keys cursor_key (cursors (reset ctx start d))"
    using ensure_cursor_keeps [OF assms, of ctx start]
    by (simp add: indexer_ok_def reset_tables distinct_keys_update_row cursor_key_def rewound_def)
  moreover have "cursor_counts_log k (reset ctx start d)" for k
  proof (cases "k = ctx")
    case True
    obtain c where "find_cursor ctx (ensure_cursor ctx start d) = Some c"
      using find_ensure_cursor by blast
    with True show ?thesis
      by (simp add: cursor_counts_log_def find_cursor_reset rewound_def reset_tables count_rows_def
          filter_delete(2))
  next
    case False
    have "log_rows k (reset ctx start d) = log_rows k d"
      unfolding log_rows_def reset_tables count_rows_def
      by (subst filter_delete(1)) (use False in auto)
    moreover have "find_cursor k (reset ctx start d) = find_cursor k d"
      using False by (simp add: find_cursor_reset)
    ultimately have "cursor_counts_log k (reset ctx start d) = cursor_counts_log k d"
      by (rule cursor_counts_log_cong [rotated])
    with assms show ?thesis by (simp add: indexer_ok_def)
  qed
  ultimately show ?thesis
    using assms by (simp add: indexer_ok_def db_ok_reset)
qed

section \<open>Reachable databases\<close>

definition empty_db :: db where
  "empty_db = \<lparr>orders = [], milestones = [], requests = [], offers = [], positions = [],
     disputes = [], settlements = [], refunds = [], evidence_objects = [], evidence_anchors = [],
     event_log = [], daily = [], cursors = [], anchor_transactions = [], cycles = [],
     participants = []\<rparr>"

text \<open>One committed transaction: of an indexer worker on any stream, or an evidence upload.\<close>

inductive service_step :: "db \<Rightarrow> db \<Rightarrow> bool" where
  cursor_created: "service_step d (ensure_cursor ctx start d)"
| page_applied:
    "apply_batch ctx now evs page eid esl d = Inr (n, d') \<Longrightarrow> service_step d d'"
| error_recorded: "service_step d (record_error ctx now msg d)"
| was_reset: "service_step d (reset ctx start d)"
| evidence_uploaded: "service_step d (d\<lparr>evidence_objects := evidence_objects d @ [e]\<rparr>)"

abbreviation service_steps :: "db \<Rightarrow> db \<Rightarrow> bool" where
  "service_steps \<equiv> service_step\<^sup>*\<^sup>*"

lemma upload_keeps: "indexer_ok d \<Longrightarrow> indexer_ok (d\<lparr>evidence_objects := es\<rparr>)"
proof -
  have "cursor_counts_log k (d\<lparr>evidence_objects := es\<rparr>) = cursor_counts_log k d" for k
    by (rule cursor_counts_log_cong) (simp_all add: find_cursor_def log_rows_def)
  then show "indexer_ok d \<Longrightarrow> ?thesis" by (simp add: indexer_ok_def log_ok_def daily_ok_def)
qed

lemma service_step_keeps: "service_step d d' \<Longrightarrow> indexer_ok d \<Longrightarrow> indexer_ok d'"
  by (induction rule: service_step.induct)
    (blast intro: ensure_cursor_keeps apply_batch_keeps record_error_keeps reset_keeps upload_keeps)+

lemma empty_db_ok: "indexer_ok empty_db"
  by (simp add: indexer_ok_def db_ok_def log_ok_def daily_ok_def cursor_counts_log_def empty_db_def
      distinct_keys_def one_active_per_milestone_def count_rows_def find_cursor_def stored_counts_def
      recount_def)

lemma reachable_ok: "service_steps empty_db d \<Longrightarrow> indexer_ok d"
  by (induction rule: rtranclp_induct) (auto intro: empty_db_ok service_step_keeps)

end
