(* ===== verification/IndexerRuns.thy ===== *)
theory IndexerRuns
  imports IndexerProperties
begin

text \<open>
  Runs of the indexer: what one page adds to the log, why a page is applied at most once
  whoever fetched it, and that \<open>catch_up\<close> ends and only ever commits whole pages.
\<close>

section \<open>A page and the log\<close>

text \<open>The ids of a page that are neither stored nor repeated, in order.\<close>

fun first_seen :: "string list \<Rightarrow> string list \<Rightarrow> string list" where
  "first_seen seen [] = []"
| "first_seen seen (x # xs) =
     (if List.member seen x then first_seen seen xs else x # first_seen (x # seen) xs)"

lemma apply_events_rows:
  assumes "apply_events ctx evs seen n d = Inr (n', d')"
  shows "\<exists>rows. event_log d' = event_log d @ rows
    \<and> map l_eventId rows = first_seen seen (map eventId evs)
    \<and> list_all (\<lambda>r. l_ctx r = ctx) rows \<and> bc_ingested n' = bc_ingested n + length rows"
  using assms
proof (induction evs arbitrary: seen n d)
  case (Cons ev evs)
  from Cons.prems show ?case
  proof (cases rule: apply_events_Cons)
    case duplicate
    with Cons.IH [OF duplicate(3)] show ?thesis by simp
  next
    case (fresh p d1)
    let ?r = "event_log_row ctx ev (fields_to_json (ev_fields ev)) p"
    have log: "event_log d1 = event_log d @ [?r]"
      using fresh(3) by (auto elim: ingest_event_Inr)
    from Cons.IH [OF fresh(4)] obtain rows where "event_log d' = event_log d1 @ rows"
      and "map l_eventId rows = first_seen (eventId ev # seen) (map eventId evs)"
      and "list_all (\<lambda>r. l_ctx r = ctx) rows" and "bc_ingested n' = bc_ingested n + 1 + length rows"
      by auto
    then show ?thesis
      using fresh(2) by (intro exI [of _ "?r # rows"]) (simp add: log event_log_row_def)
  qed
qed simp

lemma set_first_seen: "set xs \<subseteq> set seen \<union> set (first_seen seen xs)"
proof (induction xs arbitrary: seen)
  case (Cons x xs)
  have "set xs \<subseteq> set (x # seen) \<union> set (first_seen (x # seen) xs)" by (rule Cons.IH)
  with Cons.IH [of seen] show ?case by auto
qed simp

lemma page_log:
  assumes "apply_batch ctx now evs page eid esl d = Inr (n, d')"
  obtains rows where "event_log d' = event_log d @ rows"
    and "map l_eventId rows = first_seen (already_stored ctx evs d) (map eventId evs)"
    and "list_all (\<lambda>r. l_ctx r = ctx) rows" and "bc_ingested n = length rows"
    and "bc_ingested n + bc_duplicates n = length evs"
proof -
  from assms obtain d1 where run: "apply_events ctx evs (already_stored ctx evs d)
       \<lparr>bc_ingested = 0, bc_projected = 0, bc_duplicates = 0\<rparr> d = Inr (n, d1)"
    and "event_log d' = event_log d1"
    by (auto elim!: apply_batch_Inr)
  with apply_events_rows [OF run] apply_events_log(4) [OF run] that show thesis by auto
qed

lemma page_is_logged:
  assumes "apply_batch ctx now evs page eid esl d = Inr (n, d')" and "ev \<in> set evs"
  shows "\<exists>r \<in> set (event_log d'). log_key r = (ctx, eventId ev)"
proof -
  from assms(1) obtain rows where log: "event_log d' = event_log d @ rows"
    and ids: "map l_eventId rows = first_seen (already_stored ctx evs d) (map eventId evs)"
    and here: "list_all (\<lambda>r. l_ctx r = ctx) rows"
    by (rule page_log)
  have "eventId ev \<in> set (already_stored ctx evs d) \<union> set (map l_eventId rows)"
    unfolding ids using set_first_seen [of "map eventId evs" "already_stored ctx evs d"] assms(2) by auto
  then show ?thesis
    using log here by (fastforce simp: already_stored_def log_key_def list_all_iff)
qed

section \<open>Redelivery\<close>

lemma all_duplicates:
  "eventId ` set evs \<subseteq> set seen \<Longrightarrow> \<forall>ev \<in> set evs. ev_contractId ev = contractId ctx
   \<Longrightarrow> apply_events ctx evs seen n d = Inr (n\<lparr>bc_duplicates := bc_duplicates n + length evs\<rparr>, d)"
  by (induction evs arbitrary: n) auto

lemma stored_if_logged:
  assumes "\<forall>ev \<in> set evs. \<exists>r \<in> set (event_log d). log_key r = (ctx, eventId ev)"
  shows "eventId ` set evs \<subseteq> set (already_stored ctx evs d)"
  using assms by (force simp: already_stored_def log_key_def)

lemma logged_page_changes_nothing:
  assumes "\<forall>ev \<in> set evs. \<exists>r \<in> set (event_log d). log_key r = (ctx, eventId ev)"
    and "\<forall>ev \<in> set evs. ev_contractId ev = contractId ctx" and "find_cursor ctx d = Some c"
  shows "apply_batch ctx now evs page (c_lastEventId c) (c_scannedThroughLedger c) d =
    Inr (\<lparr>bc_ingested = 0, bc_projected = 0, bc_duplicates = length evs\<rparr>,
         d\<lparr>cursors := update_row cursor_key ctx (advance_cursor now evs page 0) (cursors d)\<rparr>)"
  using all_duplicates [OF stored_if_logged [OF assms(1)] assms(2)] assms(3)
  by (simp add: apply_batch_def)

lemma apply_events_contract:
  "apply_events ctx evs seen n d = Inr r \<Longrightarrow> \<forall>ev \<in> set evs. ev_contractId ev = contractId ctx"
  by (induction evs arbitrary: seen n d)
    (auto simp del: apply_events.simps(2) elim!: apply_events_Cons)

lemma page_again:
  assumes run: "apply_batch ctx now evs page eid esl d = Inr (n, d')"
    and "find_cursor ctx d' = Some c"
  shows "apply_batch ctx now' evs page' (c_lastEventId c) (c_scannedThroughLedger c) d' =
    Inr (\<lparr>bc_ingested = 0, bc_projected = 0, bc_duplicates = length evs\<rparr>,
         d'\<lparr>cursors := update_row cursor_key ctx (advance_cursor now' evs page' 0) (cursors d')\<rparr>)"
proof (rule logged_page_changes_nothing)
  show "\<forall>ev \<in> set evs. \<exists>r \<in> set (event_log d'). log_key r = (ctx, eventId ev)"
    using page_is_logged [OF run] by blast
  show "\<forall>ev \<in> set evs. ev_contractId ev = contractId ctx"
    using run by (auto elim!: apply_batch_Inr dest: apply_events_contract)
qed (fact assms(2))

section \<open>Two workers with the same page\<close>

lemma cursor_after_page:
  assumes "apply_batch ctx now evs page eid esl d = Inr (n, d')"
  obtains c where "find_cursor ctx d = Some c" "c_lastEventId c = eid" "c_scannedThroughLedger c = esl"
    "find_cursor ctx d' = Some (advance_cursor now evs page (bc_ingested n) c)"
proof -
  from assms obtain c d1 where c: "find_cursor ctx d = Some c" "c_lastEventId c = eid"
      "c_scannedThroughLedger c = esl"
    and run: "apply_events ctx evs (already_stored ctx evs d)
       \<lparr>bc_ingested = 0, bc_projected = 0, bc_duplicates = 0\<rparr> d = Inr (n, d1)"
    and d': "d' = d1\<lparr>cursors := update_row cursor_key ctx (advance_cursor now evs page (bc_ingested n)) (cursors d1)\<rparr>"
    by (rule apply_batch_Inr)
  have "find_cursor ctx d1 = Some c"
    using c(1) apply_events_log(1) [OF run] by (simp add: find_cursor_def)
  then have "find_cursor ctx d' = Some (advance_cursor now evs page (bc_ingested n) c)"
    unfolding d' find_cursor_update [OF cursor_key_advance] by simp
  with c that show thesis by blast
qed

lemma second_worker_is_stale:
  assumes "apply_batch ctx now evs page eid esl d = Inr (n, d')"
    and "Some (pg_scannedThroughLedger page) \<noteq> esl \<or> pg_cursor page \<noteq> None \<and> pg_cursor page \<noteq> eid"
  shows "apply_batch ctx now' evs' page' eid esl d' = Inl StaleCursor"
proof -
  from assms(1) obtain c where "c_lastEventId c = eid" "c_scannedThroughLedger c = esl"
    "find_cursor ctx d' = Some (advance_cursor now evs page (bc_ingested n) c)"
    by (rule cursor_after_page)
  with assms(2) show ?thesis
    by (auto simp: apply_batch_def advance_cursor_def split: option.splits)
qed

section \<open>Catching up ends\<close>

text \<open>Nothing a page runs throws \<open>StaleCursor\<close>: only the checkpoint comparison does.\<close>

definition not_stale :: "api_error + 'a \<Rightarrow> bool" where
  "not_stale r \<longleftrightarrow> r \<noteq> Inl StaleCursor"

lemma not_stale_intros:
  "not_stale (Inr x)" "e \<noteq> StaleCursor \<Longrightarrow> not_stale (Inl e)"
  "not_stale m \<Longrightarrow> (\<And>x. not_stale (k x)) \<Longrightarrow> not_stale (and_then m k)"
  "not_stale r \<Longrightarrow> not_stale s \<Longrightarrow> not_stale (if c then r else s)"
  "not_stale r \<Longrightarrow> (\<And>x. not_stale (g x)) \<Longrightarrow> not_stale (case v of None \<Rightarrow> r | Some x \<Rightarrow> g x)"
  "(\<And>x y. not_stale (h x y)) \<Longrightarrow> not_stale (case p of (x, y) \<Rightarrow> h x y)"
  by (auto simp: not_stale_def and_then_Inl split: option.split prod.split)

lemma not_stale_amounts:
  "not_stale (to_big_int v)" "not_stale (assert_i128 i what)" "not_stale (assert_non_negative_i128 i what)"
  "not_stale (assert_u64 i what)" "not_stale (ledger_time_to_date i)"
proof -
  show "not_stale (to_big_int v)"
    by (cases v rule: to_big_int.cases) (auto simp: not_stale_def parse_integer_string_def)
qed (auto simp: assert_i128_def assert_non_negative_i128_def assert_u64_def ledger_time_to_date_def
    not_stale_def and_then_Inl Let_def split: if_splits)

lemma not_stale_fields:
  "not_stale (str f k)" "not_stale (u64 f k)" "not_stale (i128 f k)" "not_stale (u32 f k)"
  "not_stale (bool_field f k)" "not_stale (hex32 f k)" "not_stale (date_column dt)"
  "not_stale (optional_date_column od)" "not_stale (optional_deadline f)"
  "not_stale (required_expiry f k)"
proof -
  show u: "not_stale (u64 f k)" for f k
    by (simp add: u64_def not_stale_intros not_stale_amounts)
  show "not_stale (i128 f k)"
    by (simp add: i128_def not_stale_intros not_stale_amounts)
  show dc: "not_stale (date_column dt)" for dt
    by (cases dt) (simp_all add: not_stale_def)
  show "not_stale (optional_date_column od)"
    by (cases od) (simp_all add: not_stale_intros dc)
  show "not_stale (optional_deadline f)"
    unfolding optional_deadline_def
    by (cases "get_field f ''deadline''")
      (simp_all del: to_big_int.simps add: not_stale_intros not_stale_amounts)
  show "not_stale (required_expiry f k)"
    unfolding required_expiry_def by (intro not_stale_intros u not_stale_amounts) simp_all
qed (auto simp: str_def u32_def bool_field_def hex32_def not_stale_def
    split: jsval.split option.split)

lemma not_stale_statements:
  "not_stale (create_order o1 d)" "not_stale (update_order ctx i f1 d)"
  "not_stale (upsert_milestone m d)" "not_stale (update_milestone ctx i f2 d)"
  "not_stale (create_request q d)" "not_stale (update_request ctx i f3 d)"
  "not_stale (upsert_offer f d)" "not_stale (update_offer ctx i f4 d)"
  "not_stale (update_offers ctx i f4 d)" "not_stale (upsert_position p d)"
  "not_stale (update_active_positions ctx i f5 d)" "not_stale (upsert_dispute x d)"
  "not_stale (update_dispute ctx i f6 d)" "not_stale (upsert_settlement s d)"
  "not_stale (upsert_refund r d)" "not_stale (create_anchor a d)"
  "not_stale (update_anchor ctx i f7 d)" "not_stale (update_evidence_objects ctx h f8 d)"
  "not_stale (create_log lr d)" "not_stale (require_milestone ctx i d)"
  "not_stale (advance_milestone ctx ev m f2 d)" "not_stale (advance_request ctx ev q f3 d)"
  by (simp_all add: statement_defs create_log_def require_milestone_def advance_milestone_def
      advance_request_def insert_row_def not_stale_intros not_stale_def split: option.split)

lemma project_event_not_stale: "not_stale (project_event ctx ev d)"
proof -
  have "not_stale (project_known name ctx ev d)" for name
    by (cases name)
      (simp_all add: project_order_created_def project_order_moved_def project_milestone_created_def
        project_milestone_funded_def project_partial_funding_cancelled_def
        project_finance_requested_def project_finance_request_cancelled_def
        project_funding_offer_created_def project_offer_decided_def project_advance_funded_def
        project_acceptance_released_def project_evidence_submitted_def project_milestone_verified_def
        project_milestone_settled_def project_milestone_refunded_def project_dispute_opened_def
        project_dispute_resolved_def Let_def not_stale_intros not_stale_fields not_stale_statements)
  then show ?thesis
    unfolding project_event_def by (intro not_stale_intros) simp_all
qed

lemma apply_events_not_stale: "not_stale (apply_events ctx evs seen n d)"
proof (induction evs arbitrary: seen n d)
  case (Cons ev evs)
  have "not_stale (ingest_event ctx ev d)"
    by (simp add: ingest_event_def not_stale_intros project_event_not_stale not_stale_statements)
  with Cons.IH show ?case by (simp add: not_stale_intros)
qed (simp add: not_stale_intros)

lemma catch_up_loop_alone:
  assumes "\<And>i d. others w i d = d" and "maxPages - page < fuel"
  shows "catch_up_loop fuel pf w ctx start maxPages i page res d \<noteq> None"
  using assms(2)
proof (induction fuel arbitrary: i page res d)
  case 0
  then show ?case by simp
next
  case (Suc fuel)
  obtain c where c: "find_cursor ctx (ensure_cursor ctx start d) = Some c"
    using find_ensure_cursor by blast
  have fresh: "apply_batch ctx now evs pg (c_lastEventId c) (c_scannedThroughLedger c)
      (ensure_cursor ctx start d) \<noteq> Inl StaleCursor" for now evs pg
    using apply_events_not_stale [of ctx evs]
    by (simp add: apply_batch_def c not_stale_def and_then_Inl)
  have IH: "catch_up_loop fuel pf w ctx start maxPages i' (page + 1) res' d' \<noteq> None"
    if "page < maxPages" for i' res' d'
    using Suc that by (intro Suc.IH) simp
  show ?case
    using IH fresh by (auto simp: Let_def c assms(1) split: sum.split prod.split)
qed

section \<open>A run commits whole pages\<close>

lemma catch_up_loop_steps:
  assumes "\<And>i d. service_steps d (others w i d)"
    and "catch_up_loop fuel pf w ctx start maxPages i page res d = Some (r, d')"
  shows "service_steps d d'"
  using assms(2)
proof (induction fuel arbitrary: i page res d)
  case (Suc fuel)
  obtain c where c: "find_cursor ctx (ensure_cursor ctx start d) = Some c"
    using find_ensure_cursor by blast
  let ?d1 = "others w i (ensure_cursor ctx start d)"
  have d1: "service_steps d ?d1"
    by (rule converse_rtranclp_into_rtranclp [OF cursor_created assms(1)])
  have d2: "service_steps d d2" if "apply_batch ctx now evs pg eid esl ?d1 = Inr (n, d2)"
    for now evs pg eid esl n d2
    using d1 page_applied [OF that] by (rule rtranclp.rtrancl_into_rtrancl)
  show ?case
    using Suc.prems d1
    by (auto simp: Let_def c split: if_splits sum.splits prod.splits
        intro: rtranclp_trans [OF d1 Suc.IH] rtranclp_trans [OF d2 Suc.IH] d2)
qed simp

lemma catch_up_steps:
  assumes "\<And>i d. service_steps d (others w i d)"
    and "catch_up fuel pf w redact now ctx start maxPages s = Some (r, s')"
  shows "service_steps (store s) (store s')"
proof (cases "running s")
  case False
  with assms(2) obtain r0 d where "catch_up_loop fuel pf w ctx start maxPages 0 0 empty_run (store s) = Some (r0, d)"
    and s': "store s' = d \<or> (\<exists>msg. store s' = record_error ctx now msg d)"
    by (fastforce simp: catch_up_def split: option.splits sum.splits)
  from catch_up_loop_steps [OF assms(1) this(1)] s' show ?thesis
    using error_recorded [of d ctx now] by (auto intro: rtranclp.rtrancl_into_rtrancl)
qed (use assms(2) in \<open>simp add: catch_up_def\<close>)

end
