(* ===== verification/Replay.thy ===== *)
theory Replay
  imports IndexerRuns
begin

text \<open>
  Rebuilding the read models. What the indexer does for one stream depends only on the rows of
  that stream (\<open>in_scope\<close>), statement by statement, case by case and page by page; so after
  \<open>reset\<close>, replaying the same pages gives the same rows whatever the database held before.
\<close>

section \<open>The rows of a stream\<close>

text \<open>The clock readings of the cursor are not part of what is rebuilt.\<close>

definition without_clock :: "cursor_row \<Rightarrow> cursor_row" where
  "without_clock c = c\<lparr>c_lastPollAt := None, c_lastEventAt := None\<rparr>"

definition in_scope :: "projection_context \<Rightarrow> db \<Rightarrow> db" where
  "in_scope ctx d =
     \<lparr>orders = filter (\<lambda>r. o_ctx r = ctx) (orders d),
      milestones = filter (\<lambda>r. m_ctx r = ctx) (milestones d),
      requests = filter (\<lambda>r. q_ctx r = ctx) (requests d),
      offers = filter (\<lambda>r. f_ctx r = ctx) (offers d),
      positions = filter (\<lambda>r. p_ctx r = ctx) (positions d),
      disputes = filter (\<lambda>r. d_ctx r = ctx) (disputes d),
      settlements = filter (\<lambda>r. s_ctx r = ctx) (settlements d),
      refunds = filter (\<lambda>r. r_ctx r = ctx) (refunds d),
      evidence_objects = filter (\<lambda>r. e_ctx r = ctx) (evidence_objects d),
      evidence_anchors = filter (\<lambda>r. a_ctx r = ctx) (evidence_anchors d),
      event_log = filter (\<lambda>r. l_ctx r = ctx) (event_log d),
      daily = filter (\<lambda>r. y_ctx r = ctx) (daily d),
      cursors = map without_clock (filter (\<lambda>r. c_ctx r = ctx) (cursors d)),
      anchor_transactions = [], cycles = [], participants = []\<rparr>"

text \<open>An operation is local if it does to the rows of its stream what it does to all rows.\<close>

abbreviation scoped :: "projection_context \<Rightarrow> api_error + db \<Rightarrow> api_error + db" where
  "scoped ctx \<equiv> map_sum id (in_scope ctx)"

abbreviation scoped2 :: "projection_context \<Rightarrow> api_error + ('a \<times> db) \<Rightarrow> api_error + ('a \<times> db)" where
  "scoped2 ctx \<equiv> map_sum id (apsnd (in_scope ctx))"

section \<open>Tables\<close>

lemma find_filter:
  "(\<And>r. key r = k \<Longrightarrow> Q r) \<Longrightarrow> find_row key k (filter Q t) = find_row key k t"
  by (induction t) (auto simp: find_row_Cons)

lemma filter_update:
  "(\<And>r. P r \<Longrightarrow> Q (f r) = Q r) \<Longrightarrow> filter Q (update_rows P f t) = update_rows P f (filter Q t)"
  by (induction t) (auto simp: update_rows_def)

lemma filter_insert:
  "Q r \<Longrightarrow> (\<And>x. key x = key r \<Longrightarrow> Q x)
   \<Longrightarrow> filter Q (insert_if_absent key r t) = insert_if_absent key r (filter Q t)"
  by (simp add: insert_if_absent_def find_filter)

lemma find_in_scope [simp]:
  "find_order ctx i (in_scope ctx d) = find_order ctx i d"
  "find_milestone ctx i (in_scope ctx d) = find_milestone ctx i d"
  "find_request ctx i (in_scope ctx d) = find_request ctx i d"
  "find_offer ctx i (in_scope ctx d) = find_offer ctx i d"
  "find_dispute ctx i (in_scope ctx d) = find_dispute ctx i d"
  "find_anchor ctx i (in_scope ctx d) = find_anchor ctx i d"
  unfolding finder_defs in_scope_def
  by (simp_all, (rule find_filter, auto simp: key_defs)+)

lemma require_in_scope [simp]: "require_milestone ctx i (in_scope ctx d) = require_milestone ctx i d"
  by (simp add: require_milestone_def)

section \<open>Statements\<close>

lemma create_order_local [simp]:
  assumes "o_ctx r = ctx" shows "create_order r (in_scope ctx d) = scoped ctx (create_order r d)"
proof -
  have "find_row order_key (order_key r) (filter (\<lambda>r. o_ctx r = ctx) (orders d))
      = find_row order_key (order_key r) (orders d)"
    by (rule find_filter) (use assms in \<open>simp add: order_key_def\<close>)
  then show ?thesis
    using assms by (auto simp: create_order_def insert_row_def in_scope_def)
qed

lemma update_order_local [simp]:
  assumes "\<forall>r. o_ctx (f r) = o_ctx r"
  shows "update_order ctx i f (in_scope ctx d) = scoped ctx (update_order ctx i f d)"
  using assms by (simp add: update_order_def in_scope_def update_row_def filter_update)

lemma upsert_milestone_local [simp]:
  assumes "m_ctx r = ctx"
  shows "upsert_milestone r (in_scope ctx d) = scoped ctx (upsert_milestone r d)"
proof -
  have "find_row milestone_key (milestone_key r) (filter (\<lambda>r. m_ctx r = ctx) (milestones d))
      = find_row milestone_key (milestone_key r) (milestones d)"
    by (rule find_filter) (use assms in \<open>simp add: milestone_key_def\<close>)
  then show ?thesis
    using assms by (auto simp: upsert_milestone_def in_scope_def insert_if_absent_def)
qed

lemma list_all_filter_key:
  "(\<And>r. P r \<Longrightarrow> Q r) \<Longrightarrow> list_all (\<lambda>r. P r \<longrightarrow> R r) (filter Q t) = list_all (\<lambda>r. P r \<longrightarrow> R r) t"
  by (induction t) auto

lemma update_milestone_local [simp]:
  assumes "\<forall>r. m_ctx (f r) = m_ctx r"
  shows "update_milestone ctx i f (in_scope ctx d) = scoped ctx (update_milestone ctx i f d)"
proof -
  have "list_all (\<lambda>m. milestone_key m = (ctx, i) \<longrightarrow> funded_within_amount (f m))
        (filter (\<lambda>r. m_ctx r = ctx) (milestones d))
      = list_all (\<lambda>m. milestone_key m = (ctx, i) \<longrightarrow> funded_within_amount (f m)) (milestones d)"
    by (rule list_all_filter_key) (simp add: milestone_key_def)
  then show ?thesis
    using assms by (simp add: update_milestone_def in_scope_def update_row_def filter_update)
qed

lemma create_request_local [simp]:
  assumes "q_ctx r = ctx" shows "create_request r (in_scope ctx d) = scoped ctx (create_request r d)"
proof -
  have "find_row request_key (request_key r) (filter (\<lambda>r. q_ctx r = ctx) (requests d))
      = find_row request_key (request_key r) (requests d)"
    by (rule find_filter) (use assms in \<open>simp add: request_key_def\<close>)
  then show ?thesis
    using assms by (auto simp: create_request_def insert_row_def in_scope_def)
qed

lemma update_request_local [simp]:
  assumes "\<forall>r. q_ctx (f r) = q_ctx r"
  shows "update_request ctx i f (in_scope ctx d) = scoped ctx (update_request ctx i f d)"
  using assms by (simp add: update_request_def in_scope_def update_row_def filter_update)

lemma upsert_offer_local [simp]:
  assumes "f_ctx r = ctx" shows "upsert_offer r (in_scope ctx d) = scoped ctx (upsert_offer r d)"
proof -
  have "filter (\<lambda>r. f_ctx r = ctx) (insert_if_absent offer_key r (offers d))
      = insert_if_absent offer_key r (filter (\<lambda>r. f_ctx r = ctx) (offers d))"
    by (rule filter_insert) (use assms in \<open>auto simp: offer_key_def\<close>)
  then show ?thesis by (simp add: upsert_offer_def in_scope_def)
qed

lemma update_offer_local [simp]:
  assumes "\<forall>r. f_ctx (f r) = f_ctx r"
  shows "update_offer ctx i f (in_scope ctx d) = scoped ctx (update_offer ctx i f d)"
  using assms by (simp add: update_offer_def in_scope_def update_row_def filter_update)

lemma count_filter: "(\<And>r. P r \<Longrightarrow> Q r) \<Longrightarrow> count_rows P (filter Q t) = count_rows P t"
  by (induction t) (auto simp: count_rows_def)

lemma update_offers_local [simp]:
  assumes "\<forall>r. f_ctx (f r) = f_ctx r"
  shows "update_offers ctx i f (in_scope ctx d) = scoped2 ctx (update_offers ctx i f d)"
proof -
  have "count_rows (\<lambda>r. offer_key r = (ctx, i)) (filter (\<lambda>r. f_ctx r = ctx) (offers d))
      = count_rows (\<lambda>r. offer_key r = (ctx, i)) (offers d)"
    by (rule count_filter) (simp add: offer_key_def)
  then show ?thesis
    using assms by (simp add: update_offers_def update_offer_def in_scope_def update_row_def filter_update)
qed

lemma active_in_scope:
  "count_rows (is_active_on ctx i) (filter (\<lambda>r. p_ctx r = ctx) ps) = count_rows (is_active_on ctx i) ps"
  by (rule count_filter) (simp add: is_active_on_def)

lemma upsert_position_local [simp]:
  assumes "p_ctx r = ctx" shows "upsert_position r (in_scope ctx d) = scoped ctx (upsert_position r d)"
proof -
  have "find_row position_key (position_key r) (filter (\<lambda>r. p_ctx r = ctx) (positions d))
      = find_row position_key (position_key r) (positions d)"
    by (rule find_filter) (use assms in \<open>simp add: position_key_def\<close>)
  then show ?thesis
    using assms by (auto simp: upsert_position_def in_scope_def active_in_scope)
qed

lemma update_active_positions_local [simp]:
  assumes "\<forall>r. p_ctx (f r) = p_ctx r"
  shows "update_active_positions ctx i f (in_scope ctx d) = scoped2 ctx (update_active_positions ctx i f d)"
  using assms by (simp add: update_active_positions_def in_scope_def active_in_scope filter_update)

lemma upsert_dispute_local [simp]:
  assumes "d_ctx r = ctx" shows "upsert_dispute r (in_scope ctx d) = scoped ctx (upsert_dispute r d)"
proof -
  have "filter (\<lambda>r. d_ctx r = ctx) (insert_if_absent dispute_key r (disputes d))
      = insert_if_absent dispute_key r (filter (\<lambda>r. d_ctx r = ctx) (disputes d))"
    by (rule filter_insert) (use assms in \<open>auto simp: dispute_key_def\<close>)
  then show ?thesis by (simp add: upsert_dispute_def in_scope_def)
qed

lemma update_dispute_local [simp]:
  assumes "\<forall>r. d_ctx (f r) = d_ctx r"
  shows "update_dispute ctx i f (in_scope ctx d) = scoped ctx (update_dispute ctx i f d)"
  using assms by (simp add: update_dispute_def in_scope_def update_row_def filter_update)

lemma upsert_settlement_local [simp]:
  assumes "s_ctx r = ctx" shows "upsert_settlement r (in_scope ctx d) = scoped ctx (upsert_settlement r d)"
proof -
  have "filter (\<lambda>r. s_ctx r = ctx) (insert_if_absent settlement_key r (settlements d))
      = insert_if_absent settlement_key r (filter (\<lambda>r. s_ctx r = ctx) (settlements d))"
    by (rule filter_insert) (use assms in \<open>auto simp: settlement_key_def\<close>)
  then show ?thesis by (simp add: upsert_settlement_def in_scope_def)
qed

lemma upsert_refund_local [simp]:
  assumes "r_ctx r = ctx" shows "upsert_refund r (in_scope ctx d) = scoped ctx (upsert_refund r d)"
proof -
  have "filter (\<lambda>r. r_ctx r = ctx) (insert_if_absent refund_key r (refunds d))
      = insert_if_absent refund_key r (filter (\<lambda>r. r_ctx r = ctx) (refunds d))"
    by (rule filter_insert) (use assms in \<open>auto simp: refund_key_def\<close>)
  then show ?thesis by (simp add: upsert_refund_def in_scope_def)
qed

lemma create_anchor_local [simp]:
  assumes "a_ctx r = ctx" shows "create_anchor r (in_scope ctx d) = scoped ctx (create_anchor r d)"
proof -
  have "find_row anchor_key (anchor_key r) (filter (\<lambda>r. a_ctx r = ctx) (evidence_anchors d))
      = find_row anchor_key (anchor_key r) (evidence_anchors d)"
    by (rule find_filter) (use assms in \<open>simp add: anchor_key_def\<close>)
  then show ?thesis
    using assms by (auto simp: create_anchor_def insert_row_def in_scope_def)
qed

lemma update_anchor_local [simp]:
  assumes "\<forall>r. a_ctx (f r) = a_ctx r"
  shows "update_anchor ctx i f (in_scope ctx d) = scoped ctx (update_anchor ctx i f d)"
  using assms by (simp add: update_anchor_def in_scope_def update_row_def filter_update)

lemma update_evidence_objects_local [simp]:
  assumes "\<forall>r. e_ctx (f r) = e_ctx r"
  shows "update_evidence_objects ctx h f (in_scope ctx d) = scoped ctx (update_evidence_objects ctx h f d)"
  using assms by (simp add: update_evidence_objects_def in_scope_def filter_update)

lemma advance_milestone_local [simp]:
  assumes "\<forall>r. m_ctx (f r) = m_ctx r"
  shows "advance_milestone ctx ev m f (in_scope ctx d) = scoped ctx (advance_milestone ctx ev m f d)"
  using assms by (simp add: advance_milestone_def stamp_milestone_def)

lemma advance_request_local [simp]:
  assumes "\<forall>r. q_ctx (f r) = q_ctx r"
  shows "advance_request ctx ev q f (in_scope ctx d) = scoped ctx (advance_request ctx ev q f d)"
  using assms by (simp add: advance_request_def stamp_request_def)

section \<open>Projections\<close>

text \<open>Moving \<open>in_scope\<close> outwards through a function body.\<close>

lemma scope_outwards:
  "and_then (map_sum id g m) k = and_then m (\<lambda>x. k (g x))"
  "map_sum id h (and_then m l) = and_then m (\<lambda>x. map_sum id h (l x))"
  "map_sum id h (if c then r else s) = (if c then map_sum id h r else map_sum id h s)"
  "map_sum id h (case v of None \<Rightarrow> r | Some x \<Rightarrow> q x) =
     (case v of None \<Rightarrow> map_sum id h r | Some x \<Rightarrow> map_sum id h (q x))"
  "map_sum id h (case p of (x, y) \<Rightarrow> w x y) = (case p of (x, y) \<Rightarrow> map_sum id h (w x y))"
  "(case apsnd g' p of (x, y) \<Rightarrow> w' x y) = (case p of (x, y) \<Rightarrow> w' x (g' y))"
  by (cases m; simp) (auto split: option.split prod.split intro: sum.exhaust [of m])

lemma and_then_branches:
  "and_then (if c then r else s) k = (if c then and_then r k else and_then s k)"
  "and_then (case v of None \<Rightarrow> r | Some x \<Rightarrow> q x) k =
     (case v of None \<Rightarrow> and_then r k | Some x \<Rightarrow> and_then (q x) k)"
  by (simp_all split: option.split)

lemma project_known_local:
  "project_known name ctx ev (in_scope ctx d) = scoped2 ctx (project_known name ctx ev d)"
  by (cases name)
    (simp_all add: project_order_created_def project_order_moved_def project_milestone_created_def
        project_milestone_funded_def project_partial_funding_cancelled_def
        project_finance_requested_def project_finance_request_cancelled_def
        project_funding_offer_created_def project_offer_decided_def project_advance_funded_def
        project_acceptance_released_def project_evidence_submitted_def project_milestone_verified_def
        project_milestone_settled_def project_milestone_refunded_def project_dispute_opened_def
        project_dispute_resolved_def Let_def scope_outwards and_then_branches
        and_then_assoc stamp_defs
      cong: option.case_cong if_cong)

lemma project_event_local:
  "project_event ctx ev (in_scope ctx d) = scoped2 ctx (project_event ctx ev d)"
  by (simp add: project_event_def project_known_local split: option.split)

section \<open>Pages\<close>

lemma create_log_local:
  assumes "l_ctx r = ctx" shows "create_log r (in_scope ctx d) = scoped ctx (create_log r d)"
proof -
  have "find_row log_key (log_key r) (filter (\<lambda>r. l_ctx r = ctx) (event_log d))
      = find_row log_key (log_key r) (event_log d)"
    by (rule find_filter) (use assms in \<open>simp add: log_key_def\<close>)
  moreover have "find_row log_chain_key (log_chain_key r) (filter (\<lambda>r. l_ctx r = ctx) (event_log d))
      = find_row log_chain_key (log_chain_key r) (event_log d)"
    by (rule find_filter) (use assms in \<open>simp add: log_chain_key_def\<close>)
  ultimately show ?thesis
    using assms by (simp add: create_log_def in_scope_def)
qed

lemma count_day_local: "count_day ctx ev p (in_scope ctx d) = in_scope ctx (count_day ctx ev p d)"
proof -
  have "find_row daily_key (ctx, day) (filter (\<lambda>r. y_ctx r = ctx) (daily d))
      = find_row daily_key (ctx, day) (daily d)" for day
    by (rule find_filter) (simp add: daily_key_def)
  then have "upsert_daily ctx day n (in_scope ctx d) = in_scope ctx (upsert_daily ctx day n d)" for day n
    by (cases "find_row daily_key (ctx, day) (daily d)")
      (simp_all add: upsert_daily_def in_scope_def update_row_def filter_update)
  then show ?thesis by (simp add: count_day_def)
qed

lemma ingest_event_local:
  "ingest_event ctx ev (in_scope ctx d) = scoped2 ctx (ingest_event ctx ev d)"
  by (simp add: ingest_event_def project_event_local scope_outwards create_log_local count_day_local
      event_log_row_def)

lemma apply_events_local:
  "apply_events ctx evs seen n (in_scope ctx d) = scoped2 ctx (apply_events ctx evs seen n d)"
proof (induction evs arbitrary: seen n d)
  case (Cons ev evs)
  then show ?case by (simp add: ingest_event_local scope_outwards scope_outwards [unfolded id_def])
qed simp

lemma already_stored_local: "already_stored ctx evs (in_scope ctx d) = already_stored ctx evs d"
  by (simp add: already_stored_def in_scope_def conj_commute conj_left_commute)

lemma find_row_map:
  "(\<And>r. key (g r) = key r) \<Longrightarrow> find_row key k (map g t) = map_option g (find_row key k t)"
  by (induction t) (auto simp: find_row_Cons)

lemma find_cursor_local: "find_cursor ctx (in_scope ctx d) = map_option without_clock (find_cursor ctx d)"
proof -
  have "find_row cursor_key ctx (filter (\<lambda>r. c_ctx r = ctx) (cursors d)) = find_row cursor_key ctx (cursors d)"
    by (rule find_filter) (simp add: cursor_key_def)
  then show ?thesis
    by (simp add: find_cursor_def in_scope_def find_row_map cursor_key_def without_clock_def)
qed

text \<open>A page applied to the checkpoint the cursor holds, as \<open>catchUp\<close> does when it runs alone.\<close>

definition apply_page ::
  "projection_context \<Rightarrow> int \<Rightarrow> event_page \<Rightarrow> db \<Rightarrow> api_error + (batch_counts \<times> db)" where
  "apply_page ctx now page d =
     (case find_cursor ctx d of
        None \<Rightarrow> Inl StaleCursor
      | Some c \<Rightarrow> apply_batch ctx now (js_sort compare_event_order (pg_events page)) page
                   (c_lastEventId c) (c_scannedThroughLedger c) d)"

lemma without_clock_simps [simp]:
  "c_lastEventId (without_clock c) = c_lastEventId c"
  "c_scannedThroughLedger (without_clock c) = c_scannedThroughLedger c"
  "c_ctx (without_clock c) = c_ctx c" "cursor_key (without_clock c) = cursor_key c"
  by (simp_all add: without_clock_def cursor_key_def)

lemma advance_cursor_clock:
  "without_clock (advance_cursor now evs page n (without_clock c)) =
   without_clock (advance_cursor now' evs page n c)"
  by (simp add: without_clock_def advance_cursor_def split: option.split)

lemma cursor_update_local:
  "map without_clock (filter (\<lambda>r. c_ctx r = ctx) (update_row cursor_key ctx (advance_cursor now evs page n)
      (map without_clock (filter (\<lambda>r. c_ctx r = ctx) cs)))) =
   map without_clock (filter (\<lambda>r. c_ctx r = ctx)
      (update_row cursor_key ctx (advance_cursor now' evs page n) cs))"
proof -
  have "c_ctx (advance_cursor w evs page n c) = c_ctx c" for c w
    by (simp add: advance_cursor_def)
  then show ?thesis
    by (induction cs) (auto simp: update_row_def update_rows_def cursor_key_def
        intro: advance_cursor_clock)
qed

lemma in_scope_idem: "in_scope ctx (in_scope ctx d) = in_scope ctx d"
  by (simp add: in_scope_def without_clock_def comp_def)

lemma in_scope_cursors:
  "in_scope ctx (x\<lparr>cursors := cs\<rparr>) =
     (in_scope ctx x)\<lparr>cursors := map without_clock (filter (\<lambda>r. c_ctx r = ctx) cs)\<rparr>"
  by (simp add: in_scope_def)

lemma apply_page_local:
  "scoped2 ctx (apply_page ctx now page (in_scope ctx d)) = scoped2 ctx (apply_page ctx now' page d)"
proof (cases "find_cursor ctx d")
  case None
  then show ?thesis by (simp add: apply_page_def find_cursor_local)
next
  case (Some c)
  let ?evs = "js_sort compare_event_order (pg_events page)"
  let ?run = "apply_events ctx ?evs (already_stored ctx ?evs d)
    \<lparr>bc_ingested = 0, bc_projected = 0, bc_duplicates = 0\<rparr>"
  have local: "?run (in_scope ctx d) = scoped2 ctx (?run d)"
    by (rule apply_events_local)
  show ?thesis
  proof (cases "?run d")
    case (Inl e)
    then show ?thesis
      using local Some
      by (simp add: apply_page_def apply_batch_def find_cursor_local already_stored_local)
  next
    case (Inr r)
    obtain n d1 where r: "r = (n, d1)" by force
    have "cursors (in_scope ctx d1) = map without_clock (filter (\<lambda>r. c_ctx r = ctx) (cursors d1))"
      by (simp add: in_scope_def)
    then show ?thesis
      using local Some Inr r cursor_update_local [of ctx now ?evs page "bc_ingested n" "cursors d1" now']
      by (simp add: apply_page_def apply_batch_def find_cursor_local already_stored_local
          in_scope_cursors in_scope_idem)
  qed
qed

lemma apply_page_same_scope:
  assumes "in_scope ctx d = in_scope ctx e"
  shows "scoped2 ctx (apply_page ctx now page d) = scoped2 ctx (apply_page ctx now' page e)"
  using apply_page_local [of ctx now page d now] apply_page_local [of ctx now page e now'] assms
  by metis

text \<open>Pages applied in turn, each with the time it was applied at.\<close>

fun run_pages :: "projection_context \<Rightarrow> (int \<times> event_page) list \<Rightarrow> db \<Rightarrow> api_error + db" where
  "run_pages ctx [] d = Inr d"
| "run_pages ctx ((now, page) # ps) d =
     and_then (apply_page ctx now page d) (\<lambda>(n, d'). run_pages ctx ps d')"

lemma run_pages_same_scope:
  assumes "in_scope ctx d = in_scope ctx e" and "map snd ps = map snd qs"
  shows "scoped ctx (run_pages ctx ps d) = scoped ctx (run_pages ctx qs e)"
  using assms
proof (induction ps arbitrary: qs d e)
  case (Cons p ps)
  obtain now page where p: "p = (now, page)" by force
  from Cons.prems(2) obtain now' qs' where qs: "qs = (now', page) # qs'" "map snd ps = map snd qs'"
    by (auto simp: p Cons_eq_map_conv)
  have page: "scoped2 ctx (apply_page ctx now page d) = scoped2 ctx (apply_page ctx now' page e)"
    by (rule apply_page_same_scope) (fact Cons.prems(1))
  show ?case
  proof (cases "apply_page ctx now page d")
    case (Inl x)
    with page have "apply_page ctx now' page e = Inl x"
      by (cases "apply_page ctx now' page e") auto
    with Inl show ?thesis by (simp add: p qs)
  next
    case (Inr r)
    with page obtain r' where r': "apply_page ctx now' page e = Inr r'"
      and "in_scope ctx (snd r) = in_scope ctx (snd r')"
      by (cases "apply_page ctx now' page e") (auto simp: apsnd_def map_prod_def split: prod.splits)
    with Cons.IH [OF this(2) qs(2)] Inr show ?thesis
      by (cases r; cases r') (simp add: p qs)
  qed
qed simp

section \<open>What reset starts from\<close>

lemma projection_write_evidence:
  "projection_write escrow ctx ev d d' \<Longrightarrow>
     map unanchored (evidence_objects d') = map unanchored (evidence_objects d)
   \<and> map e_ctx (evidence_objects d') = map e_ctx (evidence_objects d)"
  by (induction rule: projection_write.induct)
    (auto simp: statement_defs result_simps update_rows_def unanchored_def split: if_splits)

lemma project_event_evidence:
  assumes "project_event ctx ev d = Inr (p, d')"
  shows "map unanchored (evidence_objects d') = map unanchored (evidence_objects d)"
proof -
  have "map unanchored (evidence_objects d') = map unanchored (evidence_objects d)
      \<and> map e_ctx (evidence_objects d') = map e_ctx (evidence_objects d)"
    using project_event_writes(1) [OF assms]
    by (induction rule: rtranclp_induct) (auto dest: projection_write_evidence)
  then show ?thesis ..
qed

lemma ingest_event_evidence:
  assumes "ingest_event ctx ev d = Inr (p, d')"
  shows "map unanchored (evidence_objects d') = map unanchored (evidence_objects d)"
  using assms by (auto elim!: ingest_event_Inr simp: count_day_tables project_event_evidence)

lemma apply_events_evidence:
  "apply_events ctx evs seen n d = Inr (n', d') \<Longrightarrow>
     map unanchored (evidence_objects d') = map unanchored (evidence_objects d)"
  by (induction evs arbitrary: seen n d)
    (auto simp del: apply_events.simps(2) elim!: apply_events_Cons dest: ingest_event_evidence)

lemma filter_unanchored:
  "map unanchored (filter (\<lambda>e. e_ctx e = ctx) es) = filter (\<lambda>e. e_ctx e = ctx) (map unanchored es)"
  by (induction es) (auto simp: unanchored_def)

lemma unanchored_idem [simp]: "unanchored (unanchored e) = unanchored e" "e_ctx (unanchored e) = e_ctx e"
  by (simp_all add: unanchored_def)

lemma in_scope_reset:
  "in_scope ctx (reset ctx start d) =
     empty_db\<lparr>evidence_objects := filter (\<lambda>e. e_ctx e = ctx) (map unanchored (evidence_objects d)),
              cursors := map (without_clock \<circ> rewound)
                (filter (\<lambda>c. c_ctx c = ctx) (cursors (ensure_cursor ctx start d)))\<rparr>"
proof -
  have "map without_clock (filter (\<lambda>c. c_ctx c = ctx) (update_rows (\<lambda>c. c_ctx c = ctx) rewound cs)) =
      map (without_clock \<circ> rewound) (filter (\<lambda>c. c_ctx c = ctx) cs)" for cs
    by (induction cs) (auto simp: update_rows_def rewound_def)
  moreover have "filter (\<lambda>e. e_ctx e = ctx) (update_rows (\<lambda>e. e_ctx e = ctx) unanchored es) =
      filter (\<lambda>e. e_ctx e = ctx) (map unanchored es)" for es
    by (induction es) (auto simp: update_rows_def)
  ultimately show ?thesis
    by (simp add: in_scope_def reset_def ensure_cursor_def Let_def empty_db_def filter_delete(2))
qed

lemma ensure_existing_cursor: "find_cursor ctx d = Some c \<Longrightarrow> ensure_cursor ctx start d = d"
  by (simp add: ensure_cursor_def insert_if_absent_def find_cursor_def cursor_key_def)

lemma apply_page_reset:
  assumes "apply_page ctx now page d = Inr (n, d')"
  shows "in_scope ctx (reset ctx start d') = in_scope ctx (reset ctx start d)"
    and "find_cursor ctx d' \<noteq> None"
proof -
  let ?evs = "js_sort compare_event_order (pg_events page)"
  from assms obtain c :: cursor_row where batch: "apply_batch ctx now ?evs page (c_lastEventId c)
      (c_scannedThroughLedger c) d = Inr (n, d')"
    by (auto simp: apply_page_def split: option.splits)
  from batch obtain c0 d1 where cur: "find_cursor ctx d = Some c0"
    and run: "apply_events ctx ?evs (already_stored ctx ?evs d)
       \<lparr>bc_ingested = 0, bc_projected = 0, bc_duplicates = 0\<rparr> d = Inr (n, d1)"
    and d': "d' = d1\<lparr>cursors := update_row cursor_key ctx (advance_cursor now ?evs page (bc_ingested n)) (cursors d1)\<rparr>"
    by (rule apply_batch_Inr)
  from batch obtain c1 where cur': "find_cursor ctx d' = Some c1"
    by (rule cursor_after_page)
  then show "find_cursor ctx d' \<noteq> None" by simp
  have rew: "without_clock (rewound (advance_cursor now ?evs page k x)) = without_clock (rewound x)"
    "c_ctx (advance_cursor now ?evs page k x) = c_ctx x" for k x
    by (simp_all add: without_clock_def rewound_def advance_cursor_def)
  have "map (without_clock \<circ> rewound) (filter (\<lambda>c. c_ctx c = ctx)
        (update_row cursor_key ctx (advance_cursor now ?evs page k) cs)) =
      map (without_clock \<circ> rewound) (filter (\<lambda>c. c_ctx c = ctx) cs)" for k cs
    by (induction cs) (auto simp: update_row_def update_rows_def rew)
  then show "in_scope ctx (reset ctx start d') = in_scope ctx (reset ctx start d)"
    unfolding in_scope_reset ensure_existing_cursor [OF cur] ensure_existing_cursor [OF cur']
    using apply_events_evidence [OF run] apply_events_log(1) [OF run] by (simp add: d')
qed

lemma run_pages_reset:
  "run_pages ctx ps d = Inr d' \<Longrightarrow> in_scope ctx (reset ctx start d') = in_scope ctx (reset ctx start d)"
proof (induction ps arbitrary: d)
  case (Cons p ps)
  from Cons.prems obtain n d1 where "apply_page ctx (fst p) (snd p) d = Inr (n, d1)"
    and "run_pages ctx ps d1 = Inr d'"
    by (cases p) (auto simp: and_then_Inr)
  with Cons.IH apply_page_reset(1) show ?case by metis
qed simp

lemma reset_twice: "in_scope ctx (reset ctx start (reset ctx start d)) = in_scope ctx (reset ctx start d)"
proof -
  obtain c where "find_cursor ctx (ensure_cursor ctx start d) = Some c"
    using find_ensure_cursor by blast
  then have "find_cursor ctx (reset ctx start d) = Some (rewound c)"
    by (simp add: find_cursor_reset)
  note existing = ensure_existing_cursor [OF this]
  have "map (without_clock \<circ> rewound) (filter (\<lambda>c. c_ctx c = ctx) (update_row cursor_key ctx rewound cs)) =
      map (without_clock \<circ> rewound) (filter (\<lambda>c. c_ctx c = ctx) cs)" for cs
    by (induction cs) (auto simp: update_row_def update_rows_def rewound_def without_clock_def cursor_key_def)
  moreover have "map unanchored (evidence_objects (reset ctx start d)) = map unanchored (evidence_objects d)"
    by (simp add: reset_def Let_def update_rows_def ensure_cursor_def comp_def if_distrib cong: if_cong)
  ultimately show ?thesis
    unfolding in_scope_reset existing by (simp add: reset_tables)
qed

lemma replay_rebuilds:
  assumes "run_pages ctx ps (reset ctx start d0) = Inr d" and "map snd qs = map snd ps"
  shows "\<exists>d'. run_pages ctx qs (reset ctx start d) = Inr d' \<and> in_scope ctx d' = in_scope ctx d"
proof -
  have "in_scope ctx (reset ctx start d) = in_scope ctx (reset ctx start d0)"
    using run_pages_reset [OF assms(1), of start] by (simp add: reset_twice)
  from run_pages_same_scope [OF this assms(2)] assms(1) show ?thesis
    by (cases "run_pages ctx qs (reset ctx start d)") auto
qed

end
