(* ===== verification/SampleStream.thy ===== *)
theory SampleStream
  imports Replay
begin

text \<open>
  A concrete stream for the witnesses: one order with one milestone that is funded, financed,
  verified and settled. Eleven successful events of one contract, in chain order.
\<close>

definition ctx0 :: projection_context where
  "ctx0 = \<lparr>network = ''testnet'', contractId = ''C''\<rparr>"

definition sample_event :: "nat \<Rightarrow> string \<Rightarrow> fields \<Rightarrow> decoded_event" where
  "sample_event n name f =
     \<lparr>eventId = CHR ''e'' # pad_start 2 (CHR ''0'') (nat_to_string n), eventIndex = n,
      ev_ledger = 100 + int n, ledgerClosedAt = 1700000000000 + int n * 5000,
      ev_txHash = CHR ''t'' # nat_to_string n, txIndex = 0, operationIndex = 0,
      ev_contractId = ''C'', successful = True, eventName = name, known = True,
      ev_fields = f, topicsXdr = [], valueXdr = []\<rparr>"

definition sample_digest :: string where
  "sample_digest = replicate 64 (CHR ''a'')"

abbreviation one :: jsval where "one \<equiv> JBigInt 1"

definition ev_order :: decoded_event where
  "ev_order = sample_event 1 ''order_created''
     [(''order_id'', one), (''buyer'', JString ''B''), (''supplier'', JString ''S''),
      (''attestor'', JString ''A''), (''resolver'', JString ''R''), (''asset'', JString ''USDC'')]"

definition ev_milestone :: decoded_event where
  "ev_milestone = sample_event 2 ''milestone_created''
     [(''order_id'', one), (''milestone_id'', one), (''index'', JNumber (Some 0)),
      (''amount'', JBigInt 1000)]"

definition ev_funded :: decoded_event where
  "ev_funded = sample_event 3 ''milestone_funded''
     [(''order_id'', one), (''milestone_id'', one), (''funded_amount'', JBigInt 1000),
      (''fully_funded'', JBool True)]"

definition ev_requested :: decoded_event where
  "ev_requested = sample_event 4 ''finance_requested''
     [(''milestone_id'', one), (''supplier'', JString ''S''), (''requested_principal'', JBigInt 600),
      (''protected_amount'', JBigInt 1000), (''expires_at'', JBigInt 1800000000)]"

definition ev_offer :: decoded_event where
  "ev_offer = sample_event 5 ''funding_offer_created''
     [(''milestone_id'', one), (''offer_id'', one), (''funder'', JString ''F''),
      (''principal'', JBigInt 600), (''repayment'', JBigInt 620), (''expires_at'', JBigInt 1800000000)]"

definition ev_accepted :: decoded_event where
  "ev_accepted = sample_event 6 ''offer_accepted''
     [(''milestone_id'', one), (''offer_id'', one)]"

definition ev_advance :: decoded_event where
  "ev_advance = sample_event 7 ''advance_funded''
     [(''milestone_id'', one), (''offer_id'', one), (''funder'', JString ''F''),
      (''supplier'', JString ''S''), (''principal'', JBigInt 600), (''repayment'', JBigInt 620),
      (''protected_amount'', JBigInt 1000)]"

definition ev_evidence :: decoded_event where
  "ev_evidence = sample_event 8 ''evidence_submitted''
     [(''milestone_id'', one), (''evidence_hash'', JString sample_digest)]"

definition ev_verified :: decoded_event where
  "ev_verified = sample_event 9 ''milestone_verified''
     [(''milestone_id'', one), (''evidence_hash'', JString sample_digest)]"

definition ev_settled :: decoded_event where
  "ev_settled = sample_event 10 ''milestone_settled''
     [(''milestone_id'', one), (''order_id'', one), (''funder_repayment'', JBigInt 620),
      (''protected_amount'', JBigInt 1000), (''supplier_payout'', JBigInt 380)]"

definition ev_released :: decoded_event where
  "ev_released = sample_event 7 ''acceptance_released''
     [(''milestone_id'', one), (''offer_id'', one), (''request_reopened'', JBool True)]"

definition ev_refunded :: decoded_event where
  "ev_refunded = sample_event 10 ''milestone_refunded''
     [(''milestone_id'', one), (''order_id'', one), (''buyer'', JString ''B''),
      (''refunded_amount'', JBigInt 1000), (''funder_advance_outstanding'', JBigInt 620)]"

text \<open>The database after a list of events; an event that throws leaves it.\<close>

fun projected :: "decoded_event list \<Rightarrow> db \<Rightarrow> db" where
  "projected [] d = d"
| "projected (ev # evs) d =
     (case project_event ctx0 ev d of Inr (_, d') \<Rightarrow> projected evs d' | Inl _ \<Rightarrow> d)"

definition before_advance :: db where
  "before_advance = projected [ev_order, ev_milestone, ev_funded, ev_requested, ev_offer, ev_accepted] empty_db"

definition financed :: db where
  "financed = projected [ev_advance, ev_evidence, ev_verified] before_advance"

definition sample_page :: event_page where
  "sample_page = \<lparr>pg_events = [ev_funded, ev_order, ev_milestone], pg_cursor = Some ''k1'',
     pg_latestLedger = 200, pg_scannedThroughLedger = 103\<rparr>"

lemma projected_db_ok: "db_ok d \<Longrightarrow> db_ok (projected evs d)"
proof (induction evs arbitrary: d)
  case (Cons ev evs)
  then show ?case using projection_preserves_ok by (auto split: sum.splits)
qed simp

lemma sample_db_ok: "db_ok (projected evs empty_db)"
  using projected_db_ok empty_db_ok by (simp add: indexer_ok_def)

end
