(* ===== verification/IndexerClaims.thy ===== *)
theory IndexerClaims
  imports SampleStream
begin

text \<open>
  The properties of the indexer and the projector, each with a witness on the sample stream.
\<close>

section \<open>Inputs of the witnesses\<close>

lemma returnedD: "(case r of Inl _ \<Rightarrow> False | Inr (b, _) \<Rightarrow> b) \<Longrightarrow> \<exists>d. r = Inr (True, d)"
  by (auto split: sum.splits)

lemma settled_runs: "\<exists>d. project_event ctx0 ev_settled financed = Inr (True, d)"
  by (rule returnedD) code_simp

lemma requested_runs: "\<exists>d. project_event ctx0 ev_requested
    (projected [ev_order, ev_milestone, ev_funded] empty_db) = Inr (True, d)"
  by (rule returnedD) code_simp

lemma advance_runs: "\<exists>d. project_advance_funded ctx0 ev_advance before_advance = Inr (True, d)"
  by (rule returnedD) code_simp

lemma settled_case_runs: "\<exists>d. project_milestone_settled ctx0 ev_settled financed = Inr (True, d)"
  by (rule returnedD) code_simp

lemma refunded_case_runs: "\<exists>d. project_milestone_refunded ctx0 ev_refunded financed = Inr (True, d)"
  by (rule returnedD) code_simp

lemma released_case_runs: "\<exists>d. project_acceptance_released ctx0 ev_released financed = Inr (True, d)"
  by (rule returnedD) code_simp

definition opened :: db where
  "opened = ensure_cursor ctx0 1 empty_db"

lemma page_runs: "\<exists>n d. apply_batch ctx0 5 [ev_order, ev_milestone, ev_funded] sample_page None None opened = Inr (n, d)"
proof -
  have "(case apply_batch ctx0 5 [ev_order, ev_milestone, ev_funded] sample_page None None opened of
      Inl _ \<Rightarrow> False | Inr (n, _) \<Rightarrow> bc_ingested n = 3)"
    by code_simp
  then show ?thesis by (auto split: sum.splits)
qed

lemma pages_run: "\<exists>d. run_pages ctx0 [(5, sample_page)] (reset ctx0 1 empty_db) = Inr d"
proof -
  have "(case run_pages ctx0 [(5, sample_page)] (reset ctx0 1 empty_db) of
      Inl _ \<Rightarrow> False | Inr _ \<Rightarrow> True)"
    by code_simp
  then show ?thesis by (auto split: sum.splits)
qed

section \<open>The service\<close>

text \<open>
  C1: in every database the workers can reach, whatever pages they are given, in whatever
  order they commit, reset or fail, the read models obey the schema's constraints (identities
  unique, at most one active position per milestone, escrow between zero and the amount,
  closing dates that agree with statuses, hex digests), every event is logged at most once,
  the cursor's \<open>eventsIngested\<close> is the number of logged events of its stream, and the daily
  counters equal a recount of the log.
\<close>

theorem reachable_database_is_consistent:
  assumes "service_steps empty_db d"
  shows "indexer_ok d"
  using assms by (rule reachable_ok)

lemma reachable_database_is_consistent_witness:
  "\<exists>n d. apply_batch ctx0 5 [ev_order, ev_milestone, ev_funded] sample_page None None opened = Inr (n, d)
     \<and> indexer_ok d"
proof -
  obtain n d where page:
    "apply_batch ctx0 5 [ev_order, ev_milestone, ev_funded] sample_page None None opened = Inr (n, d)"
    using page_runs by blast
  have "service_steps empty_db d"
    using cursor_created page_applied [OF page] unfolding opened_def
    by (rule converse_rtranclp_into_rtranclp [OF _ r_into_rtranclp])
  from reachable_database_is_consistent [OF this] page show ?thesis by blast
qed

text \<open>
  C2: the read models are rebuilt by \<open>reset\<close> and a replay. If a stream was projected from a
  reset database through some pages, then resetting it and applying the same pages again, at
  any later times, returns, and the rows of the stream (orders, milestones, requests, offers,
  positions, disputes, settlements, refunds, evidence, log, daily counts and the cursor up to
  its clock readings) are the same.
\<close>

theorem replay_rebuilds_read_models:
  assumes "run_pages ctx ps (reset ctx start d0) = Inr d" and "map snd qs = map snd ps"
  shows "\<exists>d'. run_pages ctx qs (reset ctx start d) = Inr d' \<and> in_scope ctx d' = in_scope ctx d"
  using assms by (rule replay_rebuilds)

lemma replay_rebuilds_read_models_witness:
  "\<exists>d. run_pages ctx0 [(5, sample_page)] (reset ctx0 1 empty_db) = Inr d
     \<and> (\<exists>d'. run_pages ctx0 [(99, sample_page)] (reset ctx0 1 d) = Inr d' \<and> in_scope ctx0 d' = in_scope ctx0 d)"
proof -
  obtain d where run: "run_pages ctx0 [(5, sample_page)] (reset ctx0 1 empty_db) = Inr d"
    using pages_run by blast
  have "map snd [(99::int, sample_page)] = map snd [(5::int, sample_page)]" by simp
  from replay_rebuilds_read_models [OF run this] run show ?thesis by blast
qed

text \<open>
  C8: delivering a page a second time changes nothing but the cursor: applied again to the
  database it produced, every event of the page is a duplicate, nothing is ingested or
  projected, and no table but the cursor's is touched.
\<close>

theorem page_redelivery_is_idempotent:
  assumes "apply_batch ctx now evs page eid esl d = Inr (n, d')"
    and "find_cursor ctx d' = Some c"
  shows "apply_batch ctx now' evs page' (c_lastEventId c) (c_scannedThroughLedger c) d' =
    Inr (\<lparr>bc_ingested = 0, bc_projected = 0, bc_duplicates = length evs\<rparr>,
         d'\<lparr>cursors := update_row cursor_key ctx (advance_cursor now' evs page' 0) (cursors d')\<rparr>)"
  using assms by (rule page_again)

lemma page_redelivery_is_idempotent_witness:
  "\<exists>n d c. apply_batch ctx0 5 [ev_order, ev_milestone, ev_funded] sample_page None None opened = Inr (n, d)
     \<and> find_cursor ctx0 d = Some c
     \<and> apply_batch ctx0 6 [ev_order, ev_milestone, ev_funded] sample_page (c_lastEventId c)
         (c_scannedThroughLedger c) d =
       Inr (\<lparr>bc_ingested = 0, bc_projected = 0, bc_duplicates = 3\<rparr>,
            d\<lparr>cursors := update_row cursor_key ctx0
                (advance_cursor 6 [ev_order, ev_milestone, ev_funded] sample_page 0) (cursors d)\<rparr>)"
proof -
  obtain n d where page:
    "apply_batch ctx0 5 [ev_order, ev_milestone, ev_funded] sample_page None None opened = Inr (n, d)"
    using page_runs by blast
  then obtain c where c: "find_cursor ctx0 d = Some c" by (auto elim: cursor_after_page)
  from page_redelivery_is_idempotent [OF page c, of 6 sample_page] page c show ?thesis by auto
qed

text \<open>
  C9: two workers cannot both apply what they fetched from one checkpoint. Once a page that
  moves the checkpoint (a new paging token, or a new scanned ledger) is committed, applying
  any page fetched from the old checkpoint is refused as stale.
\<close>

theorem checkpoint_admits_one_page:
  assumes "apply_batch ctx now evs page eid esl d = Inr (n, d')"
    and "Some (pg_scannedThroughLedger page) \<noteq> esl \<or> pg_cursor page \<noteq> None \<and> pg_cursor page \<noteq> eid"
  shows "apply_batch ctx now' evs' page' eid esl d' = Inl StaleCursor"
  using assms by (rule second_worker_is_stale)

lemma checkpoint_admits_one_page_witness:
  "\<exists>n d. apply_batch ctx0 5 [ev_order, ev_milestone, ev_funded] sample_page None None opened = Inr (n, d)
     \<and> apply_batch ctx0 6 [ev_order] sample_page None None d = Inl StaleCursor"
proof -
  obtain n d where page:
    "apply_batch ctx0 5 [ev_order, ev_milestone, ev_funded] sample_page None None opened = Inr (n, d)"
    using page_runs by blast
  from checkpoint_admits_one_page [OF page, of 6 "[ev_order]" sample_page] page show ?thesis by auto
qed

text \<open>
  C10: a run that has the stream to itself ends within \<open>maxPages\<close> pages: with one unit of fuel
  more than \<open>maxPages\<close> the loop returns, the worker is no longer marked as running, and the
  database is as consistent as it was, whatever the RPC replied.
\<close>

theorem catch_up_alone_ends:
  assumes "\<And>i d. others w i d = d" and "maxPages < fuel" and "\<not> running s"
    and "indexer_ok (store s)"
  shows "\<exists>r s'. catch_up fuel pf w redact now ctx start maxPages s = Some (r, s')
    \<and> \<not> running s' \<and> indexer_ok (store s')"
proof -
  have "catch_up_loop fuel pf w ctx start maxPages 0 0 empty_run (store s) \<noteq> None"
    by (rule catch_up_loop_alone [OF assms(1)]) (use assms(2) in simp)
  then obtain r s' where run: "catch_up fuel pf w redact now ctx start maxPages s = Some (r, s')"
    and idle: "\<not> running s'"
    using assms(3) by (fastforce simp: catch_up_def split: sum.splits)
  have "service_steps (store s) (store s')"
    by (rule catch_up_steps [OF _ run]) (simp add: assms(1))
  then have "indexer_ok (store s')"
    using assms(4) by (induction rule: rtranclp_induct) (auto intro: service_step_keeps)
  with run idle show ?thesis by blast
qed

definition sample_world :: world where
  "sample_world = \<lparr>rpc = \<lambda>i q. Result \<lparr>er_events = [], er_cursor = Some ''k'', er_latestLedger = 7\<rparr>,
     others = \<lambda>i d. d, clock = \<lambda>i. int i\<rparr>"

lemma catch_up_alone_ends_witness:
  "\<exists>r s'. catch_up 51 text_platform sample_world (\<lambda>e. ''error'') 0 ctx0 1 50
     \<lparr>running = False, store = empty_db\<rparr> = Some (r, s') \<and> \<not> running s' \<and> indexer_ok (store s')"
  by (rule catch_up_alone_ends) (simp_all add: sample_world_def empty_db_ok)






text \<open>
  an event the projector does not know, or whose transaction failed, is stored in the log
  as not projected, and neither the read models nor the daily counts change.
\<close>

theorem unprojected_events_are_only_logged:
  assumes "\<not> known ev \<or> \<not> successful ev"
  shows "ingest_event ctx ev d =
    and_then (create_log (event_log_row ctx ev (fields_to_json (ev_fields ev)) False) d)
      (\<lambda>d'. Inr (False, d'))"
  using assms by (auto simp: ingest_event_def project_event_def count_day_def)

lemma unprojected_events_are_only_logged_witness:
  "ingest_event ctx0 (ev_settled\<lparr>successful := False\<rparr>) financed =
    and_then (create_log (event_log_row ctx0 (ev_settled\<lparr>successful := False\<rparr>)
       (fields_to_json (ev_fields (ev_settled\<lparr>successful := False\<rparr>))) False) financed)
      (\<lambda>d'. Inr (False, d'))"
  by (rule unprojected_events_are_only_logged) simp

section \<open>The projector\<close>

text \<open>
  C3: every projection keeps the schema's constraints on the read models: identities stay
  unique in each table, a milestone has at most one active position and an escrow balance
  between zero and its amount, a position's or a dispute's closing columns agree with its
  status, and every stored digest is 64 lower-case hex characters.
\<close>

theorem projection_keeps_constraints:
  assumes "project_event ctx ev d = Inr (b, d')" and "db_ok d"
  shows "db_ok d'"
  using assms by (rule projection_preserves_ok)

lemma projection_keeps_constraints_witness:
  "\<exists>d. project_event ctx0 ev_requested (projected [ev_order, ev_milestone, ev_funded] empty_db) = Inr (True, d)
     \<and> db_ok d"
  using requested_runs projection_keeps_constraints [OF _ sample_db_ok] by blast

text \<open>
  A projection never touches the rows of another network or contract, in any of the
  projected tables.
\<close>

theorem projection_is_scoped:
  assumes "project_event ctx ev d = Inr (b, d')"
  shows "rows_outside ctx d' = rows_outside ctx d"
  using assms by (rule projection_stays_in_scope)

lemma projection_is_scoped_witness:
  "\<exists>d. project_event ctx0 ev_settled financed = Inr (True, d)
     \<and> rows_outside ctx0 d = rows_outside ctx0 financed"
  using settled_runs projection_is_scoped by blast

text \<open>
  C5: orders, milestones, requests, disputes and evidence anchors only move forward in chain
  order: none disappears, and one that changes was stamped by an older event and is stamped by
  this one after. An event that is not newer than such a row leaves it alone.
\<close>

theorem guarded_rows_move_forward:
  assumes "project_event ctx ev d = Inr (b, d')"
  shows "rows_moved_forward (eventId ev) d d'"
  using assms by (rule projection_moves_forward)

lemma guarded_rows_move_forward_witness:
  "\<exists>d. project_event ctx0 ev_settled financed = Inr (True, d)
     \<and> rows_moved_forward (eventId ev_settled) financed d"
  using settled_runs guarded_rows_move_forward by blast

text \<open>
  C6: recorded history is immutable. Settlement and refund rows are only added, a position
  that was repaid or closed never changes again and an active one keeps its terms when it is,
  and what a milestone's creation recorded (order, index, amount, deadline, creation stamp)
  never changes.
\<close>

theorem history_is_immutable:
  assumes "project_event ctx ev d = Inr (b, d')"
  shows "history_kept d d'"
  using assms by (rule projection_keeps_history)

lemma history_is_immutable_witness:
  "\<exists>d. project_event ctx0 ev_settled financed = Inr (True, d) \<and> history_kept financed d"
  using settled_runs history_is_immutable by blast

text \<open>
  C4: only \<open>milestone_funded\<close>, \<open>partial_funding_cancelled\<close>, \<open>milestone_settled\<close> and
  \<open>milestone_refunded\<close> move escrow: every other event leaves the escrow balance of every known
  milestone as it was. In particular a private advance never touches it.
\<close>

theorem escrow_moves_only_by_escrow_events:
  assumes "project_event ctx ev d = Inr (b, d')" and "\<not> moves_escrow ev"
  shows "escrow_kept d d'"
  using assms by (rule projection_keeps_escrow)

lemma escrow_moves_only_by_escrow_events_witness:
  "\<exists>d. project_event ctx0 ev_requested (projected [ev_order, ev_milestone, ev_funded] empty_db) = Inr (True, d)
     \<and> escrow_kept (projected [ev_order, ev_milestone, ev_funded] empty_db) d"
proof -
  have "\<not> moves_escrow ev_requested" by code_simp
  then show ?thesis using requested_runs escrow_moves_only_by_escrow_events by blast
qed

section \<open>Money\<close>


lemma sample_fields:
  "u64 (ev_fields ev_settled) ''milestone_id'' = Inr 1"
  "i128 (ev_fields ev_settled) ''funder_repayment'' = Inr 620"
  "u64 (ev_fields ev_refunded) ''milestone_id'' = Inr 1"
  "i128 (ev_fields ev_refunded) ''funder_advance_outstanding'' = Inr 620"
  "u64 (ev_fields ev_advance) ''milestone_id'' = Inr 1"
  "u64 (ev_fields ev_advance) ''offer_id'' = Inr 1"
  "u64 (ev_fields ev_released) ''offer_id'' = Inr 1"
  by code_simp+

lemma sample_milestones:
  "\<exists>m. find_milestone ctx0 1 financed = Some m \<and> m_lastEventId m < eventId ev_settled
     \<and> m_lastEventId m < eventId ev_refunded"
  "\<exists>m. find_milestone ctx0 1 before_advance = Some m \<and> m_lastEventId m < eventId ev_advance"
  "find_row position_key (ctx0, 1, 1) (positions before_advance) = None"
proof -
  have "(case find_milestone ctx0 1 financed of None \<Rightarrow> False
      | Some m \<Rightarrow> m_lastEventId m < eventId ev_settled \<and> m_lastEventId m < eventId ev_refunded)"
    by code_simp
  then show "\<exists>m. find_milestone ctx0 1 financed = Some m \<and> m_lastEventId m < eventId ev_settled
     \<and> m_lastEventId m < eventId ev_refunded"
    by (auto split: option.splits)
  have "(case find_milestone ctx0 1 before_advance of None \<Rightarrow> False
      | Some m \<Rightarrow> m_lastEventId m < eventId ev_advance)"
    by code_simp
  then show "\<exists>m. find_milestone ctx0 1 before_advance = Some m \<and> m_lastEventId m < eventId ev_advance"
    by (auto split: option.splits)
  show "find_row position_key (ctx0, 1, 1) (positions before_advance) = None" by code_simp
qed


text \<open>
  A projected refund leaves the milestone REFUNDED with an empty escrow and no active
  position, and records a refund; it returns only if the number of positions it closed is the
  one the event implies (one exactly when an advance was outstanding).
\<close>

theorem refund_effect:
  assumes "project_milestone_refunded ctx ev d = Inr (b, d')"
    and "u64 (ev_fields ev) ''milestone_id'' = Inr mid"
    and "i128 (ev_fields ev) ''funder_advance_outstanding'' = Inr outstanding"
    and "find_milestone ctx mid d = Some m" and "m_lastEventId m < eventId ev"
  shows "b \<and> find_milestone ctx mid d' = Some (stamp_milestone ev (m\<lparr>m_status := REFUNDED, m_fundedAmount := 0\<rparr>))
    \<and> find_row refund_key (ctx, mid) (refunds d') \<noteq> None
    \<and> count_rows (is_active_on ctx mid) (positions d) = (if 0 < outstanding then 1 else 0)
    \<and> count_rows (is_active_on ctx mid) (positions d') = 0
    \<and> settlements d' = settlements d \<and> orders d' = orders d \<and> offers d' = offers d"
  using refunded_outcome [OF assms(1-4)] assms(5) by simp

lemma refund_effect_witness:
  "\<exists>d. project_milestone_refunded ctx0 ev_refunded financed = Inr (True, d)
     \<and> count_rows (is_active_on ctx0 1) (positions financed) = 1
     \<and> count_rows (is_active_on ctx0 1) (positions d) = 0"
proof -
  obtain d m where run: "project_milestone_refunded ctx0 ev_refunded financed = Inr (True, d)"
    and m: "find_milestone ctx0 1 financed = Some m" "m_lastEventId m < eventId ev_refunded"
    using refunded_case_runs sample_milestones(1) by blast
  from refund_effect [OF run sample_fields(3,4) m] run show ?thesis by auto
qed

text \<open>
  A projected advance is private: it opens the milestone's one active position, marks the
  accepted offer FUNDED and the milestone FINANCED, and leaves the escrow balance, the amount
  and every settlement and refund as they were.
\<close>

theorem advance_effect:
  assumes "project_advance_funded ctx ev d = Inr (b, d')"
    and "u64 (ev_fields ev) ''milestone_id'' = Inr mid"
    and "u64 (ev_fields ev) ''offer_id'' = Inr oid"
    and "find_milestone ctx mid d = Some m" and "m_lastEventId m < eventId ev"
    and "find_row position_key (ctx, mid, oid) (positions d) = None"
  shows "b \<and> find_milestone ctx mid d' = Some (stamp_milestone ev (m\<lparr>m_status := FINANCED\<rparr>))
    \<and> count_rows (is_active_on ctx mid) (positions d) = 0
    \<and> count_rows (is_active_on ctx mid) (positions d') = 1
    \<and> (\<exists>f. find_offer ctx oid d = Some f
          \<and> find_offer ctx oid d' = Some (stamp_offer ev (f\<lparr>f_status := OF_FUNDED\<rparr>)))
    \<and> orders d' = orders d \<and> settlements d' = settlements d \<and> refunds d' = refunds d"
  using advance_funded_outcome [OF assms(1-4,6)] assms(5) by simp

lemma advance_effect_witness:
  "\<exists>d. project_advance_funded ctx0 ev_advance before_advance = Inr (True, d)
     \<and> count_rows (is_active_on ctx0 1) (positions d) = 1"
proof -
  obtain d m where run: "project_advance_funded ctx0 ev_advance before_advance = Inr (True, d)"
    and m: "find_milestone ctx0 1 before_advance = Some m" "m_lastEventId m < eventId ev_advance"
    using advance_runs sample_milestones(2) by blast
  from advance_effect [OF run sample_fields(5,6) m sample_milestones(3)] run show ?thesis by auto
qed

text \<open>
  a financed settlement cannot be projected twice. Run again on the database it produced,
  the same event throws because no position is active any more, so a milestone's advance is
  repaid once; it does not do nothing, so the projection alone is not safe to rerun and
  relies on the log to filter redelivered events.
\<close>

theorem settlement_is_not_rerunnable:
  assumes "project_milestone_settled ctx ev d = Inr (b, d')"
    and "u64 (ev_fields ev) ''milestone_id'' = Inr mid"
    and "i128 (ev_fields ev) ''funder_repayment'' = Inr repayment" and "0 < repayment"
  shows "project_milestone_settled ctx ev d' = Inl (NoActivePosition mid)"
  using assms by (rule settled_again)

lemma settlement_is_not_rerunnable_witness:
  "\<exists>d. project_milestone_settled ctx0 ev_settled financed = Inr (True, d)
     \<and> project_milestone_settled ctx0 ev_settled d = Inl (NoActivePosition 1)"
  using settled_case_runs settlement_is_not_rerunnable [OF _ sample_fields(1,2)] by fastforce

text \<open>
  \<open>acceptance_released\<close> stamps its offer without comparing event ids: whatever the offer's
  status and stamp were, they become CANCELLED and the event's id, even when that id is older
  than the one the row carries.
\<close>

theorem release_overwrites_offer:
  assumes "project_acceptance_released ctx ev d = Inr (b, d')"
    and "u64 (ev_fields ev) ''offer_id'' = Inr oid"
  shows "\<exists>f f'. find_offer ctx oid d = Some f \<and> find_offer ctx oid d' = Some f'
    \<and> f_status f' = OF_CANCELLED \<and> f_lastEventId f' = eventId ev \<and> f_principal f' = f_principal f"
  using released_outcome [OF assms] by (auto simp: stamp_offer_def)

lemma release_overwrites_offer_witness:
  "\<exists>d f'. project_acceptance_released ctx0 ev_released financed = Inr (True, d)
     \<and> find_offer ctx0 1 d = Some f' \<and> f_lastEventId f' = ''e07''"
proof -
  have "eventId ev_released = ''e07''" by code_simp
  then show ?thesis
    using released_case_runs release_overwrites_offer [OF _ sample_fields(7)] by fastforce
qed

section \<open>Order\<close>

lemma sorted_page_is_canonical_witness:
  "js_sort compare_event_order [ev_funded, ev_order] = js_sort compare_event_order [ev_order, ev_funded]"
proof -
  have "inj_on eventId (set [ev_funded, ev_order])"
    by (simp add: inj_on_def) code_simp
  with sorted_page_is_canonical [of "[ev_funded, ev_order]" "[ev_order, ev_funded]"]
  show ?thesis by simp
qed

end
