(* ===== verification/LocalPayments.thy ===== *)
theory LocalPayments
  imports ReadModels
begin

text \<open>
  Reports of Anchor transfers and what Stellar says about them:
  \<open>apps/api/src/local-payments/local-payments.controller.ts\<close> (recording a report) and
  \<open>apps/api/src/metrics/local-payment-cycles.ts\<close> (checking its Stellar leg, deriving and storing
  the finance cycles). Horizon and the clock are arguments.
\<close>

section \<open>Exact decimals\<close>

text \<open>
  An amount with seven decimal places is its count of units of \<open>10^-7\<close>; \<open>from_base_units\<close> is how
  \<open>public-metrics.ts\<close> renders a count, and also \<open>Decimal.toFixed(7)\<close>.
\<close>

definition from_base_units :: "int \<Rightarrow> nat \<Rightarrow> string" where
  "from_base_units amount places =
     (let negative = amount < 0;
          digits = pad_start (places + 1) (CHR ''0'') (nat_to_string (nat \<bar>amount\<bar>));
          whole = take (length digits - places) digits;
          fraction = drop (length digits - places) digits
      in (if negative then ''-'' else '''') @ whole @ ''.'' @ fraction)"

definition to_fixed7 :: "int \<Rightarrow> string" where
  "to_fixed7 v = from_base_units v 7"

text \<open>\<open>toBaseUnits\<close>: the digits of \<open>toFixed(places)\<close> without the point, read as an integer.\<close>

definition to_base_units :: "string \<Rightarrow> int" where
  "to_base_units fixed =
     int_of_string (takeWhile (\<lambda>c. c \<noteq> CHR ''.'') fixed @ drop 1 (dropWhile (\<lambda>c. c \<noteq> CHR ''.'') fixed))"

text \<open>The value a decimal column stores for a text \<open>/^\d+(\.\d{1,7})?$/\<close>.\<close>

definition decimal_units :: "string \<Rightarrow> int" where
  "decimal_units s =
     (let whole = takeWhile (\<lambda>c. c \<noteq> CHR ''.'') s; fraction = drop 1 (dropWhile (\<lambda>c. c \<noteq> CHR ''.'') s)
      in int (nat_of_digits (whole @ pad_end 7 (CHR ''0'') fraction)))"

section \<open>Texts of values\<close>

text \<open>
  \<open>String(value)\<close>. \<open>number_text\<close> is the decimal notation JavaScript gives a number; the elements
  of an array are joined with commas, \<open>null\<close> and \<open>undefined\<close> among them as nothing.
\<close>

fun join_comma :: "string list \<Rightarrow> string" where
  "join_comma [] = []"
| "join_comma [s] = s"
| "join_comma (s # t # ss) = s @ '','' @ join_comma (t # ss)"

fun js_string :: "(rat option \<Rightarrow> string) \<Rightarrow> jsval \<Rightarrow> string" where
  "js_string nt JUndefined = ''undefined''"
| "js_string nt JNull = ''null''"
| "js_string nt (JBool b) = (if b then ''true'' else ''false'')"
| "js_string nt (JNumber n) = nt n"
| "js_string nt (JString s) = s"
| "js_string nt (JBigInt i) = int_to_string i"
| "js_string nt (JBytes bs) = join_comma (map (\<lambda>b. nat_to_string (unat b)) bs)"
| "js_string nt (JArray vs) =
     join_comma (map (\<lambda>v. if v = JNull \<or> v = JUndefined then [] else js_string nt v) vs)"
| "js_string nt (JObject kvs) = ''[object Object]''"

definition nullish :: "jsval \<Rightarrow> bool" where
  "nullish v \<longleftrightarrow> v = JNull \<or> v = JUndefined"

text \<open>\<open>v.key\<close>, for the keys used here, which no built-in value carries.\<close>

fun member :: "jsval \<Rightarrow> string \<Rightarrow> api_error + jsval" where
  "member JNull key = Inl (NullProperty key)"
| "member JUndefined key = Inl (NullProperty key)"
| "member (JObject f) key = Inr (get_field f key)"
| "member _ key = Inr JUndefined"

section \<open>Recording a report\<close>

definition FORBIDDEN_FIELDS :: "string list" where
  "FORBIDDEN_FIELDS =
     [''jwt'', ''token'', ''authorization'', ''secret'', ''seed'', ''privateKey'', ''secretKey'',
      ''kyc'', ''bankAccount'', ''iban'', ''nationalId'']"

text \<open>\<open>/^G[A-Z2-7]{55}$/\<close>\<close>

definition is_base32 :: "char \<Rightarrow> bool" where
  "is_base32 c \<longleftrightarrow> (65 \<le> code c \<and> code c \<le> 90) \<or> (50 \<le> code c \<and> code c \<le> 55)"

definition is_wallet :: "string \<Rightarrow> bool" where
  "is_wallet s \<longleftrightarrow> length s = 56 \<and> take 1 s = ''G'' \<and> list_all is_base32 (drop 1 s)"

text \<open>\<open>/^[a-z_]{1,40}$/\<close>, \<open>/^[a-zA-Z0-9._:-]{1,120}$/\<close>, \<open>/^[0-9a-f]{64}$/i\<close>, \<open>/^\d{1,32}(\.\d{1,7})?$/\<close>\<close>

definition is_status_text :: "string \<Rightarrow> bool" where
  "is_status_text s \<longleftrightarrow> 1 \<le> length s \<and> length s \<le> 40
     \<and> list_all (\<lambda>c. (97 \<le> code c \<and> code c \<le> 122) \<or> c = CHR ''_'') s"

definition is_reference :: "string \<Rightarrow> bool" where
  "is_reference s \<longleftrightarrow> 1 \<le> length s \<and> length s \<le> 120
     \<and> list_all (\<lambda>c. (97 \<le> code c \<and> code c \<le> 122) \<or> (65 \<le> code c \<and> code c \<le> 90) \<or> is_digit c
                   \<or> c = CHR ''.'' \<or> c = CHR ''_'' \<or> c = CHR '':'' \<or> c = CHR ''-'') s"

definition is_any_hex64 :: "string \<Rightarrow> bool" where
  "is_any_hex64 s \<longleftrightarrow> is_hex64 (to_lower s)"

definition is_decimal :: "string \<Rightarrow> bool" where
  "is_decimal s \<longleftrightarrow>
     (let whole = takeWhile is_digit s; rest = dropWhile is_digit s
      in 1 \<le> length whole \<and> length whole \<le> 32
         \<and> (rest = [] \<or> take 1 rest = ''.'' \<and> 2 \<le> length rest \<and> length rest \<le> 8
                        \<and> list_all is_digit (drop 1 rest)))"

fun forbidden_field :: "string list \<Rightarrow> fields \<Rightarrow> string option" where
  "forbidden_field [] f = None"
| "forbidden_field (k # ks) f = (if key_in k f then Some k else forbidden_field ks f)"

definition read_amount ::
  "(rat option \<Rightarrow> string) \<Rightarrow> jsval \<Rightarrow> string \<Rightarrow> api_error + string option" where
  "read_amount nt v label =
     (if nullish v then Inr None
      else if is_decimal (js_string nt v) then Inr (Some (js_string nt v))
      else Inl (BadRequest (label @ '' must be a decimal amount, not a float literal'')))"

definition matching_text :: "(string \<Rightarrow> bool) \<Rightarrow> jsval \<Rightarrow> string option" where
  "matching_text P v = (case v of JString s \<Rightarrow> if P s then Some s else None | _ \<Rightarrow> None)"

definition read_direction :: "string \<Rightarrow> anchor_direction option" where
  "read_direction s =
     (if s = ''TRY_TO_USDC'' then Some TRY_TO_USDC
      else if s = ''USDC_TO_TRY'' then Some USDC_TO_TRY else None)"

text \<open>\<open>String(body.key ?? '')\<close>\<close>

definition text_or_empty :: "(rat option \<Rightarrow> string) \<Rightarrow> jsval \<Rightarrow> string" where
  "text_or_empty nt v = (if nullish v then [] else js_string nt v)"

text \<open>The row a report creates. An omitted column is null.\<close>

definition report_row ::
  "(rat option \<Rightarrow> string) \<Rightarrow> string \<Rightarrow> jsval \<Rightarrow> api_error + anchor_transaction" where
  "report_row nt net body =
     (case body of
        JObject f \<Rightarrow>
          (case forbidden_field FORBIDDEN_FIELDS f of
             Some k \<Rightarrow> Inl (BadRequest (''Milvance never stores '' @ [CHR 0x27] @ k @ [CHR 0x27]
                 @ ''. Remove it and resend; your Anchor session stays in your browser.''))
           | None \<Rightarrow>
          (case read_direction (text_or_empty nt (get_field f ''direction'')) of
             None \<Rightarrow> Inl (BadRequest ''direction must be one of TRY_TO_USDC, USDC_TO_TRY'')
           | Some direction \<Rightarrow>
          (let walletAddress = text_or_empty nt (get_field f ''walletAddress'') in
           if \<not> is_wallet walletAddress
           then Inl (BadRequest ''walletAddress must be a Stellar public key'')
           else
          (case matching_text is_reference (get_field f ''anchorTransactionId'') of
             None \<Rightarrow> Inl (BadRequest ''anchorTransactionId is required for idempotent recording'')
           | Some anchorTransactionId \<Rightarrow>
          (let stellarTxHash = matching_text (\<lambda>s. True) (get_field f ''stellarTxHash'') in
           if (case stellarTxHash of None \<Rightarrow> False | Some h \<Rightarrow> \<not> is_any_hex64 h)
           then Inl (BadRequest ''stellarTxHash must be a 64-character hex transaction hash'')
           else
           and_then (read_amount nt (get_field f ''sourceAmount'') ''sourceAmount'') (\<lambda>sourceAmount.
           and_then (read_amount nt (get_field f ''destinationAmount'') ''destinationAmount'')
           (\<lambda>destinationAmount.
           Inr \<lparr>t_network = net,
                t_anchorDomain = (if net = ''testnet'' then ''tr-mock-anchor.fly.dev'' else ''unknown''),
                t_direction = direction, t_walletAddress = walletAddress,
                t_anchorTransactionId = Some anchorTransactionId, t_stellarTxHash = stellarTxHash,
                t_sourceAsset = (if direction = TRY_TO_USDC then ''iso4217:TRY'' else ''USDC''),
                t_sourceAmount = map_option decimal_units sourceAmount,
                t_destinationAsset = (if direction = TRY_TO_USDC then ''USDC'' else ''iso4217:TRY''),
                t_destinationAmount = map_option decimal_units destinationAmount,
                t_status = (case matching_text is_status_text (get_field f ''status'') of
                              None \<Rightarrow> ''unknown'' | Some s \<Rightarrow> s),
                t_quoteId = matching_text is_reference (get_field f ''quoteId''),
                t_stellarLegStatus = UNCHECKED, t_stellarLegCheckedAt = None,
                t_stellarLegDetail = None, t_stellarLegAt = None\<rparr>)))))))
      | _ \<Rightarrow> Inl (BadRequest ''Transfer metadata must be a JSON object''))"

definition transfer_key :: "anchor_transaction \<Rightarrow> string \<times> string \<times> string option" where
  "transfer_key t = (t_network t, t_anchorDomain t, t_anchorTransactionId t)"

definition forget_verdict :: "anchor_transaction \<Rightarrow> anchor_transaction" where
  "forget_verdict t =
     t\<lparr>t_stellarLegStatus := UNCHECKED, t_stellarLegDetail := None, t_stellarLegCheckedAt := None,
       t_stellarLegAt := None\<rparr>"

text \<open>What re-posting a transfer changes of its row.\<close>

definition merge_report :: "anchor_transaction \<Rightarrow> anchor_transaction \<Rightarrow> anchor_transaction" where
  "merge_report new old =
     (let hashChanged = (t_stellarTxHash new \<noteq> None \<and> t_stellarTxHash old \<noteq> t_stellarTxHash new);
          row = old\<lparr>t_status := t_status new,
                    t_stellarTxHash := (if t_stellarTxHash new \<noteq> None then t_stellarTxHash new
                                        else t_stellarTxHash old)\<rparr>
      in if hashChanged then forget_verdict row else row)"

definition record_transfer ::
  "(rat option \<Rightarrow> string) \<Rightarrow> string \<Rightarrow> jsval \<Rightarrow> db \<Rightarrow> api_error + db" where
  "record_transfer nt net body d =
     and_then (report_row nt net body) (\<lambda>new.
     Inr (case find_row transfer_key (transfer_key new) (anchor_transactions d) of
            None \<Rightarrow> d\<lparr>anchor_transactions := anchor_transactions d @ [new]\<rparr>
          | Some _ \<Rightarrow> d\<lparr>anchor_transactions :=
              update_row transfer_key (transfer_key new) (merge_report new) (anchor_transactions d)\<rparr>))"

end
