(* ===== verification/FinanceCycles.thy ===== *)
theory FinanceCycles
  imports LocalPayments
begin

text \<open>
  \<open>apps/api/src/metrics/local-payment-cycles.ts\<close>: checking a reported leg against Stellar,
  deriving the local-payment finance cycles from the read models, and storing them. The
  lemmas say when a leg is confirmed and when a cycle counts.
\<close>

section \<open>Checking a leg\<close>

record reported_leg =
  g_direction :: anchor_direction
  g_walletAddress :: string
  g_stellarTxHash :: "string option"
  g_destinationAmount :: "string option"
  g_sourceAmount :: "string option"

record leg_verdict =
  v_status :: stellar_leg_status
  v_detail :: string
  v_at :: "js_date option"

text \<open>
  The outside: \<open>fetchJson\<close> (\<open>None\<close> where it rejects), how JavaScript prints a number, and the
  time value of a date text.
\<close>

record horizon =
  fetch_json :: "string \<Rightarrow> jsval option"
  number_text :: "rat option \<Rightarrow> string"
  parse_date :: "string \<Rightarrow> js_date"

definition unverifiable :: "string \<Rightarrow> leg_verdict" where
  "unverifiable detail = \<lparr>v_status = UNVERIFIABLE, v_detail = detail, v_at = None\<rparr>"

definition mismatched :: "string \<Rightarrow> leg_verdict" where
  "mismatched detail = \<lparr>v_status = MISMATCHED, v_detail = detail, v_at = None\<rparr>"

definition transaction_url :: "string \<Rightarrow> string \<Rightarrow> string" where
  "transaction_url horizonUrl hash =
     (if ends_with ''/'' horizonUrl then butlast horizonUrl else horizonUrl) @ ''/transactions/'' @ hash"

definition expected_usdc :: "reported_leg \<Rightarrow> string option" where
  "expected_usdc leg =
     (if g_direction leg = TRY_TO_USDC then g_destinationAmount leg else g_sourceAmount leg)"

text \<open>\<open>Array.isArray(operations._embedded?.records) ? records : []\<close>\<close>

definition operation_records :: "jsval \<Rightarrow> api_error + jsval list" where
  "operation_records operations =
     and_then (member operations ''_embedded'') (\<lambda>embedded.
     if nullish embedded then Inr []
     else and_then (member embedded ''records'') (\<lambda>r.
       case r of JArray ops \<Rightarrow> Inr ops | _ \<Rightarrow> Inr []))"

definition is_usdc_payment :: "string \<Rightarrow> jsval \<Rightarrow> api_error + bool" where
  "is_usdc_payment issuer op =
     and_then (member op ''type'') (\<lambda>ty.
     if ty \<noteq> JString ''payment'' then Inr False
     else and_then (member op ''asset_code'') (\<lambda>asset.
       if asset \<noteq> JString ''USDC'' then Inr False
       else and_then (member op ''asset_issuer'') (\<lambda>i. Inr (i = JString issuer))))"

fun filter_result :: "('a \<Rightarrow> api_error + bool) \<Rightarrow> 'a list \<Rightarrow> api_error + 'a list" where
  "filter_result P [] = Inr []"
| "filter_result P (x # xs) =
     and_then (P x) (\<lambda>b. and_then (filter_result P xs) (\<lambda>ys. Inr (if b then x # ys else ys)))"

definition counterparty :: "anchor_direction \<Rightarrow> string" where
  "counterparty dir = (if dir = TRY_TO_USDC then ''to'' else ''from'')"

definition op_field :: "jsval \<Rightarrow> string \<Rightarrow> jsval" where
  "op_field op key = (case member op key of Inr v \<Rightarrow> v | Inl _ \<Rightarrow> JUndefined)"

definition verify_stellar_leg ::
  "horizon \<Rightarrow> reported_leg \<Rightarrow> string \<Rightarrow> string \<Rightarrow> api_error + leg_verdict" where
  "verify_stellar_leg hz leg horizonUrl usdcIssuer =
     (case g_stellarTxHash leg of
        None \<Rightarrow> Inr (unverifiable ''No Stellar transaction hash was reported, so there is nothing to check.'')
      | Some hash \<Rightarrow>
     if \<not> is_hex64 hash
     then Inr (unverifiable ''No Stellar transaction hash was reported, so there is nothing to check.'')
     else case expected_usdc leg of
        None \<Rightarrow> Inr (unverifiable
          ''The report records no USDC amount, so there is nothing to match against Stellar.'')
      | Some expected \<Rightarrow>
     (case fetch_json hz (transaction_url horizonUrl hash) of
        None \<Rightarrow> Inr (unverifiable ''Stellar has no record of the reported transaction hash.'')
      | Some tx \<Rightarrow>
     and_then (member tx ''successful'') (\<lambda>ok.
     if ok \<noteq> JBool True
     then Inr (mismatched ''The reported transaction exists on Stellar but did not succeed.'')
     else
     (case fetch_json hz (transaction_url horizonUrl hash @ ''/operations?limit=200'') of
        None \<Rightarrow> Inr (unverifiable ''Stellar returned no operations for the reported transaction.'')
      | Some operations \<Rightarrow>
     and_then (operation_records operations) (\<lambda>ops.
     and_then (filter_result (is_usdc_payment usdcIssuer) ops) (\<lambda>payments.
     if payments = []
     then Inr (mismatched ''The reported transaction moves no payment of the approved USDC asset.'')
     else
     let matching = filter (\<lambda>op. op_field op (counterparty (g_direction leg)) = JString (g_walletAddress leg))
           payments
     in if matching = []
        then Inr (mismatched
          (if g_direction leg = TRY_TO_USDC
           then ''The reported transaction pays USDC to a different wallet than the one that reported it.''
           else ''The reported transaction sends USDC from a different wallet than the one that reported it.''))
        else case List.find (\<lambda>op. js_string (number_text hz) (op_field op ''amount'') = expected) matching of
          None \<Rightarrow> Inr (mismatched
            (''Stellar records a different USDC amount than the reported '' @ expected @ ''.''))
        | Some _ \<Rightarrow>
            Inr \<lparr>v_status = CONFIRMED,
                 v_detail = ''Stellar confirms '' @ expected @ '' USDC ''
                   @ (if g_direction leg = TRY_TO_USDC then ''paid to'' else ''sent by'')
                   @ '' this wallet in the reported transaction.'',
                 v_at = (case op_field tx ''created_at'' of
                           JString s \<Rightarrow> Some (parse_date hz s) | _ \<Rightarrow> None)\<rparr>))))))"

section \<open>Checking every report\<close>

record leg_tally =
  tl_checked :: nat
  tl_confirmed :: nat
  tl_mismatched :: nat
  tl_unverifiable :: nat

definition leg_of :: "anchor_transaction \<Rightarrow> reported_leg" where
  "leg_of t =
     \<lparr>g_direction = t_direction t, g_walletAddress = t_walletAddress t,
      g_stellarTxHash = t_stellarTxHash t,
      g_destinationAmount = map_option to_fixed7 (t_destinationAmount t),
      g_sourceAmount = map_option to_fixed7 (t_sourceAmount t)\<rparr>"

definition store_verdict :: "int \<Rightarrow> leg_verdict \<Rightarrow> anchor_transaction \<Rightarrow> api_error + anchor_transaction" where
  "store_verdict now v t =
     and_then (optional_date_column (v_at v)) (\<lambda>legAt.
     Inr (t\<lparr>t_stellarLegStatus := v_status v, t_stellarLegDetail := Some (v_detail v),
            t_stellarLegCheckedAt := Some now, t_stellarLegAt := legAt\<rparr>))"

definition count_verdict :: "stellar_leg_status \<Rightarrow> leg_tally \<Rightarrow> leg_tally" where
  "count_verdict st n =
     n\<lparr>tl_checked := tl_checked n + 1,
       tl_confirmed := tl_confirmed n + (if st = CONFIRMED then 1 else 0),
       tl_mismatched := tl_mismatched n + (if st = MISMATCHED then 1 else 0),
       tl_unverifiable := tl_unverifiable n + (if st = UNVERIFIABLE then 1 else 0)\<rparr>"

text \<open>
  The loop of \<open>verifyReportedLegs\<close> over the rows. There is no transaction: the rows written
  before a throw stay written, so the error is paired with the rows as they are then.
\<close>

fun verify_rows ::
  "horizon \<Rightarrow> string \<Rightarrow> string \<Rightarrow> int \<Rightarrow> (anchor_transaction \<Rightarrow> bool) \<Rightarrow> leg_tally
    \<Rightarrow> anchor_transaction list \<Rightarrow> (api_error + leg_tally) \<times> anchor_transaction list" where
  "verify_rows hz url issuer now P n [] = (Inr n, [])"
| "verify_rows hz url issuer now P n (t # ts) =
     (if \<not> P t
      then (case verify_rows hz url issuer now P n ts of (r, ts') \<Rightarrow> (r, t # ts'))
      else
        case verify_stellar_leg hz (leg_of t) url issuer of
          Inl e \<Rightarrow> (Inl e, t # ts)
        | Inr v \<Rightarrow>
            (case store_verdict now v t of
               Inl e \<Rightarrow> (Inl e, t # ts)
             | Inr t' \<Rightarrow>
                 (case verify_rows hz url issuer now P (count_verdict (v_status v) n) ts of
                    (r, ts') \<Rightarrow> (r, t' # ts'))))"

definition verify_reported_legs ::
  "horizon \<Rightarrow> string \<Rightarrow> string \<Rightarrow> string \<Rightarrow> int \<Rightarrow> bool \<Rightarrow> db \<Rightarrow> (api_error + leg_tally) \<times> db" where
  "verify_reported_legs hz url issuer net now recheckAll d =
     (case verify_rows hz url issuer now
             (\<lambda>t. t_network t = net \<and> (recheckAll \<or> t_stellarLegStatus t = UNCHECKED))
             \<lparr>tl_checked = 0, tl_confirmed = 0, tl_mismatched = 0, tl_unverifiable = 0\<rparr>
             (anchor_transactions d) of
        (r, ts) \<Rightarrow> (r, d\<lparr>anchor_transactions := ts\<rparr>))"

section \<open>Deriving the cycles\<close>

datatype cycle_link = SUPPLIER_OFFRAMP | BUYER_ONRAMP

record cycle_row =
  cy_milestoneId :: int
  cy_orderId :: "int option"
  cy_verified :: bool
  cy_link :: "cycle_link option"
  cy_legTxHash :: "string option"
  cy_missing :: "string list"

text \<open>\<open>new Map(rows.map(row => [key(row), row])).get(k)\<close>: the last row of a key wins.\<close>

definition map_get :: "('r \<Rightarrow> 'k) \<Rightarrow> 'r list \<Rightarrow> 'k \<Rightarrow> 'r option" where
  "map_get key rows k = List.find (\<lambda>r. key r = k) (rev rows)"

definition confirmed_legs :: "projection_context \<Rightarrow> db \<Rightarrow> anchor_transaction list" where
  "confirmed_legs ctx d =
     filter (\<lambda>t. t_network t = network ctx \<and> t_stellarLegStatus t = CONFIRMED) (anchor_transactions d)"

definition settlement_for :: "projection_context \<Rightarrow> db \<Rightarrow> int \<Rightarrow> settlement_row option" where
  "settlement_for ctx d mid = map_get s_milestoneId (filter (\<lambda>s. s_ctx s = ctx) (settlements d)) mid"

definition buyer_of :: "projection_context \<Rightarrow> db \<Rightarrow> int \<Rightarrow> string option" where
  "buyer_of ctx d oid = map_option o_buyer (map_get o_orderId (filter (\<lambda>r. o_ctx r = ctx) (orders d)) oid)"

definition is_off_ramp :: "position_row \<Rightarrow> anchor_transaction \<Rightarrow> bool" where
  "is_off_ramp p leg \<longleftrightarrow>
     t_direction leg = USDC_TO_TRY \<and> t_walletAddress leg = p_supplier p
   \<and> (case t_stellarLegAt leg of None \<Rightarrow> False | Some t \<Rightarrow> p_fundedAt p \<le> t)"

definition is_on_ramp :: "string \<Rightarrow> settlement_row \<Rightarrow> anchor_transaction \<Rightarrow> bool" where
  "is_on_ramp buyer s leg \<longleftrightarrow>
     t_direction leg = TRY_TO_USDC \<and> t_walletAddress leg = buyer
   \<and> (case t_stellarLegAt leg of None \<Rightarrow> False | Some t \<Rightarrow> t \<le> s_settledAt s)"

definition off_ramp_of :: "projection_context \<Rightarrow> db \<Rightarrow> position_row \<Rightarrow> anchor_transaction option" where
  "off_ramp_of ctx d p = List.find (is_off_ramp p) (confirmed_legs ctx d)"

definition on_ramp_of :: "projection_context \<Rightarrow> db \<Rightarrow> settlement_row option \<Rightarrow> anchor_transaction option" where
  "on_ramp_of ctx d settlement =
     (case settlement of
        None \<Rightarrow> None
      | Some s \<Rightarrow> (case buyer_of ctx d (s_orderId s) of
            None \<Rightarrow> None
          | Some buyer \<Rightarrow> List.find (is_on_ramp buyer s) (confirmed_legs ctx d)))"

definition cycle_of :: "projection_context \<Rightarrow> db \<Rightarrow> position_row \<Rightarrow> cycle_row" where
  "cycle_of ctx d p =
     (let settlement = settlement_for ctx d (p_milestoneId p);
          offRamp = off_ramp_of ctx d p;
          onRamp = (if offRamp \<noteq> None then None else on_ramp_of ctx d settlement);
          leg = (if offRamp \<noteq> None then offRamp else onRamp);
          missing = (if settlement = None then [''the milestone has not settled on chain''] else [])
            @ (if leg = None
               then [''no local-money conversion is confirmed on Stellar for a party to this trade'']
               else []);
          verified = (missing = [])
      in \<lparr>cy_milestoneId = p_milestoneId p, cy_orderId = map_option s_orderId settlement,
          cy_verified = verified,
          cy_link = (if verified
                     then Some (if offRamp \<noteq> None then SUPPLIER_OFFRAMP else BUYER_ONRAMP) else None),
          cy_legTxHash = (if verified then (case leg of None \<Rightarrow> None | Some l \<Rightarrow> t_stellarTxHash l)
                          else None),
          cy_missing = missing\<rparr>)"

text \<open>One cycle per milestone, for the first of its positions.\<close>

fun cycles_from :: "projection_context \<Rightarrow> db \<Rightarrow> int list \<Rightarrow> position_row list \<Rightarrow> cycle_row list" where
  "cycles_from ctx d seen [] = []"
| "cycles_from ctx d seen (p # ps) =
     (if List.member seen (p_milestoneId p) then cycles_from ctx d seen ps
      else cycle_of ctx d p # cycles_from ctx d (p_milestoneId p # seen) ps)"

definition derive_cycles :: "projection_context \<Rightarrow> db \<Rightarrow> cycle_row list" where
  "derive_cycles ctx d = cycles_from ctx d [] (filter (\<lambda>p. p_ctx p = ctx) (positions d))"

section \<open>Storing the cycles\<close>

definition cycle_key :: "cycle_read_model \<Rightarrow> projection_context \<times> int" where
  "cycle_key k = (k_ctx k, k_milestoneId k)"

definition store_cycle :: "projection_context \<Rightarrow> int \<Rightarrow> cycle_row \<Rightarrow> db \<Rightarrow> db" where
  "store_cycle ctx now cy d =
     (if find_milestone ctx (cy_milestoneId cy) d = None then d
      else
        let write = (\<lambda>k. k\<lparr>k_verified := cy_verified cy, k_anchorTransactionId := cy_legTxHash cy,
                           k_verifiedAt := (if cy_verified cy then Some now else None)\<rparr>)
        in (case find_row cycle_key (ctx, cy_milestoneId cy) (cycles d) of
              None \<Rightarrow> d\<lparr>cycles := cycles d @
                [write \<lparr>k_ctx = ctx, k_milestoneId = cy_milestoneId cy, k_anchorTransactionId = None,
                         k_verified = False, k_verifiedAt = None\<rparr>]\<rparr>
            | Some _ \<Rightarrow> d\<lparr>cycles := update_row cycle_key (ctx, cy_milestoneId cy) write (cycles d)\<rparr>))"

fun store_cycles :: "projection_context \<Rightarrow> (nat \<Rightarrow> int) \<Rightarrow> nat \<Rightarrow> cycle_row list \<Rightarrow> db \<Rightarrow> db" where
  "store_cycles ctx clk i [] d = d"
| "store_cycles ctx clk i (cy # cys) d =
     store_cycles ctx clk (i + 1) cys (store_cycle ctx (clk i) cy d)"

end
