(* ===== verification/FinanceCyclesProperties.thy ===== *)
theory FinanceCyclesProperties
  imports FinanceCycles
begin

text \<open>
  When a local-payment leg is confirmed and when a finance cycle counts: nothing is counted
  without a settlement the contract emitted and a payment Stellar shows.
\<close>

section \<open>Confirmed legs\<close>

lemma filter_result_Inr:
  "filter_result P xs = Inr ys \<Longrightarrow> set ys = {x \<in> set xs. P x = Inr True}"
  by (induction xs arbitrary: ys) (auto simp: result_simps split: if_splits)

lemma is_usdc_payment_True:
  "is_usdc_payment issuer op = Inr True \<Longrightarrow>
     op_field op ''type'' = JString ''payment'' \<and> op_field op ''asset_code'' = JString ''USDC''
   \<and> op_field op ''asset_issuer'' = JString issuer"
  by (auto simp: is_usdc_payment_def op_field_def result_simps split: if_splits)

text \<open>The transaction Stellar shows for a leg, and the payment in it that matches.\<close>

definition stellar_shows ::
  "horizon \<Rightarrow> reported_leg \<Rightarrow> string \<Rightarrow> string \<Rightarrow> string \<Rightarrow> string \<Rightarrow> jsval \<Rightarrow> bool" where
  "stellar_shows hz leg url issuer hash expected op \<longleftrightarrow>
     g_stellarTxHash leg = Some hash \<and> is_hex64 hash \<and> expected_usdc leg = Some expected
   \<and> (\<exists>tx. fetch_json hz (transaction_url url hash) = Some tx
         \<and> member tx ''successful'' = Inr (JBool True))
   \<and> (\<exists>operations ops. fetch_json hz (transaction_url url hash @ ''/operations?limit=200'') = Some operations
         \<and> operation_records operations = Inr ops \<and> op \<in> set ops)
   \<and> op_field op ''type'' = JString ''payment'' \<and> op_field op ''asset_code'' = JString ''USDC''
   \<and> op_field op ''asset_issuer'' = JString issuer
   \<and> op_field op (counterparty (g_direction leg)) = JString (g_walletAddress leg)
   \<and> js_string (number_text hz) (op_field op ''amount'') = expected"

lemma verdict_simps [simp]: "v_status (unverifiable x) = UNVERIFIABLE" "v_status (mismatched x) = MISMATCHED"
  by (simp_all add: unverifiable_def mismatched_def)

lemma confirmed_is_shown:
  assumes "verify_stellar_leg hz leg url issuer = Inr v" and "v_status v = CONFIRMED"
  shows "\<exists>hash expected op. stellar_shows hz leg url issuer hash expected op"
proof -
  from assms obtain hash where hash: "g_stellarTxHash leg = Some hash" "is_hex64 hash"
    by (auto simp: verify_stellar_leg_def split: option.splits if_splits)
  with assms obtain expected where expected: "expected_usdc leg = Some expected"
    by (auto simp: verify_stellar_leg_def split: option.splits)
  with assms hash obtain tx where tx: "fetch_json hz (transaction_url url hash) = Some tx"
    by (auto simp: verify_stellar_leg_def split: option.splits)
  with assms hash expected have ok: "member tx ''successful'' = Inr (JBool True)"
    by (auto simp: verify_stellar_leg_def result_simps split: if_splits)
  from assms hash expected tx ok obtain operations where
    operations: "fetch_json hz (transaction_url url hash @ ''/operations?limit=200'') = Some operations"
    by (auto simp: verify_stellar_leg_def split: option.splits)
  from assms hash expected tx ok operations obtain ops payments where
    ops: "operation_records operations = Inr ops"
    and payments: "filter_result (is_usdc_payment issuer) ops = Inr payments"
    by (auto simp: verify_stellar_leg_def result_simps)
  let ?matching = "filter (\<lambda>op. op_field op (counterparty (g_direction leg)) = JString (g_walletAddress leg))
      payments"
  have "List.find (\<lambda>op. js_string (number_text hz) (op_field op ''amount'') = expected) ?matching \<noteq> None"
    using assms hash expected tx ok operations ops payments
    by (auto simp: verify_stellar_leg_def Let_def split: if_splits option.splits)
  then obtain op where "op \<in> set ?matching" "js_string (number_text hz) (op_field op ''amount'') = expected"
    by (auto dest: find_Some_in)
  then have "stellar_shows hz leg url issuer hash expected op"
    using hash expected tx ok operations ops filter_result_Inr [OF payments] is_usdc_payment_True [of issuer op]
    by (auto simp: stellar_shows_def)
  then show ?thesis by blast
qed

section \<open>Counted cycles\<close>

lemma find_rev_in: "map_get key rows k = Some r \<Longrightarrow> r \<in> set rows \<and> key r = k"
  by (auto simp: map_get_def dest: find_Some_in)

lemma map_get_None: "map_get key rows k = None \<longleftrightarrow> k \<notin> key ` set rows"
  by (auto simp: map_get_def find_None_iff)

lemma cycles_from_milestones:
  "distinct (map cy_milestoneId (cycles_from ctx d seen ps))
   \<and> set (map cy_milestoneId (cycles_from ctx d seen ps)) = p_milestoneId ` set ps - set seen"
  by (induction ctx d seen ps rule: cycles_from.induct) (auto simp: cycle_of_def Let_def)

lemma in_cycles_from:
  "cy \<in> set (cycles_from ctx d seen ps) \<Longrightarrow> \<exists>p \<in> set ps. cy = cycle_of ctx d p"
  by (induction ctx d seen ps rule: cycles_from.induct) (auto split: if_splits)

lemma cycle_verified_iff:
  "cy_verified (cycle_of ctx d p) \<longleftrightarrow>
     settlement_for ctx d (p_milestoneId p) \<noteq> None
   \<and> (off_ramp_of ctx d p \<noteq> None \<or> on_ramp_of ctx d (settlement_for ctx d (p_milestoneId p)) \<noteq> None)"
  by (auto simp: cycle_of_def Let_def)

text \<open>The two ways a leg attaches to a financed and settled milestone.\<close>

definition cycle_supported ::
  "projection_context \<Rightarrow> db \<Rightarrow> position_row \<Rightarrow> settlement_row \<Rightarrow> anchor_transaction \<Rightarrow> bool" where
  "cycle_supported ctx d p s leg \<longleftrightarrow>
     p \<in> set (positions d) \<and> p_ctx p = ctx
   \<and> s \<in> set (settlements d) \<and> s_ctx s = ctx \<and> s_milestoneId s = p_milestoneId p
   \<and> leg \<in> set (anchor_transactions d) \<and> t_network leg = network ctx
   \<and> t_stellarLegStatus leg = CONFIRMED
   \<and> (is_off_ramp p leg
      \<or> (\<exists>r \<in> set (orders d). o_ctx r = ctx \<and> o_orderId r = s_orderId s \<and> is_on_ramp (o_buyer r) s leg))"

lemma cycle_verified_support:
  assumes "cy_verified (cycle_of ctx d p)" and p: "p \<in> set (positions d)" "p_ctx p = ctx"
  shows "\<exists>s leg. cycle_supported ctx d p s leg
    \<and> cy_orderId (cycle_of ctx d p) = Some (s_orderId s) \<and> cy_legTxHash (cycle_of ctx d p) = t_stellarTxHash leg"
proof -
  from assms(1) obtain s where s: "settlement_for ctx d (p_milestoneId p) = Some s"
    and leg: "off_ramp_of ctx d p \<noteq> None \<or> on_ramp_of ctx d (Some s) \<noteq> None"
    by (auto simp: cycle_verified_iff)
  have s': "s \<in> set (settlements d)" "s_ctx s = ctx" "s_milestoneId s = p_milestoneId p"
    using s by (auto simp: settlement_for_def dest: find_rev_in)
  show ?thesis
  proof (cases "off_ramp_of ctx d p")
    case (Some l)
    then have "cycle_supported ctx d p s l"
      using p s' by (auto simp: cycle_supported_def off_ramp_of_def confirmed_legs_def dest: find_Some_in)
    moreover have "cy_orderId (cycle_of ctx d p) = Some (s_orderId s)"
      "cy_legTxHash (cycle_of ctx d p) = t_stellarTxHash l"
      using s Some by (simp_all add: cycle_of_def Let_def)
    ultimately show ?thesis by blast
  next
    case None
    with leg obtain l where l: "on_ramp_of ctx d (Some s) = Some l" by auto
    then obtain buyer where buyer: "buyer_of ctx d (s_orderId s) = Some buyer"
      and l': "List.find (is_on_ramp buyer s) (confirmed_legs ctx d) = Some l"
      by (auto simp: on_ramp_of_def split: option.splits)
    from buyer obtain r where r: "map_get o_orderId (filter (\<lambda>r. o_ctx r = ctx) (orders d)) (s_orderId s) = Some r"
      and "o_buyer r = buyer"
      by (auto simp: buyer_of_def)
    moreover from find_rev_in [OF r] have "r \<in> set (orders d)" "o_ctx r = ctx" "o_orderId r = s_orderId s"
      by auto
    ultimately have "cycle_supported ctx d p s l"
      using p s' find_Some_in [OF l'] by (auto simp: cycle_supported_def confirmed_legs_def)
    moreover have "cy_orderId (cycle_of ctx d p) = Some (s_orderId s)"
      "cy_legTxHash (cycle_of ctx d p) = t_stellarTxHash l"
      using s None l by (simp_all add: cycle_of_def Let_def)
    ultimately show ?thesis by blast
  qed
qed

lemma verified_cycle_supported:
  assumes "cy \<in> set (derive_cycles ctx d)" and "cy_verified cy"
  shows "\<exists>p s leg. cycle_supported ctx d p s leg \<and> p_milestoneId p = cy_milestoneId cy
    \<and> cy_orderId cy = Some (s_orderId s) \<and> cy_legTxHash cy = t_stellarTxHash leg"
proof -
  from assms(1) obtain p where p: "p \<in> set (positions d)" "p_ctx p = ctx" "cy = cycle_of ctx d p"
    using in_cycles_from [OF assms(1) [unfolded derive_cycles_def]] by auto
  moreover have "p_milestoneId p = cy_milestoneId (cycle_of ctx d p)"
    by (simp add: cycle_of_def Let_def)
  ultimately show ?thesis using cycle_verified_support [of ctx d p] assms(2) by metis
qed

lemma one_cycle_per_milestone:
  "distinct (map cy_milestoneId (derive_cycles ctx d))"
  "cy_milestoneId ` set (derive_cycles ctx d) = {p_milestoneId p |p. p \<in> set (positions d) \<and> p_ctx p = ctx}"
  using cycles_from_milestones [of ctx d "[]" "filter (\<lambda>p. p_ctx p = ctx) (positions d)"]
  by (auto simp: derive_cycles_def)

text \<open>
  Conversely a milestone whose first position, settlement and a supplier's off-ramp are there
  is counted.
\<close>

lemma supplier_offramp_counts:
  assumes "s \<in> set (settlements d)" "s_ctx s = ctx" "s_milestoneId s = p_milestoneId p"
    and "leg \<in> set (anchor_transactions d)" "t_network leg = network ctx"
    "t_stellarLegStatus leg = CONFIRMED" and "is_off_ramp p leg"
  shows "cy_verified (cycle_of ctx d p) \<and> cy_link (cycle_of ctx d p) = Some SUPPLIER_OFFRAMP"
proof -
  have "settlement_for ctx d (p_milestoneId p) \<noteq> None"
    using assms(1-3) unfolding settlement_for_def map_get_None by force
  moreover have "off_ramp_of ctx d p \<noteq> None"
    using assms(4-7) unfolding off_ramp_of_def confirmed_legs_def find_None_iff by auto
  ultimately show ?thesis by (auto simp: cycle_of_def Let_def)
qed

section \<open>Reports\<close>

lemma forbidden_field_found:
  "k \<in> set ks \<Longrightarrow> key_in k f \<Longrightarrow> \<exists>k' \<in> set ks. forbidden_field ks f = Some k' \<and> key_in k' f"
  by (induction ks) auto

lemma report_row_shape:
  assumes "report_row nt net body = Inr t"
  shows "is_wallet (t_walletAddress t) \<and> t_stellarLegStatus t = UNCHECKED \<and> t_network t = net
    \<and> (\<exists>i. t_anchorTransactionId t = Some i \<and> is_reference i)
    \<and> (\<forall>h. t_stellarTxHash t = Some h \<longrightarrow> is_any_hex64 h)
    \<and> (\<exists>f. body = JObject f \<and> (\<forall>k \<in> set FORBIDDEN_FIELDS. \<not> key_in k f))"
proof -
  have forb: "forbidden_field ks f = None \<longleftrightarrow> (\<forall>k \<in> set ks. \<not> key_in k f)" for ks f
    by (induction ks) auto
  have ref: "matching_text P v = Some s \<Longrightarrow> P s" for P v s
    by (auto simp: matching_text_def split: jsval.splits if_splits)
  obtain f where "body = JObject f" using assms by (cases body) (auto simp: report_row_def)
  with assms show ?thesis
    by (auto simp: report_row_def forb Let_def result_simps dest: ref split: option.splits if_splits)
qed

lemma forget_verdict_simps [simp]:
  "t_stellarLegStatus (forget_verdict t) = UNCHECKED" "t_stellarTxHash (forget_verdict t) = t_stellarTxHash t"
  "transfer_key (forget_verdict t) = transfer_key t"
  by (simp_all add: forget_verdict_def transfer_key_def)

lemma merge_report_key [simp]: "transfer_key (merge_report new t) = transfer_key t"
  by (simp add: merge_report_def Let_def transfer_key_def forget_verdict_def)

text \<open>What a report may change of a row that is already there.\<close>

definition report_keeps :: "anchor_transaction \<Rightarrow> anchor_transaction \<Rightarrow> bool" where
  "report_keeps t t' \<longleftrightarrow>
     transfer_key t' = transfer_key t \<and> t_walletAddress t' = t_walletAddress t
   \<and> t_direction t' = t_direction t \<and> t_sourceAmount t' = t_sourceAmount t
   \<and> t_destinationAmount t' = t_destinationAmount t
   \<and> (t_stellarLegStatus t' = UNCHECKED
      \<or> t_stellarLegStatus t' = t_stellarLegStatus t \<and> t_stellarTxHash t' = t_stellarTxHash t
        \<and> t_stellarLegAt t' = t_stellarLegAt t)"

lemma merge_report_keeps: "report_keeps t (merge_report new t)"
  by (auto simp: report_keeps_def merge_report_def Let_def forget_verdict_def transfer_key_def)

lemma record_transfer_rows:
  assumes "record_transfer nt net body d = Inr d'"
    and "distinct (map transfer_key (anchor_transactions d))"
  shows "distinct (map transfer_key (anchor_transactions d'))"
    and "\<forall>t' \<in> set (anchor_transactions d'). t_stellarLegStatus t' = UNCHECKED
         \<or> (\<exists>t \<in> set (anchor_transactions d). report_keeps t t')"
    and "\<forall>t \<in> set (anchor_transactions d). \<exists>t' \<in> set (anchor_transactions d'). report_keeps t t'"
proof -
  from assms(1) obtain new where new: "report_row nt net body = Inr new"
    and d': "d' = (case find_row transfer_key (transfer_key new) (anchor_transactions d) of
            None \<Rightarrow> d\<lparr>anchor_transactions := anchor_transactions d @ [new]\<rparr>
          | Some _ \<Rightarrow> d\<lparr>anchor_transactions :=
              update_row transfer_key (transfer_key new) (merge_report new) (anchor_transactions d)\<rparr>)"
    by (auto simp: record_transfer_def result_simps)
  have refl: "report_keeps t t" for t by (simp add: report_keeps_def)
  have fresh: "t_stellarLegStatus new = UNCHECKED" using report_row_shape [OF new] by simp
  have map_key: "map transfer_key (update_row transfer_key k (merge_report new) ts) = map transfer_key ts" for k ts
    by (simp add: update_row_def update_rows_def)
  show "distinct (map transfer_key (anchor_transactions d'))"
    using assms(2) by (auto simp: d' find_row_None map_key split: option.split)
  show "\<forall>t' \<in> set (anchor_transactions d'). t_stellarLegStatus t' = UNCHECKED
         \<or> (\<exists>t \<in> set (anchor_transactions d). report_keeps t t')"
    using fresh refl merge_report_keeps
    by (auto simp: d' update_row_def update_rows_def split: option.splits)
  show "\<forall>t \<in> set (anchor_transactions d). \<exists>t' \<in> set (anchor_transactions d'). report_keeps t t'"
  proof
    fix t assume t: "t \<in> set (anchor_transactions d)"
    let ?f = "\<lambda>t. if transfer_key t = transfer_key new then merge_report new t else t"
    have "t \<in> set (anchor_transactions d') \<or> ?f t \<in> set (anchor_transactions d')"
      using t by (auto simp: d' update_row_def update_rows_def split: option.splits)
    moreover have "report_keeps t (?f t)" using refl merge_report_keeps by simp
    ultimately show "\<exists>t' \<in> set (anchor_transactions d'). report_keeps t t'" using refl by blast
  qed
qed

text \<open>A report whose hash is not lower-case is accepted, and its leg can never be confirmed.\<close>

lemma other_hash_unverifiable:
  "g_stellarTxHash leg = Some h \<Longrightarrow> \<not> is_hex64 h \<Longrightarrow>
   verify_stellar_leg hz leg url issuer
     = Inr (unverifiable ''No Stellar transaction hash was reported, so there is nothing to check.'')"
  by (simp add: verify_stellar_leg_def del: list.simps char.simps)

lemma upper_case_hash_unverifiable:
  assumes "report_row nt net body = Inr t" and "t_stellarTxHash t = Some h" and "\<not> is_hex64 h"
  shows "is_any_hex64 h \<and> (\<exists>v. verify_stellar_leg hz (leg_of t) url issuer = Inr v \<and> v_status v = UNVERIFIABLE)"
proof -
  have "\<forall>h. t_stellarTxHash t = Some h \<longrightarrow> is_any_hex64 h"
    using report_row_shape [OF assms(1)] by (elim conjE)
  with assms(2) have any: "is_any_hex64 h" by simp
  have "g_stellarTxHash (leg_of t) = Some h" using assms(2) by (simp add: leg_of_def)
  from other_hash_unverifiable [OF this assms(3)] any show ?thesis by (metis verdict_simps(1))
qed

section \<open>Checking the reports\<close>

definition verdict_kept :: "anchor_transaction \<Rightarrow> anchor_transaction \<Rightarrow> bool" where
  "verdict_kept t t' \<longleftrightarrow>
     leg_of t' = leg_of t \<and> transfer_key t' = transfer_key t \<and> t_status t' = t_status t"

definition tally_ok :: "leg_tally \<Rightarrow> bool" where
  "tally_ok n \<longleftrightarrow> tl_checked n = tl_confirmed n + tl_mismatched n + tl_unverifiable n"

definition returns :: "('a \<Rightarrow> bool) \<Rightarrow> 'e + 'a \<Rightarrow> bool" where
  "returns Q r \<longleftrightarrow> (\<forall>x. r = Inr x \<longrightarrow> Q x)"

lemma returns_intros:
  "Q x \<Longrightarrow> returns Q (Inr x)" "returns Q (Inl e)"
  "(\<And>x. returns Q (k x)) \<Longrightarrow> returns Q (and_then m k)"
  "returns Q r \<Longrightarrow> returns Q s \<Longrightarrow> returns Q (if c then r else s)"
  "returns Q r \<Longrightarrow> (\<And>x. returns Q (g x)) \<Longrightarrow> returns Q (case v of None \<Rightarrow> r | Some x \<Rightarrow> g x)"
  by (auto simp: returns_def and_then_Inr split: option.split)

lemma verify_status:
  assumes "verify_stellar_leg hz leg url issuer = Inr v"
  shows "v_status v \<in> {CONFIRMED, MISMATCHED, UNVERIFIABLE}"
proof -
  have "returns (\<lambda>v. v_status v \<in> {CONFIRMED, MISMATCHED, UNVERIFIABLE}) (verify_stellar_leg hz leg url issuer)"
    unfolding verify_stellar_leg_def Let_def by (intro returns_intros) simp_all
  with assms show ?thesis by (simp add: returns_def)
qed

lemma store_verdict_Inr:
  "store_verdict now v t = Inr t' \<Longrightarrow> verdict_kept t t' \<and> t_stellarLegStatus t' = v_status v"
  by (auto simp: store_verdict_def result_simps verdict_kept_def leg_of_def transfer_key_def)

lemma verdict_kept_refl [simp]: "verdict_kept t t"
  by (simp add: verdict_kept_def)

text \<open>A row after the check: the verdict for its leg if it was due, else untouched.\<close>

definition row_checked ::
  "horizon \<Rightarrow> string \<Rightarrow> string \<Rightarrow> (anchor_transaction \<Rightarrow> bool) \<Rightarrow> anchor_transaction \<Rightarrow> anchor_transaction \<Rightarrow> bool" where
  "row_checked hz url issuer P t t' \<longleftrightarrow>
     (if P t then verdict_kept t t'
        \<and> (\<exists>v. verify_stellar_leg hz (leg_of t) url issuer = Inr v \<and> t_stellarLegStatus t' = v_status v)
      else t' = t)"

definition rows_result ::
  "horizon \<Rightarrow> string \<Rightarrow> string \<Rightarrow> (anchor_transaction \<Rightarrow> bool) \<Rightarrow> leg_tally \<Rightarrow> api_error + leg_tally
    \<Rightarrow> anchor_transaction list \<Rightarrow> anchor_transaction list \<Rightarrow> bool" where
  "rows_result hz url issuer P n r ts ts' \<longleftrightarrow> list_all2 verdict_kept ts ts'
    \<and> returns (\<lambda>n'. list_all2 (row_checked hz url issuer P) ts ts'
         \<and> (tally_ok n \<longrightarrow> tally_ok n') \<and> tl_checked n' = tl_checked n + length (filter P ts)) r"

lemma rows_result_stop: "rows_result hz url issuer P n (Inl e) ts ts"
  by (simp add: rows_result_def returns_def list_all2_refl)

lemma rows_result_skip:
  "rows_result hz url issuer P n r ts ts' \<Longrightarrow> \<not> P t \<Longrightarrow> rows_result hz url issuer P n r (t # ts) (t # ts')"
  by (cases r) (simp_all add: rows_result_def returns_def row_checked_def)

lemma rows_result_write:
  "rows_result hz url issuer P (count_verdict (v_status v) n) r ts ts' \<Longrightarrow> P t
   \<Longrightarrow> verify_stellar_leg hz (leg_of t) url issuer = Inr v \<Longrightarrow> store_verdict now v t = Inr t'
   \<Longrightarrow> rows_result hz url issuer P n r (t # ts) (t' # ts')"
  using verify_status [of hz "leg_of t" url issuer v] store_verdict_Inr [of now v t t']
  by (cases r) (auto simp: rows_result_def returns_def row_checked_def count_verdict_def tally_ok_def)

lemma verify_rows_rows:
  "verify_rows hz url issuer now P n ts = (r, ts') \<Longrightarrow> rows_result hz url issuer P n r ts ts'"
proof (induction ts arbitrary: n r ts')
  case Nil
  then show ?case by (auto simp: rows_result_def returns_def)
next
  case (Cons t ts)
  show ?case
  proof (cases "P t")
    case False
    then show ?thesis using Cons.prems
      by (auto split: prod.splits dest: Cons.IH intro: rows_result_skip)
  next
    case True
    then show ?thesis using Cons.prems
      by (auto split: prod.splits sum.splits dest: Cons.IH intro: rows_result_write rows_result_stop)
  qed
qed

lemma verify_reported_legs_rows:
  assumes "verify_reported_legs hz url issuer net now recheckAll d = (r, d')"
  shows "list_all2 verdict_kept (anchor_transactions d) (anchor_transactions d')
    \<and> d'\<lparr>anchor_transactions := []\<rparr> = d\<lparr>anchor_transactions := []\<rparr>
    \<and> (\<forall>n. r = Inr n \<longrightarrow>
         list_all2 (row_checked hz url issuer
             (\<lambda>t. t_network t = net \<and> (recheckAll \<or> t_stellarLegStatus t = UNCHECKED)))
           (anchor_transactions d) (anchor_transactions d')
       \<and> tally_ok n)"
proof -
  obtain ts where rows: "verify_rows hz url issuer now
             (\<lambda>t. t_network t = net \<and> (recheckAll \<or> t_stellarLegStatus t = UNCHECKED))
             \<lparr>tl_checked = 0, tl_confirmed = 0, tl_mismatched = 0, tl_unverifiable = 0\<rparr>
             (anchor_transactions d) = (r, ts)" and "d' = d\<lparr>anchor_transactions := ts\<rparr>"
    using assms by (auto simp: verify_reported_legs_def split: prod.splits)
  with verify_rows_rows [OF rows] show ?thesis
    by (cases r) (simp_all add: rows_result_def returns_def tally_ok_def)
qed

section \<open>Stored cycles\<close>

lemma store_cycles_idempotent_keys:
  "distinct (map cycle_key (cycles d)) \<Longrightarrow> distinct (map cycle_key (cycles (store_cycles ctx clk i cys d)))"
proof (induction cys arbitrary: i d)
  case (Cons cy cys)
  have keys: "map cycle_key (update_row cycle_key k f ts) = map cycle_key ts"
    if "\<And>x. cycle_key (f x) = cycle_key x" for k f ts
    using that by (simp add: update_row_def update_rows_def)
  have "distinct (map cycle_key (cycles (store_cycle ctx (clk i) cy d)))"
    using Cons.prems
    by (auto simp: store_cycle_def Let_def keys cycle_key_def find_row_None split: option.split)
      (auto simp: cycle_key_def [abs_def] keys image_iff)
  then show ?case by (simp add: Cons.IH)
qed simp

end
