(* ===== verification/FinanceRuns.thy ===== *)
theory FinanceRuns
  imports FinanceCyclesProperties IndexerProperties
begin

text \<open>
  Local payments beside the indexer: reports, checks of their Stellar legs, stored cycles and
  the indexer's own transactions in any order. A confirmed leg is always one Stellar shows.
\<close>

section \<open>Reports and checks in any order\<close>

text \<open>
  The operations that write Anchor transfers and cycles, beside those of the indexer. A check
  may fail half way, and then keeps the verdicts it has written.
\<close>

inductive payments_step ::
  "horizon \<Rightarrow> string \<Rightarrow> string \<Rightarrow> string \<Rightarrow> db \<Rightarrow> db \<Rightarrow> bool" for hz url issuer net where
  reported: "record_transfer nt net body d = Inr d' \<Longrightarrow> payments_step hz url issuer net d d'"
| checked: "verify_reported_legs hz url issuer net now recheckAll d = (r, d')
    \<Longrightarrow> payments_step hz url issuer net d d'"
| cycles_stored: "payments_step hz url issuer net d (store_cycles ctx clk i (derive_cycles ctx d) d)"
| indexed: "service_step d d' \<Longrightarrow> payments_step hz url issuer net d d'"

lemma ingest_event_anchors:
  "ingest_event ctx ev d = Inr (p, d') \<Longrightarrow> anchor_transactions d' = anchor_transactions d"
  by (auto simp: ingest_event_def result_simps count_day_tables create_log_Inr dest: projection_frame(4))

lemma apply_events_anchors:
  "apply_events ctx evs seen n d = Inr (n', d') \<Longrightarrow> anchor_transactions d' = anchor_transactions d"
  by (induction evs arbitrary: seen n d)
    (auto simp del: apply_events.simps(2) elim!: apply_events_Cons dest: ingest_event_anchors)

lemma service_step_anchors: "service_step d d' \<Longrightarrow> anchor_transactions d' = anchor_transactions d"
  by (induction rule: service_step.induct)
    (auto simp: ensure_cursor_def record_error_def reset_def Let_def elim!: apply_batch_Inr
      dest: apply_events_anchors)

lemma store_cycles_anchors: "anchor_transactions (store_cycles ctx clk i cys d) = anchor_transactions d"
  by (induction cys arbitrary: i d) (simp_all add: store_cycle_def Let_def split: option.split)

text \<open>Neither a report nor a check touches any other table.\<close>

lemma record_transfer_frame:
  "record_transfer nt net body d = Inr d' \<Longrightarrow> \<exists>ts. d' = d\<lparr>anchor_transactions := ts\<rparr>"
  by (auto simp: record_transfer_def result_simps split: option.splits)

lemma verify_reported_legs_frame:
  "\<exists>ts. snd (verify_reported_legs hz url issuer net now recheckAll d) = d\<lparr>anchor_transactions := ts\<rparr>"
  by (auto simp: verify_reported_legs_def split: prod.split)

lemma db_ok_anchors [simp]: "db_ok (d\<lparr>anchor_transactions := ts\<rparr>) = db_ok d"
  by (simp add: db_ok_def)

definition legs_shown :: "horizon \<Rightarrow> string \<Rightarrow> string \<Rightarrow> db \<Rightarrow> bool" where
  "legs_shown hz url issuer d \<longleftrightarrow> (\<forall>t \<in> set (anchor_transactions d). t_stellarLegStatus t = CONFIRMED
     \<longrightarrow> (\<exists>hash expected op. stellar_shows hz (leg_of t) url issuer hash expected op))"

definition has_verdict :: "horizon \<Rightarrow> string \<Rightarrow> string \<Rightarrow> anchor_transaction \<Rightarrow> bool" where
  "has_verdict hz url issuer t \<longleftrightarrow>
     (\<exists>v. verify_stellar_leg hz (leg_of t) url issuer = Inr v \<and> t_stellarLegStatus t = v_status v)"

lemma stored_has_verdict:
  "verify_stellar_leg hz (leg_of t) url issuer = Inr v \<Longrightarrow> store_verdict now v t = Inr t' \<Longrightarrow>
   has_verdict hz url issuer t'"
  by (auto simp: has_verdict_def verdict_kept_def dest: store_verdict_Inr)

lemma verify_rows_written:
  "verify_rows hz url issuer now P n ts = (r, ts') \<Longrightarrow> t' \<in> set ts' \<Longrightarrow>
     t' \<in> set ts \<or> has_verdict hz url issuer t'"
proof (induction ts arbitrary: n r ts')
  case (Cons t ts)
  then show ?case
    by (auto split: if_splits prod.splits sum.splits dest: stored_has_verdict Cons.IH)
qed simp

lemma report_keeps_leg:
  assumes "report_keeps t t'" and "t_stellarLegStatus t' = CONFIRMED"
  shows "t_stellarLegStatus t = CONFIRMED \<and> leg_of t' = leg_of t"
  using assms by (auto simp: report_keeps_def leg_of_def)

lemma payments_step_shown:
  "payments_step hz url issuer net d d' \<Longrightarrow> distinct (map transfer_key (anchor_transactions d)) \<Longrightarrow>
   legs_shown hz url issuer d \<Longrightarrow>
   distinct (map transfer_key (anchor_transactions d')) \<and> legs_shown hz url issuer d'"
proof (induction rule: payments_step.induct)
  case (reported nt body d d')
  note rows = record_transfer_rows [OF reported.hyps reported.prems(1)]
  have "legs_shown hz url issuer d'"
    unfolding legs_shown_def
  proof (intro ballI impI)
    fix t' assume t': "t' \<in> set (anchor_transactions d')" "t_stellarLegStatus t' = CONFIRMED"
    with rows(2) obtain t where t: "t \<in> set (anchor_transactions d)" and keeps: "report_keeps t t'"
      by force
    from report_keeps_leg [OF keeps t'(2)] t reported.prems(2)
    show "\<exists>hash expected op. stellar_shows hz (leg_of t') url issuer hash expected op"
      by (auto simp: legs_shown_def)
  qed
  with rows(1) show ?case ..
next
  case (checked now recheckAll d r d')
  obtain ts where verify: "verify_rows hz url issuer now
             (\<lambda>t. t_network t = net \<and> (recheckAll \<or> t_stellarLegStatus t = UNCHECKED))
             \<lparr>tl_checked = 0, tl_confirmed = 0, tl_mismatched = 0, tl_unverifiable = 0\<rparr>
             (anchor_transactions d) = (r, ts)" and d': "d' = d\<lparr>anchor_transactions := ts\<rparr>"
    using checked.hyps by (auto simp: verify_reported_legs_def split: prod.splits)
  have "list_all2 verdict_kept (anchor_transactions d) ts"
    using verify_rows_rows [OF verify] by (simp add: rows_result_def)
  then have "map transfer_key ts = map transfer_key (anchor_transactions d)"
    by (induction rule: list_all2_induct) (auto simp: verdict_kept_def)
  moreover have "legs_shown hz url issuer d'"
    unfolding legs_shown_def
  proof (intro ballI impI)
    fix t' assume t': "t' \<in> set (anchor_transactions d')" "t_stellarLegStatus t' = CONFIRMED"
    then have "t' \<in> set ts" by (simp add: d')
    from verify_rows_written [OF verify this]
    show "\<exists>hash expected op. stellar_shows hz (leg_of t') url issuer hash expected op"
    proof
      assume "t' \<in> set (anchor_transactions d)"
      with t' checked.prems(2) show ?thesis by (auto simp: legs_shown_def)
    next
      assume "has_verdict hz url issuer t'"
      then show ?thesis using t'(2) confirmed_is_shown by (metis has_verdict_def)
    qed
  qed
  ultimately show ?case using checked.prems(1) by (simp add: d')
next
  case (cycles_stored d ctx clk i)
  then show ?case by (simp add: store_cycles_anchors legs_shown_def)
next
  case (indexed d d')
  then show ?case using service_step_anchors [OF indexed.hyps] by (simp add: legs_shown_def)
qed

lemma payments_shown:
  assumes "(payments_step hz url issuer net)\<^sup>*\<^sup>* d d'" and "anchor_transactions d = []"
  shows "distinct (map transfer_key (anchor_transactions d')) \<and> legs_shown hz url issuer d'"
  using assms(1)
proof (induction rule: rtranclp_induct)
  case base
  then show ?case using assms(2) by (simp add: legs_shown_def)
next
  case (step d1 d2)
  then show ?case using payments_step_shown by blast
qed

text \<open>A counted cycle in such a database rests on a settlement and on a payment Stellar shows.\<close>

lemma counted_cycle_shown:
  assumes "(payments_step hz url issuer net)\<^sup>*\<^sup>* d0 d" and "anchor_transactions d0 = []"
    and "cy \<in> set (derive_cycles ctx d)" and "cy_verified cy"
  shows "\<exists>p s leg hash expected op. cycle_supported ctx d p s leg \<and> p_milestoneId p = cy_milestoneId cy
    \<and> cy_orderId cy = Some (s_orderId s) \<and> cy_legTxHash cy = Some hash
    \<and> stellar_shows hz (leg_of leg) url issuer hash expected op"
proof -
  obtain p s leg where supported: "cycle_supported ctx d p s leg"
    and ids: "p_milestoneId p = cy_milestoneId cy" "cy_orderId cy = Some (s_orderId s)"
    and hash: "cy_legTxHash cy = t_stellarTxHash leg"
    using verified_cycle_supported [OF assms(3,4)] by blast
  have "leg \<in> set (anchor_transactions d)" "t_stellarLegStatus leg = CONFIRMED"
    using supported by (auto simp: cycle_supported_def)
  then obtain h expected op where shown: "stellar_shows hz (leg_of leg) url issuer h expected op"
    using payments_shown [OF assms(1,2)] by (auto simp: legs_shown_def)
  then have "t_stellarTxHash leg = Some h" by (simp add: stellar_shows_def leg_of_def)
  with supported ids hash shown show ?thesis by (metis (no_types))
qed

section \<open>Exactly the supported milestones count\<close>

lemma cycles_from_first:
  assumes "List.find (\<lambda>p. p_milestoneId p = i) ps = Some p" and "i \<notin> set seen"
  shows "filter (\<lambda>cy. cy_milestoneId cy = i) (cycles_from ctx d seen ps) = [cycle_of ctx d p]"
  using assms
proof (induction ctx d seen ps rule: cycles_from.induct)
  case (2 ctx d seen q ps)
  have id: "cy_milestoneId (cycle_of ctx d q) = p_milestoneId q" for q
    by (simp add: cycle_of_def Let_def)
  have none: "filter (\<lambda>cy. cy_milestoneId cy = i) (cycles_from ctx d (i # seen) ps) = []"
    using cycles_from_milestones [of ctx d "i # seen" ps] by (auto simp: filter_empty_conv)
  show ?case
  proof (cases "p_milestoneId q = i")
    case True
    with 2 none show ?thesis by (simp add: id List.member_iff)
  next
    case False
    with 2 show ?thesis by (auto simp: id List.member_iff split: if_splits)
  qed
qed simp

lemma distinct_key_eq:
  "distinct_keys key t \<Longrightarrow> x \<in> set t \<Longrightarrow> y \<in> set t \<Longrightarrow> key x = key y \<Longrightarrow> x = y"
  by (auto simp: distinct_keys_def distinct_map dest: inj_onD)

lemma settlement_for_unique:
  assumes "db_ok d" and "s \<in> set (settlements d)" "s_ctx s = ctx"
  shows "settlement_for ctx d (s_milestoneId s) = Some s"
proof -
  have "settlement_for ctx d (s_milestoneId s) \<noteq> None"
    using assms(2,3) unfolding settlement_for_def map_get_None by force
  then obtain s' where s': "settlement_for ctx d (s_milestoneId s) = Some s'" by blast
  then have "s' \<in> set (settlements d)" "s_ctx s' = ctx" "s_milestoneId s' = s_milestoneId s"
    using find_rev_in unfolding settlement_for_def by fastforce+
  then have "s' = s"
    using assms distinct_key_eq [of settlement_key "settlements d" s' s]
    by (simp add: db_ok_def settlement_key_def)
  with s' show ?thesis by simp
qed

lemma buyer_of_unique:
  assumes "db_ok d" and "r \<in> set (orders d)" "o_ctx r = ctx"
  shows "buyer_of ctx d (o_orderId r) = Some (o_buyer r)"
proof -
  let ?rows = "filter (\<lambda>r. o_ctx r = ctx) (orders d)"
  have "map_get o_orderId ?rows (o_orderId r) \<noteq> None"
    using assms(2,3) unfolding map_get_None by force
  then obtain r' where r': "map_get o_orderId ?rows (o_orderId r) = Some r'" by blast
  then have "r' \<in> set (orders d)" "o_ctx r' = ctx" "o_orderId r' = o_orderId r"
    using find_rev_in by fastforce+
  then have "r' = r"
    using assms distinct_key_eq [of order_key "orders d" r' r] by (simp add: db_ok_def order_key_def)
  with r' show ?thesis by (simp add: buyer_of_def)
qed

lemma supported_counts:
  assumes "db_ok d" and "cycle_supported ctx d p s leg"
  shows "cy_verified (cycle_of ctx d p)"
proof -
  have s: "settlement_for ctx d (p_milestoneId p) = Some s"
    using settlement_for_unique [OF assms(1), of s ctx] assms(2) by (simp add: cycle_supported_def)
  have leg: "leg \<in> set (confirmed_legs ctx d)"
    using assms(2) by (simp add: cycle_supported_def confirmed_legs_def)
  consider "is_off_ramp p leg"
    | r where "r \<in> set (orders d)" "o_ctx r = ctx" "o_orderId r = s_orderId s" "is_on_ramp (o_buyer r) s leg"
    using assms(2) by (auto simp: cycle_supported_def)
  then have "off_ramp_of ctx d p \<noteq> None \<or> on_ramp_of ctx d (Some s) \<noteq> None"
  proof cases
    case 1
    with leg show ?thesis unfolding off_ramp_of_def find_None_iff by blast
  next
    case (2 r)
    then have "buyer_of ctx d (s_orderId s) = Some (o_buyer r)"
      using buyer_of_unique [OF assms(1), of r ctx] by simp
    moreover have "List.find (is_on_ramp (o_buyer r) s) (confirmed_legs ctx d) \<noteq> None"
      using 2 leg unfolding find_None_iff by blast
    ultimately show ?thesis by (simp add: on_ramp_of_def)
  qed
  with s show ?thesis by (simp add: cycle_verified_iff)
qed

lemma counts_supported:
  assumes "cy_verified (cycle_of ctx d p)" and "p \<in> set (positions d)" "p_ctx p = ctx"
  shows "\<exists>s leg. cycle_supported ctx d p s leg"
  using cycle_verified_support [OF assms] by blast

end
