(* ===== verification/FinanceClaims.thy ===== *)
theory FinanceClaims
  imports FinanceRuns SampleStream
begin

text \<open>
  The properties of the local-payment reports and of the finance cycles, each with a witness:
  the settled sample trade, whose supplier reports one conversion Stellar shows.
\<close>

section \<open>Inputs of the witnesses\<close>

definition wallet0 :: string where
  "wallet0 = CHR ''G'' # replicate 55 (CHR ''A'')"

definition report0 :: jsval where
  "report0 = JObject
     [(''direction'', JString ''USDC_TO_TRY''), (''walletAddress'', JString wallet0),
      (''anchorTransactionId'', JString ''a1''), (''stellarTxHash'', JString sample_digest),
      (''sourceAmount'', JString ''0.0000005''), (''status'', JString ''completed'')]"

definition horizon0 :: horizon where
  "horizon0 =
     \<lparr>fetch_json = (\<lambda>url.
        if url = ''h/transactions/'' @ sample_digest
        then Some (JObject [(''successful'', JBool True), (''created_at'', JString ''now'')])
        else if url = ''h/transactions/'' @ sample_digest @ ''/operations?limit=200''
        then Some (JObject [(''_embedded'', JObject [(''records'', JArray
          [JObject [(''type'', JString ''payment''), (''asset_code'', JString ''USDC''),
                    (''asset_issuer'', JString ''I''), (''from'', JString wallet0),
                    (''amount'', JString ''0.0000005'')]])])])
        else None),
      number_text = (\<lambda>n. ''0''), parse_date = (\<lambda>s. Date 1700000060000)\<rparr>"

definition nt0 :: "rat option \<Rightarrow> string" where
  "nt0 = (\<lambda>n. ''0'')"

definition trade0 :: db where
  "trade0 = (let d = projected [ev_settled] financed
             in d\<lparr>positions := map (\<lambda>p. p\<lparr>p_supplier := wallet0\<rparr>) (positions d)\<rparr>)"

definition reported0 :: db where
  "reported0 = (case record_transfer nt0 ''testnet'' report0 trade0 of Inr d \<Rightarrow> d | Inl _ \<Rightarrow> trade0)"

definition checked0 :: db where
  "checked0 = snd (verify_reported_legs horizon0 ''h'' ''I'' ''testnet'' 7 False reported0)"

lemma reported0_run: "record_transfer nt0 ''testnet'' report0 trade0 = Inr reported0"
proof -
  have "(case record_transfer nt0 ''testnet'' report0 trade0 of Inr d \<Rightarrow> True | Inl _ \<Rightarrow> False)"
    by code_simp
  then show ?thesis by (auto simp: reported0_def split: sum.splits)
qed


lemma trade0_unreported: "anchor_transactions trade0 = []"
  by code_simp

lemma trade0_ok: "db_ok trade0"
proof -
  have old: "db_ok (projected [ev_settled] financed)"
    unfolding financed_def before_advance_def by (intro projected_db_ok sample_db_ok)
  have "distinct (map position_key (positions trade0)) \<and> length (positions trade0) = 1
      \<and> list_all position_state_ok (positions trade0)"
    by code_simp
  moreover have "count_rows P ps \<le> length ps" for P and ps :: "position_row list"
    by (simp add: count_rows_def)
  ultimately have "distinct_keys position_key (positions trade0)" "one_active_per_milestone (positions trade0)"
    "list_all position_state_ok (positions trade0)"
    by (auto simp: distinct_keys_def one_active_per_milestone_def) metis
  moreover have "db_ok (d\<lparr>positions := ps\<rparr>)" if "db_ok d" "distinct_keys position_key ps"
    "one_active_per_milestone ps" "list_all position_state_ok ps" for d ps
    using that by (simp add: db_ok_def)
  moreover have "trade0 = (projected [ev_settled] financed)\<lparr>positions := positions trade0\<rparr>"
    by (simp add: trade0_def Let_def)
  ultimately show ?thesis using old by metis
qed

lemma checked0_ok: "db_ok checked0"
proof -
  have "db_ok reported0"
    using record_transfer_frame [OF reported0_run] trade0_ok by (metis db_ok_anchors)
  moreover have "checked0 = reported0\<lparr>anchor_transactions := anchor_transactions checked0\<rparr>"
    using verify_reported_legs_frame [of horizon0 "''h''" "''I''" "''testnet''" 7 False reported0]
    by (auto simp: checked0_def)
  ultimately show ?thesis by (metis db_ok_anchors)
qed

section \<open>Confirmed legs\<close>



section \<open>Finance cycles\<close>



text \<open>
  C17: conversely nothing that qualifies is left out. In a database that obeys the schema, the
  milestone of a position (its first, in table order) has exactly one row among the derived
  cycles, and that row is verified exactly when a settlement and a confirmed leg of the
  supplier or the buyer support it.
\<close>

theorem cycle_counting:
  assumes "db_ok d"
    and "List.find (\<lambda>p. p_milestoneId p = i) (filter (\<lambda>p. p_ctx p = ctx) (positions d)) = Some p"
  shows "filter (\<lambda>cy. cy_milestoneId cy = i) (derive_cycles ctx d) = [cycle_of ctx d p]
    \<and> (cy_verified (cycle_of ctx d p) \<longleftrightarrow> (\<exists>s leg. cycle_supported ctx d p s leg))"
proof -
  have "p \<in> set (positions d)" "p_ctx p = ctx" using find_Some_in [OF assms(2)] by auto
  with cycles_from_first [OF assms(2)] supported_counts [OF assms(1)] counts_supported
  show ?thesis by (fastforce simp: derive_cycles_def)
qed

lemma cycle_counting_witness:
  "\<exists>p. filter (\<lambda>cy. cy_milestoneId cy = 1) (derive_cycles ctx0 checked0) = [cycle_of ctx0 checked0 p]
     \<and> (cy_verified (cycle_of ctx0 checked0 p) \<longleftrightarrow> (\<exists>s leg. cycle_supported ctx0 checked0 p s leg))"
proof -
  have "List.find (\<lambda>p. p_milestoneId p = 1) (filter (\<lambda>p. p_ctx p = ctx0) (positions checked0)) \<noteq> None"
    by code_simp
  then obtain p where
    "List.find (\<lambda>p. p_milestoneId p = 1) (filter (\<lambda>p. p_ctx p = ctx0) (positions checked0)) = Some p"
    by blast
  from cycle_counting [OF checked0_ok this] show ?thesis by blast
qed

section \<open>Reports\<close>

text \<open>
  C18: a report is accepted or it writes nothing, and an accepted one carries none of the
  fields Milvance never stores. A body with a forbidden field is refused by name whatever else
  it holds; the row of an accepted report has a wallet address, an Anchor identifier and a
  transaction hash of the required shapes, the network of the server, and starts unchecked.
\<close>

theorem reports_carry_no_secrets:
  "(\<forall>f. key_in k f \<and> k \<in> set FORBIDDEN_FIELDS \<longrightarrow>
      (\<exists>k' \<in> set FORBIDDEN_FIELDS. key_in k' f \<and>
         record_transfer nt net (JObject f) d = Inl (BadRequest (''Milvance never stores '' @ [CHR 0x27] @ k'
           @ [CHR 0x27] @ ''. Remove it and resend; your Anchor session stays in your browser.''))))
   \<and> (\<forall>body t. report_row nt net body = Inr t \<longrightarrow>
      is_wallet (t_walletAddress t) \<and> t_stellarLegStatus t = UNCHECKED \<and> t_network t = net
    \<and> (\<exists>i. t_anchorTransactionId t = Some i \<and> is_reference i)
    \<and> (\<forall>h. t_stellarTxHash t = Some h \<longrightarrow> is_any_hex64 h))"
proof (intro conjI allI impI)
  fix f assume k: "key_in k f \<and> k \<in> set FORBIDDEN_FIELDS"
  then obtain k' where k': "forbidden_field FORBIDDEN_FIELDS f = Some k'"
    and "k' \<in> set FORBIDDEN_FIELDS \<and> key_in k' f"
    using forbidden_field_found by metis
  moreover from k' have "record_transfer nt net (JObject f) d = Inl (BadRequest (''Milvance never stores ''
      @ [CHR 0x27] @ k' @ [CHR 0x27] @ ''. Remove it and resend; your Anchor session stays in your browser.''))"
    by (simp add: record_transfer_def report_row_def)
  ultimately show "\<exists>k' \<in> set FORBIDDEN_FIELDS. key_in k' f \<and>
      record_transfer nt net (JObject f) d = Inl (BadRequest (''Milvance never stores '' @ [CHR 0x27] @ k'
        @ [CHR 0x27] @ ''. Remove it and resend; your Anchor session stays in your browser.''))"
    by blast
qed (use report_row_shape in blast)+

lemma reports_carry_no_secrets_witness:
  "\<exists>k'. record_transfer nt0 ''testnet'' (JObject [(''iban'', JString ''TR00'')]) trade0 =
     Inl (BadRequest (''Milvance never stores '' @ [CHR 0x27] @ k' @ [CHR 0x27]
       @ ''. Remove it and resend; your Anchor session stays in your browser.''))"
proof -
  have "key_in ''iban'' [(''iban'', JString ''TR00'')] \<and> ''iban'' \<in> set FORBIDDEN_FIELDS"
    by (simp add: key_in_def FORBIDDEN_FIELDS_def)
  with reports_carry_no_secrets [of "''iban''" nt0 "''testnet''" trade0] show ?thesis by blast
qed

text \<open>
  C19: re-posting a transfer never makes a second row and never re-attributes one. Identities
  stay distinct; the wallet, direction and amounts of a row that exists are final; and a row
  keeps a verdict only together with the hash it was given for, so a corrected hash starts
  unchecked.
\<close>

theorem reposting_keeps_transfers:
  assumes "record_transfer nt net body d = Inr d'"
    and "distinct (map transfer_key (anchor_transactions d))"
  shows "distinct (map transfer_key (anchor_transactions d'))
    \<and> (\<forall>t \<in> set (anchor_transactions d). \<exists>t' \<in> set (anchor_transactions d'). report_keeps t t')
    \<and> (\<forall>t' \<in> set (anchor_transactions d'). t_stellarLegStatus t' = UNCHECKED
         \<or> (\<exists>t \<in> set (anchor_transactions d). report_keeps t t'))"
  using record_transfer_rows [OF assms] by simp

lemma reposting_keeps_transfers_witness:
  "distinct (map transfer_key (anchor_transactions reported0))"
  using reposting_keeps_transfers [OF reported0_run] by (simp add: trade0_unreported)

text \<open>
  the endpoint accepts a transaction hash in either case, but the check knows only the
  lower-case form: the leg of an accepted report with an upper-case digit in its hash is
  unverifiable whatever Stellar shows, so the conversion can never count.
\<close>

theorem upper_case_hash_never_confirms:
  assumes "report_row nt net body = Inr t" and "t_stellarTxHash t = Some h" and "\<not> is_hex64 h"
  shows "is_any_hex64 h \<and>
    (\<exists>v. verify_stellar_leg hz (leg_of t) url issuer = Inr v \<and> v_status v = UNVERIFIABLE)"
  using assms by (rule upper_case_hash_unverifiable)

definition upper_report :: jsval where
  "upper_report = JObject
     [(''direction'', JString ''USDC_TO_TRY''), (''walletAddress'', JString wallet0),
      (''anchorTransactionId'', JString ''a1''), (''stellarTxHash'', JString (replicate 64 (CHR ''A'')))]"

lemma upper_case_hash_never_confirms_witness:
  "\<exists>t. report_row nt0 ''testnet'' upper_report = Inr t
     \<and> (\<exists>v. verify_stellar_leg horizon0 (leg_of t) ''h'' ''I'' = Inr v \<and> v_status v = UNVERIFIABLE)"
proof -
  have "(case report_row nt0 ''testnet'' upper_report of Inl _ \<Rightarrow> False
      | Inr t \<Rightarrow> t_stellarTxHash t = Some (replicate 64 (CHR ''A'')))"
    by code_simp
  then obtain t where t: "report_row nt0 ''testnet'' upper_report = Inr t"
    "t_stellarTxHash t = Some (replicate 64 (CHR ''A''))"
    by (auto split: sum.splits)
  have "\<not> is_hex64 (replicate 64 (CHR ''A''))" by code_simp
  from upper_case_hash_never_confirms [OF t this] t show ?thesis by blast
qed

end
