(* ===== verification/PublicMetrics.thy ===== *)
theory PublicMetrics
  imports FinanceCycles
begin

text \<open>
  \<open>apps/api/src/metrics/public-metrics.ts\<close>: every figure of the public traction page,
  computed from the read models. Amounts are exact integers; a date is its time value.
\<close>

section \<open>Arithmetic\<close>

text \<open>\<open>sumBase\<close>: the columns are integers, so \<open>toFixed(0)\<close> and \<open>BigInt\<close> lose nothing.\<close>

definition sum_base :: "int list \<Rightarrow> int" where
  "sum_base values = foldl (+) 0 values"

text \<open>\<open>Math.round(a / b)\<close>: the nearest integer, a half upwards.\<close>

definition math_round :: "int \<Rightarrow> int \<Rightarrow> int" where
  "math_round a b = (2 * a + b) div (2 * b)"

definition median :: "int list \<Rightarrow> int option" where
  "median values =
     (if values = [] then None
      else let sorted = sort values; middle = length sorted div 2
           in if length sorted mod 2 = 1 then Some (sorted ! middle)
              else Some (math_round (sorted ! (middle - 1) + sorted ! middle) 2))"

definition FIAT_DECIMALS :: nat where
  "FIAT_DECIMALS = 7"

definition PROTECTED_STATES :: "milestone_status list" where
  "PROTECTED_STATES =
     [FUNDED, FINANCE_REQUESTED, FINANCED, SUBMITTED, VERIFIED, DISPUTED, SETTLED, REFUNDED]"

section \<open>The figures\<close>

record protocol_activity =
  pa_ordersCreated :: nat
  pa_ordersAccepted :: nat
  pa_ordersCompleted :: nat
  pa_milestonesCreated :: nat
  pa_milestonesProtected :: nat
  pa_protectedVolume :: string
  pa_financeRequests :: nat
  pa_fundingOffers :: nat
  pa_advancesFunded :: nat
  pa_advanceVolume :: string
  pa_milestonesSettled :: nat
  pa_funderRepaymentVolume :: string
  pa_supplierResidualVolume :: string
  pa_disputesOpened :: nat
  pa_milestonesRefunded :: nat
  pa_refundVolume :: string
  pa_distinctWallets :: nat

record local_payment_figures =
  lp_onRampsReported :: nat
  lp_offRampsReported :: nat
  lp_legsChainConfirmed :: nat
  lp_legsMismatched :: nat
  lp_legsUnchecked :: nat
  lp_tryOnboarded :: string
  lp_tryPaidToSuppliers :: string

record public_cycle =
  pc_milestoneId :: string
  pc_orderId :: "string option"
  pc_counted :: bool
  pc_link :: "cycle_link option"
  pc_localPaymentTxHash :: "string option"
  pc_missing :: "string list"

record north_star =
  ns_completedLocalPaymentFinanceCycles :: nat
  ns_candidateCycles :: nat
  ns_supplierOffRampCycles :: nat
  ns_buyerOnRampCycles :: nat
  ns_cycles :: "public_cycle list"

record adoption =
  ad_externalWallets :: int
  ad_teamWallets :: int
  ad_unclassifiedWallets :: int
  ad_distinctWallets :: int

record timings =
  tm_medianOrderCompletionSeconds :: "int option"
  tm_medianTimeToLocalCashSeconds :: "int option"

record public_metrics =
  protocolActivity :: protocol_activity
  localPayments :: local_payment_figures
  northStar :: north_star
  adoptionFigures :: adoption
  timingFigures :: timings

section \<open>Buyer escrow\<close>

definition still_held :: "milestone_row list \<Rightarrow> milestone_row list" where
  "still_held ms = filter (\<lambda>r. m_status r \<noteq> SETTLED \<and> m_status r \<noteq> REFUNDED) ms"

definition protected_volume :: "settlement_row list \<Rightarrow> refund_row list \<Rightarrow> milestone_row list \<Rightarrow> int" where
  "protected_volume ss rs ms =
     sum_base (map s_protectedAmount ss) + sum_base (map r_refundedAmount rs)
     + sum_base (map m_fundedAmount (still_held ms))"

section \<open>Wallets\<close>

text \<open>The members of the set, in any order: only its size and the tags of its members are used.\<close>

definition wallet_set :: "order_row list \<Rightarrow> offer_row list \<Rightarrow> position_row list \<Rightarrow> string list" where
  "wallet_set os fs ps =
     remdups (concat (map (\<lambda>r. [o_buyer r, o_supplier r, o_attestor r, o_resolver r]) os)
              @ map f_funder fs @ map p_funder ps)"

definition tag_for :: "string \<Rightarrow> string list \<Rightarrow> demo_participant list \<Rightarrow> string \<Rightarrow> demo_participant option" where
  "tag_for net wallets parts wallet =
     (if wallets = [] then None
      else map_get w_walletAddress
        (filter (\<lambda>t. w_network t = net \<and> w_walletAddress t \<in> set wallets) parts) wallet)"

text \<open>The loop over the wallets, with \<open>externalWallets\<close> and \<open>teamWallets\<close>.\<close>

fun classify :: "(string \<Rightarrow> demo_participant option) \<Rightarrow> string list \<Rightarrow> int \<times> int \<Rightarrow> int \<times> int" where
  "classify tagFor [] n = n"
| "classify tagFor (wallet # ws) (ext, team) =
     (case tagFor wallet of
        None \<Rightarrow> classify tagFor ws (ext, team)
      | Some tag \<Rightarrow>
          if w_isTeam tag then classify tagFor ws (ext, team + 1)
          else if w_consentToCount tag then classify tagFor ws (ext + 1, team)
          else classify tagFor ws (ext, team))"

section \<open>Local payments\<close>

fun sum_try_from :: "int \<Rightarrow> int option list \<Rightarrow> int" where
  "sum_try_from t [] = t"
| "sum_try_from t (None # vs) = sum_try_from t vs"
| "sum_try_from t (Some v # vs) = sum_try_from (t + to_base_units (from_base_units v FIAT_DECIMALS)) vs"

text \<open>\<open>sumTry\<close>: a column's \<open>toFixed(7)\<close> is \<open>from_base_units\<close> of its units.\<close>

definition sum_try :: "int option list \<Rightarrow> string" where
  "sum_try vs = from_base_units (sum_try_from 0 vs) FIAT_DECIMALS"

section \<open>Timings\<close>

definition keep_latest :: "(int \<rightharpoonup> int) \<Rightarrow> int \<Rightarrow> int \<Rightarrow> (int \<rightharpoonup> int)" where
  "keep_latest into key t =
     (case into key of None \<Rightarrow> into(key \<mapsto> t)
      | Some current \<Rightarrow> if current < t then into(key \<mapsto> t) else into)"

definition terminal_at :: "settlement_row list \<Rightarrow> refund_row list \<Rightarrow> (int \<rightharpoonup> int)" where
  "terminal_at ss rs =
     foldl (\<lambda>into r. keep_latest into (r_orderId r) (r_refundedAt r))
       (foldl (\<lambda>into s. keep_latest into (s_orderId s) (s_settledAt s)) (\<lambda>k. None) ss) rs"

definition completion_seconds :: "(int \<rightharpoonup> int) \<Rightarrow> order_row list \<Rightarrow> int list" where
  "completion_seconds terminalAt completed =
     filter (\<lambda>v. 0 \<le> v)
       (List.map_filter (\<lambda>r. map_option (\<lambda>t. math_round (t - o_createdAt r) 1000) (terminalAt (o_orderId r)))
         completed)"

definition confirmed_off_ramps :: "anchor_transaction list \<Rightarrow> anchor_transaction list" where
  "confirmed_off_ramps offRamps =
     filter (\<lambda>t. t_stellarLegStatus t = CONFIRMED \<and> t_stellarLegAt t \<noteq> None) offRamps"

definition paid_out_after :: "position_row \<Rightarrow> anchor_transaction \<Rightarrow> bool" where
  "paid_out_after p t \<longleftrightarrow> t_walletAddress t = p_supplier p
     \<and> (case t_stellarLegAt t of None \<Rightarrow> False | Some ms \<Rightarrow> p_fundedAt p \<le> ms)"

definition time_to_cash :: "anchor_transaction list \<Rightarrow> position_row list \<Rightarrow> int list" where
  "time_to_cash offRamps ps =
     List.map_filter (\<lambda>p.
       case List.find (paid_out_after p) (confirmed_off_ramps offRamps) of
         None \<Rightarrow> None
       | Some t \<Rightarrow> map_option (\<lambda>ms. math_round (ms - p_fundedAt p) 1000) (t_stellarLegAt t)) ps"

section \<open>The whole page\<close>

definition public_cycle_of :: "cycle_row \<Rightarrow> public_cycle" where
  "public_cycle_of cy =
     \<lparr>pc_milestoneId = int_to_string (cy_milestoneId cy),
      pc_orderId = map_option int_to_string (cy_orderId cy), pc_counted = cy_verified cy,
      pc_link = cy_link cy, pc_localPaymentTxHash = cy_legTxHash cy, pc_missing = cy_missing cy\<rparr>"

definition compute_public_metrics :: "projection_context \<Rightarrow> db \<Rightarrow> public_metrics" where
  "compute_public_metrics ctx d =
     (let os = filter (\<lambda>r. o_ctx r = ctx) (orders d);
          ms = filter (\<lambda>r. m_ctx r = ctx) (milestones d);
          ss = filter (\<lambda>r. s_ctx r = ctx) (settlements d);
          rs = filter (\<lambda>r. r_ctx r = ctx) (refunds d);
          ps = filter (\<lambda>r. p_ctx r = ctx) (positions d);
          fs = filter (\<lambda>r. f_ctx r = ctx) (offers d);
          anchors = filter (\<lambda>t. t_network t = network ctx) (anchor_transactions d);
          cys = derive_cycles ctx d;
          completedOrders = filter (\<lambda>r. o_status r = OS_COMPLETED) os;
          wallets = wallet_set os fs ps;
          (ext, team) = classify (tag_for (network ctx) wallets (participants d)) wallets (0, 0);
          completedAnchors = filter (\<lambda>t. t_status t = ''completed'') anchors;
          onRamps = filter (\<lambda>t. t_direction t = TRY_TO_USDC) completedAnchors;
          offRamps = filter (\<lambda>t. t_direction t = USDC_TO_TRY) completedAnchors;
          counted = filter cy_verified cys
      in \<lparr>protocolActivity =
            \<lparr>pa_ordersCreated = length os,
             pa_ordersAccepted = count_rows (\<lambda>r. o_status r = OS_ACTIVE \<or> o_status r = OS_COMPLETED) os,
             pa_ordersCompleted = length completedOrders,
             pa_milestonesCreated = length ms,
             pa_milestonesProtected = count_rows (\<lambda>r. m_status r \<in> set PROTECTED_STATES) ms,
             pa_protectedVolume = int_to_string (protected_volume ss rs ms),
             pa_financeRequests = count_rows (\<lambda>r. q_ctx r = ctx) (requests d),
             pa_fundingOffers = length fs,
             pa_advancesFunded = length ps,
             pa_advanceVolume = int_to_string (sum_base (map p_principal ps)),
             pa_milestonesSettled = length ss,
             pa_funderRepaymentVolume = int_to_string (sum_base (map s_funderRepayment ss)),
             pa_supplierResidualVolume = int_to_string (sum_base (map s_supplierPayout ss)),
             pa_disputesOpened = count_rows (\<lambda>r. d_ctx r = ctx) (disputes d),
             pa_milestonesRefunded = length rs,
             pa_refundVolume = int_to_string (sum_base (map r_refundedAmount rs)),
             pa_distinctWallets = length wallets\<rparr>,
          localPayments =
            \<lparr>lp_onRampsReported = length onRamps,
             lp_offRampsReported = length offRamps,
             lp_legsChainConfirmed = count_rows (\<lambda>t. t_stellarLegStatus t = CONFIRMED) completedAnchors,
             lp_legsMismatched = count_rows (\<lambda>t. t_stellarLegStatus t = MISMATCHED) completedAnchors,
             lp_legsUnchecked = count_rows (\<lambda>t. t_stellarLegStatus t = UNCHECKED) completedAnchors,
             lp_tryOnboarded = sum_try (map t_sourceAmount onRamps),
             lp_tryPaidToSuppliers = sum_try (map t_destinationAmount offRamps)\<rparr>,
          northStar =
            \<lparr>ns_completedLocalPaymentFinanceCycles = length counted,
             ns_candidateCycles = length cys,
             ns_supplierOffRampCycles = count_rows (\<lambda>cy. cy_link cy = Some SUPPLIER_OFFRAMP) counted,
             ns_buyerOnRampCycles = count_rows (\<lambda>cy. cy_link cy = Some BUYER_ONRAMP) counted,
             ns_cycles = map public_cycle_of cys\<rparr>,
          adoptionFigures =
            \<lparr>ad_externalWallets = ext, ad_teamWallets = team,
             ad_unclassifiedWallets = int (length wallets) - ext - team,
             ad_distinctWallets = int (length wallets)\<rparr>,
          timingFigures =
            \<lparr>tm_medianOrderCompletionSeconds =
               median (completion_seconds (terminal_at ss rs) completedOrders),
             tm_medianTimeToLocalCashSeconds = median (time_to_cash offRamps ps)\<rparr>\<rparr>)"

end
