(* ===== verification/PublicMetricsProperties.thy ===== *)
theory PublicMetricsProperties
  imports PublicMetrics FinanceCyclesProperties MoneyEvents
begin

text \<open>
  The traction page adds up: decimal sums are exact, counts and categories agree with each
  other, a median is a median, and settling or refunding a milestone moves its escrow from one
  term of the protected volume to another.
\<close>

section \<open>Exact decimal sums\<close>

lemma not_point [simp]: "list_all is_digit s \<Longrightarrow> CHR ''.'' \<notin> set s"
  by (auto simp: list_all_iff is_digit_def code_def)

lemma nat_of_digits_leading_zeros [simp]: "nat_of_digits (replicate k (CHR ''0'') @ s) = nat_of_digits s"
proof -
  have "nat_of_digits (replicate k (CHR ''0'')) = 0"
    by (induction k) (simp_all add: nat_of_digits_append [of "[CHR ''0'']", simplified]
        nat_of_digits_def digit_val_def code_def)
  then show ?thesis by (simp add: nat_of_digits_append)
qed

lemma split_at_point:
  assumes "CHR ''.'' \<notin> set w"
  shows "takeWhile (\<lambda>c. c \<noteq> CHR ''.'') (w @ CHR ''.'' # f) = w"
    and "dropWhile (\<lambda>c. c \<noteq> CHR ''.'') (w @ CHR ''.'' # f) = CHR ''.'' # f"
proof -
  have "\<forall>c \<in> set w. c \<noteq> CHR ''.''" using assms by auto
  then show "takeWhile (\<lambda>c. c \<noteq> CHR ''.'') (w @ CHR ''.'' # f) = w"
    and "dropWhile (\<lambda>c. c \<noteq> CHR ''.'') (w @ CHR ''.'' # f) = CHR ''.'' # f"
    by (simp_all add: takeWhile_append2 dropWhile_append2)
qed

lemma to_base_units_split:
  assumes "list_all is_digit w" and "list_all is_digit f" and "w \<noteq> []"
  shows "to_base_units (w @ CHR ''.'' # f) = int (nat_of_digits (w @ f))"
    and "to_base_units (CHR ''-'' # w @ CHR ''.'' # f) = - int (nat_of_digits (w @ f))"
proof -
  have "CHR ''.'' \<notin> set w" using assms(1) by simp
  moreover have "all_digits (w @ f)" using assms by (simp add: all_digits_def)
  ultimately show "to_base_units (w @ CHR ''.'' # f) = int (nat_of_digits (w @ f))"
    by (simp add: to_base_units_def split_at_point int_of_string_digits)
  have "CHR ''.'' \<notin> set (CHR ''-'' # w)" using assms(1) by simp
  from split_at_point [OF this, of f]
  show "to_base_units (CHR ''-'' # w @ CHR ''.'' # f) = - int (nat_of_digits (w @ f))"
    by (simp add: to_base_units_def)
qed

lemma zero_digit: "is_digit (CHR ''0'')"
  by (simp add: is_digit_def code_def)

lemma to_from_base_units: "to_base_units (from_base_units amount places) = amount"
proof -
  define digits where "digits = pad_start (places + 1) (CHR ''0'') (nat_to_string (nat \<bar>amount\<bar>))"
  have all: "list_all is_digit digits" and val: "nat_of_digits digits = nat \<bar>amount\<bar>"
    using zero_digit digits_nat_to_string [of "nat \<bar>amount\<bar>"]
    by (auto simp: digits_def pad_start_def list_all_iff)
  let ?w = "take (length digits - places) digits" and ?f = "drop (length digits - places) digits"
  have "length digits > places" by (simp add: digits_def)
  then have "?w \<noteq> []" by auto
  moreover have "list_all is_digit ?w" "list_all is_digit ?f"
    using all by (auto simp: list_all_iff dest: in_set_takeD in_set_dropD)
  ultimately have "to_base_units (?w @ CHR ''.'' # ?f) = \<bar>amount\<bar>"
    "to_base_units (CHR ''-'' # ?w @ CHR ''.'' # ?f) = - \<bar>amount\<bar>"
    using to_base_units_split [of ?w ?f] val by simp_all
  moreover have "from_base_units amount places =
      (if amount < 0 then CHR ''-'' # ?w @ CHR ''.'' # ?f else ?w @ CHR ''.'' # ?f)"
    by (simp add: from_base_units_def digits_def Let_def)
  ultimately show ?thesis by simp
qed

lemma sum_try_from_exact: "sum_try_from t vs = t + (\<Sum>v \<leftarrow> vs. case v of None \<Rightarrow> 0 | Some v \<Rightarrow> v)"
  by (induction t vs rule: sum_try_from.induct) (simp_all add: to_from_base_units)

lemma sum_base_eq: "sum_base vs = sum_list vs"
proof -
  have "foldl (+) t vs = t + sum_list vs" for t :: int
    by (induction vs arbitrary: t) simp_all
  then show ?thesis by (simp add: sum_base_def)
qed

section \<open>Categories\<close>

definition is_team :: "(string \<Rightarrow> demo_participant option) \<Rightarrow> string \<Rightarrow> bool" where
  "is_team tagFor w \<longleftrightarrow> (case tagFor w of None \<Rightarrow> False | Some tag \<Rightarrow> w_isTeam tag)"

definition is_external :: "(string \<Rightarrow> demo_participant option) \<Rightarrow> string \<Rightarrow> bool" where
  "is_external tagFor w \<longleftrightarrow>
     (case tagFor w of None \<Rightarrow> False | Some tag \<Rightarrow> \<not> w_isTeam tag \<and> w_consentToCount tag)"

lemma classify_counts:
  "classify tagFor ws (ext, team) =
     (ext + int (count_rows (is_external tagFor) ws), team + int (count_rows (is_team tagFor) ws))"
  by (induction ws arbitrary: ext team)
    (auto simp: count_rows_def is_team_def is_external_def split: option.split)

lemma count_rows_le_length: "count_rows P xs \<le> length xs"
  by (simp add: count_rows_def)

lemma count_rows_mono: "(\<And>x. P x \<Longrightarrow> Q x) \<Longrightarrow> count_rows P xs \<le> count_rows Q xs"
  by (induction xs) (auto simp: count_rows_def)

lemma count_rows_disjoint:
  "(\<And>x. P x \<Longrightarrow> \<not> Q x) \<Longrightarrow> count_rows P xs + count_rows Q xs \<le> length xs"
  by (induction xs) (auto simp: count_rows_def)

lemma team_or_external: "is_external tagFor w \<Longrightarrow> \<not> is_team tagFor w"
  by (auto simp: is_external_def is_team_def split: option.splits)

lemma count_rows_split:
  "(\<And>x. x \<in> set xs \<Longrightarrow> P x \<noteq> Q x) \<Longrightarrow> count_rows P xs + count_rows Q xs = length xs"
  by (induction xs) (auto simp: count_rows_def)

lemma verified_link:
  "cy \<in> set (derive_cycles ctx d) \<Longrightarrow> cy_verified cy \<Longrightarrow>
     (cy_link cy = Some SUPPLIER_OFFRAMP) \<noteq> (cy_link cy = Some BUYER_ONRAMP)"
  by (auto simp: derive_cycles_def cycle_of_def Let_def dest!: in_cycles_from split: if_splits)

lemma verdict_counts:
  "count_rows (\<lambda>t. t_stellarLegStatus t = CONFIRMED) ts
     + count_rows (\<lambda>t. t_stellarLegStatus t = MISMATCHED) ts
     + count_rows (\<lambda>t. t_stellarLegStatus t = UNCHECKED) ts
   \<le> length (filter (\<lambda>t. t_direction t = TRY_TO_USDC) ts)
     + length (filter (\<lambda>t. t_direction t = USDC_TO_TRY) ts)"
proof (induction ts)
  case (Cons t ts)
  show ?case
    by (cases "t_stellarLegStatus t"; cases "t_direction t") (use Cons in \<open>simp_all add: count_rows_def\<close>)
qed (simp add: count_rows_def)

section \<open>The median\<close>

lemma math_round_half: "(a::int) \<le> b \<Longrightarrow> a \<le> math_round (a + b) 2 \<and> math_round (a + b) 2 \<le> b"
  by (auto simp: math_round_def)

lemma count_sort: "length (filter P (sort xs)) = length (filter P xs)"
  by (metis filter_sort length_sort)

lemma sorted_less_count:
  assumes "sorted xs" and "i \<le> length xs" and "\<forall>j < length xs. i \<le> j \<longrightarrow> m \<le> xs ! j"
  shows "length (filter (\<lambda>v. v < (m::int)) xs) \<le> i"
proof -
  have "m \<le> v" if "v \<in> set (drop i xs)" for v
  proof -
    from that obtain j where "j < length xs - i" "v = xs ! (i + j)"
      by (auto simp: in_set_conv_nth)
    then show ?thesis using assms(3) by simp
  qed
  then have "filter (\<lambda>v. v < m) (drop i xs) = []"
    by (auto simp: filter_empty_conv not_less)
  then have "length (filter (\<lambda>v. v < m) (take i xs @ drop i xs)) = length (filter (\<lambda>v. v < m) (take i xs))"
    unfolding filter_append by simp
  also have "\<dots> \<le> i" using length_filter_le [of "\<lambda>v. v < m" "take i xs"] assms(2) by simp
  finally show ?thesis by simp
qed

lemma sorted_greater_count:
  assumes "sorted xs" and "i \<le> length xs" and "\<forall>j < i. xs ! j \<le> m"
  shows "length (filter (\<lambda>v. (m::int) < v) xs) \<le> length xs - i"
proof -
  have "filter (\<lambda>v. m < v) (take i xs) = []"
    using assms(2,3) by (auto simp: filter_empty_conv in_set_conv_nth not_less)
  then have "length (filter (\<lambda>v. m < v) (take i xs @ drop i xs)) = length (filter (\<lambda>v. m < v) (drop i xs))"
    unfolding filter_append by simp
  also have "\<dots> \<le> length xs - i" using length_filter_le [of "\<lambda>v. m < v" "drop i xs"] by simp
  finally show ?thesis by simp
qed

lemma median_splits:
  assumes "median vs = Some m"
  shows "2 * length (filter (\<lambda>v. v < m) vs) \<le> length vs \<and> 2 * length (filter (\<lambda>v. m < v) vs) \<le> length vs"
proof -
  define s where "s = sort vs"
  define k where "k = length s div 2"
  have s: "sorted s" "length s = length vs" by (simp_all add: s_def)
  moreover have "vs \<noteq> []" using assms by (auto simp: median_def)
  ultimately have "s \<noteq> []" by (metis length_0_conv)
  note s = s this
  have cnt: "length (filter P vs) = length (filter P s)" for P
    by (simp add: s_def count_sort)
  have mono: "s ! i \<le> s ! j" if "i \<le> j" "j < length s" for i j
    using s(1) that by (rule sorted_nth_mono)
  show ?thesis
  proof (cases "length s mod 2 = 1")
    case True
    then have m: "m = s ! k" and n: "length s = 2 * k + 1"
      using assms s(3) by (auto simp: median_def s_def k_def Let_def split: if_splits) presburger
    have "length (filter (\<lambda>v. v < m) s) \<le> k"
      by (rule sorted_less_count) (use s n m mono in auto)
    moreover have "length (filter (\<lambda>v. m < v) s) \<le> length s - (k + 1)"
      by (rule sorted_greater_count) (use s n m mono in auto)
    ultimately show ?thesis using n s(2) by (simp add: cnt)
  next
    case False
    then have m: "m = math_round (s ! (k - 1) + s ! k) 2"
      using assms s(3) by (auto simp: median_def s_def k_def Let_def split: if_splits)
    have n: "length s = 2 * k" using False unfolding k_def by presburger
    with s(3) have "0 < k" by (cases k) auto
    note n = n this
    then have between: "s ! (k - 1) \<le> m" "m \<le> s ! k"
      using math_round_half [of "s ! (k - 1)" "s ! k"] mono [of "k - 1" k] unfolding m by simp_all
    have "length (filter (\<lambda>v. v < m) s) \<le> k"
      by (rule sorted_less_count) (use s n between(2) mono in \<open>auto intro: order_trans\<close>)
    moreover have "length (filter (\<lambda>v. m < v) s) \<le> length s - k"
    proof (rule sorted_greater_count)
      show "\<forall>j < k. s ! j \<le> m"
      proof (intro allI impI)
        fix j assume "j < k"
        then have "s ! j \<le> s ! (k - 1)" using mono [of j "k - 1"] n by simp
        with between(1) show "s ! j \<le> m" by simp
      qed
    qed (use s n in auto)
    ultimately show ?thesis using n s(2) by (simp add: cnt)
  qed
qed

section \<open>The protected volume\<close>

definition scoped_volume :: "projection_context \<Rightarrow> db \<Rightarrow> int" where
  "scoped_volume ctx d =
     protected_volume (filter (\<lambda>r. s_ctx r = ctx) (settlements d)) (filter (\<lambda>r. r_ctx r = ctx) (refunds d))
       (filter (\<lambda>r. m_ctx r = ctx) (milestones d))"

definition held_amount :: "projection_context \<Rightarrow> milestone_row \<Rightarrow> int" where
  "held_amount ctx m = (if m_ctx m = ctx \<and> m_status m \<noteq> SETTLED \<and> m_status m \<noteq> REFUNDED
     then m_fundedAmount m else 0)"

lemma sum_list_filtered: "(\<Sum>x \<leftarrow> filter P xs. f x) = (\<Sum>x \<leftarrow> xs. if P x then f x else (0::int))"
  by (induction xs) auto

lemma scoped_volume_eq:
  "scoped_volume ctx d =
     (\<Sum>s \<leftarrow> settlements d. if s_ctx s = ctx then s_protectedAmount s else 0)
   + (\<Sum>r \<leftarrow> refunds d. if r_ctx r = ctx then r_refundedAmount r else 0)
   + (\<Sum>m \<leftarrow> milestones d. held_amount ctx m)"
  by (simp add: scoped_volume_def protected_volume_def still_held_def sum_base_eq sum_list_filtered
      held_amount_def if_distrib cong: if_cong)

lemma sum_update_row:
  fixes g :: "'r \<Rightarrow> int"
  assumes "distinct_keys key t" and "find_row key k t = Some r"
  shows "(\<Sum>x \<leftarrow> update_row key k f t. g x) = (\<Sum>x \<leftarrow> t. g x) - g r + g (f r)"
  using assms
proof (induction t)
  case (Cons x t)
  have absent: "update_row key k f t = t" if "k \<notin> key ` set t"
    using that by (auto simp: update_row_def update_rows_def intro!: map_idI)
  show ?case
  proof (cases "key x = k")
    case True
    with Cons.prems have "r = x" "k \<notin> key ` set t"
      by (auto simp: find_row_Cons distinct_keys_def)
    with True absent show ?thesis by (simp add: update_row_def update_rows_def)
  next
    case False
    with Cons show ?thesis
      by (simp add: find_row_Cons distinct_keys_def update_row_def update_rows_def)
  qed
qed (simp add: find_row_def)

text \<open>The tables the two closing events write, and with which rows.\<close>

lemma advance_milestone_update:
  assumes "advance_milestone ctx ev m upd d = Inr d'" and "find_milestone ctx i d = Some m"
    and "m_lastEventId m < eventId ev"
  shows "milestones d' = update_row milestone_key (ctx, i) (stamp_milestone ev \<circ> upd) (milestones d)"
  using assms find_key(2) [OF assms(2)]
  by (auto simp: advance_milestone_def is_newer_def update_milestone_def comp_def split: if_splits)

lemma settled_tables:
  assumes "project_milestone_settled ctx ev d = Inr (b, d')"
    and "u64 (ev_fields ev) ''milestone_id'' = Inr mid"
    and "i128 (ev_fields ev) ''protected_amount'' = Inr amount"
    and "find_milestone ctx mid d = Some m" and "m_lastEventId m < eventId ev"
  shows "\<exists>s. s_ctx s = ctx \<and> settlement_key s = (ctx, mid) \<and> s_protectedAmount s = amount
      \<and> settlements d' = insert_if_absent settlement_key s (settlements d)"
    and "refunds d' = refunds d"
    and "milestones d' = update_row milestone_key (ctx, mid)
      (stamp_milestone ev \<circ> (\<lambda>m. m\<lparr>m_status := SETTLED, m_fundedAmount := 0\<rparr>)) (milestones d)"
proof -
  from assms obtain s d1 d2 where
    s: "s_ctx s = ctx" "settlement_key s = (ctx, mid)" "s_protectedAmount s = amount"
    and d1: "upsert_settlement s d = Inr d1"
    and d2: "advance_milestone ctx ev m (\<lambda>m. m\<lparr>m_status := SETTLED, m_fundedAmount := 0\<rparr>) d1 = Inr d2"
    and last: "milestones d' = milestones d2 \<and> settlements d' = settlements d2 \<and> refunds d' = refunds d2"
    unfolding project_milestone_settled_def Let_def
    by (force simp: require_milestone_Inr update_active_positions_def settlement_key_def elim!: run_elims)
  note unchanged = advance_milestone_tables [OF d2]
  have d1': "d1 = d\<lparr>settlements := insert_if_absent settlement_key s (settlements d)\<rparr>"
    using d1 by (simp add: upsert_settlement_def)
  have m: "find_milestone ctx mid d1 = Some m"
    using assms(4) by (simp add: d1' find_milestone_def)
  show "\<exists>s. s_ctx s = ctx \<and> settlement_key s = (ctx, mid) \<and> s_protectedAmount s = amount
      \<and> settlements d' = insert_if_absent settlement_key s (settlements d)"
    using s last by (auto simp: unchanged d1')
  show "refunds d' = refunds d" using last by (simp add: unchanged d1')
  show "milestones d' = update_row milestone_key (ctx, mid)
      (stamp_milestone ev \<circ> (\<lambda>m. m\<lparr>m_status := SETTLED, m_fundedAmount := 0\<rparr>)) (milestones d)"
    using advance_milestone_update [OF d2 m assms(5)] last by (simp add: d1')
qed

lemma refunded_tables:
  assumes "project_milestone_refunded ctx ev d = Inr (b, d')"
    and "u64 (ev_fields ev) ''milestone_id'' = Inr mid"
    and "i128 (ev_fields ev) ''refunded_amount'' = Inr amount"
    and "find_milestone ctx mid d = Some m" and "m_lastEventId m < eventId ev"
  shows "\<exists>s. r_ctx s = ctx \<and> refund_key s = (ctx, mid) \<and> r_refundedAmount s = amount
      \<and> refunds d' = insert_if_absent refund_key s (refunds d)"
    and "settlements d' = settlements d"
    and "milestones d' = update_row milestone_key (ctx, mid)
      (stamp_milestone ev \<circ> (\<lambda>m. m\<lparr>m_status := REFUNDED, m_fundedAmount := 0\<rparr>)) (milestones d)"
proof -
  from assms obtain s d1 d2 where
    s: "r_ctx s = ctx" "refund_key s = (ctx, mid)" "r_refundedAmount s = amount"
    and d1: "upsert_refund s d = Inr d1"
    and d2: "advance_milestone ctx ev m (\<lambda>m. m\<lparr>m_status := REFUNDED, m_fundedAmount := 0\<rparr>) d1 = Inr d2"
    and last: "milestones d' = milestones d2 \<and> settlements d' = settlements d2 \<and> refunds d' = refunds d2"
    unfolding project_milestone_refunded_def Let_def
    by (force simp: require_milestone_Inr update_active_positions_def refund_key_def elim!: run_elims)
  note unchanged = advance_milestone_tables [OF d2]
  have d1': "d1 = d\<lparr>refunds := insert_if_absent refund_key s (refunds d)\<rparr>"
    using d1 by (simp add: upsert_refund_def)
  have m: "find_milestone ctx mid d1 = Some m"
    using assms(4) by (simp add: d1' find_milestone_def)
  show "\<exists>s. r_ctx s = ctx \<and> refund_key s = (ctx, mid) \<and> r_refundedAmount s = amount
      \<and> refunds d' = insert_if_absent refund_key s (refunds d)"
    using s last by (auto simp: unchanged d1')
  show "settlements d' = settlements d" using last by (simp add: unchanged d1')
  show "milestones d' = update_row milestone_key (ctx, mid)
      (stamp_milestone ev \<circ> (\<lambda>m. m\<lparr>m_status := REFUNDED, m_fundedAmount := 0\<rparr>)) (milestones d)"
    using advance_milestone_update [OF d2 m assms(5)] last by (simp add: d1')
qed

lemma held_closed [simp]:
  "held_amount ctx (stamp_milestone ev (m\<lparr>m_status := SETTLED, m_fundedAmount := 0\<rparr>)) = 0"
  "held_amount ctx (stamp_milestone ev (m\<lparr>m_status := REFUNDED, m_fundedAmount := 0\<rparr>)) = 0"
  by (simp_all add: held_amount_def stamp_milestone_def)

lemma closing_milestone:
  assumes "db_ok d" and "find_milestone ctx mid d = Some m"
  shows "(\<Sum>x \<leftarrow> update_row milestone_key (ctx, mid) f (milestones d). held_amount ctx x) =
    (\<Sum>x \<leftarrow> milestones d. held_amount ctx x) - held_amount ctx m + held_amount ctx (f m)"
  using assms by (intro sum_update_row) (simp_all add: db_ok_def find_milestone_def)

lemma settled_volume:
  assumes run: "project_milestone_settled ctx ev d = Inr (b, d')" and ok: "db_ok d"
    and mid: "u64 (ev_fields ev) ''milestone_id'' = Inr mid"
    and amount: "i128 (ev_fields ev) ''protected_amount'' = Inr amount"
    and m: "find_milestone ctx mid d = Some m" and new: "m_lastEventId m < eventId ev"
    and "find_row settlement_key (ctx, mid) (settlements d) = None"
  shows "scoped_volume ctx d' = scoped_volume ctx d - held_amount ctx m + amount"
proof -
  note tables = settled_tables [OF run mid amount m new]
  from tables(1) obtain s where "s_ctx s = ctx" "s_protectedAmount s = amount"
    "settlements d' = settlements d @ [s]"
    using assms(7) by (auto simp: insert_if_absent_def)
  then show ?thesis
    by (simp add: scoped_volume_eq tables(2,3) closing_milestone [OF ok m])
qed

lemma refunded_volume:
  assumes run: "project_milestone_refunded ctx ev d = Inr (b, d')" and ok: "db_ok d"
    and mid: "u64 (ev_fields ev) ''milestone_id'' = Inr mid"
    and amount: "i128 (ev_fields ev) ''refunded_amount'' = Inr amount"
    and m: "find_milestone ctx mid d = Some m" and new: "m_lastEventId m < eventId ev"
    and "find_row refund_key (ctx, mid) (refunds d) = None"
  shows "scoped_volume ctx d' = scoped_volume ctx d - held_amount ctx m + amount"
proof -
  note tables = refunded_tables [OF run mid amount m new]
  from tables(1) obtain s where "r_ctx s = ctx" "r_refundedAmount s = amount"
    "refunds d' = refunds d @ [s]"
    using assms(7) by (auto simp: insert_if_absent_def)
  then show ?thesis
    by (simp add: scoped_volume_eq tables(2,3) closing_milestone [OF ok m])
qed

end
