(* ===== verification/MetricsClaims.thy ===== *)
theory MetricsClaims
  imports PublicMetricsProperties FinanceClaims
begin

text \<open>
  The properties of the traction page, with witnesses on the settled sample trade.
\<close>


text \<open>
  local-currency totals are exact. Rendering an amount of any sign and magnitude with any
  number of decimal places and reading it back is the identity, and the published total reads
  back as the sum of the recorded amounts, nothing rounded.
\<close>

theorem local_currency_totals_are_exact:
  "to_base_units (from_base_units amount places) = amount
   \<and> to_base_units (sum_try vs) = (\<Sum>v \<leftarrow> vs. case v of None \<Rightarrow> 0 | Some v \<Rightarrow> v)"
  by (simp add: to_from_base_units sum_try_def sum_try_from_exact)

text \<open>
  the published median is one: no more than half of the durations are below it and no
  more than half above, rounding of the middle pair included.
\<close>

theorem median_halves_the_durations:
  assumes "median vs = Some m"
  shows "2 * length (filter (\<lambda>v. v < m) vs) \<le> length vs \<and> 2 * length (filter (\<lambda>v. m < v) vs) \<le> length vs"
  using assms by (rule median_splits)

lemma median_halves_the_durations_witness:
  "median [9, 2, 4, 7] = Some 6
   \<and> 2 * length (filter (\<lambda>v. v < 6) [9, 2, 4, 7 :: int]) \<le> length [9, 2, 4, 7 :: int]
   \<and> 2 * length (filter (\<lambda>v. 6 < v) [9, 2, 4, 7 :: int]) \<le> length [9, 2, 4, 7 :: int]"
proof -
  have "median [9, 2, 4, 7] = Some 6" by code_simp
  with median_halves_the_durations [OF this] show ?thesis by blast
qed

text \<open>
  settling or refunding a milestone only moves its escrow from one term of the protected
  volume to another. Projecting a newer settlement (or refund) of a held milestone whose event
  pays out exactly what the milestone holds, for the first time, leaves the published
  volume of the contract what it was.
\<close>

theorem closing_keeps_protected_volume:
  assumes "db_ok d" and "u64 (ev_fields ev) ''milestone_id'' = Inr mid"
    and "find_milestone ctx mid d = Some m" and "m_lastEventId m < eventId ev"
    and "m_status m \<noteq> SETTLED" and "m_status m \<noteq> REFUNDED"
  shows "(project_milestone_settled ctx ev d = Inr (b, d')
       \<and> i128 (ev_fields ev) ''protected_amount'' = Inr (m_fundedAmount m)
       \<and> find_row settlement_key (ctx, mid) (settlements d) = None
       \<longrightarrow> scoped_volume ctx d' = scoped_volume ctx d)
    \<and> (project_milestone_refunded ctx ev d = Inr (b, d')
       \<and> i128 (ev_fields ev) ''refunded_amount'' = Inr (m_fundedAmount m)
       \<and> find_row refund_key (ctx, mid) (refunds d) = None
       \<longrightarrow> scoped_volume ctx d' = scoped_volume ctx d)"
proof -
  have "held_amount ctx m = m_fundedAmount m"
    using assms(5,6) find_key(2) [OF assms(3)] by (simp add: held_amount_def)
  then show ?thesis
    using settled_volume [OF _ assms(1,2) _ assms(3,4)] refunded_volume [OF _ assms(1,2) _ assms(3,4)]
    by fastforce
qed

lemma closing_keeps_protected_volume_witness:
  "\<exists>d. project_milestone_settled ctx0 ev_settled financed = Inr (True, d)
     \<and> scoped_volume ctx0 d = scoped_volume ctx0 financed"
proof -
  have "(case project_milestone_settled ctx0 ev_settled financed of Inl _ \<Rightarrow> False | Inr (b, _) \<Rightarrow> b)"
    by code_simp
  then obtain d where run: "project_milestone_settled ctx0 ev_settled financed = Inr (True, d)"
    by (auto split: sum.splits)
  have ok: "db_ok financed"
    unfolding financed_def before_advance_def by (intro projected_db_ok sample_db_ok)
  have mid: "u64 (ev_fields ev_settled) ''milestone_id'' = Inr 1" by code_simp
  have "(case find_milestone ctx0 1 financed of None \<Rightarrow> False
      | Some m \<Rightarrow> m_lastEventId m < eventId ev_settled \<and> m_status m = VERIFIED
          \<and> i128 (ev_fields ev_settled) ''protected_amount'' = Inr (m_fundedAmount m)
          \<and> find_row settlement_key (ctx0, 1) (settlements financed) = None)"
    by code_simp
  then obtain m where m: "find_milestone ctx0 1 financed = Some m" "m_lastEventId m < eventId ev_settled"
    "m_status m = VERIFIED" "i128 (ev_fields ev_settled) ''protected_amount'' = Inr (m_fundedAmount m)"
    "find_row settlement_key (ctx0, 1) (settlements financed) = None"
    by (auto split: option.splits)
  from closing_keeps_protected_volume [OF ok mid m(1,2), of True d] m run show ?thesis by auto
qed

end
