(* ===== verification/IsoDates.thy ===== *)
theory IsoDates
  imports ReadModels
begin

text \<open>
  \<open>Date.prototype.toISOString\<close> on a valid date: the proleptic Gregorian calendar, computed
  from the day number with March as the first month of the year.
\<close>

text \<open>Year, month and day of a day number, day 0 being 1 January 1970.\<close>

definition civil_date :: "int \<Rightarrow> int \<times> int \<times> int" where
  "civil_date day =
     (let z = day + 719468; era = z div 146097; doe = z mod 146097;
          yoe = (doe - doe div 1460 + doe div 36524 - doe div 146096) div 365;
          doy = doe - (365 * yoe + yoe div 4 - yoe div 100);
          mp = (5 * doy + 2) div 153;
          d = doy - (153 * mp + 2) div 5 + 1;
          m = (if mp < 10 then mp + 3 else mp - 9)
      in (yoe + era * 400 + (if m \<le> 2 then 1 else 0), m, d))"

definition pad_number :: "nat \<Rightarrow> int \<Rightarrow> string" where
  "pad_number n i = pad_start n (CHR ''0'') (nat_to_string (nat i))"

definition iso_year :: "int \<Rightarrow> string" where
  "iso_year y =
     (if 0 \<le> y \<and> y \<le> 9999 then pad_number 4 y
      else if y < 0 then CHR ''-'' # pad_number 6 (- y) else CHR ''+'' # pad_number 6 y)"

definition to_iso_string :: "int \<Rightarrow> string" where
  "to_iso_string ms =
     (let day = ms div 86400000; t = ms mod 86400000; (y, m, d) = civil_date day
      in iso_year y @ ''-'' @ pad_number 2 m @ ''-'' @ pad_number 2 d @ ''T''
         @ pad_number 2 (t div 3600000) @ '':'' @ pad_number 2 (t div 60000 mod 60) @ '':''
         @ pad_number 2 (t div 1000 mod 60) @ ''.'' @ pad_number 3 (t mod 1000) @ ''Z'')"

lemma iso_examples:
  "to_iso_string 0 = ''1970-01-01T00:00:00.000Z''"
  "to_iso_string 1709210096789 = ''2024-02-29T12:34:56.789Z''"
  "to_iso_string (- 1) = ''1969-12-31T23:59:59.999Z''"
  by code_simp+

lemma length_pad_number: "length (pad_number n i) = max n (length (nat_to_string (nat i)))"
  by (simp add: pad_number_def)

end
