(* ===== verification/Serialise.thy ===== *)
theory Serialise
  imports IsoDates ChainAmounts
begin

text \<open>
  \<open>apps/api/src/read/serialise.ts\<close>: the JSON shape of each read-model row. A response is the
  value handed to the JSON encoder, its properties in the code's order.
\<close>

section \<open>Texts of the statuses\<close>

fun order_status_text :: "order_status \<Rightarrow> string" where
  "order_status_text OS_CREATED = ''CREATED''"
| "order_status_text OS_ACTIVE = ''ACTIVE''"
| "order_status_text OS_COMPLETED = ''COMPLETED''"
| "order_status_text OS_CANCELLED = ''CANCELLED''"

fun milestone_status_text :: "milestone_status \<Rightarrow> string" where
  "milestone_status_text UNFUNDED = ''UNFUNDED''"
| "milestone_status_text FUNDED = ''FUNDED''"
| "milestone_status_text FINANCE_REQUESTED = ''FINANCE_REQUESTED''"
| "milestone_status_text FINANCED = ''FINANCED''"
| "milestone_status_text SUBMITTED = ''SUBMITTED''"
| "milestone_status_text VERIFIED = ''VERIFIED''"
| "milestone_status_text DISPUTED = ''DISPUTED''"
| "milestone_status_text SETTLED = ''SETTLED''"
| "milestone_status_text REFUNDED = ''REFUNDED''"

fun request_status_text :: "request_status \<Rightarrow> string" where
  "request_status_text RQ_OPEN = ''OPEN''"
| "request_status_text RQ_ACCEPTED = ''ACCEPTED''"
| "request_status_text RQ_CANCELLED = ''CANCELLED''"

fun offer_status_text :: "offer_status \<Rightarrow> string" where
  "offer_status_text OF_OPEN = ''OPEN''"
| "offer_status_text OF_CANCELLED = ''CANCELLED''"
| "offer_status_text OF_ACCEPTED = ''ACCEPTED''"
| "offer_status_text OF_FUNDED = ''FUNDED''"

fun position_status_text :: "position_status \<Rightarrow> string" where
  "position_status_text PS_ACTIVE = ''ACTIVE''"
| "position_status_text PS_REPAID = ''REPAID''"
| "position_status_text PS_CLOSED = ''CLOSED''"

fun dispute_status_text :: "dispute_status \<Rightarrow> string" where
  "dispute_status_text DS_OPEN = ''OPEN''"
| "dispute_status_text DS_RESOLVED_SETTLE = ''RESOLVED_SETTLE''"
| "dispute_status_text DS_RESOLVED_REFUND = ''RESOLVED_REFUND''"

section \<open>Values\<close>

definition dec :: "int \<Rightarrow> jsval" where
  "dec v = JString (int_to_string v)"

definition js_text :: "string option \<Rightarrow> jsval" where
  "js_text s = (case s of None \<Rightarrow> JNull | Some s \<Rightarrow> JString s)"

definition js_time :: "int \<Rightarrow> jsval" where
  "js_time ms = JString (to_iso_string ms)"

definition js_time_option :: "int option \<Rightarrow> jsval" where
  "js_time_option t = (case t of None \<Rightarrow> JNull | Some ms \<Rightarrow> js_time ms)"

definition provenance :: "projection_context \<Rightarrow> string \<Rightarrow> int \<Rightarrow> jsval" where
  "provenance ctx evId ledgerSeq = JObject
     [(''source'', JString ''soroban-projection''), (''network'', JString (network ctx)),
      (''contractId'', JString (contractId ctx)), (''lastEventId'', JString evId),
      (''lastLedger'', dec ledgerSeq)]"

section \<open>Rows\<close>

definition serialise_order :: "order_row \<Rightarrow> fields" where
  "serialise_order r =
     [(''orderId'', dec (o_orderId r)), (''buyer'', JString (o_buyer r)),
      (''supplier'', JString (o_supplier r)), (''attestor'', JString (o_attestor r)),
      (''resolver'', JString (o_resolver r)), (''settlementAsset'', JString (o_asset r)),
      (''status'', JString (order_status_text (o_status r))),
      (''createdLedger'', dec (o_createdLedger r)), (''createdTxHash'', JString (o_createdTxHash r)),
      (''createdAt'', js_time (o_createdAt r)),
      (''provenance'', provenance (o_ctx r) (o_lastEventId r) (o_lastLedger r))]"

datatype derived_status = ON_TRACK | DELAYED | NEEDS_REVIEW | CLOSED

fun derived_status_text :: "derived_status \<Rightarrow> string" where
  "derived_status_text ON_TRACK = ''ON_TRACK''"
| "derived_status_text DELAYED = ''DELAYED''"
| "derived_status_text NEEDS_REVIEW = ''NEEDS_REVIEW''"
| "derived_status_text CLOSED = ''CLOSED''"

definition derived_operational_status ::
  "milestone_status \<Rightarrow> int option \<Rightarrow> int \<Rightarrow> derived_status" where
  "derived_operational_status chainStatus deadline now =
     (if chainStatus \<in> {SETTLED, REFUNDED} then CLOSED
      else if chainStatus \<in> {SUBMITTED, DISPUTED} then NEEDS_REVIEW
      else if (case deadline of None \<Rightarrow> False | Some t \<Rightarrow> t < now) then DELAYED
      else ON_TRACK)"

definition fully_funded :: "milestone_row \<Rightarrow> bool" where
  "fully_funded m \<longleftrightarrow> m_fundedAmount m = m_amount m \<and> 0 < m_amount m"

definition serialise_milestone :: "int \<Rightarrow> milestone_row \<Rightarrow> fields" where
  "serialise_milestone now m =
     [(''milestoneId'', dec (m_milestoneId m)), (''orderId'', dec (m_orderId m)),
      (''index'', JNumber (Some (of_int (m_index m)))), (''amount'', dec (m_amount m)),
      (''fundedAmount'', dec (m_fundedAmount m)), (''fullyFunded'', JBool (fully_funded m)),
      (''deadline'', js_time_option (m_deadline m)), (''evidenceHash'', js_text (m_evidenceHash m)),
      (''status'', JString (milestone_status_text (m_status m))),
      (''derivedStatus'',
        JString (derived_status_text (derived_operational_status (m_status m) (m_deadline m) now))),
      (''createdLedger'', dec (m_createdLedger m)), (''createdTxHash'', JString (m_createdTxHash m)),
      (''createdAt'', js_time (m_createdAt m)),
      (''provenance'', provenance (m_ctx m) (m_lastEventId m) (m_lastLedger m))]"

definition serialise_finance_request :: "request_row \<Rightarrow> fields" where
  "serialise_finance_request q =
     [(''milestoneId'', dec (q_milestoneId q)), (''supplier'', JString (q_supplier q)),
      (''requestedPrincipal'', dec (q_requestedPrincipal q)),
      (''protectedAmount'', dec (q_protectedAmount q)),
      (''status'', JString (request_status_text (q_status q))), (''expiresAt'', js_time (q_expiresAt q)),
      (''cancelledWhileExpired'',
        case q_cancelledWhileExpired q of None \<Rightarrow> JNull | Some b \<Rightarrow> JBool b),
      (''createdAt'', js_time (q_createdAt q))]"

definition serialise_offer :: "offer_row \<Rightarrow> fields" where
  "serialise_offer f =
     [(''offerId'', dec (f_offerId f)), (''milestoneId'', dec (f_milestoneId f)),
      (''funder'', JString (f_funder f)), (''principal'', dec (f_principal f)),
      (''repayment'', dec (f_repayment f)), (''status'', JString (offer_status_text (f_status f))),
      (''expiresAt'', js_time (f_expiresAt f)), (''createdAt'', js_time (f_createdAt f))]"

definition serialise_position :: "position_row \<Rightarrow> fields" where
  "serialise_position p =
     [(''milestoneId'', dec (p_milestoneId p)), (''offerId'', dec (p_offerId p)),
      (''funder'', JString (p_funder p)), (''supplier'', JString (p_supplier p)),
      (''principal'', dec (p_principal p)), (''repayment'', dec (p_repayment p)),
      (''protectedAmountAtFunding'', dec (p_protectedAmountAtFunding p)),
      (''status'', JString (position_status_text (p_status p))), (''fundedAt'', js_time (p_fundedAt p)),
      (''fundedTxHash'', JString (p_fundedTxHash p)), (''repaidAt'', js_time_option (p_repaidAt p)),
      (''closedAt'', js_time_option (p_closedAt p))]"

definition serialise_dispute :: "dispute_row \<Rightarrow> fields" where
  "serialise_dispute x =
     [(''disputeId'', dec (d_disputeId x)), (''milestoneId'', dec (d_milestoneId x)),
      (''openedBy'', JString (d_openedBy x)), (''resolver'', JString (d_resolver x)),
      (''status'', JString (dispute_status_text (d_status x))), (''openedAt'', js_time (d_openedAt x)),
      (''openedTxHash'', JString (d_openedTxHash x)), (''resolvedAt'', js_time_option (d_resolvedAt x)),
      (''resolvedTxHash'', js_text (d_resolvedTxHash x))]"

end
