(* ===== verification/ReadApi.thy ===== *)
theory ReadApi
  imports Serialise LocalPayments
begin

text \<open>
  The read-only routes: \<open>apps/api/src/read/read.controller.ts\<close> and the comparison of a row with
  the contract in \<open>reconcile.service.ts\<close>. A route is a function of the database, so none can
  change it. \<open>js_numbers\<close> says how JavaScript prints a number and which number \<open>Number(v)\<close>
  makes of a value; the contract's answer to a simulated call is an argument. Rows with equal
  sort keys come in table order.
\<close>

record js_numbers =
  print_number :: "rat option \<Rightarrow> string"
  to_number :: "jsval \<Rightarrow> rat option"

section \<open>Parameters\<close>

definition parse_chain_id :: "string \<Rightarrow> string \<Rightarrow> api_error + int" where
  "parse_chain_id raw label =
     (if \<not> all_digits raw then Inl (BadRequest (label @ '' must be a whole number''))
      else let v = int (nat_of_digits raw)
           in if v \<le> 0 then Inl (BadRequest (label @ '' must be greater than zero'')) else Inr v)"

definition parse_account :: "string \<Rightarrow> string \<Rightarrow> api_error + string" where
  "parse_account raw label =
     (if is_wallet raw then Inr raw else Inl (BadRequest (label @ '' must be a Stellar public key'')))"

definition as_integer :: "rat option \<Rightarrow> int option" where
  "as_integer r = (case r of None \<Rightarrow> None | Some q \<Rightarrow> if of_int \<lfloor>q\<rfloor> = q then Some \<lfloor>q\<rfloor> else None)"

definition parse_limit :: "js_numbers \<Rightarrow> string option \<Rightarrow> api_error + nat" where
  "parse_limit js raw =
     (case raw of
        None \<Rightarrow> Inr 50
      | Some s \<Rightarrow>
          (case as_integer (to_number js (JString s)) of
             None \<Rightarrow> Inl (BadRequest ''limit must be an integer between 1 and 200'')
           | Some v \<Rightarrow>
               if v < 1 \<or> 200 < v then Inl (BadRequest ''limit must be an integer between 1 and 200'')
               else Inr (nat v)))"

text \<open>\<open>s.toUpperCase()\<close> on the ASCII letters, and the enumeration value of that name: the
  client refuses any other text.\<close>

definition to_upper :: "string \<Rightarrow> string" where
  "to_upper s = map (\<lambda>c. if 97 \<le> code c \<and> code c \<le> 122 then char_of (code c - 32) else c) s"

definition enum_filter ::
  "('s \<Rightarrow> string) \<Rightarrow> 's list \<Rightarrow> string option \<Rightarrow> api_error + 's option" where
  "enum_filter text_of vals raw =
     (case raw of
        None \<Rightarrow> Inr None
      | Some s \<Rightarrow> (case List.find (\<lambda>v. text_of v = to_upper s) vals of
            None \<Rightarrow> Inl (InvalidEnum (to_upper s)) | Some v \<Rightarrow> Inr (Some v)))"

definition matches :: "'a option \<Rightarrow> 'a \<Rightarrow> bool" where
  "matches wanted v \<longleftrightarrow> (case wanted of None \<Rightarrow> True | Some w \<Rightarrow> v = w)"

definition order_statuses :: "order_status list" where
  "order_statuses = [OS_CREATED, OS_ACTIVE, OS_COMPLETED, OS_CANCELLED]"

definition offer_statuses :: "offer_status list" where
  "offer_statuses = [OF_OPEN, OF_CANCELLED, OF_ACCEPTED, OF_FUNDED]"

section \<open>Orders and milestones\<close>

definition milestones_of :: "projection_context \<Rightarrow> int \<Rightarrow> db \<Rightarrow> milestone_row list" where
  "milestones_of ctx oid d = sort_key m_index (filter (\<lambda>m. m_ctx m = ctx \<and> m_orderId m = oid) (milestones d))"

definition order_with_milestones :: "projection_context \<Rightarrow> int \<Rightarrow> db \<Rightarrow> order_row \<Rightarrow> jsval" where
  "order_with_milestones ctx now d r = JObject (serialise_order r
     @ [(''milestones'', JArray (map (JObject \<circ> serialise_milestone now) (milestones_of ctx (o_orderId r) d)))])"

definition participates :: "string option \<Rightarrow> order_row \<Rightarrow> bool" where
  "participates wallet r \<longleftrightarrow>
     (case wallet of None \<Rightarrow> True
      | Some w \<Rightarrow> o_buyer r = w \<or> o_supplier r = w \<or> o_attestor r = w \<or> o_resolver r = w)"

text \<open>The rows \<open>listOrders\<close> shows.\<close>

definition find_orders ::
  "projection_context \<Rightarrow> string option \<Rightarrow> string option \<Rightarrow> string option \<Rightarrow> order_status option \<Rightarrow> nat
    \<Rightarrow> db \<Rightarrow> order_row list" where
  "find_orders ctx buyer supplier wallet status limit d =
     take limit (sort_key o_orderId (filter (\<lambda>r.
       o_ctx r = ctx \<and> matches buyer (o_buyer r) \<and> matches supplier (o_supplier r)
       \<and> participates wallet r \<and> matches status (o_status r)) (orders d)))"

definition list_orders ::
  "js_numbers \<Rightarrow> projection_context \<Rightarrow> int \<Rightarrow> string option \<Rightarrow> string option \<Rightarrow> string option
    \<Rightarrow> string option \<Rightarrow> string option \<Rightarrow> db \<Rightarrow> api_error + jsval" where
  "list_orders js ctx now buyer supplier participant status limit d =
     and_then (case participant of None \<Rightarrow> Inr None
               | Some p \<Rightarrow> and_then (parse_account p ''participant'') (\<lambda>w. Inr (Some w))) (\<lambda>wallet.
     and_then (parse_limit js limit) (\<lambda>n.
     and_then (enum_filter order_status_text order_statuses status) (\<lambda>st.
     let rows = find_orders ctx buyer supplier wallet st n d
     in Inr (JObject [(''orders'', JArray (map (order_with_milestones ctx now d) rows)),
                      (''count'', JNumber (Some (of_nat (length rows))))]))))"

definition get_order :: "projection_context \<Rightarrow> int \<Rightarrow> string \<Rightarrow> db \<Rightarrow> api_error + jsval" where
  "get_order ctx now orderId d =
     and_then (parse_chain_id orderId ''orderId'') (\<lambda>oid.
     case find_order ctx oid d of
       None \<Rightarrow> Inl (NotFound (''Order '' @ orderId @ '' is not in the read model''))
     | Some r \<Rightarrow> Inr (order_with_milestones ctx now d r))"

definition list_order_milestones :: "projection_context \<Rightarrow> int \<Rightarrow> string \<Rightarrow> db \<Rightarrow> api_error + jsval" where
  "list_order_milestones ctx now orderId d =
     and_then (parse_chain_id orderId ''orderId'') (\<lambda>oid.
     Inr (JObject [(''orderId'', JString orderId),
       (''milestones'', JArray (map (JObject \<circ> serialise_milestone now) (milestones_of ctx oid d)))]))"

definition get_milestone :: "projection_context \<Rightarrow> int \<Rightarrow> string \<Rightarrow> db \<Rightarrow> api_error + jsval" where
  "get_milestone ctx now milestoneId d =
     and_then (parse_chain_id milestoneId ''milestoneId'') (\<lambda>mid.
     case find_milestone ctx mid d of
       None \<Rightarrow> Inl (NotFound (''Milestone '' @ milestoneId @ '' is not in the read model''))
     | Some m \<Rightarrow> Inr (JObject (serialise_milestone now m)))"

section \<open>The financing view\<close>

definition or_null :: "('a \<Rightarrow> jsval) \<Rightarrow> 'a option \<Rightarrow> jsval" where
  "or_null f v = (case v of None \<Rightarrow> JNull | Some x \<Rightarrow> f x)"

definition settlement_json :: "settlement_row \<Rightarrow> jsval" where
  "settlement_json s = JObject
     [(''protectedAmount'', dec (s_protectedAmount s)), (''funderRepayment'', dec (s_funderRepayment s)),
      (''supplierPayout'', dec (s_supplierPayout s)), (''settledAt'', js_time (s_settledAt s)),
      (''settledTxHash'', JString (s_settledTxHash s))]"

definition refund_json :: "refund_row \<Rightarrow> jsval" where
  "refund_json r = JObject
     [(''refundedAmount'', dec (r_refundedAmount r)),
      (''funderAdvanceOutstanding'', dec (r_funderAdvanceOutstanding r)),
      (''refundedAt'', js_time (r_refundedAt r)), (''refundedTxHash'', JString (r_refundedTxHash r))]"

definition positions_of :: "projection_context \<Rightarrow> int \<Rightarrow> db \<Rightarrow> position_row list" where
  "positions_of ctx mid d = sort_key p_offerId (filter (\<lambda>p. p_ctx p = ctx \<and> p_milestoneId p = mid) (positions d))"

definition offers_of :: "projection_context \<Rightarrow> int \<Rightarrow> db \<Rightarrow> offer_row list" where
  "offers_of ctx mid d = sort_key f_offerId (filter (\<lambda>f. f_ctx f = ctx \<and> f_milestoneId f = mid) (offers d))"

definition get_milestone_finance :: "projection_context \<Rightarrow> string \<Rightarrow> db \<Rightarrow> api_error + jsval" where
  "get_milestone_finance ctx milestoneId d =
     and_then (parse_chain_id milestoneId ''milestoneId'') (\<lambda>mid.
     case find_milestone ctx mid d of
       None \<Rightarrow> Inl (NotFound (''Milestone '' @ milestoneId @ '' is not in the read model''))
     | Some m \<Rightarrow>
         let active = List.find (\<lambda>p. p_status p = PS_ACTIVE) (positions_of ctx mid d)
         in Inr (JObject
           [(''milestoneId'', JString milestoneId), (''buyerProtectedEscrow'', dec (m_fundedAmount m)),
            (''funderAdvance'', case active of None \<Rightarrow> JString ''0'' | Some p \<Rightarrow> dec (p_principal p)),
            (''request'', or_null (JObject \<circ> serialise_finance_request)
               (find_row request_key (ctx, mid) (requests d))),
            (''offers'', JArray (map (JObject \<circ> serialise_offer) (offers_of ctx mid d))),
            (''positions'', JArray (map (JObject \<circ> serialise_position) (positions_of ctx mid d))),
            (''settlement'', or_null settlement_json (find_row settlement_key (ctx, mid) (settlements d))),
            (''refund'', or_null refund_json (find_row refund_key (ctx, mid) (refunds d)))]))"

section \<open>Evidence and disputes\<close>

text \<open>\<open>byHash\<close>: the last anchor of a digest among those of the milestone.\<close>

definition anchor_of :: "evidence_anchor list \<Rightarrow> string \<Rightarrow> evidence_anchor option" where
  "anchor_of anchors h = List.find (\<lambda>a. a_contentHash a = h) (rev anchors)"

definition document_json :: "evidence_anchor list \<Rightarrow> evidence_object \<Rightarrow> jsval" where
  "document_json anchors e = JObject
     [(''contentHash'', JString (e_contentHash e)), (''filename'', JString (e_filename e)),
      (''mimeType'', JString (e_mimeType e)), (''byteSize'', dec (e_byteSize e)),
      (''documentLabel'', js_text (e_documentLabel e)), (''uploadedBy'', js_text (e_uploadedBy e)),
      (''anchoredOnChain'', JBool (anchor_of anchors (e_contentHash e) \<noteq> None)),
      (''anchoredTxHash'', js_text (map_option a_submittedTxHash (anchor_of anchors (e_contentHash e)))),
      (''createdAt'', js_time (e_createdAt e))]"

definition documents_of ::
  "projection_context \<Rightarrow> int \<Rightarrow> evidence_anchor list \<Rightarrow> db \<Rightarrow> evidence_object list" where
  "documents_of ctx mid anchors d = sort_key e_createdAt (filter (\<lambda>e. e_ctx e = ctx
     \<and> (e_milestoneId e = Some mid \<or> e_contentHash e \<in> a_contentHash ` set anchors)) (evidence_objects d))"

definition get_milestone_evidence :: "projection_context \<Rightarrow> string \<Rightarrow> db \<Rightarrow> api_error + jsval" where
  "get_milestone_evidence ctx milestoneId d =
     and_then (parse_chain_id milestoneId ''milestoneId'') (\<lambda>mid.
     let anchors = filter (\<lambda>a. a_ctx a = ctx \<and> a_milestoneId a = mid) (evidence_anchors d)
     in Inr (JObject
       [(''milestoneId'', JString milestoneId),
        (''onChainEvidenceHash'',
          js_text (case find_milestone ctx mid d of None \<Rightarrow> None | Some m \<Rightarrow> m_evidenceHash m)),
        (''documents'', JArray (map (document_json anchors) (documents_of ctx mid anchors d)))]))"

definition get_milestone_disputes :: "projection_context \<Rightarrow> string \<Rightarrow> db \<Rightarrow> api_error + jsval" where
  "get_milestone_disputes ctx milestoneId d =
     and_then (parse_chain_id milestoneId ''milestoneId'') (\<lambda>mid.
     Inr (JObject [(''milestoneId'', JString milestoneId),
       (''disputes'', JArray (map (JObject \<circ> serialise_dispute) (sort_key d_disputeId
          (filter (\<lambda>x. d_ctx x = ctx \<and> d_milestoneId x = mid) (disputes d)))))]))"

section \<open>Funding\<close>

text \<open>
  A request's or offer's milestone, and that milestone's order, through the foreign keys; rows
  of a database that has them always do.
\<close>

definition related ::
  "projection_context \<Rightarrow> int \<Rightarrow> db \<Rightarrow> (milestone_row \<times> order_row) option" where
  "related ctx mid d =
     (case find_milestone ctx mid d of None \<Rightarrow> None
      | Some m \<Rightarrow> map_option (\<lambda>r. (m, r)) (find_order ctx (m_orderId m) d))"

definition opportunity_json :: "projection_context \<Rightarrow> int \<Rightarrow> db \<Rightarrow> request_row \<Rightarrow> jsval option" where
  "opportunity_json ctx now d q =
     map_option (\<lambda>(m, r). JObject (serialise_finance_request q
         @ [(''milestone'', JObject (serialise_milestone now m)), (''order'', JObject (serialise_order r))]))
       (related ctx (q_milestoneId q) d)"

definition funding_opportunities ::
  "js_numbers \<Rightarrow> projection_context \<Rightarrow> int \<Rightarrow> string option \<Rightarrow> db \<Rightarrow> api_error + jsval" where
  "funding_opportunities js ctx now limit d =
     and_then (parse_limit js limit) (\<lambda>n.
     Inr (JObject [(''opportunities'', JArray (List.map_filter (opportunity_json ctx now d)
       (take n (sort_key (\<lambda>q. - q_createdAt q)
         (filter (\<lambda>q. q_ctx q = ctx \<and> q_status q = RQ_OPEN) (requests d))))))]))"

definition offer_json :: "projection_context \<Rightarrow> int \<Rightarrow> db \<Rightarrow> offer_row \<Rightarrow> jsval option" where
  "offer_json ctx now d f =
     map_option (\<lambda>(m, r). JObject (serialise_offer f
         @ [(''milestone'', JObject (serialise_milestone now m)), (''order'', JObject (serialise_order r)),
            (''request'', or_null (JObject \<circ> serialise_finance_request)
               (find_row request_key (ctx, f_milestoneId f) (requests d)))]))
       (related ctx (f_milestoneId f) d)"

definition funding_offers ::
  "js_numbers \<Rightarrow> projection_context \<Rightarrow> int \<Rightarrow> string option \<Rightarrow> string option \<Rightarrow> string option \<Rightarrow> db
    \<Rightarrow> api_error + jsval" where
  "funding_offers js ctx now funder status limit d =
     (case funder of
        None \<Rightarrow> Inl (BadRequest ''funder is required'')
      | Some raw \<Rightarrow>
          and_then (parse_account raw ''funder'') (\<lambda>wallet.
          and_then (parse_limit js limit) (\<lambda>n.
          and_then (enum_filter offer_status_text offer_statuses status) (\<lambda>st.
          Inr (JObject [(''offers'', JArray (List.map_filter (offer_json ctx now d)
            (take n (sort_key (\<lambda>f. - f_createdAt f)
              (filter (\<lambda>f. f_ctx f = ctx \<and> f_funder f = wallet \<and> matches st (f_status f)) (offers d))))))])))))"

definition funding_positions ::
  "js_numbers \<Rightarrow> projection_context \<Rightarrow> string option \<Rightarrow> string option \<Rightarrow> db \<Rightarrow> api_error + jsval" where
  "funding_positions js ctx funder limit d =
     and_then (parse_limit js limit) (\<lambda>n.
     Inr (JObject [(''positions'', JArray (map (JObject \<circ> serialise_position)
       (take n (sort_key (\<lambda>p. - p_fundedAt p)
         (filter (\<lambda>p. p_ctx p = ctx \<and> matches funder (p_funder p)) (positions d))))))]))"

section \<open>Activity\<close>

text \<open>Newest first: the unique event identifiers in descending order.\<close>

definition activity :: "js_numbers \<Rightarrow> projection_context \<Rightarrow> string option \<Rightarrow> db \<Rightarrow> api_error + jsval" where
  "activity js ctx limit d =
     and_then (parse_limit js limit) (\<lambda>n.
     Inr (JObject [(''activity'', JArray (map (\<lambda>l. JObject
         [(''eventId'', JString (l_eventId l)), (''eventName'', JString (l_eventName l)),
          (''ledger'', dec (l_ledger l)), (''txHash'', JString (l_txHash l)),
          (''ledgerClosedAt'', js_time (l_ledgerClosedAt l)), (''projected'', JBool (l_projected l)),
          (''fields'', l_payload l)])
       (take n (rev (sort_key l_eventId (filter (\<lambda>l. l_ctx l = ctx \<and> l_successful l) (event_log d)))))))]))"

section \<open>Reconciliation\<close>

record field_comparison =
  fc_field :: string
  fc_chain :: "string option"
  fc_database :: "string option"
  fc_matches :: bool

record reconciliation_result =
  rr_entity :: string
  rr_id :: string
  rr_reconciled :: bool
  rr_presentOnChain :: bool
  rr_presentInDatabase :: bool
  rr_fields :: "field_comparison list"
  rr_checkedAt :: string

definition ORDER_STATUS_BY_INDEX :: "string list" where
  "ORDER_STATUS_BY_INDEX = [''CREATED'', ''ACTIVE'', ''COMPLETED'', ''CANCELLED'']"

definition MILESTONE_STATUS_BY_INDEX :: "string list" where
  "MILESTONE_STATUS_BY_INDEX =
     [''UNFUNDED'', ''FUNDED'', ''FINANCE_REQUESTED'', ''FINANCED'', ''SUBMITTED'', ''VERIFIED'',
      ''DISPUTED'', ''SETTLED'', ''REFUNDED'']"

definition status_name :: "js_numbers \<Rightarrow> string list \<Rightarrow> jsval \<Rightarrow> string option" where
  "status_name js names v =
     (case as_integer (case v of JNumber r \<Rightarrow> r | _ \<Rightarrow> to_number js v) of
        None \<Rightarrow> None
      | Some i \<Rightarrow> if 0 \<le> i \<and> nat i < length names then Some (names ! nat i) else None)"

definition compare :: "string \<Rightarrow> string option \<Rightarrow> string option \<Rightarrow> field_comparison" where
  "compare field chain database =
     \<lparr>fc_field = field, fc_chain = chain, fc_database = database, fc_matches = (chain = database)\<rparr>"

definition reconcile_result ::
  "string \<Rightarrow> int \<Rightarrow> int \<Rightarrow> bool \<Rightarrow> bool \<Rightarrow> field_comparison list \<Rightarrow> reconciliation_result" where
  "reconcile_result entity i now onChain inDatabase comparisons =
     \<lparr>rr_entity = entity, rr_id = int_to_string i,
      rr_reconciled = (onChain \<and> inDatabase \<and> list_all fc_matches comparisons),
      rr_presentOnChain = onChain, rr_presentInDatabase = inDatabase, rr_fields = comparisons,
      rr_checkedAt = to_iso_string now\<rparr>"

definition order_comparisons :: "js_numbers \<Rightarrow> fields \<Rightarrow> order_row \<Rightarrow> field_comparison list" where
  "order_comparisons js chain r =
     (let text = (\<lambda>k. Some (js_string (print_number js) (get_field chain k)))
      in [compare ''buyer'' (text ''buyer'') (Some (o_buyer r)),
          compare ''supplier'' (text ''supplier'') (Some (o_supplier r)),
          compare ''attestor'' (text ''attestor'') (Some (o_attestor r)),
          compare ''resolver'' (text ''resolver'') (Some (o_resolver r)),
          compare ''asset'' (text ''asset'') (Some (o_asset r)),
          compare ''status'' (status_name js ORDER_STATUS_BY_INDEX (get_field chain ''status''))
            (Some (order_status_text (o_status r)))])"

definition reconcile_order ::
  "js_numbers \<Rightarrow> (int \<Rightarrow> api_error + fields option) \<Rightarrow> projection_context \<Rightarrow> int \<Rightarrow> int \<Rightarrow> db
    \<Rightarrow> api_error + reconciliation_result" where
  "reconcile_order js chain_order ctx now oid d =
     and_then (chain_order oid) (\<lambda>chain.
     let row = find_order ctx oid d
     in Inr (reconcile_result ''order'' oid now (chain \<noteq> None) (row \<noteq> None)
          (case (chain, row) of (Some f, Some r) \<Rightarrow> order_comparisons js f r | _ \<Rightarrow> [])))"

definition milestone_comparisons :: "js_numbers \<Rightarrow> fields \<Rightarrow> milestone_row \<Rightarrow> field_comparison list" where
  "milestone_comparisons js chain m =
     (let text = (\<lambda>k. Some (js_string (print_number js) (get_field chain k)))
      in [compare ''orderId'' (text ''order_id'') (Some (int_to_string (m_orderId m))),
          compare ''amount'' (text ''amount'') (Some (int_to_string (m_amount m))),
          compare ''fundedAmount'' (text ''funded_amount'') (Some (int_to_string (m_fundedAmount m))),
          compare ''status'' (status_name js MILESTONE_STATUS_BY_INDEX (get_field chain ''status''))
            (Some (milestone_status_text (m_status m)))])"

definition reconcile_milestone ::
  "js_numbers \<Rightarrow> (int \<Rightarrow> api_error + fields option) \<Rightarrow> projection_context \<Rightarrow> int \<Rightarrow> int \<Rightarrow> db
    \<Rightarrow> api_error + reconciliation_result" where
  "reconcile_milestone js chain_milestone ctx now mid d =
     and_then (chain_milestone mid) (\<lambda>chain.
     let row = find_milestone ctx mid d
     in Inr (reconcile_result ''milestone'' mid now (chain \<noteq> None) (row \<noteq> None)
          (case (chain, row) of (Some f, Some m) \<Rightarrow> milestone_comparisons js f m | _ \<Rightarrow> [])))"

end
