(* ===== verification/ReadClaims.thy ===== *)
theory ReadClaims
  imports ReadApi ProjectorProperties SampleStream
begin

text \<open>
  The read-only routes tell what the rows say: exact amounts as texts, the two money pools of a
  milestone apart, and a reconciliation that succeeds only when row and contract agree.
\<close>

section \<open>Reading a response back\<close>

lemma to_big_int_text: "to_big_int (JString (int_to_string v)) = Inr v"
  by (simp add: parse_integer_string_def)

lemma parse_chain_id_Inr:
  "parse_chain_id raw label = Inr i \<longleftrightarrow> all_digits raw \<and> i = int (nat_of_digits raw) \<and> 0 < i"
  by (auto simp: parse_chain_id_def Let_def)

lemma parse_chain_id_of_int: "0 < i \<Longrightarrow> parse_chain_id (int_to_string i) label = Inr i"
  by (simp add: parse_chain_id_Inr int_to_string_def)

lemma active_in_positions_of:
  "p \<in> set (positions_of ctx mid d) \<and> p_status p = PS_ACTIVE \<longleftrightarrow>
   p \<in> set (positions d) \<and> is_active_on ctx mid p"
  by (auto simp: positions_of_def is_active_on_def)

lemma sum_single:
  fixes g :: "'a \<Rightarrow> int"
  assumes "length (filter P xs) \<le> 1"
  shows "(\<Sum>x \<leftarrow> filter P xs. g x) = (case filter P xs of [] \<Rightarrow> 0 | x # _ \<Rightarrow> g x)"
  using assms by (cases "filter P xs") auto

text \<open>The one active position of a milestone, found in any order.\<close>

lemma find_active:
  assumes "one_active_per_milestone (positions d)"
  shows "(case List.find (\<lambda>p. p_status p = PS_ACTIVE) (positions_of ctx mid d) of None \<Rightarrow> 0 | Some p \<Rightarrow> p_principal p)
    = (\<Sum>p \<leftarrow> filter (is_active_on ctx mid) (positions d). p_principal p)"
proof -
  have one: "length (filter (is_active_on ctx mid) (positions d)) \<le> 1"
    using assms by (simp add: one_active_per_milestone_def count_rows_def)
  show ?thesis
  proof (cases "List.find (\<lambda>p. p_status p = PS_ACTIVE) (positions_of ctx mid d)")
    case None
    then have "filter (is_active_on ctx mid) (positions d) = []"
      using active_in_positions_of unfolding find_None_iff filter_empty_conv by blast
    with None show ?thesis by simp
  next
    case (Some p)
    then have "p \<in> set (filter (is_active_on ctx mid) (positions d))"
      using find_Some_in [OF Some] active_in_positions_of by simp
    with one Some show ?thesis
      by (cases "filter (is_active_on ctx mid) (positions d)") (auto simp: sum_single)
  qed
qed

section \<open>Properties\<close>

text \<open>
  C21: the financing view keeps the two pools of money apart and exact. In a database that
  obeys the schema, the response for a milestone reads back (any magnitude, as integers) as
  the escrow the contract holds for it and, separately, as the principal of its active
  position (zero when none is active), for the row the path names.
\<close>

theorem finance_view_is_exact:
  assumes "db_ok d" and "get_milestone_finance ctx raw d = Inr (JObject f)"
  shows "\<exists>mid m. parse_chain_id raw ''milestoneId'' = Inr mid \<and> find_milestone ctx mid d = Some m
    \<and> to_big_int (get_field f ''buyerProtectedEscrow'') = Inr (m_fundedAmount m)
    \<and> to_big_int (get_field f ''funderAdvance'')
        = Inr (\<Sum>p \<leftarrow> filter (is_active_on ctx mid) (positions d). p_principal p)"
proof -
  from assms(2) obtain mid m where mid: "parse_chain_id raw ''milestoneId'' = Inr mid"
    and m: "find_milestone ctx mid d = Some m"
    by (auto simp: get_milestone_finance_def result_simps split: option.splits)
  define active where "active = List.find (\<lambda>p. p_status p = PS_ACTIVE) (positions_of ctx mid d)"
  have zero: "''0'' = int_to_string 0" by code_simp
  have fields: "get_field f ''buyerProtectedEscrow'' = JString (int_to_string (m_fundedAmount m))"
    "get_field f ''funderAdvance'' =
      JString (int_to_string (case active of None \<Rightarrow> 0 | Some p \<Rightarrow> p_principal p))"
    using assms(2) mid m
    by (auto simp: get_milestone_finance_def Let_def get_field_def dec_def zero
        active_def [symmetric] split: option.splits)
  have "one_active_per_milestone (positions d)" using assms(1) by (simp add: db_ok_def)
  from find_active [OF this, of ctx mid] mid m show ?thesis
    unfolding fields to_big_int_text active_def by auto
qed

lemma finance_view_is_exact_witness:
  "\<exists>f mid m. get_milestone_finance ctx0 ''1'' financed = Inr (JObject f)
     \<and> find_milestone ctx0 mid financed = Some m
     \<and> to_big_int (get_field f ''buyerProtectedEscrow'') = Inr (m_fundedAmount m)"
proof -
  have ok: "db_ok financed"
    unfolding financed_def before_advance_def by (intro projected_db_ok sample_db_ok)
  have "parse_chain_id ''1'' ''milestoneId'' = Inr 1" by code_simp
  moreover have "find_milestone ctx0 1 financed \<noteq> None" by code_simp
  ultimately obtain f where f: "get_milestone_finance ctx0 ''1'' financed = Inr (JObject f)"
    by (auto simp: get_milestone_finance_def Let_def)
  from finance_view_is_exact [OF ok f] f show ?thesis by blast
qed

text \<open>
  A milestone is reported as reconciled exactly when the row and the contract agree. For
  an answer of the contract with the types its bindings give, \<open>reconciled\<close> holds if and only
  if the row exists and its order, amount, escrow and status are those of the contract.
\<close>

theorem reconciled_iff_equal:
  assumes "chain_milestone mid = Inr (Some f)"
    and "get_field f ''order_id'' = JBigInt oid" and "get_field f ''amount'' = JBigInt amount"
    and "get_field f ''funded_amount'' = JBigInt funded"
    and "get_field f ''status'' = JNumber (Some (of_nat k))"
  shows "\<exists>r. reconcile_milestone js chain_milestone ctx now mid d = Inr r
    \<and> (rr_reconciled r \<longleftrightarrow>
        (\<exists>m. find_milestone ctx mid d = Some m \<and> m_orderId m = oid \<and> m_amount m = amount
           \<and> m_fundedAmount m = funded \<and> k < length MILESTONE_STATUS_BY_INDEX
           \<and> milestone_status_text (m_status m) = MILESTONE_STATUS_BY_INDEX ! k))"
proof -
  have "of_int \<lfloor>(of_nat k :: rat)\<rfloor> = (of_nat k :: rat)" by simp
  then have status: "status_name js MILESTONE_STATUS_BY_INDEX (get_field f ''status'')
      = (if k < length MILESTONE_STATUS_BY_INDEX then Some (MILESTONE_STATUS_BY_INDEX ! k) else None)"
    using assms(5) by (simp add: status_name_def as_integer_def)
  show ?thesis
  proof (cases "find_milestone ctx mid d")
    case None
    then show ?thesis
      using assms(1) by (simp add: reconcile_milestone_def reconcile_result_def Let_def)
  next
    case (Some m)
    have "list_all fc_matches (milestone_comparisons js f m) \<longleftrightarrow>
        m_orderId m = oid \<and> m_amount m = amount \<and> m_fundedAmount m = funded
        \<and> k < length MILESTONE_STATUS_BY_INDEX
        \<and> milestone_status_text (m_status m) = MILESTONE_STATUS_BY_INDEX ! k"
      using assms(2-4) by (auto simp: milestone_comparisons_def Let_def compare_def status)
    with Some show ?thesis
      using assms(1) by (simp add: reconcile_milestone_def reconcile_result_def Let_def)
  qed
qed

lemma reconciled_iff_equal_witness:
  "\<exists>r. reconcile_milestone \<lparr>print_number = (\<lambda>_. ''''), to_number = (\<lambda>_. None)\<rparr>
       (\<lambda>_. Inr (Some [(''order_id'', JBigInt 1), (''amount'', JBigInt 1000),
          (''funded_amount'', JBigInt 1000), (''status'', JNumber (Some (of_nat 5)))])) ctx0 7 1 financed = Inr r
     \<and> rr_reconciled r"
proof -
  let ?f = "[(''order_id'', JBigInt 1), (''amount'', JBigInt 1000),
      (''funded_amount'', JBigInt 1000), (''status'', JNumber (Some (of_nat 5)))]"
  let ?js = "\<lparr>print_number = (\<lambda>_. ''''), to_number = (\<lambda>_. None)\<rparr>"
  have fields: "get_field ?f ''order_id'' = JBigInt 1" "get_field ?f ''amount'' = JBigInt 1000"
    "get_field ?f ''funded_amount'' = JBigInt 1000" "get_field ?f ''status'' = JNumber (Some (of_nat 5))"
    by (simp_all add: get_field_def)
  have "(case find_milestone ctx0 1 financed of None \<Rightarrow> False
      | Some m \<Rightarrow> m_orderId m = 1 \<and> m_amount m = 1000 \<and> m_fundedAmount m = 1000 \<and> m_status m = VERIFIED)"
    by code_simp
  then obtain m where m: "find_milestone ctx0 1 financed = Some m" "m_orderId m = 1" "m_amount m = 1000"
    "m_fundedAmount m = 1000" "m_status m = VERIFIED"
    by (auto split: option.splits)
  have "milestone_status_text VERIFIED = MILESTONE_STATUS_BY_INDEX ! 5 \<and> 5 < length MILESTONE_STATUS_BY_INDEX"
    by code_simp
  with reconciled_iff_equal [of "\<lambda>_. Inr (Some ?f)" 1 ?f 1 1000 1000 5 ?js ctx0 7 financed, OF _ fields] m
  show ?thesis by auto
qed

end
