(* ===== verification/UsdcAmounts.thy ===== *)
theory UsdcAmounts
  imports Prelude
begin

text \<open>
  \<open>apps/web/lib/domain/amounts.ts\<close>: exact USDC amounts in the browser. An amount is a decimal
  integer text from the API or a \<open>bigint\<close>; a thrown error is its message.
\<close>

section \<open>Definitions\<close>

definition USDC_DECIMALS :: nat where
  "USDC_DECIMALS = 7"

definition SCALE :: int where
  "SCALE = 10 ^ USDC_DECIMALS"

definition MAX_I128 :: int where
  "MAX_I128 = 2 ^ 127 - 1"

text \<open>\<open>JSON.stringify\<close> of a text below code 256.\<close>

definition json_char :: "char \<Rightarrow> string" where
  "json_char c =
     (let n = code c; hex = (\<lambda>d. char_of (if d < 10 then 48 + d else 87 + d)); bs = CHR 0x5C
      in if n = 34 \<or> n = 92 then [bs, c]
         else if n = 8 then [bs, CHR ''b''] else if n = 9 then [bs, CHR ''t'']
         else if n = 10 then [bs, CHR ''n''] else if n = 12 then [bs, CHR ''f'']
         else if n = 13 then [bs, CHR ''r'']
         else if n < 32 then [bs, CHR ''u'', CHR ''0'', CHR ''0'', hex (n div 16), hex (n mod 16)]
         else [c])"

definition json_string :: "string \<Rightarrow> string" where
  "json_string s = [CHR 0x22] @ concat (map json_char s) @ [CHR 0x22]"

datatype usdc_value = UText string | UBig int

fun to_units :: "usdc_value \<Rightarrow> string + int" where
  "to_units (UBig i) = Inr i"
| "to_units (UText s) =
     (if is_integer_string s then Inr (int_of_string s) else Inl (''Not an integer amount: '' @ json_string s))"

text \<open>A comma before every group of three digits but the first.\<close>

fun group :: "string \<Rightarrow> string" where
  "group digits =
     (if length digits \<le> 3 then digits
      else group (take (length digits - 3) digits) @ '','' @ drop (length digits - 3) digits)"

declare group.simps [simp del]

text \<open>\<open>s.replace(/0+$/, '')\<close>\<close>

definition trim_zeros :: "string \<Rightarrow> string" where
  "trim_zeros s = rev (dropWhile (\<lambda>c. c = CHR ''0'') (rev s))"

definition format_usdc_units :: "usdc_value \<Rightarrow> string + string" where
  "format_usdc_units v =
     and_then (to_units v) (\<lambda>units.
     let absolute = \<bar>units\<bar>;
         whole = absolute div SCALE;
         fraction = pad_start USDC_DECIMALS (CHR ''0'') (int_to_string (absolute mod SCALE));
         trimmed = pad_end 2 (CHR ''0'') (trim_zeros fraction)
     in Inr ((if units < 0 then ''-'' else []) @ group (int_to_string whole) @ ''.'' @ trimmed))"

definition format_usdc :: "usdc_value \<Rightarrow> string + string" where
  "format_usdc v = and_then (format_usdc_units v) (\<lambda>s. Inr (s @ '' USDC''))"

text \<open>\<open>/^(\d+)(?:\.(\d+))?$/\<close>: the whole part and the fraction, empty when there is none.\<close>

definition match_amount :: "string \<Rightarrow> (string \<times> string) option" where
  "match_amount s =
     (let whole = takeWhile is_digit s; rest = dropWhile is_digit s
      in if whole = [] then None
         else if rest = [] then Some (whole, [])
         else if hd rest = CHR ''.'' \<and> tl rest \<noteq> [] \<and> list_all is_digit (tl rest)
         then Some (whole, tl rest) else None)"

definition parse_usdc_input :: "string \<Rightarrow> string + int" where
  "parse_usdc_input text =
     (let input = trim text in
      if input = [] then Inl ''Enter an amount.''
      else case match_amount input of
        None \<Rightarrow> Inl ''Use digits and at most one decimal point, e.g. 1500.50.''
      | Some (whole, fraction) \<Rightarrow>
          if USDC_DECIMALS < length fraction then Inl ''USDC has at most 7 decimal places.''
          else let units = int (nat_of_digits whole) * SCALE
                 + int (nat_of_digits (pad_end USDC_DECIMALS (CHR ''0'') fraction))
               in if units \<le> 0 then Inl ''The amount must be greater than zero.''
                  else if MAX_I128 < units then Inl ''That amount is too large.''
                  else Inr units)"

definition subtract_units :: "usdc_value \<Rightarrow> usdc_value \<Rightarrow> string + string" where
  "subtract_units a b = and_then (to_units a) (\<lambda>x. and_then (to_units b) (\<lambda>y. Inr (int_to_string (x - y))))"

definition compare_units :: "usdc_value \<Rightarrow> usdc_value \<Rightarrow> string + int" where
  "compare_units a b =
     and_then (to_units a) (\<lambda>left. and_then (to_units b) (\<lambda>right.
     Inr (if left < right then - 1 else if right < left then 1 else 0)))"

text \<open>\<open>bigint\<close> division truncates towards zero.\<close>

definition big_div :: "int \<Rightarrow> int \<Rightarrow> int" where
  "big_div a b = sgn a * sgn b * (\<bar>a\<bar> div \<bar>b\<bar>)"

definition margin_percent :: "usdc_value \<Rightarrow> usdc_value \<Rightarrow> string + string" where
  "margin_percent prin repayment =
     and_then (to_units prin) (\<lambda>p. and_then (to_units repayment) (\<lambda>r.
     if p \<le> 0 then Inr ''0.00''
     else let basisPoints = big_div ((r - p) * 10000) p; absolute = \<bar>basisPoints\<bar>
          in Inr ((if basisPoints < 0 then ''-'' else []) @ int_to_string (absolute div 100) @ ''.''
               @ pad_start 2 (CHR ''0'') (int_to_string (absolute mod 100)))))"

section \<open>Formatting and parsing\<close>

lemma point_not_digit [simp]: "\<not> is_digit (CHR ''.'')"
  by (simp add: is_digit_def code_def)

lemma comma_not_digit [simp]: "\<not> is_digit (CHR '','')"
  by (simp add: is_digit_def code_def)

lemma digit_not_comma: "list_all is_digit s \<Longrightarrow> filter (\<lambda>c. c \<noteq> CHR '','') s = s"
  by (induction s) auto

lemma ungroup: "list_all is_digit s \<Longrightarrow> filter (\<lambda>c. c \<noteq> CHR '','') (group s) = s"
proof (induction s rule: group.induct)
  case (1 s)
  show ?case
  proof (cases "length s \<le> 3")
    case True
    with 1 show ?thesis by (simp add: group.simps [of s] digit_not_comma)
  next
    case False
    let ?k = "length s - 3"
    have "list_all is_digit (take ?k s)" "list_all is_digit (drop ?k s)"
      using "1.prems" by (auto simp: list_all_iff dest: in_set_takeD in_set_dropD)
    with "1.IH" [OF False] False show ?thesis
      by (simp add: group.simps [of s] digit_not_comma)
  qed
qed

lemma trim_zeros_append: "\<exists>n. s = trim_zeros s @ replicate n (CHR ''0'')"
proof -
  let ?z = "takeWhile (\<lambda>c. c = CHR ''0'') (rev s)"
  have "\<forall>c \<in> set ?z. c = CHR ''0''" by (auto dest: set_takeWhileD)
  then have z: "?z = replicate (length ?z) (CHR ''0'')" by (simp add: replicate_length_same)
  have "rev s = ?z @ dropWhile (\<lambda>c. c = CHR ''0'') (rev s)" by simp
  then have "s = trim_zeros s @ rev ?z" unfolding trim_zeros_def by (metis rev_append rev_rev_ident)
  with z show ?thesis by (metis rev_replicate)
qed

lemma nat_of_digits_pad_end:
  "nat_of_digits (pad_end n (CHR ''0'') s) = nat_of_digits s * 10 ^ (n - length s)"
proof -
  have "nat_of_digits (replicate k (CHR ''0'')) = 0" for k
    by (induction k) (simp_all add: nat_of_digits_def digit_val_def code_def)
  then show ?thesis by (simp add: pad_end_def nat_of_digits_append)
qed

lemma pad_end_trimmed:
  assumes "length s = n" and "k \<le> n"
  shows "pad_end n (CHR ''0'') (pad_end k (CHR ''0'') (trim_zeros s)) = s"
proof -
  obtain m where m: "s = trim_zeros s @ replicate m (CHR ''0'')" using trim_zeros_append by blast
  then have len: "length (trim_zeros s) + m = n" using assms(1) by (metis length_append length_replicate)
  have "pad_end n (CHR ''0'') (pad_end k (CHR ''0'') (trim_zeros s))
      = trim_zeros s @ replicate (n - length (trim_zeros s)) (CHR ''0'')"
    using assms len by (auto simp: pad_end_def replicate_add [symmetric])
  moreover have "n - length (trim_zeros s) = m" using len by simp
  ultimately show ?thesis using m by simp
qed

lemma digits_pad:
  "list_all is_digit s \<Longrightarrow> list_all is_digit (pad_end n (CHR ''0'') s)"
  "list_all is_digit s \<Longrightarrow> list_all is_digit (pad_start n (CHR ''0'') s)"
  by (auto simp: pad_end_def pad_start_def list_all_iff)

lemma digits_trim_zeros: "list_all is_digit s \<Longrightarrow> list_all is_digit (trim_zeros s)"
  by (metis list_all_append trim_zeros_append)

lemma digits_int_to_string: "0 \<le> i \<Longrightarrow> list_all is_digit (int_to_string i)"
  by (simp add: int_to_string_def)

lemma match_amount_parts:
  assumes "list_all is_digit w" "w \<noteq> []" "list_all is_digit f" "f \<noteq> []"
  shows "match_amount (w @ CHR ''.'' # f) = Some (w, f)"
proof -
  have "\<forall>c \<in> set w. is_digit c" using assms(1) by (simp add: list_all_iff)
  then have "takeWhile is_digit (w @ CHR ''.'' # f) = w" "dropWhile is_digit (w @ CHR ''.'' # f) = CHR ''.'' # f"
    by (simp_all add: takeWhile_append2 dropWhile_append2)
  with assms show ?thesis by (simp add: match_amount_def)
qed

lemma trim_amount:
  assumes "list_all is_digit w" "w \<noteq> []" "list_all is_digit f" "f \<noteq> []"
  shows "trim (w @ CHR ''.'' # f) = w @ CHR ''.'' # f"
proof -
  have nospace: "\<not> is_space c" if "is_digit c" for c
    using that by (auto simp: is_digit_def is_space_def)
  obtain a w' where w: "w = a # w'" using assms(2) by (cases w) auto
  obtain f' b where f: "f = f' @ [b]" using assms(4) by (cases f rule: rev_cases) auto
  have "\<not> is_space a" "\<not> is_space b" using assms nospace by (simp_all add: w f)
  then show ?thesis by (simp add: trim_def w f)
qed

text \<open>The characters of a formatted non-negative amount, once the commas are gone.\<close>

definition plain_amount :: "int \<Rightarrow> string" where
  "plain_amount u = int_to_string (u div SCALE) @ CHR ''.''
     # pad_end 2 (CHR ''0'') (trim_zeros (pad_start USDC_DECIMALS (CHR ''0'') (int_to_string (u mod SCALE))))"

lemma length_units: "0 \<le> i \<Longrightarrow> i < 10 ^ n \<Longrightarrow> 0 < n \<Longrightarrow> length (int_to_string i) \<le> n"
proof -
  have "length (nat_to_string k) \<le> n" if "k < 10 ^ n" "0 < n" for k n
    using that
  proof (induction k arbitrary: n rule: nat_to_string.induct)
    case (1 k)
    show ?case
    proof (cases "k < 10")
      case True
      with 1 show ?thesis by (subst nat_to_string.simps) simp
    next
      case False
      then have "1 < n" using "1.prems" by (cases n; cases "n - 1") auto
      moreover from this have "k div 10 < 10 ^ (n - 1)"
        using "1.prems" by (cases n) (auto simp: less_mult_imp_div_less)
      ultimately have "length (nat_to_string (k div 10)) \<le> n - 1"
        using "1.IH" [OF False] by simp
      with False \<open>1 < n\<close> show ?thesis by (subst nat_to_string.simps) simp
    qed
  qed
  then show "0 \<le> i \<Longrightarrow> i < 10 ^ n \<Longrightarrow> 0 < n \<Longrightarrow> length (int_to_string i) \<le> n"
    by (simp add: int_to_string_def nat_less_iff)
qed

lemma nat_of_digits_pad_start: "nat_of_digits (pad_start n (CHR ''0'') s) = nat_of_digits s"
proof -
  have "nat_of_digits (replicate k (CHR ''0'')) = 0" for k
    by (induction k) (simp_all add: nat_of_digits_def digit_val_def code_def)
  then show ?thesis by (simp add: pad_start_def nat_of_digits_append)
qed

lemma parse_plain_amount:
  assumes "0 < u" and "u \<le> MAX_I128"
  shows "parse_usdc_input (plain_amount u) = Inr u"
proof -
  let ?w = "int_to_string (u div SCALE)"
  let ?s = "pad_start USDC_DECIMALS (CHR ''0'') (int_to_string (u mod SCALE))"
  let ?f = "pad_end 2 (CHR ''0'') (trim_zeros ?s)"
  have scale: "0 < SCALE" by (simp add: SCALE_def)
  have whole: "0 \<le> u div SCALE" using assms scale by (simp add: pos_imp_zdiv_nonneg_iff)
  then have w: "list_all is_digit ?w" "?w \<noteq> []"
    by (simp_all add: digits_int_to_string) (simp add: int_to_string_def)
  have "length (int_to_string (u mod SCALE)) \<le> USDC_DECIMALS"
    by (rule length_units) (simp_all add: SCALE_def USDC_DECIMALS_def)
  then have s: "length ?s = USDC_DECIMALS" "list_all is_digit ?s"
    using scale by (simp_all add: digits_pad digits_int_to_string)
  then have f: "list_all is_digit ?f" "?f \<noteq> []"
    using digits_pad(1) digits_trim_zeros by blast (simp add: pad_end_def)
  have padded: "pad_end USDC_DECIMALS (CHR ''0'') ?f = ?s"
    using pad_end_trimmed [OF s(1), of 2] by (simp add: USDC_DECIMALS_def)
  have "length ?f \<le> length (pad_end USDC_DECIMALS (CHR ''0'') ?f)" by simp
  then have short: "length ?f \<le> USDC_DECIMALS" unfolding padded s(1) .
  have "int (nat_of_digits ?w) = u div SCALE" "int (nat_of_digits ?s) = u mod SCALE"
    using whole pos_mod_sign [OF scale, of u] by (simp_all add: nat_of_digits_pad_start int_to_string_def)
  then have units: "int (nat_of_digits ?w) * SCALE + int (nat_of_digits ?s) = u"
    by simp
  have "parse_usdc_input (plain_amount u) =
      (if USDC_DECIMALS < length ?f then Inl ''USDC has at most 7 decimal places.''
       else let units = int (nat_of_digits ?w) * SCALE
              + int (nat_of_digits (pad_end USDC_DECIMALS (CHR ''0'') ?f))
            in if units \<le> 0 then Inl ''The amount must be greater than zero.''
               else if MAX_I128 < units then Inl ''That amount is too large.'' else Inr units)"
    unfolding plain_amount_def parse_usdc_input_def trim_amount [OF w f] Let_def match_amount_parts [OF w f]
    by simp
  with short assms show ?thesis unfolding padded Let_def units by (simp del: length_pad_end)
qed

lemma format_plain:
  assumes "0 \<le> u"
  shows "\<exists>s. format_usdc_units (UBig u) = Inr s \<and> filter (\<lambda>c. c \<noteq> CHR '','') s = plain_amount u"
proof -
  let ?w = "int_to_string (u div SCALE)"
  let ?s = "pad_start USDC_DECIMALS (CHR ''0'') (int_to_string (u mod SCALE))"
  have "0 < SCALE" by (simp add: SCALE_def)
  then have "list_all is_digit ?w" "list_all is_digit (pad_end 2 (CHR ''0'') (trim_zeros ?s))"
    using assms by (simp_all add: digits_int_to_string digits_pad digits_trim_zeros pos_imp_zdiv_nonneg_iff)
  then show ?thesis
    using assms by (simp add: format_usdc_units_def Let_def plain_amount_def ungroup digit_not_comma)
qed

text \<open>What a person typed, as a number: accepted exactly, or not at all.\<close>

lemma match_amount_Some:
  assumes "match_amount s = Some (w, f)"
  shows "list_all is_digit w \<and> w \<noteq> [] \<and> list_all is_digit f
    \<and> s = w @ (if f = [] then [] else CHR ''.'' # f)"
proof -
  have split: "s = takeWhile is_digit s @ dropWhile is_digit s" by simp
  have "list_all is_digit (takeWhile is_digit s)" by (auto simp: list_all_iff dest: set_takeWhileD)
  moreover have w: "w = takeWhile is_digit s" "w \<noteq> []"
    using assms by (auto simp: match_amount_def Let_def split: if_splits)
  moreover have "list_all is_digit f \<and> dropWhile is_digit s = (if f = [] then [] else CHR ''.'' # f)"
    using assms by (cases "dropWhile is_digit s") (auto simp: match_amount_def Let_def split: if_splits)
  ultimately show ?thesis using split by metis
qed

lemma parse_usdc_exact:
  assumes "parse_usdc_input text = Inr u"
  shows "0 < u \<and> u \<le> MAX_I128 \<and> (\<exists>w f. trim text = w @ (if f = [] then [] else CHR ''.'' # f)
    \<and> list_all is_digit w \<and> w \<noteq> [] \<and> list_all is_digit f \<and> length f \<le> 7
    \<and> u = int (nat_of_digits (w @ f)) * 10 ^ (7 - length f))"
proof -
  from assms obtain w f where m: "match_amount (trim text) = Some (w, f)" and len: "length f \<le> 7"
    and u: "u = int (nat_of_digits w) * SCALE + int (nat_of_digits (pad_end USDC_DECIMALS (CHR ''0'') f))"
    and range: "0 < u" "u \<le> MAX_I128"
    by (auto simp: parse_usdc_input_def Let_def USDC_DECIMALS_def split: if_splits option.splits)
  have "SCALE = 10 ^ length f * 10 ^ (7 - length f)"
    using len by (simp add: SCALE_def USDC_DECIMALS_def flip: power_add)
  then have "u = int (nat_of_digits (w @ f)) * 10 ^ (7 - length f)"
    unfolding u by (simp add: nat_of_digits_pad_end nat_of_digits_append USDC_DECIMALS_def algebra_simps)
  with match_amount_Some [OF m] len range show ?thesis by blast
qed

end
