(* ===== verification/Workspace.thy ===== *)
theory Workspace
  imports UsdcAmounts ReadModels
begin

text \<open>
  What the workspace offers and shows: \<open>apps/web/lib/domain/\<close> (\<open>roles.ts\<close>, \<open>actions.ts\<close>,
  \<open>attention.ts\<close>, \<open>money.ts\<close>, \<open>status.ts\<close>) and \<open>apps/web/lib/demo/progress.ts\<close>, over the rows
  of the API as \<open>apps/web/lib/api/schemas.ts\<close> types them. Amounts and identifiers are decimal
  texts, as in the code; \<open>date_ms\<close> is the time value of a date text, \<open>None\<close> for an invalid one.
\<close>

section \<open>Rows of the API\<close>

record web_milestone =
  wm_milestoneId :: string
  wm_orderId :: string
  wm_index :: nat
  wm_amount :: string
  wm_fundedAmount :: string
  wm_fullyFunded :: bool
  wm_evidenceHash :: "string option"
  wm_status :: milestone_status

record web_order =
  wo_orderId :: string
  wo_buyer :: string
  wo_supplier :: string
  wo_attestor :: string
  wo_resolver :: string
  wo_status :: order_status
  wo_milestones :: "web_milestone list"

record web_request =
  wr_requestedPrincipal :: string
  wr_protectedAmount :: string
  wr_status :: request_status
  wr_expiresAt :: string

record web_offer =
  wf_offerId :: string
  wf_funder :: string
  wf_principal :: string
  wf_repayment :: string
  wf_status :: offer_status
  wf_expiresAt :: string

record web_position =
  wp_offerId :: string
  wp_funder :: string
  wp_supplier :: string
  wp_principal :: string
  wp_repayment :: string
  wp_status :: position_status
  wp_fundedTxHash :: string

record web_settlement =
  ws_protectedAmount :: string
  ws_funderRepayment :: string
  ws_supplierPayout :: string

record web_refund =
  wd_refundedAmount :: string
  wd_funderAdvanceOutstanding :: string

record web_finance =
  fin_request :: "web_request option"
  fin_offers :: "web_offer list"
  fin_positions :: "web_position list"
  fin_settlement :: "web_settlement option"
  fin_refund :: "web_refund option"

section \<open>Roles\<close>

datatype order_role = Buyer | Supplier | Attestor | Resolver

definition ORDER_ROLES :: "order_role list" where
  "ORDER_ROLES = [Buyer, Supplier, Attestor, Resolver]"

fun party :: "web_order \<Rightarrow> order_role \<Rightarrow> string" where
  "party order Buyer = wo_buyer order"
| "party order Supplier = wo_supplier order"
| "party order Attestor = wo_attestor order"
| "party order Resolver = wo_resolver order"

definition order_roles_for :: "string option \<Rightarrow> web_order \<Rightarrow> order_role list" where
  "order_roles_for wallet order =
     (case wallet of
        None \<Rightarrow> []
      | Some w \<Rightarrow> if w = [] then [] else filter (\<lambda>r. party order r = w) ORDER_ROLES)"

definition has_role :: "string option \<Rightarrow> web_order \<Rightarrow> order_role \<Rightarrow> bool" where
  "has_role wallet order r \<longleftrightarrow> List.member (order_roles_for wallet order) r"

definition can_act_as_funder :: "string option \<Rightarrow> web_order \<Rightarrow> bool" where
  "can_act_as_funder wallet order \<longleftrightarrow>
     wallet \<noteq> None \<and> wallet \<noteq> Some [] \<and> order_roles_for wallet order = []"

section \<open>Actions\<close>

datatype order_action = CreateMilestone | CancelOrder | AcceptOrder

definition order_actions :: "string option \<Rightarrow> web_order \<Rightarrow> order_action list" where
  "order_actions wallet order =
     (if wo_status order \<noteq> OS_CREATED then []
      else (if has_role wallet order Buyer then [CreateMilestone, CancelOrder] else [])
        @ (if has_role wallet order Supplier \<and> wo_milestones order \<noteq> [] then [AcceptOrder] else []))"

text \<open>An action that targets one offer carries its identifier.\<close>

datatype milestone_action =
    FundMilestone | CancelPartialFunding | RequestFinance | CancelFinanceRequest
  | AcceptOffer string | ReleaseExpiredAcceptance | MakeOffer | CancelOffer string
  | FundAdvance string | SubmitEvidence | VerifyMilestone | SettleMilestone | OpenDispute | ResolveDispute

definition is_live :: "(string \<Rightarrow> int option) \<Rightarrow> string \<Rightarrow> int \<Rightarrow> bool" where
  "is_live date_ms expiresAt now = (case date_ms expiresAt of None \<Rightarrow> False | Some t \<Rightarrow> now < t)"

definition offers_in :: "web_finance option \<Rightarrow> web_offer list" where
  "offers_in finance = (case finance of None \<Rightarrow> [] | Some f \<Rightarrow> fin_offers f)"

definition request_in :: "web_finance option \<Rightarrow> web_request option" where
  "request_in finance = (case finance of None \<Rightarrow> None | Some f \<Rightarrow> fin_request f)"

definition request_open :: "web_finance option \<Rightarrow> bool" where
  "request_open finance = (case request_in finance of None \<Rightarrow> False | Some q \<Rightarrow> wr_status q = RQ_OPEN)"

definition accepted_offer :: "web_finance option \<Rightarrow> web_offer option" where
  "accepted_offer finance = List.find (\<lambda>f. wf_status f = OF_ACCEPTED) (offers_in finance)"

definition active_position_funder :: "web_finance option \<Rightarrow> string option" where
  "active_position_funder finance =
     (case finance of None \<Rightarrow> None
      | Some f \<Rightarrow> map_option wp_funder (List.find (\<lambda>p. wp_status p = PS_ACTIVE) (fin_positions f)))"

definition milestone_actions ::
  "(string \<Rightarrow> int option) \<Rightarrow> string option \<Rightarrow> web_order \<Rightarrow> web_milestone \<Rightarrow> web_finance option \<Rightarrow> int
    \<Rightarrow> milestone_action list" where
  "milestone_actions date_ms wallet order milestone finance now =
     (if wallet = None \<or> wallet = Some [] \<or> wo_status order \<noteq> OS_ACTIVE then []
      else
        let isBuyer = has_role wallet order Buyer; isSupplier = has_role wallet order Supplier;
            status = wm_status milestone; accepted = accepted_offer finance
        in (if isBuyer \<and> status = UNFUNDED
            then FundMilestone # (if wm_fundedAmount milestone \<noteq> ''0'' then [CancelPartialFunding] else [])
            else [])
         @ (if isSupplier \<and> status = FUNDED \<and> wm_fullyFunded milestone then [RequestFinance] else [])
         @ (if isSupplier \<and> status = FINANCE_REQUESTED \<and> request_open finance
            then CancelFinanceRequest
                 # map (AcceptOffer \<circ> wf_offerId)
                     (filter (\<lambda>f. wf_status f = OF_OPEN \<and> is_live date_ms (wf_expiresAt f) now) (offers_in finance))
            else [])
         @ (if isSupplier \<and> status = FINANCE_REQUESTED
               \<and> (case accepted of None \<Rightarrow> False | Some f \<Rightarrow> \<not> is_live date_ms (wf_expiresAt f) now)
            then [ReleaseExpiredAcceptance] else [])
         @ (if can_act_as_funder wallet order \<and> status = FINANCE_REQUESTED
               \<and> (case request_in finance of None \<Rightarrow> False
                  | Some q \<Rightarrow> wr_status q = RQ_OPEN \<and> is_live date_ms (wr_expiresAt q) now)
            then [MakeOffer] else [])
         @ map (CancelOffer \<circ> wf_offerId)
             (filter (\<lambda>f. Some (wf_funder f) = wallet \<and> wf_status f = OF_OPEN) (offers_in finance))
         @ (case accepted of None \<Rightarrow> []
            | Some f \<Rightarrow> if Some (wf_funder f) = wallet \<and> status = FINANCE_REQUESTED
                          \<and> is_live date_ms (wf_expiresAt f) now
                       then [FundAdvance (wf_offerId f)] else [])
         @ (if isSupplier \<and> (status = FUNDED \<or> status = FINANCED \<or> status = SUBMITTED)
            then [SubmitEvidence] else [])
         @ (if has_role wallet order Attestor \<and> status = SUBMITTED
               \<and> wm_evidenceHash milestone \<noteq> None \<and> wm_evidenceHash milestone \<noteq> Some []
            then [VerifyMilestone] else [])
         @ (if status = VERIFIED \<and> (isSupplier \<or> active_position_funder finance = wallet)
            then [SettleMilestone] else [])
         @ (if (isBuyer \<or> isSupplier) \<and> (status = FUNDED \<or> status = FINANCED \<or> status = SUBMITTED)
            then [OpenDispute] else [])
         @ (if has_role wallet order Resolver \<and> status = DISPUTED then [ResolveDispute] else []))"

section \<open>Attention\<close>

definition milestone_title :: "nat \<Rightarrow> string" where
  "milestone_title index = ''Milestone '' @ nat_to_string (index + 1)"

datatype attention_kind =
    AddFirstMilestone | ReviewAndAccept | ProtectPayment | RequestOrSubmit | CompareOffers
  | ConvertOrSubmit | ReleasePayment | ReviewEvidence | ResolveTheDispute

text \<open>The title of an item is a fixed text for its kind, with the milestone's name in it.\<close>

record attention_item =
  at_orderId :: string
  at_milestoneId :: "string option"
  at_role :: order_role
  at_kind :: attention_kind

definition milestone_attention :: "order_role list \<Rightarrow> web_order \<Rightarrow> web_milestone \<Rightarrow> attention_item list" where
  "milestone_attention roles order m =
     (let item = (\<lambda>r k. [\<lparr>at_orderId = wo_orderId order, at_milestoneId = Some (wm_milestoneId m),
                         at_role = r, at_kind = k\<rparr>])
      in (if List.member roles Buyer \<and> wm_status m = UNFUNDED then item Buyer ProtectPayment else [])
       @ (if List.member roles Supplier
          then (if wm_status m = FUNDED then item Supplier RequestOrSubmit else [])
            @ (if wm_status m = FINANCE_REQUESTED then item Supplier CompareOffers else [])
            @ (if wm_status m = FINANCED then item Supplier ConvertOrSubmit else [])
            @ (if wm_status m = VERIFIED then item Supplier ReleasePayment else [])
          else [])
       @ (if List.member roles Attestor \<and> wm_status m = SUBMITTED then item Attestor ReviewEvidence else [])
       @ (if List.member roles Resolver \<and> wm_status m = DISPUTED then item Resolver ResolveTheDispute else []))"

definition order_attention :: "string option \<Rightarrow> web_order \<Rightarrow> attention_item list" where
  "order_attention wallet order =
     (let roles = order_roles_for wallet order;
          item = (\<lambda>r k. [\<lparr>at_orderId = wo_orderId order, at_milestoneId = None, at_role = r, at_kind = k\<rparr>])
      in if wo_status order = OS_CREATED
         then (if List.member roles Buyer \<and> wo_milestones order = [] then item Buyer AddFirstMilestone else [])
            @ (if List.member roles Supplier \<and> wo_milestones order \<noteq> [] then item Supplier ReviewAndAccept else [])
         else if wo_status order \<noteq> OS_ACTIVE then []
         else concat (map (milestone_attention roles order) (wo_milestones order)))"

definition attention_items :: "string option \<Rightarrow> web_order list \<Rightarrow> attention_item list" where
  "attention_items wallet os = (if wallet = None then [] else concat (map (order_attention wallet) os))"

section \<open>Money\<close>

record money_advance =
  ma_principal :: string
  ma_repayment :: string
  ma_funder :: string
  ma_status :: position_status
  ma_fundedTxHash :: string

record pending_advance =
  pd_principal :: string
  pd_repayment :: string
  pd_funder :: string
  pd_expiresAt :: string

record expected_split =
  ex_funderRepayment :: string
  ex_supplierRemainder :: string
  ex_awaitingSettlement :: bool

record money_view =
  mv_protectedTarget :: string
  mv_protectedHeld :: string
  mv_fullyProtected :: bool
  mv_advance :: "money_advance option"
  mv_pendingAdvance :: "pending_advance option"
  mv_expected :: "expected_split option"
  mv_escrowReleased :: bool
  mv_awaitingResolver :: bool
  mv_originallyProtected :: "string option"
  mv_settlement :: "web_settlement option"
  mv_refund :: "web_refund option"

definition current_position :: "web_finance option \<Rightarrow> web_position option" where
  "current_position finance =
     (case finance of None \<Rightarrow> None
      | Some f \<Rightarrow> (case List.find (\<lambda>p. wp_status p = PS_ACTIVE) (fin_positions f) of
            Some p \<Rightarrow> Some p | None \<Rightarrow> last_opt (fin_positions f)))"

definition settlement_in :: "web_finance option \<Rightarrow> web_settlement option" where
  "settlement_in finance = (case finance of None \<Rightarrow> None | Some f \<Rightarrow> fin_settlement f)"

definition refund_in :: "web_finance option \<Rightarrow> web_refund option" where
  "refund_in finance = (case finance of None \<Rightarrow> None | Some f \<Rightarrow> fin_refund f)"

definition expected_on_verification ::
  "web_milestone \<Rightarrow> web_finance option \<Rightarrow> string + expected_split option" where
  "expected_on_verification m finance =
     (let position = current_position finance; awaiting = (wm_status m = VERIFIED) in
      case position of
        Some p \<Rightarrow>
          if wp_status p = PS_ACTIVE
          then and_then (subtract_units (UText (wm_fundedAmount m)) (UText (wp_repayment p))) (\<lambda>rest.
               Inr (Some \<lparr>ex_funderRepayment = wp_repayment p, ex_supplierRemainder = rest,
                          ex_awaitingSettlement = awaiting\<rparr>))
          else Inr None
      | None \<Rightarrow>
          if wm_fullyFunded m \<and> settlement_in finance = None
          then Inr (Some \<lparr>ex_funderRepayment = ''0'', ex_supplierRemainder = wm_fundedAmount m,
                          ex_awaitingSettlement = awaiting\<rparr>)
          else Inr None)"

definition money_view_of :: "web_milestone \<Rightarrow> web_finance option \<Rightarrow> string + money_view" where
  "money_view_of m finance =
     (let position = current_position finance;
          accepted = (if position = None then accepted_offer finance else None)
      in and_then (expected_on_verification m finance) (\<lambda>expected.
         and_then (compare_units (UText (wm_fundedAmount m)) (UText (wm_amount m))) (\<lambda>cmp.
         Inr \<lparr>mv_protectedTarget = wm_amount m, mv_protectedHeld = wm_fundedAmount m,
              mv_fullyProtected = (cmp = 0),
              mv_advance = map_option (\<lambda>p. \<lparr>ma_principal = wp_principal p, ma_repayment = wp_repayment p,
                 ma_funder = wp_funder p, ma_status = wp_status p, ma_fundedTxHash = wp_fundedTxHash p\<rparr>) position,
              mv_pendingAdvance = map_option (\<lambda>f. \<lparr>pd_principal = wf_principal f, pd_repayment = wf_repayment f,
                 pd_funder = wf_funder f, pd_expiresAt = wf_expiresAt f\<rparr>) accepted,
              mv_expected = expected,
              mv_escrowReleased = (wm_status m = SETTLED \<or> wm_status m = REFUNDED),
              mv_awaitingResolver = (wm_status m = DISPUTED),
              mv_originallyProtected =
                (case settlement_in finance of Some s \<Rightarrow> Some (ws_protectedAmount s)
                 | None \<Rightarrow> map_option wd_refundedAmount (refund_in finance)),
              mv_settlement = settlement_in finance, mv_refund = refund_in finance\<rparr>)))"

section \<open>Statuses\<close>

fun milestone_status_label :: "milestone_status \<Rightarrow> string" where
  "milestone_status_label UNFUNDED = ''Awaiting protection''"
| "milestone_status_label FUNDED = ''Protected by buyer''"
| "milestone_status_label FINANCE_REQUESTED = ''Working capital requested''"
| "milestone_status_label FINANCED = ''Advance received''"
| "milestone_status_label SUBMITTED = ''Evidence submitted''"
| "milestone_status_label VERIFIED = ''Verified''"
| "milestone_status_label DISPUTED = ''In dispute''"
| "milestone_status_label SETTLED = ''Payment complete''"
| "milestone_status_label REFUNDED = ''Refunded to buyer''"

definition milestone_label :: "milestone_status \<Rightarrow> string \<Rightarrow> string" where
  "milestone_label status fundedAmount =
     (if status = UNFUNDED \<and> fundedAmount \<noteq> ''0'' then ''Partially protected''
      else milestone_status_label status)"

section \<open>Progress\<close>

definition ORDERED_STATUSES :: "milestone_status list" where
  "ORDERED_STATUSES = [UNFUNDED, FUNDED, FINANCE_REQUESTED, FINANCED, SUBMITTED, VERIFIED]"

fun index_of :: "'a \<Rightarrow> 'a list \<Rightarrow> nat option" where
  "index_of x [] = None"
| "index_of x (y # ys) = (if x = y then Some 0 else map_option Suc (index_of x ys))"

definition reached :: "milestone_status option \<Rightarrow> milestone_status \<Rightarrow> bool" where
  "reached status target =
     (case status of
        None \<Rightarrow> False
      | Some st \<Rightarrow>
          if st = SETTLED then True
          else if st = REFUNDED \<or> st = DISPUTED then target = FUNDED
          else (case (index_of st ORDERED_STATUSES, index_of target ORDERED_STATUSES) of
                  (Some i, Some want) \<Rightarrow> want \<le> i | _ \<Rightarrow> False))"

datatype step_state = Done | Now | Later | Skipped

definition STEP_IDS :: "string list" where
  "STEP_IDS = [''created'', ''accepted'', ''protected'', ''requested'', ''offered'', ''chosen'',
     ''advanced'', ''evidenced'', ''verified'', ''settled'']"

definition CORE :: "nat list" where "CORE = [0, 1, 2, 7, 8, 9]"

definition FINANCING :: "nat list" where "FINANCING = [3, 4, 5, 6]"

text \<open>\<open>imply\<close>: from the end of the chain, a later signal proves the one before it.\<close>

fun imply :: "nat list \<Rightarrow> bool list \<Rightarrow> bool list" where
  "imply [] observed = observed"
| "imply [i] observed = observed"
| "imply (i # j # chain) observed =
     (let o' = imply (j # chain) observed in if o' ! j then o'[i := True] else o')"

record demo_progress =
  dp_steps :: "(string \<times> step_state) list"
  dp_done :: nat
  dp_total :: nat
  dp_complete :: bool

definition observed_steps :: "web_order \<Rightarrow> web_milestone option \<Rightarrow> web_finance option \<Rightarrow> bool list" where
  "observed_steps order m finance =
     (let status = map_option wm_status m;
          offers = offers_in finance
      in [True,
          wo_status order \<noteq> OS_CREATED,
          (case m of None \<Rightarrow> False | Some m \<Rightarrow> wm_fullyFunded m) \<or> reached status FUNDED,
          request_in finance \<noteq> None \<or> reached status FINANCE_REQUESTED,
          offers \<noteq> [],
          list_ex (\<lambda>f. wf_status f = OF_ACCEPTED \<or> wf_status f = OF_FUNDED) offers,
          (case finance of None \<Rightarrow> False | Some f \<Rightarrow> fin_positions f \<noteq> []) \<or> reached status FINANCED,
          (case m of None \<Rightarrow> False | Some m \<Rightarrow> wm_evidenceHash m \<noteq> None) \<or> reached status SUBMITTED,
          reached status VERIFIED,
          status = Some SETTLED \<or> settlement_in finance \<noteq> None])"

definition implied_steps :: "bool list \<Rightarrow> bool list" where
  "implied_steps observed =
     (let o' = imply FINANCING (imply CORE observed) in if o' ! 6 then o'[2 := True] else o')"

definition find_index :: "(nat \<Rightarrow> bool) \<Rightarrow> nat \<Rightarrow> nat option" where
  "find_index P n = List.find P [0..<n]"

definition demo_progress_of :: "web_order \<Rightarrow> nat \<Rightarrow> web_finance option \<Rightarrow> demo_progress" where
  "demo_progress_of order milestoneIndex finance =
     (let m = (if milestoneIndex < length (wo_milestones order)
               then Some (wo_milestones order ! milestoneIndex) else None);
          status = map_option wm_status m;
          terminal = (status = Some SETTLED \<or> status = Some REFUNDED);
          raw = observed_steps order m finance;
          observed = implied_steps raw;
          pastFinancing = (raw ! 7 \<or> raw ! 8 \<or> terminal \<or> status = Some DISPUTED);
          financingSkipped = (pastFinancing \<and> \<not> raw ! 3 \<and> \<not> raw ! 6);
          skipped = (\<lambda>i. if observed ! i then False
                         else if status = Some REFUNDED then True
                         else financingSkipped \<and> i \<in> set FINANCING);
          nextIndex = find_index (\<lambda>i. \<not> observed ! i \<and> \<not> skipped i) (length STEP_IDS)
      in \<lparr>dp_steps = map (\<lambda>i. (STEP_IDS ! i,
              if observed ! i then Done else if skipped i then Skipped
              else if nextIndex = Some i then Now else Later)) [0..<length STEP_IDS],
          dp_done = length (filter id observed),
          dp_total = length STEP_IDS,
          dp_complete = (wo_status order = OS_COMPLETED \<or> terminal \<and> wo_status order \<noteq> OS_ACTIVE)\<rparr>)"

end
