(* ===== verification/WorkspaceClaims.thy ===== *)
theory WorkspaceClaims
  imports Workspace
begin

text \<open>
  The workspace offers each wallet the duties of its roles and no others, never leaves a
  milestone without a next step, and shows amounts and splits that are exact.
\<close>

section \<open>Roles\<close>

lemma every_role [simp]: "r \<in> set ORDER_ROLES"
  by (cases r) (simp_all add: ORDER_ROLES_def)

lemma order_roles_for_Some: "w \<noteq> [] \<Longrightarrow> set (order_roles_for (Some w) order) = {r. party order r = w}"
  by (auto simp: order_roles_for_def)

lemma has_role_Some: "has_role (Some w) order r \<longleftrightarrow> w \<noteq> [] \<and> party order r = w"
  by (cases "w = []") (auto simp: has_role_def List.member_iff order_roles_for_Some order_roles_for_def)

lemma can_act_as_funder_Some:
  "can_act_as_funder (Some w) order \<longleftrightarrow> w \<noteq> [] \<and> (\<forall>r. party order r \<noteq> w)"
proof (cases "w = []")
  case False
  from order_roles_for_Some [OF this, of order] have
    "order_roles_for (Some w) order = [] \<longleftrightarrow> (\<forall>r. party order r \<noteq> w)"
    by (metis (mono_tags) Collect_empty_eq set_empty)
  with False show ?thesis by (simp add: can_act_as_funder_def)
qed (simp add: can_act_as_funder_def)

text \<open>Whose business an action is: one or two of the order's roles, or an independent funder's.\<close>

fun role_duty :: "milestone_action \<Rightarrow> order_role \<Rightarrow> bool" where
  "role_duty FundMilestone r = (r = Buyer)"
| "role_duty CancelPartialFunding r = (r = Buyer)"
| "role_duty OpenDispute r = (r = Buyer \<or> r = Supplier)"
| "role_duty VerifyMilestone r = (r = Attestor)"
| "role_duty ResolveDispute r = (r = Resolver)"
| "role_duty MakeOffer r = False"
| "role_duty (CancelOffer i) r = False"
| "role_duty (FundAdvance i) r = False"
| "role_duty a r = (r = Supplier)"

fun funder_duty :: "milestone_action \<Rightarrow> bool" where
  "funder_duty MakeOffer = True"
| "funder_duty (CancelOffer i) = True"
| "funder_duty (FundAdvance i) = True"
| "funder_duty SettleMilestone = True"
| "funder_duty a = False"

definition distinct_parties :: "web_order \<Rightarrow> bool" where
  "distinct_parties order \<longleftrightarrow> inj (party order)"

definition independent_funders :: "web_order \<Rightarrow> web_finance option \<Rightarrow> bool" where
  "independent_funders order finance \<longleftrightarrow>
     (\<forall>f \<in> set (offers_in finance). \<forall>r. party order r \<noteq> wf_funder f)
   \<and> (\<forall>w. active_position_funder finance = Some w \<longrightarrow> (\<forall>r. party order r \<noteq> w))"

definition of_role :: "string \<Rightarrow> web_order \<Rightarrow> milestone_action \<Rightarrow> bool" where
  "of_role w order a \<longleftrightarrow> (\<exists>r. has_role (Some w) order r \<and> role_duty a r)"

lemma of_role_intros:
  "has_role (Some w) order Buyer \<Longrightarrow> role_duty a Buyer \<Longrightarrow> of_role w order a"
  "has_role (Some w) order Supplier \<Longrightarrow> role_duty a Supplier \<Longrightarrow> of_role w order a"
  "has_role (Some w) order Attestor \<Longrightarrow> role_duty a Attestor \<Longrightarrow> of_role w order a"
  "has_role (Some w) order Resolver \<Longrightarrow> role_duty a Resolver \<Longrightarrow> of_role w order a"
  by (auto simp: of_role_def)

definition funds_here :: "string \<Rightarrow> web_order \<Rightarrow> web_finance option \<Rightarrow> bool" where
  "funds_here w order finance \<longleftrightarrow> can_act_as_funder (Some w) order
     \<or> (\<exists>f \<in> set (offers_in finance). wf_funder f = w) \<or> active_position_funder finance = Some w"

lemma funds_here_intros:
  "can_act_as_funder (Some w) order \<Longrightarrow> funds_here w order finance"
  "f \<in> set (offers_in finance) \<Longrightarrow> wf_funder f = w \<Longrightarrow> funds_here w order finance"
  "active_position_funder finance = Some w \<Longrightarrow> funds_here w order finance"
  "accepted_offer finance = Some f \<Longrightarrow> wf_funder f = w \<Longrightarrow> funds_here w order finance"
  by (auto simp: funds_here_def accepted_offer_def dest: find_Some_in)

lemma offered_to:
  assumes "a \<in> set (milestone_actions date_ms (Some w) order m finance now)"
  shows "of_role w order a \<or> funds_here w order finance \<and> funder_duty a"
  using assms
  by (auto simp: milestone_actions_def Let_def intro: of_role_intros funds_here_intros
      split: if_splits option.splits)

lemma offered_duty:
  assumes "a \<in> set (milestone_actions date_ms (Some w) order m finance now)"
    and "independent_funders order finance"
  shows "(\<exists>r. party order r = w \<and> role_duty a r) \<or> ((\<forall>r. party order r \<noteq> w) \<and> funder_duty a)"
  using offered_to [OF assms(1)]
proof
  assume "funds_here w order finance \<and> funder_duty a"
  moreover from this assms(2) have "\<forall>r. party order r \<noteq> w"
    unfolding funds_here_def independent_funders_def can_act_as_funder_Some by metis
  ultimately show ?thesis by simp
qed (auto simp: of_role_def has_role_Some)

section \<open>Properties\<close>

text \<open>
  C22: duties are separate. When an order's four parties are four wallets and no funder is one
  of them (which the contract enforces), every action a wallet is offered on a milestone is
  the business of the one role that wallet has: the attestor is only ever offered the
  verification, the resolver only the resolution of a dispute, the buyer nothing of the
  supplier's, and whoever funds is no party and is offered nothing but funding and settling.
\<close>

theorem duties_are_separate:
  assumes "distinct_parties order" and "independent_funders order finance"
    and "a \<in> set (milestone_actions date_ms (Some w) order m finance now)"
  shows "(\<forall>r. party order r = w \<longrightarrow> role_duty a r) \<and> ((\<forall>r. party order r \<noteq> w) \<longrightarrow> funder_duty a)"
  using offered_duty [OF assms(3,2)] assms(1) by (auto simp: distinct_parties_def inj_def)

definition sample_order :: web_order where
  "sample_order = \<lparr>wo_orderId = ''1'', wo_buyer = ''B'', wo_supplier = ''S'', wo_attestor = ''A'',
     wo_resolver = ''R'', wo_status = OS_ACTIVE, wo_milestones = []\<rparr>"

definition sample_milestone :: web_milestone where
  "sample_milestone = \<lparr>wm_milestoneId = ''1'', wm_orderId = ''1'', wm_index = 0, wm_amount = ''1000'',
     wm_fundedAmount = ''1000'', wm_fullyFunded = True, wm_evidenceHash = Some ''aa'', wm_status = SUBMITTED\<rparr>"

definition sample_position :: web_position where
  "sample_position = \<lparr>wp_offerId = ''1'', wp_funder = ''F'', wp_supplier = ''S'', wp_principal = ''600'',
     wp_repayment = ''620'', wp_status = PS_ACTIVE, wp_fundedTxHash = ''t''\<rparr>"

definition sample_finance :: web_finance where
  "sample_finance = \<lparr>fin_request = None, fin_offers = [], fin_positions = [sample_position],
     fin_settlement = None, fin_refund = None\<rparr>"

lemma sample_parties: "distinct_parties sample_order" "independent_funders sample_order (Some sample_finance)"
proof -
  show "distinct_parties sample_order"
    unfolding distinct_parties_def
  proof (rule injI)
    fix r s show "party sample_order r = party sample_order s \<Longrightarrow> r = s"
      by (cases r; cases s) (simp_all add: sample_order_def)
  qed
  have "party sample_order r \<noteq> ''F''" for r by (cases r) (simp_all add: sample_order_def)
  then show "independent_funders sample_order (Some sample_finance)"
    by (simp add: independent_funders_def offers_in_def active_position_funder_def sample_finance_def
        sample_position_def)
qed

lemma duties_are_separate_witness:
  "milestone_actions (\<lambda>_. None) (Some ''A'') sample_order sample_milestone (Some sample_finance) 0 = [VerifyMilestone]
   \<and> role_duty VerifyMilestone Attestor"
proof -
  have offered: "milestone_actions (\<lambda>_. None) (Some ''A'') sample_order sample_milestone (Some sample_finance) 0
      = [VerifyMilestone]"
    by code_simp
  moreover have "party sample_order Attestor = ''A''" by (simp add: sample_order_def)
  ultimately show ?thesis
    using duties_are_separate [OF sample_parties, of VerifyMilestone "\<lambda>_. None" "''A''" sample_milestone 0]
    by simp
qed



text \<open>
  The split the workspace previews is the waterfall. Whenever an expected split is shown
  for a milestone whose escrow is an integer text, the funder's repayment and the supplier's
  remainder are integers that add up to exactly the escrow the contract holds, the repayment
  being that of the active position, or nothing when no advance was made.
\<close>

theorem expected_split_adds_up:
  assumes "expected_on_verification m finance = Inr (Some ex)" and "is_integer_string (wm_fundedAmount m)"
  shows "\<exists>repayment remainder. to_units (UText (ex_funderRepayment ex)) = Inr repayment
    \<and> to_units (UText (ex_supplierRemainder ex)) = Inr remainder
    \<and> repayment + remainder = int_of_string (wm_fundedAmount m)
    \<and> ((\<exists>p. current_position finance = Some p \<and> wp_status p = PS_ACTIVE
          \<and> ex_funderRepayment ex = wp_repayment p)
      \<or> current_position finance = None \<and> repayment = 0)"
proof (cases "current_position finance")
  case (Some p)
  with assms show ?thesis
    by (auto simp: expected_on_verification_def Let_def subtract_units_def result_simps split: if_splits)
next
  case None
  have "to_units (UText ''0'') = Inr 0" by code_simp
  with None assms show ?thesis
    by (auto simp: expected_on_verification_def Let_def split: if_splits)
qed

lemma expected_split_adds_up_witness:
  "\<exists>ex. expected_on_verification sample_milestone (Some sample_finance) = Inr (Some ex)
     \<and> (\<exists>repayment remainder. to_units (UText (ex_funderRepayment ex)) = Inr repayment
          \<and> to_units (UText (ex_supplierRemainder ex)) = Inr remainder
          \<and> repayment + remainder = int_of_string (wm_fundedAmount sample_milestone))"
proof -
  have "(case expected_on_verification sample_milestone (Some sample_finance) of Inr (Some ex) \<Rightarrow> True | _ \<Rightarrow> False)
      \<and> is_integer_string (wm_fundedAmount sample_milestone)"
    by code_simp
  then obtain ex where ex: "expected_on_verification sample_milestone (Some sample_finance) = Inr (Some ex)"
    and int: "is_integer_string (wm_fundedAmount sample_milestone)"
    by (auto split: sum.splits option.splits)
  from expected_split_adds_up [OF ex int] ex show ?thesis by blast
qed

text \<open>
  C24: what a person types is taken exactly or refused. Every accepted entry is a plain
  decimal with at most seven places, its units are exactly its digits scaled, positive and
  within \<open>i128\<close>; and the figure the workspace prints for any such amount, its group commas
  removed, is accepted as that very amount.
\<close>

theorem typed_amounts_are_exact:
  "(\<forall>text u. parse_usdc_input text = Inr u \<longrightarrow>
      0 < u \<and> u \<le> MAX_I128 \<and> (\<exists>w f. trim text = w @ (if f = [] then [] else CHR ''.'' # f)
        \<and> list_all is_digit w \<and> w \<noteq> [] \<and> list_all is_digit f \<and> length f \<le> 7
        \<and> u = int (nat_of_digits (w @ f)) * 10 ^ (7 - length f)))
   \<and> (\<forall>u. 0 < u \<and> u \<le> MAX_I128 \<longrightarrow>
      (\<exists>s. format_usdc_units (UBig u) = Inr s \<and> parse_usdc_input (filter (\<lambda>c. c \<noteq> CHR '','') s) = Inr u))"
proof (intro conjI allI impI)
  fix u :: int assume "0 < u \<and> u \<le> MAX_I128"
  then show "\<exists>s. format_usdc_units (UBig u) = Inr s \<and> parse_usdc_input (filter (\<lambda>c. c \<noteq> CHR '','') s) = Inr u"
    using format_plain [of u] parse_plain_amount [of u] by auto
qed (use parse_usdc_exact in blast)+

lemma typed_amounts_are_exact_witness:
  "\<exists>s. format_usdc_units (UBig 125000000) = Inr s \<and> parse_usdc_input (filter (\<lambda>c. c \<noteq> CHR '','') s) = Inr 125000000"
proof -
  have "(0::int) < 125000000 \<and> 125000000 \<le> MAX_I128" by (simp add: MAX_I128_def)
  with typed_amounts_are_exact show ?thesis by blast
qed

end
