(* ===== verification/TxLifecycle.thy ===== *)
theory TxLifecycle
  imports Prelude
begin

text \<open>
  One wallet-signed action in the browser: \<open>apps/web/lib/tx/lifecycle.ts\<close> (the reducer and the
  wait for the indexer), \<open>errors.ts\<close> (classifying a failure) and the sequence of events
  \<open>use-transaction.ts\<close> dispatches for the stages \<open>runner.ts\<close> reports. The messages shown to
  people are left out; a failure is its kind and its technical detail.
\<close>

section \<open>Failures\<close>

datatype failure_kind =
    Rejected | WrongNetwork | AccountChanged | NotConnected | UnfundedAccount
  | InsufficientBalance | MissingTrustline | Contract | Rpc | Timeout | Unknown

record tx_failure =
  tf_kind :: failure_kind
  tf_detail :: "string option"

text \<open>\<open>TokenFailure\<close>, \<open>ContractRejection\<close>, and any other value by the text \<open>text\<close> makes of it.\<close>

datatype tx_error = TokenFailure failure_kind string | ContractRejection string | OtherError string

definition token_failure_in :: "string \<Rightarrow> tx_error option" where
  "token_failure_in simulationError =
     (let s = to_lower simulationError in
      if str_includes ''trustline entry is missing'' s \<or> str_includes ''trustline is missing'' s
      then Some (TokenFailure MissingTrustline simulationError)
      else if str_includes ''balance is not sufficient'' s \<or> str_includes ''insufficient balance'' s
      then Some (TokenFailure InsufficientBalance simulationError)
      else if str_includes ''account entry is missing'' s \<or> str_includes ''account not found'' s
      then Some (TokenFailure UnfundedAccount simulationError)
      else None)"

text \<open>Some suffix of the text satisfies \<open>P\<close>: where a pattern may start.\<close>

fun anywhere :: "(string \<Rightarrow> bool) \<Rightarrow> string \<Rightarrow> bool" where
  "anywhere P [] = P []"
| "anywhere P (c # s) = (P (c # s) \<or> anywhere P s)"

text \<open>\<open>/cancel+ed by (the )?user/\<close>\<close>

definition cancelled_by_user :: "string \<Rightarrow> bool" where
  "cancelled_by_user s =
     anywhere (\<lambda>t. starts_with ''cancel'' t
       \<and> (let rest = dropWhile (\<lambda>c. c = CHR ''l'') (drop 5 t)
          in starts_with ''ed by user'' rest \<or> starts_with ''ed by the user'' rest)) s"

text \<open>\<open>/reject|declin|denied|cancel+ed by (the )?user|user closed/\<close>\<close>

definition says_rejected :: "string \<Rightarrow> bool" where
  "says_rejected s \<longleftrightarrow> str_includes ''reject'' s \<or> str_includes ''declin'' s \<or> str_includes ''denied'' s
     \<or> cancelled_by_user s \<or> str_includes ''user closed'' s"

text \<open>\<open>/timed? ?out|waited .* but|not finalized|try_again_later/\<close>\<close>

definition says_timeout :: "string \<Rightarrow> bool" where
  "says_timeout s \<longleftrightarrow> str_includes ''timeout'' s \<or> str_includes ''time out'' s
     \<or> str_includes ''timedout'' s \<or> str_includes ''timed out'' s
     \<or> anywhere (\<lambda>t. starts_with ''waited '' t
         \<and> str_includes '' but'' (takeWhile (\<lambda>c. code c \<noteq> 10 \<and> code c \<noteq> 13) (drop 7 t))) s
     \<or> str_includes ''not finalized'' s \<or> str_includes ''try_again_later'' s"

text \<open>\<open>/failed to fetch|network|econn|fetch failed|http 5\d\d|rpc/\<close>\<close>

definition says_network :: "string \<Rightarrow> bool" where
  "says_network s \<longleftrightarrow> str_includes ''failed to fetch'' s \<or> str_includes ''network'' s
     \<or> str_includes ''econn'' s \<or> str_includes ''fetch failed'' s
     \<or> anywhere (\<lambda>t. starts_with ''http 5'' t \<and> 8 \<le> length t \<and> is_digit (t ! 6) \<and> is_digit (t ! 7)) s
     \<or> str_includes ''rpc'' s"

datatype runner_stage = Preparing | AwaitingSignature | Submitted | Confirming

definition failure :: "failure_kind \<Rightarrow> string option \<Rightarrow> tx_failure" where
  "failure kind detail = \<lparr>tf_kind = kind, tf_detail = detail\<rparr>"

fun error_text :: "tx_error \<Rightarrow> string" where
  "error_text (TokenFailure kind detail) = detail"
| "error_text (ContractRejection c) = c"
| "error_text (OtherError s) = s"

definition classify_tx_error :: "tx_error \<Rightarrow> runner_stage \<Rightarrow> tx_failure" where
  "classify_tx_error err stage =
     (let detail = take 600 (error_text err); lower = to_lower detail in
      case err of
        TokenFailure kind d \<Rightarrow> failure kind (Some detail)
      | ContractRejection c \<Rightarrow> failure Contract (Some c)
      | OtherError s \<Rightarrow>
          if str_includes ''switch freighter to stellar testnet'' lower then failure WrongNetwork None
          else if str_includes ''account changed'' lower \<or> str_includes ''different account'' lower
          then failure AccountChanged None
          else if str_includes ''connect your wallet'' lower then failure NotConnected None
          else if str_includes ''account not found'' lower then failure UnfundedAccount (Some detail)
          else if stage = AwaitingSignature \<or> says_rejected lower then failure Rejected (Some detail)
          else if says_timeout lower then failure Timeout (Some detail)
          else if says_network lower then failure Rpc (Some detail)
          else failure Unknown (Some detail))"

section \<open>The reducer\<close>

datatype tx_stage = Idle | Running runner_stage | Syncing | Synced | SyncDelayed | Failed

record tx_state =
  tx_stage :: tx_stage
  tx_label :: "string option"
  tx_hash :: "string option"
  tx_ledger :: "int option"
  tx_failed :: "tx_failure option"

datatype tx_event =
    Start string | Stage runner_stage "string option" | Confirmed string int
  | SyncedEvent | SyncDelayedEvent | FailedEvent tx_failure | Reset

definition IDLE :: tx_state where
  "IDLE = \<lparr>tx_stage = Idle, tx_label = None, tx_hash = None, tx_ledger = None, tx_failed = None\<rparr>"

definition terminal_stage :: "tx_stage \<Rightarrow> bool" where
  "terminal_stage st \<longleftrightarrow> st \<in> {Idle, Synced, SyncDelayed, Failed}"

definition is_busy :: "tx_state \<Rightarrow> bool" where
  "is_busy s \<longleftrightarrow> \<not> terminal_stage (tx_stage s)"

fun tx_reducer :: "tx_state \<Rightarrow> tx_event \<Rightarrow> tx_state" where
  "tx_reducer s (Start l) = IDLE\<lparr>tx_stage := Running Preparing, tx_label := Some l\<rparr>"
| "tx_reducer s (Stage st h) =
     (if terminal_stage (tx_stage s) \<or> tx_stage s = Syncing then s
      else s\<lparr>tx_stage := Running st, tx_hash := (if h \<noteq> None then h else tx_hash s)\<rparr>)"
| "tx_reducer s (Confirmed h l) = s\<lparr>tx_stage := Syncing, tx_hash := Some h, tx_ledger := Some l\<rparr>"
| "tx_reducer s SyncedEvent = (if tx_stage s = Syncing then s\<lparr>tx_stage := Synced\<rparr> else s)"
| "tx_reducer s SyncDelayedEvent = (if tx_stage s = Syncing then s\<lparr>tx_stage := SyncDelayed\<rparr> else s)"
| "tx_reducer s (FailedEvent f) = s\<lparr>tx_stage := Failed, tx_failed := Some f\<rparr>"
| "tx_reducer s Reset = IDLE"

definition dispatch_all :: "tx_state \<Rightarrow> tx_event list \<Rightarrow> tx_state" where
  "dispatch_all s evs = foldl tx_reducer s evs"

section \<open>Waiting for the indexer\<close>

text \<open>
  What one poll gives: \<open>None\<close> when the request fails, else the \<open>scannedThroughLedger\<close>. The
  clock is read once for the deadline (\<open>now 0\<close>) and once after each poll (\<open>now (i + 1)\<close> after
  poll \<open>i\<close>). The loop has fuel; \<open>None\<close> is fuel run out.
\<close>

datatype wait_outcome = IndexerSynced | IndexerDelayed

definition scanned_through :: "int \<Rightarrow> string option option \<Rightarrow> bool" where
  "scanned_through target status =
     (case status of Some (Some s) \<Rightarrow> is_integer_string s \<and> target \<le> int_of_string s | _ \<Rightarrow> False)"

fun wait_loop ::
  "nat \<Rightarrow> int \<Rightarrow> (nat \<Rightarrow> string option option) \<Rightarrow> (nat \<Rightarrow> int) \<Rightarrow> int \<Rightarrow> nat \<Rightarrow> wait_outcome option" where
  "wait_loop 0 target readStatus now deadline i = None"
| "wait_loop (Suc fuel) target readStatus now deadline i =
     (if scanned_through target (readStatus i) then Some IndexerSynced
      else if deadline \<le> now (i + 1) then Some IndexerDelayed
      else wait_loop fuel target readStatus now deadline (i + 1))"

definition wait_for_indexer ::
  "nat \<Rightarrow> int \<Rightarrow> (nat \<Rightarrow> string option option) \<Rightarrow> (nat \<Rightarrow> int) \<Rightarrow> int \<Rightarrow> wait_outcome option" where
  "wait_for_indexer fuel ledger readStatus now timeout =
     wait_loop fuel ledger readStatus now (now 0 + timeout) 0"

section \<open>One action\<close>

text \<open>
  What \<open>run\<close> dispatches: the start, the stages the runner reports, and then a failure, or the
  confirmation and the result of the wait (none while it goes on). \<open>can_sign\<close> is the wallet's readiness.
\<close>

datatype runner_result = Threw tx_error | Landed string int "wait_outcome option"

definition last_stage :: "(runner_stage \<times> string option) list \<Rightarrow> runner_stage" where
  "last_stage stages = (case last_opt stages of None \<Rightarrow> Preparing | Some (st, h) \<Rightarrow> st)"

definition run_events ::
  "bool \<Rightarrow> bool \<Rightarrow> string \<Rightarrow> (runner_stage \<times> string option) list \<Rightarrow> runner_result \<Rightarrow> tx_event list" where
  "run_events can_sign wrong_network label stages result =
     (if \<not> can_sign
      then [Start label,
            FailedEvent (classify_tx_error
              (OtherError (if wrong_network then ''Switch Freighter to Stellar Testnet before signing.''
                           else ''Connect your wallet before signing.'')) Preparing)]
      else Start label # map (\<lambda>(st, h). Stage st h) stages
         @ (case result of
              Threw e \<Rightarrow> [FailedEvent (classify_tx_error e (last_stage stages))]
            | Landed h l outcome \<Rightarrow>
                Confirmed h l # (case outcome of
                    None \<Rightarrow> []
                  | Some x \<Rightarrow> [if x = IndexerSynced then SyncedEvent else SyncDelayedEvent])))"

section \<open>Lemmas\<close>

lemma dispatch_all_simps [simp]:
  "dispatch_all s [] = s" "dispatch_all s (e # evs) = dispatch_all (tx_reducer s e) evs"
  "dispatch_all s (evs @ evs') = dispatch_all (dispatch_all s evs) evs'"
  by (simp_all add: dispatch_all_def)

text \<open>A state that claims success carries a confirmation.\<close>

lemma claims_are_confirmed:
  "tx_stage (dispatch_all IDLE evs) \<in> {Syncing, Synced, SyncDelayed} \<Longrightarrow>
   \<exists>h l. Confirmed h l \<in> set evs \<and> tx_hash (dispatch_all IDLE evs) = Some h
     \<and> tx_ledger (dispatch_all IDLE evs) = Some l"
proof (induction evs rule: rev_induct)
  case Nil
  then show ?case by (simp add: IDLE_def)
next
  case (snoc e evs)
  then show ?case
    by (cases e) (auto simp: IDLE_def terminal_stage_def split: if_splits)
qed

lemma stages_keep_running:
  "tx_stage s = Running st \<Longrightarrow> \<exists>st'. tx_stage (dispatch_all s (map (\<lambda>(st, h). Stage st h) stages)) = Running st'
     \<and> tx_label (dispatch_all s (map (\<lambda>(st, h). Stage st h) stages)) = tx_label s"
proof (induction stages arbitrary: s st)
  case (Cons a stages)
  obtain x h where a: "a = (x, h)" by force
  have "tx_stage (tx_reducer s (Stage x h)) = Running x" "tx_label (tx_reducer s (Stage x h)) = tx_label s"
    using Cons.prems by (simp_all add: terminal_stage_def)
  with Cons.IH [of "tx_reducer s (Stage x h)"] show ?case by (simp add: a)
qed simp

lemma wait_loop_synced:
  "wait_loop fuel target readStatus now deadline i = Some IndexerSynced \<Longrightarrow>
   \<exists>k. i \<le> k \<and> scanned_through target (readStatus k)"
proof (induction fuel arbitrary: i)
  case (Suc fuel)
  then show ?case by (auto split: if_splits dest: Suc_leD)
qed simp

lemma wait_loop_returns:
  assumes "\<And>k. now k + interval \<le> now (k + 1)" and "0 < interval"
    and "deadline - now (i + 1) < int fuel * interval"
  shows "wait_loop (Suc fuel) target readStatus now deadline i \<noteq> None"
  using assms(3)
proof (induction fuel arbitrary: i)
  case 0
  then show ?case by simp
next
  case (Suc fuel)
  have "deadline - now (i + 1 + 1) < int fuel * interval"
    using Suc.prems assms(1) [of "i + 1"] by (simp add: algebra_simps)
  from Suc.IH [OF this] show ?case by (simp del: wait_loop.simps(2)) (subst wait_loop.simps(2), simp)
qed

end
