(* ===== verification/TxRunner.thy ===== *)
theory TxRunner
  imports TxLifecycle JsValues
begin

text \<open>
  From a request of the workspace to a confirmed transaction: \<open>apps/web/lib/tx/calls.ts\<close> (the
  calls as data and the client method each is), \<open>runner.ts\<close> (simulate, sign, send) and \<open>run\<close> of
  \<open>use-transaction.ts\<close>. The generated client and the SDK are a parameter: what the client makes
  of an invocation is a \<open>client_tx\<close>, everything the code reads of the assembled transaction.
\<close>

section \<open>Calls\<close>

datatype resolution = SettleResolution | RefundResolution

datatype contract_call =
    CreateOrder string string string
  | CreateMilestone string int "int option"
  | AcceptOrderCall string
  | CancelOrderCall string
  | FundMilestoneCall string int
  | CancelPartialFundingCall string
  | RequestFinanceCall string int int
  | CancelFinanceRequestCall string
  | MakeOfferCall string int int int
  | CancelOfferCall string
  | AcceptOfferCall string
  | FundAdvanceCall string
  | ReleaseExpiredAcceptanceCall string
  | SubmitEvidenceCall string string
  | VerifyMilestoneCall string string
  | SettleMilestoneCall string
  | OpenDisputeCall string
  | ResolveDisputeCall string resolution

fun CALL_LABELS :: "contract_call \<Rightarrow> string" where
  "CALL_LABELS (CreateOrder s a r) = ''Create order''"
| "CALL_LABELS (CreateMilestone i a d) = ''Add milestone''"
| "CALL_LABELS (AcceptOrderCall i) = ''Accept order''"
| "CALL_LABELS (CancelOrderCall i) = ''Cancel order''"
| "CALL_LABELS (FundMilestoneCall i a) = ''Protect milestone payment''"
| "CALL_LABELS (CancelPartialFundingCall i) = ''Return partial protection''"
| "CALL_LABELS (RequestFinanceCall i p e) = ''Request working capital''"
| "CALL_LABELS (CancelFinanceRequestCall i) = ''Close working-capital request''"
| "CALL_LABELS (MakeOfferCall i p r e) = ''Make funding offer''"
| "CALL_LABELS (CancelOfferCall i) = ''Withdraw funding offer''"
| "CALL_LABELS (AcceptOfferCall i) = ''Choose this offer''"
| "CALL_LABELS (FundAdvanceCall i) = ''Send working capital''"
| "CALL_LABELS (ReleaseExpiredAcceptanceCall i) = ''Release unfunded offer''"
| "CALL_LABELS (SubmitEvidenceCall i h) = ''Submit evidence''"
| "CALL_LABELS (VerifyMilestoneCall i h) = ''Verify milestone''"
| "CALL_LABELS (SettleMilestoneCall i) = ''Release milestone payment''"
| "CALL_LABELS (OpenDisputeCall i) = ''Open dispute''"
| "CALL_LABELS (ResolveDisputeCall i r) = ''Resolve dispute''"

text \<open>Values the client methods take.\<close>

datatype call_value =
    AddressValue string | IntValue int | BytesValue "8 word list" | ResolutionValue resolution | Undefined

record invocation =
  iv_method :: string
  iv_args :: "(string \<times> call_value) list"

text \<open>\<open>BigInt\<close> of an identifier.\<close>

definition big_int :: "string \<Rightarrow> tx_error + int" where
  "big_int text =
     (case js_big_int text of
        None \<Rightarrow> Inl (OtherError (''Cannot convert '' @ text @ '' to a BigInt''))
      | Some n \<Rightarrow> Inr n)"

definition hex_digit_val :: "char \<Rightarrow> nat" where
  "hex_digit_val c = (if is_digit c then code c - 48 else code c - 87)"

fun hex_bytes :: "string \<Rightarrow> 8 word list" where
  "hex_bytes (a # b # s) = word_of_nat (16 * hex_digit_val a + hex_digit_val b) # hex_bytes s"
| "hex_bytes s = []"

definition digest_bytes :: "string \<Rightarrow> tx_error + 8 word list" where
  "digest_bytes hex =
     (if \<not> is_hex64 hex
      then Inl (OtherError ''Evidence commitment must be a SHA-256 digest in lower-case hex.'')
      else Inr (hex_bytes hex))"

definition invoke :: "string \<Rightarrow> (string \<times> call_value) list \<Rightarrow> invocation" where
  "invoke method args = \<lparr>iv_method = method, iv_args = args\<rparr>"

text \<open>A method whose first argument is an identifier.\<close>

definition invoke_on ::
  "string \<Rightarrow> string \<Rightarrow> string \<Rightarrow> (string \<times> call_value) list \<Rightarrow> tx_error + invocation" where
  "invoke_on method key ident rest =
     and_then (big_int ident) (\<lambda>n. Inr (invoke method ((key, IntValue n) # rest)))"

fun build_call :: "string \<Rightarrow> contract_call \<Rightarrow> string \<Rightarrow> tx_error + invocation" where
  "build_call usdc (CreateOrder supplier attestor resolver) wallet =
     Inr (invoke ''create_order'' [(''buyer'', AddressValue wallet), (''supplier'', AddressValue supplier),
       (''attestor'', AddressValue attestor), (''resolver'', AddressValue resolver)])"
| "build_call usdc (CreateMilestone orderId amount deadline) wallet =
     invoke_on ''create_milestone'' ''order_id'' orderId
       [(''amount'', IntValue amount), (''deadline'', case deadline of None \<Rightarrow> Undefined | Some d \<Rightarrow> IntValue d)]"
| "build_call usdc (AcceptOrderCall orderId) wallet = invoke_on ''accept_order'' ''order_id'' orderId []"
| "build_call usdc (CancelOrderCall orderId) wallet = invoke_on ''cancel_order'' ''order_id'' orderId []"
| "build_call usdc (FundMilestoneCall milestoneId amount) wallet =
     invoke_on ''fund_milestone'' ''milestone_id'' milestoneId
       [(''amount'', IntValue amount), (''asset'', AddressValue usdc)]"
| "build_call usdc (CancelPartialFundingCall milestoneId) wallet =
     invoke_on ''cancel_partial_funding'' ''milestone_id'' milestoneId []"
| "build_call usdc (RequestFinanceCall milestoneId p expiresAt) wallet =
     invoke_on ''request_finance'' ''milestone_id'' milestoneId
       [(''requested_principal'', IntValue p), (''expires_at'', IntValue expiresAt)]"
| "build_call usdc (CancelFinanceRequestCall milestoneId) wallet =
     invoke_on ''cancel_finance_request'' ''milestone_id'' milestoneId []"
| "build_call usdc (MakeOfferCall milestoneId p repayment expiresAt) wallet =
     invoke_on ''make_offer'' ''milestone_id'' milestoneId
       [(''funder'', AddressValue wallet), (''principal'', IntValue p), (''repayment'', IntValue repayment),
        (''expires_at'', IntValue expiresAt)]"
| "build_call usdc (CancelOfferCall offerId) wallet = invoke_on ''cancel_offer'' ''offer_id'' offerId []"
| "build_call usdc (AcceptOfferCall offerId) wallet = invoke_on ''accept_offer'' ''offer_id'' offerId []"
| "build_call usdc (FundAdvanceCall milestoneId) wallet =
     invoke_on ''fund_advance'' ''milestone_id'' milestoneId []"
| "build_call usdc (ReleaseExpiredAcceptanceCall milestoneId) wallet =
     invoke_on ''release_expired_acceptance'' ''milestone_id'' milestoneId []"
| "build_call usdc (SubmitEvidenceCall milestoneId evidenceHash) wallet =
     and_then (big_int milestoneId) (\<lambda>n. and_then (digest_bytes evidenceHash) (\<lambda>b.
       Inr (invoke ''submit_evidence'' [(''milestone_id'', IntValue n), (''evidence_hash'', BytesValue b)])))"
| "build_call usdc (VerifyMilestoneCall milestoneId evidenceHash) wallet =
     and_then (big_int milestoneId) (\<lambda>n. and_then (digest_bytes evidenceHash) (\<lambda>b.
       Inr (invoke ''attest_milestone'' [(''milestone_id'', IntValue n), (''evidence_hash'', BytesValue b)])))"
| "build_call usdc (SettleMilestoneCall milestoneId) wallet =
     invoke_on ''settle_milestone'' ''milestone_id'' milestoneId [(''caller'', AddressValue wallet)]"
| "build_call usdc (OpenDisputeCall milestoneId) wallet =
     invoke_on ''open_dispute'' ''milestone_id'' milestoneId [(''caller'', AddressValue wallet)]"
| "build_call usdc (ResolveDisputeCall milestoneId r) wallet =
     invoke_on ''resolve_dispute'' ''milestone_id'' milestoneId [(''resolution'', ResolutionValue r)]"

section \<open>The runner\<close>

text \<open>
  What the SDK gives for one assembled transaction: the error of the simulation, if it is one;
  what reading \<open>result\<close> gives (a throw, or the message of the contract's rejection if there is
  one); whether signing throws; the callbacks \<open>send\<close> makes and what it returns.
\<close>

datatype send_callback = OnSubmitted "string option" | OnProgress

record tx_response =
  tr_status :: string
  tr_hash :: string
  tr_ledger :: int

record client_tx =
  ct_simulation_error :: "string option"
  ct_result :: "tx_error + string option"
  ct_sign :: "tx_error + unit"
  ct_callbacks :: "send_callback list"
  ct_sent :: "tx_error + tx_response option"

text \<open>What the runner does that somebody can see, in order.\<close>

datatype runner_effect = OnStage runner_stage "string option" | Signing invocation | Sending invocation

fun callback_stage :: "send_callback \<Rightarrow> runner_effect list" where
  "callback_stage (OnSubmitted (Some h)) = (if h \<noteq> [] then [OnStage Submitted (Some h)] else [])"
| "callback_stage (OnSubmitted None) = []"
| "callback_stage OnProgress = [OnStage Confirming None]"

definition confirm_response :: "tx_response option \<Rightarrow> tx_error + string \<times> int" where
  "confirm_response response =
     (case response of
        None \<Rightarrow> Inl (OtherError ''Transaction was not confirmed successfully (no response).'')
      | Some r \<Rightarrow> if tr_status r \<noteq> ''SUCCESS''
          then Inl (OtherError (''Transaction was not confirmed successfully ('' @ tr_status r @ '').''))
          else Inr (tr_hash r, tr_ledger r))"

definition simulated :: "client_tx \<Rightarrow> tx_error + unit" where
  "simulated t =
     (case Option.bind (ct_simulation_error t) token_failure_in of
        Some e \<Rightarrow> Inl e
      | None \<Rightarrow> and_then (ct_result t) (\<lambda>r.
          case r of Some message \<Rightarrow> Inl (ContractRejection message) | None \<Rightarrow> Inr ()))"

definition sign_and_send :: "invocation \<Rightarrow> client_tx \<Rightarrow> runner_effect list \<times> (tx_error + string \<times> int)" where
  "sign_and_send iv t =
     (case ct_sign t of
        Inl e \<Rightarrow> ([OnStage AwaitingSignature None, Signing iv], Inl e)
      | Inr u \<Rightarrow>
          ([OnStage AwaitingSignature None, Signing iv, Sending iv]
             @ List.maps callback_stage (ct_callbacks t),
           and_then (ct_sent t) confirm_response))"

definition run_contract_call ::
  "string \<Rightarrow> (invocation \<Rightarrow> tx_error + client_tx) \<Rightarrow> contract_call \<Rightarrow> string \<Rightarrow>
   runner_effect list \<times> (tx_error + string \<times> int)" where
  "run_contract_call usdc client call address =
     (case build_call usdc call address of
        Inl e \<Rightarrow> ([OnStage Preparing None], Inl e)
      | Inr iv \<Rightarrow> (case and_then (client iv) (\<lambda>t. and_then (simulated t) (\<lambda>_. Inr t)) of
            Inl e \<Rightarrow> ([OnStage Preparing None], Inl e)
          | Inr t \<Rightarrow> (OnStage Preparing None # fst (sign_and_send iv t), snd (sign_and_send iv t))))"

section \<open>One action from the button to the workspace\<close>

fun stages_in :: "runner_effect list \<Rightarrow> (runner_stage \<times> string option) list" where
  "stages_in (OnStage st h # es) = (st, h) # stages_in es"
| "stages_in (e # es) = stages_in es"
| "stages_in [] = []"

record browser =
  br_can_sign :: bool  \<comment> \<open>\<open>canSign(wallet)\<close> with an address\<close>
  br_wrong_network :: bool
  br_address :: string
  br_client :: "invocation \<Rightarrow> tx_error + client_tx"
  br_status :: "nat \<Rightarrow> string option option"
  br_now :: "nat \<Rightarrow> int"

definition runner_outcome :: "nat \<Rightarrow> browser \<Rightarrow> tx_error + string \<times> int \<Rightarrow> runner_result" where
  "runner_outcome fuel b r =
     (case r of
        Inl e \<Rightarrow> Threw e
      | Inr (h, l) \<Rightarrow> Landed h l (wait_for_indexer fuel l (br_status b) (br_now b) 90000))"

definition run_action :: "nat \<Rightarrow> string \<Rightarrow> browser \<Rightarrow> contract_call \<Rightarrow> tx_event list" where
  "run_action fuel usdc b call =
     (let r = run_contract_call usdc (br_client b) call (br_address b) in
      run_events (br_can_sign b) (br_wrong_network b) (CALL_LABELS call) (stages_in (fst r))
        (runner_outcome fuel b (snd r)))"

end
