(* ===== verification/TxClaims.thy ===== *)
theory TxClaims
  imports TxRunner
begin

text \<open>
  The browser never shows success before Stellar confirmed it, never calls a confirmed
  transaction failed, asks for a signature only for a call the contract accepted, and asks the
  contract to act for nobody but the connected wallet.
\<close>

section \<open>What the runner does before a signature\<close>

lemma no_signing_in_callbacks [simp]:
  "Signing iv \<notin> set (callback_stage c)" "Sending iv \<notin> set (callback_stage c)"
  by (cases c rule: callback_stage.cases; simp)+

lemma simulated_Inr:
  "simulated t = Inr u \<longleftrightarrow>
     Option.bind (ct_simulation_error t) token_failure_in = None \<and> ct_result t = Inr None"
  by (auto simp: simulated_def result_simps split: option.splits)

lemma confirm_response_Inr:
  "confirm_response r = Inr (h, l) \<longleftrightarrow>
     (\<exists>x. r = Some x \<and> tr_status x = ''SUCCESS'' \<and> tr_hash x = h \<and> tr_ledger x = l)"
  by (auto simp: confirm_response_def split: option.splits)

text \<open>The call was built, simulated without an error and signed.\<close>

definition accepted_call :: "string \<Rightarrow> (invocation \<Rightarrow> tx_error + client_tx) \<Rightarrow> contract_call \<Rightarrow> string \<Rightarrow>
    invocation \<Rightarrow> client_tx \<Rightarrow> bool" where
  "accepted_call usdc client call address iv t \<longleftrightarrow>
     build_call usdc call address = Inr iv \<and> client iv = Inr t
   \<and> Option.bind (ct_simulation_error t) token_failure_in = None \<and> ct_result t = Inr None"

lemma run_contract_call_cases:
  obtains (refused) e where "run_contract_call usdc client call address = ([OnStage Preparing None], Inl e)"
    "\<And>iv t. \<not> accepted_call usdc client call address iv t"
  | (accepted) iv t where "accepted_call usdc client call address iv t"
    "run_contract_call usdc client call address =
       (OnStage Preparing None # fst (sign_and_send iv t), snd (sign_and_send iv t))"
proof (cases "build_call usdc call address")
  case (Inl e)
  then show ?thesis by (intro refused [of e]) (simp_all add: run_contract_call_def accepted_call_def)
next
  case (Inr iv)
  show ?thesis
  proof (cases "and_then (client iv) (\<lambda>t. and_then (simulated t) (\<lambda>_. Inr t))")
    case e: (Inl e)
    have "\<not> accepted_call usdc client call address iv' t" for iv' t
      using e Inr simulated_Inr [of t "()"] by (auto simp: accepted_call_def)
    with Inr e show ?thesis by (intro refused [of e]) (simp_all add: run_contract_call_def)
  next
    case t: (Inr t)
    then have "accepted_call usdc client call address iv t"
      using Inr by (auto simp: accepted_call_def result_simps simulated_Inr)
    with Inr t show ?thesis by (intro accepted [of iv t]) (simp_all add: run_contract_call_def)
  qed
qed

lemma sign_and_send_Signing: "Signing iv' \<in> set (fst (sign_and_send iv t)) \<longleftrightarrow> iv' = iv"
  by (auto simp: sign_and_send_def split: sum.splits)

lemma sign_and_send_Sending:
  "Sending iv' \<in> set (fst (sign_and_send iv t)) \<longleftrightarrow> iv' = iv \<and> ct_sign t = Inr ()"
  by (auto simp: sign_and_send_def split: sum.splits)

lemma sign_and_send_Inr:
  "snd (sign_and_send iv t) = Inr (h, l) \<longleftrightarrow> ct_sign t = Inr () \<and>
     (\<exists>r. ct_sent t = Inr (Some r) \<and> tr_status r = ''SUCCESS'' \<and> tr_hash r = h \<and> tr_ledger r = l)"
  by (auto simp: sign_and_send_def confirm_response_Inr result_simps split: sum.splits)

text \<open>
  Nothing is signed that Stellar's simulation refused. When the wallet is asked to sign, the
  call was built for that address, the client assembled it, the simulation reported no token
  failure and the contract accepted it; the transaction is sent exactly when the wallet signed,
  and the runner reports a hash and ledger exactly when the sent transaction came back with the
  status SUCCESS, and then those of that response.
\<close>

theorem no_signature_without_acceptance:
  assumes "Signing iv \<in> set (fst (run_contract_call usdc client call address))"
  shows "\<exists>t. build_call usdc call address = Inr iv \<and> client iv = Inr t
     \<and> Option.bind (ct_simulation_error t) token_failure_in = None \<and> ct_result t = Inr None
     \<and> (Sending iv \<in> set (fst (run_contract_call usdc client call address)) \<longleftrightarrow> ct_sign t = Inr ())
     \<and> (\<forall>h l. snd (run_contract_call usdc client call address) = Inr (h, l) \<longleftrightarrow>
           ct_sign t = Inr () \<and> (\<exists>r. ct_sent t = Inr (Some r) \<and> tr_status r = ''SUCCESS''
             \<and> tr_hash r = h \<and> tr_ledger r = l))"
proof (cases rule: run_contract_call_cases [of usdc client call address])
  case (refused e)
  with assms show ?thesis by simp
next
  case (accepted iv' t)
  with assms have "iv' = iv" by (simp add: sign_and_send_Signing)
  with accepted show ?thesis
    by (intro exI [of _ t]) (simp add: accepted_call_def sign_and_send_Sending sign_and_send_Inr)
qed

section \<open>What the screen may claim\<close>

definition run_progress :: "tx_state \<Rightarrow> contract_call \<Rightarrow> (runner_stage \<times> string option) list \<Rightarrow> tx_state" where
  "run_progress s call stages =
     dispatch_all (tx_reducer s (Start (CALL_LABELS call))) (map (\<lambda>(st, h). Stage st h) stages)"

lemma dispatch_run_action:
  assumes "br_can_sign b" and "run_contract_call usdc (br_client b) call (br_address b) = (es, r)"
  shows "dispatch_all s (run_action fuel usdc b call) =
     (case r of
        Inl e \<Rightarrow> tx_reducer (run_progress s call (stages_in es))
          (FailedEvent (classify_tx_error e (last_stage (stages_in es))))
      | Inr (h, l) \<Rightarrow> dispatch_all (tx_reducer (run_progress s call (stages_in es)) (Confirmed h l))
          (case wait_for_indexer fuel l (br_status b) (br_now b) 90000 of
             None \<Rightarrow> []
           | Some x \<Rightarrow> [if x = IndexerSynced then SyncedEvent else SyncDelayedEvent]))"
  using assms
  by (simp add: run_action_def run_events_def run_progress_def runner_outcome_def Let_def
      split: sum.splits prod.splits)

definition stage_after :: "wait_outcome option \<Rightarrow> tx_stage" where
  "stage_after w =
     (case w of None \<Rightarrow> Syncing | Some IndexerSynced \<Rightarrow> Synced | Some IndexerDelayed \<Rightarrow> SyncDelayed)"

lemma run_action_confirmed:
  assumes "br_can_sign b" and "run_contract_call usdc (br_client b) call (br_address b) = (es, Inr (h, l))"
  shows "tx_hash (dispatch_all s (run_action fuel usdc b call)) = Some h"
    and "tx_ledger (dispatch_all s (run_action fuel usdc b call)) = Some l"
    and "tx_stage (dispatch_all s (run_action fuel usdc b call)) =
      stage_after (wait_for_indexer fuel l (br_status b) (br_now b) 90000)"
  using dispatch_run_action [OF assms, of s fuel]
  by (simp_all add: stage_after_def split: option.splits wait_outcome.splits)

lemma run_action_failed:
  assumes "br_can_sign b" and "run_contract_call usdc (br_client b) call (br_address b) = (es, Inl e)"
  shows "tx_stage (dispatch_all s (run_action fuel usdc b call)) = Failed"
  using dispatch_run_action [OF assms, of s fuel] by simp

lemma run_action_unsigned:
  "\<not> br_can_sign b \<Longrightarrow> tx_stage (dispatch_all s (run_action fuel usdc b call)) = Failed"
  by (simp add: run_action_def run_events_def Let_def)

lemma wait_synced:
  "wait_for_indexer fuel l status now timeout = Some IndexerSynced \<Longrightarrow> \<exists>k. scanned_through l (status k)"
  unfolding wait_for_indexer_def by (drule wait_loop_synced) blast


text \<open>
  C25: No success before Stellar confirmed it. Whatever the screen showed before, when one action
  leaves it saying that the transaction is confirmed (waiting for the workspace, updated, or not
  caught up yet), the wallet could sign, the call was built for its address, the wallet signed, and
  the sent transaction came back from Stellar as SUCCESS with the hash and ledger the screen shows;
  "workspace updated" is shown only after a poll in which the indexer had scanned that ledger.
\<close>

theorem no_success_before_confirmation:
  assumes "after = dispatch_all before (run_action fuel usdc b call)"
    and "tx_stage after \<in> {Syncing, Synced, SyncDelayed}"
  shows "br_can_sign b \<and> (\<exists>iv t r. build_call usdc call (br_address b) = Inr iv \<and> br_client b iv = Inr t
     \<and> ct_sign t = Inr () \<and> ct_sent t = Inr (Some r) \<and> tr_status r = ''SUCCESS''
     \<and> tx_hash after = Some (tr_hash r) \<and> tx_ledger after = Some (tr_ledger r)
     \<and> (tx_stage after = Synced \<longrightarrow> (\<exists>k. scanned_through (tr_ledger r) (br_status b k))))"
proof -
  have sign: "br_can_sign b" using assms run_action_unsigned by fastforce
  obtain es x where run: "run_contract_call usdc (br_client b) call (br_address b) = (es, x)" by force
  with sign assms obtain h l where x: "x = Inr (h, l)"
    using run_action_failed [OF sign] by (cases x) fastforce+
  note confirmed = run_action_confirmed [OF sign, of usdc call es h l before fuel]
  show ?thesis
  proof (cases rule: run_contract_call_cases [of usdc "br_client b" call "br_address b"])
    case (refused e)
    with run x show ?thesis by simp
  next
    case (accepted iv t)
    then have "snd (sign_and_send iv t) = Inr (h, l)" using run x by simp
    then obtain r where "ct_sign t = Inr ()" "ct_sent t = Inr (Some r)" "tr_status r = ''SUCCESS''"
      and r: "h = tr_hash r" "l = tr_ledger r" by (auto simp: sign_and_send_Inr)
    moreover have "tx_hash after = Some h" "tx_ledger after = Some l"
      using confirmed run x assms(1) by simp_all
    moreover have "tx_stage after = Synced \<Longrightarrow> \<exists>k. scanned_through l (br_status b k)"
      using confirmed(3) run x assms(1)
      by (auto simp: stage_after_def split: option.splits wait_outcome.splits dest: wait_synced)
    ultimately show ?thesis using sign accepted(1) by (auto simp: accepted_call_def)
  qed
qed


section \<open>For whom\<close>

text \<open>The identifier a call names, and the commitment it carries.\<close>

fun call_ident :: "contract_call \<Rightarrow> string option" where
  "call_ident (CreateOrder s a r) = None"
| "call_ident (CreateMilestone i a d) = Some i"
| "call_ident (AcceptOrderCall i) = Some i"
| "call_ident (CancelOrderCall i) = Some i"
| "call_ident (FundMilestoneCall i a) = Some i"
| "call_ident (CancelPartialFundingCall i) = Some i"
| "call_ident (RequestFinanceCall i p e) = Some i"
| "call_ident (CancelFinanceRequestCall i) = Some i"
| "call_ident (MakeOfferCall i p r e) = Some i"
| "call_ident (CancelOfferCall i) = Some i"
| "call_ident (AcceptOfferCall i) = Some i"
| "call_ident (FundAdvanceCall i) = Some i"
| "call_ident (ReleaseExpiredAcceptanceCall i) = Some i"
| "call_ident (SubmitEvidenceCall i h) = Some i"
| "call_ident (VerifyMilestoneCall i h) = Some i"
| "call_ident (SettleMilestoneCall i) = Some i"
| "call_ident (OpenDisputeCall i) = Some i"
| "call_ident (ResolveDisputeCall i r) = Some i"

fun call_commitment :: "contract_call \<Rightarrow> string option" where
  "call_commitment (SubmitEvidenceCall i h) = Some h"
| "call_commitment (VerifyMilestoneCall i h) = Some h"
| "call_commitment c = None"

definition acting_party :: "string \<Rightarrow> bool" where
  "acting_party k \<longleftrightarrow> k = ''buyer'' \<or> k = ''funder'' \<or> k = ''caller''"

lemma invoke_on_Inr:
  "invoke_on m k i rest = Inr iv \<longleftrightarrow> (\<exists>n. big_int i = Inr n \<and> iv = invoke m ((k, IntValue n) # rest))"
  by (auto simp: invoke_on_def result_simps)

lemma big_int_int_to_string [simp]: "big_int (int_to_string n) = Inr n"
  by (simp add: big_int_def)

lemma hex_byte:
  assumes "is_lower_hex a" and "is_lower_hex b"
  shows "byte_to_hex (word_of_nat (16 * hex_digit_val a + hex_digit_val b)) = [a, b]"
proof -
  have val: "hex_digit_val c < 16 \<and> hex_digit (hex_digit_val c) = c" if "is_lower_hex c" for c
    using that by (auto simp: is_lower_hex_def is_digit_def hex_digit_val_def hex_digit_def code_def)
  let ?n = "16 * hex_digit_val a + hex_digit_val b"
  have small: "hex_digit_val a < 16" "hex_digit_val b < 16" using val assms by auto
  then have "unat (word_of_nat ?n :: 8 word) = ?n"
    by (simp add: unat_of_nat take_bit_nat_eq_self del: of_nat_add of_nat_mult)
  moreover have "?n div 16 = hex_digit_val a" "?n mod 16 = hex_digit_val b" using small by simp_all
  ultimately show ?thesis using val assms by (simp add: byte_to_hex_def del: of_nat_add of_nat_mult)
qed

lemma hex_bytes_exact:
  "list_all is_lower_hex s \<Longrightarrow> even (length s) \<Longrightarrow>
   bytes_to_hex (hex_bytes s) = s \<and> 2 * length (hex_bytes s) = length s"
  by (induction s rule: hex_bytes.induct) (simp_all add: bytes_to_hex_def hex_byte del: of_nat_add of_nat_mult)

lemma digest_bytes_Inr:
  "digest_bytes h = Inr b \<Longrightarrow> bytes_to_hex b = h \<and> length b = 32"
  using hex_bytes_exact [of h] by (auto simp: digest_bytes_def is_hex64_def split: if_splits)

text \<open>
  The workspace acts for nobody but the connected wallet, and names exactly what was meant.
  In every call that is built, an argument by which the contract identifies the acting party
  (buyer, funder or caller) is the connected wallet; an identifier of the read model reaches the
  contract as the number it spells; and the 32 bytes of an evidence commitment are those its
  hexadecimal text spells.
\<close>

theorem calls_act_for_the_wallet:
  assumes "build_call usdc call wallet = Inr iv"
  shows "(\<forall>k v. (k, v) \<in> set (iv_args iv) \<longrightarrow> k \<in> {''buyer'', ''funder'', ''caller''} \<longrightarrow> v = AddressValue wallet)
    \<and> (\<forall>n. call_ident call = Some (int_to_string n) \<longrightarrow> snd (hd (iv_args iv)) = IntValue n)
    \<and> (\<forall>h. call_commitment call = Some h \<longrightarrow>
         (\<exists>b. (''evidence_hash'', BytesValue b) \<in> set (iv_args iv) \<and> bytes_to_hex b = h \<and> length b = 32))"
  using assms
  by (cases call) (auto simp: invoke_on_Inr result_simps invoke_def dest: digest_bytes_Inr)

section \<open>Witnesses\<close>

text \<open>A wallet that settles milestone 7, and Stellar's answer.\<close>

definition settled_tx :: client_tx where
  "settled_tx = \<lparr>ct_simulation_error = None, ct_result = Inr None, ct_sign = Inr (),
     ct_callbacks = [OnSubmitted (Some ''ab''), OnProgress],
     ct_sent = Inr (Some \<lparr>tr_status = ''SUCCESS'', tr_hash = ''ab'', tr_ledger = 5\<rparr>)\<rparr>"

definition settle_invocation :: invocation where
  "settle_invocation = invoke ''settle_milestone'' [(''milestone_id'', IntValue 7), (''caller'', AddressValue ''GA'')]"

definition browser0 :: browser where
  "browser0 = \<lparr>br_can_sign = True, br_wrong_network = False, br_address = ''GA'',
     br_client = (\<lambda>iv. Inr settled_tx), br_status = (\<lambda>k. if k = 0 then None else Some (Some ''5'')),
     br_now = (\<lambda>k. 2000 * int k)\<rparr>"

lemma settle_call [simp]: "build_call u (SettleMilestoneCall ''7'') ''GA'' = Inr settle_invocation"
proof -
  have "big_int ''7'' = Inr 7" by code_simp
  then show ?thesis by (simp add: invoke_on_def settle_invocation_def)
qed

lemma settle_run:
  "run_contract_call u (br_client browser0) (SettleMilestoneCall ''7'') ''GA'' =
     ([OnStage Preparing None, OnStage AwaitingSignature None, Signing settle_invocation,
       Sending settle_invocation, OnStage Submitted (Some ''ab''), OnStage Confirming None], Inr (''ab'', 5))"
  unfolding run_contract_call_def settle_call
  by (simp add: browser0_def settled_tx_def simulated_def sign_and_send_def confirm_response_def)

lemma settle_wait: "wait_for_indexer 46 5 (br_status browser0) (br_now browser0) 90000 = Some IndexerSynced"
proof -
  have "scanned_through 5 (Some (Some ''5''))" by code_simp
  then show ?thesis
    by (simp add: wait_for_indexer_def browser0_def numeral_eq_Suc scanned_through_def)
qed

lemma settle_shown: "tx_stage (dispatch_all IDLE (run_action 46 u browser0 (SettleMilestoneCall ''7''))) = Synced"
  using run_action_confirmed(3) [of browser0 u "SettleMilestoneCall ''7''" _ "''ab''" 5 IDLE 46] settle_run [of u]
    settle_wait
  by (simp add: browser0_def stage_after_def)

theorem no_signature_without_acceptance_witness:
  "ct_sign settled_tx = Inr () \<and> ct_result settled_tx = Inr None"
  using no_signature_without_acceptance [of settle_invocation "''C''" "br_client browser0"
      "SettleMilestoneCall ''7''" "''GA''"] settle_run [of "''C''"]
  by (simp add: browser0_def)

theorem no_success_before_confirmation_witness:
  "br_can_sign browser0 \<and> (\<exists>k. scanned_through 5 (br_status browser0 k))"
  using no_success_before_confirmation [OF refl, where before = IDLE and fuel = 46 and usdc = "''C''"
      and b = browser0 and call = "SettleMilestoneCall ''7''"] settle_shown [of "''C''"]
  by (auto simp: browser0_def settled_tx_def)


theorem calls_act_for_the_wallet_witness:
  "(''caller'', AddressValue ''GA'') \<in> set (iv_args settle_invocation)
   \<and> snd (hd (iv_args settle_invocation)) = IntValue 7"
proof -
  have "int_to_string 7 = ''7''" by code_simp
  then show ?thesis
    using calls_act_for_the_wallet [of "''C''" "SettleMilestoneCall ''7''" "''GA''" settle_invocation]
    by (metis call_ident.simps(16) invocation.select_convs(2) invoke_def list.set_intros(1,2)
        settle_call settle_invocation_def)
qed

end
