(* ===== verification/AnchorToml.thy ===== *)
theory AnchorToml
  imports LocalPayments
begin

text \<open>
  What the Anchor client knows of a provider: \<open>packages/anchor/src/types.ts\<close> and \<open>errors.ts\<close>
  (the data), \<open>toml.ts\<close> (SEP-1 discovery of the endpoints). A status is kept as the text the
  provider sent, as the code keeps it.
\<close>

section \<open>Errors\<close>

datatype anchor_error_code =
    DiscoveryFailed | MissingCapability | NetworkMismatch | AuthFailed | SessionExpired
  | CustomerNotReady | QuoteFailed | QuoteExpired | DepositFailed | WithdrawFailed | MissingMemo
  | TransactionNotFound | UnsupportedAsset | AnchorUnavailable

text \<open>\<open>PlatformError\<close>: a throw of the platform, such as reading a property of \<open>null\<close>.\<close>

datatype anchor_failure = AnchorError anchor_error_code string "int option" | PlatformError string

section \<open>Strings\<close>

fun strip_prefix :: "string \<Rightarrow> string \<Rightarrow> string option" where
  "strip_prefix [] s = Some s"
| "strip_prefix (p # ps) [] = None"
| "strip_prefix (p # ps) (c # s) = (if p = c then strip_prefix ps s else None)"

text \<open>\<open>text.split(/\r?\n/)\<close>\<close>

definition drop_cr :: "string \<Rightarrow> string" where
  "drop_cr line = (if line \<noteq> [] \<and> code (last line) = 13 then butlast line else line)"

definition split_lines :: "string \<Rightarrow> string list" where
  "split_lines txt =
     (let ls = split_at (CHR 0x0A) txt in map drop_cr (butlast ls) @ [last ls])"

section \<open>SEP-1\<close>

record anchor_currency =
  ac_code :: string
  ac_issuer :: string
  ac_anchorAsset :: "string option"

record anchor_capabilities =
  cap_homeDomain :: string
  cap_networkPassphrase :: string
  cap_signingKey :: string
  cap_webAuthEndpoint :: string
  cap_transferServer :: string
  cap_kycServer :: string
  cap_quoteServer :: string
  cap_currencies :: "anchor_currency list"

datatype toml_value = TomlText string | TomlArray "string list"

text \<open>\<open>unquote\<close>: the quotes of both kinds; a lone quote character is both ends of nothing.\<close>

definition quoted_by :: "char \<Rightarrow> string \<Rightarrow> bool" where
  "quoted_by q s \<longleftrightarrow> s \<noteq> [] \<and> hd s = q \<and> last s = q"

definition unquote :: "string \<Rightarrow> string" where
  "unquote val =
     (let trimmed = trim val in
      if quoted_by (CHR 0x22) trimmed \<or> quoted_by (CHR 0x27) trimmed
      then butlast (tl trimmed) else trimmed)"

definition parse_array :: "string \<Rightarrow> string list" where
  "parse_array val =
     (let opened = (if val \<noteq> [] \<and> hd val = CHR ''['' then tl val else val);
          inner = (if opened \<noteq> [] \<and> last opened = CHR '']'' then butlast opened else opened)
      in filter (\<lambda>e. e \<noteq> []) (map unquote (split_at (CHR '','') inner)))"

text \<open>
  The reader's state: the root table, the finished and current currencies (the newest entry of a
  key first), whether a currency table is open and whether the root table still is.
\<close>

record toml_state =
  tm_root :: "(string \<times> toml_value) list"
  tm_currencies :: "(string \<times> string) list list"
  tm_in_currency :: bool
  tm_in_root :: bool

definition toml_start :: toml_state where
  "toml_start = \<lparr>tm_root = [], tm_currencies = [], tm_in_currency = False, tm_in_root = True\<rparr>"

text \<open>\<open>current[key] = value\<close>, where \<open>current\<close> is the last currency pushed.\<close>

definition set_in_last :: "string \<times> string \<Rightarrow> (string \<times> string) list list \<Rightarrow> (string \<times> string) list list" where
  "set_in_last kv cs = butlast cs @ [kv # last cs]"

definition toml_line :: "string \<Rightarrow> toml_state \<Rightarrow> toml_state" where
  "toml_line rawLine st =
     (let line = trim rawLine in
      if line = [] \<or> starts_with ''#'' line then st
      else if line = ''[[CURRENCIES]]''
      then st\<lparr>tm_currencies := tm_currencies st @ [[]], tm_in_currency := True, tm_in_root := False\<rparr>
      else if starts_with ''['' line then st\<lparr>tm_in_currency := False, tm_in_root := False\<rparr>
      else if \<not> str_includes ''='' line then st
      else
        let key = trim (takeWhile (\<lambda>c. c \<noteq> CHR ''='') line);
            raw = trim (drop 1 (dropWhile (\<lambda>c. c \<noteq> CHR ''='') line))
        in if tm_in_currency st
           then st\<lparr>tm_currencies := set_in_last (key, unquote raw) (tm_currencies st)\<rparr>
           else if tm_in_root st
           then st\<lparr>tm_root := (key, if starts_with ''['' raw then TomlArray (parse_array raw)
                                   else TomlText (unquote raw)) # tm_root st\<rparr>
           else st)"

definition parse_toml :: "string \<Rightarrow> toml_state" where
  "parse_toml txt = fold toml_line (split_lines txt) toml_start"

definition require_string :: "(string \<times> toml_value) list \<Rightarrow> string \<Rightarrow> string \<Rightarrow> anchor_failure + string" where
  "require_string table key homeDomain =
     (case map_of table key of
        Some (TomlText (c # s)) \<Rightarrow> Inr (c # s)
      | _ \<Rightarrow> Inl (AnchorError MissingCapability
          (homeDomain @ '' does not publish '' @ key @ '', which Milvance requires.'') None))"

definition currency_of :: "(string \<times> string) list \<Rightarrow> anchor_currency option" where
  "currency_of entry =
     (case (map_of entry ''code'', map_of entry ''issuer'') of
        (Some c, Some i) \<Rightarrow>
          Some \<lparr>ac_code = c, ac_issuer = i, ac_anchorAsset = map_of entry ''anchor_asset''\<rparr>
      | _ \<Rightarrow> None)"

definition parse_stellar_toml ::
  "string \<Rightarrow> string \<Rightarrow> string option \<Rightarrow> anchor_failure + anchor_capabilities" where
  "parse_stellar_toml txt homeDomain expected =
     (let st = parse_toml txt; need = (\<lambda>key. require_string (tm_root st) key homeDomain) in
      and_then (need ''NETWORK_PASSPHRASE'') (\<lambda>passphrase.
      if expected \<noteq> None \<and> expected \<noteq> Some passphrase
      then Inl (AnchorError NetworkMismatch
        (homeDomain @ '' serves a different Stellar network than this build targets.'') None)
      else
      and_then (need ''SIGNING_KEY'') (\<lambda>signingKey.
      and_then (need ''WEB_AUTH_ENDPOINT'') (\<lambda>webAuth.
      and_then (need ''TRANSFER_SERVER'') (\<lambda>transfer.
      and_then (need ''KYC_SERVER'') (\<lambda>kyc.
      and_then (need ''ANCHOR_QUOTE_SERVER'') (\<lambda>quote.
      Inr \<lparr>cap_homeDomain = homeDomain, cap_networkPassphrase = passphrase, cap_signingKey = signingKey,
           cap_webAuthEndpoint = webAuth, cap_transferServer = transfer, cap_kycServer = kyc,
           cap_quoteServer = quote, cap_currencies = List.map_filter currency_of (tm_currencies st)\<rparr>)))))))"

definition require_currency ::
  "anchor_capabilities \<Rightarrow> string \<Rightarrow> string \<Rightarrow> anchor_failure + anchor_currency" where
  "require_currency capabilities cd issuer =
     (case List.find (\<lambda>c. ac_code c = cd \<and> ac_issuer c = issuer) (cap_currencies capabilities) of
        None \<Rightarrow> Inl (AnchorError UnsupportedAsset
          (cap_homeDomain capabilities @ '' does not ramp '' @ cd @ '' from the approved issuer.'') None)
      | Some c \<Rightarrow> Inr c)"

section \<open>Sessions, quotes and transfers\<close>

definition stellar_asset :: "string \<Rightarrow> string \<Rightarrow> string" where
  "stellar_asset cd issuer = ''stellar:'' @ cd @ '':'' @ issuer"

definition fiat_asset :: "string \<Rightarrow> string" where
  "fiat_asset currency = ''iso4217:'' @ currency"

text \<open>A time in Unix seconds is a JavaScript number: a rational, or \<open>None\<close> for \<open>NaN\<close>.\<close>

record auth_challenge =
  ch_transactionXdr :: string
  ch_networkPassphrase :: string

record anchor_session =
  as_token :: string
  as_account :: string
  as_expiresAt :: "rat option"

record customer_status =
  cs_status :: string
  cs_id :: "string option"
  cs_missingFields :: "string list"

record quote_fee_detail =
  fd_name :: string
  fd_amount :: string
  fd_description :: "string option"

record anchor_quote =
  qt_id :: string
  qt_sellAsset :: string
  qt_sellAmount :: string
  qt_buyAsset :: string
  qt_buyAmount :: string
  qt_price :: string
  qt_totalPrice :: string
  qt_expiresAt :: "rat option"
  qt_feeTotal :: "string option"
  qt_feeAsset :: "string option"
  qt_feeDetails :: "quote_fee_detail list"

text \<open>\<open>a <= b\<close> on numbers: false when either is \<open>NaN\<close>.\<close>

fun number_le :: "rat option \<Rightarrow> rat option \<Rightarrow> bool" where
  "number_le (Some a) (Some b) = (a \<le> b)"
| "number_le _ _ = False"

definition is_quote_expired :: "anchor_quote \<Rightarrow> rat \<Rightarrow> bool" where
  "is_quote_expired quote nowSeconds = number_le (qt_expiresAt quote) (Some nowSeconds)"

datatype anchor_transaction_kind = DepositKind | WithdrawalKind

definition TERMINAL_STATUSES :: "string list" where
  "TERMINAL_STATUSES =
     [''completed'', ''refunded'', ''expired'', ''no_market'', ''too_small'', ''too_large'', ''error'']"

definition is_terminal :: "string \<Rightarrow> bool" where
  "is_terminal status \<longleftrightarrow> List.member TERMINAL_STATUSES status"

definition is_settled :: "string \<Rightarrow> bool" where
  "is_settled status \<longleftrightarrow> status = ''completed''"

record anchor_instruction =
  in_value :: string
  in_description :: "string option"

record anchor_transfer =
  tx_id :: string
  tx_kind :: anchor_transaction_kind
  tx_status :: string
  tx_amountIn :: "string option"
  tx_amountOut :: "string option"
  tx_amountFee :: "string option"
  tx_quoteId :: "string option"
  tx_instructions :: "(string \<times> anchor_instruction) list"
  tx_withdrawAnchorAccount :: "string option"
  tx_withdrawMemo :: "string option"
  tx_withdrawMemoType :: "string option"
  tx_stellarTransactionId :: "string option"
  tx_externalTransactionId :: "string option"
  tx_message :: "string option"
  tx_startedAt :: "string option"
  tx_completedAt :: "string option"

end
