(* ===== verification/AnchorProvider.thy ===== *)
theory AnchorProvider
  imports AnchorToml
begin

text \<open>
  The SEP client of an Anchor: \<open>packages/anchor/src/sep-provider.ts\<close>. The network is an argument,
  \<open>fetch\<close>: what comes back for a request, or \<open>None\<close> when the call fails. So are the clock in Unix
  seconds, the decoding of a token's payload (\<open>atob\<close> and \<open>JSON.parse\<close>) and the time value of a
  date text. Every operation is given with the requests it sent, oldest first.
\<close>

section \<open>Requests and responses\<close>

text \<open>A body is kept as the value \<open>JSON.stringify\<close> is given.\<close>

record http_request =
  rq_url :: string
  rq_method :: string
  rq_headers :: "(string \<times> string) list"
  rq_body :: "jsval option"

text \<open>\<open>rs_json\<close> and \<open>rs_text\<close> are \<open>None\<close> where reading the body throws.\<close>

record http_response =
  rs_status :: int
  rs_json :: "jsval option"
  rs_text :: "string option"

type_synonym network = "http_request \<Rightarrow> http_response option"
type_synonym 'a answered = "http_request list \<times> (anchor_failure + 'a)"

definition response_ok :: "http_response \<Rightarrow> bool" where
  "response_ok r \<longleftrightarrow> 200 \<le> rs_status r \<and> rs_status r \<le> 299"

text \<open>The rest of an operation after an answer, and a check that sends nothing.\<close>

definition then_with :: "'a answered \<Rightarrow> ('a \<Rightarrow> anchor_failure + 'b) \<Rightarrow> 'b answered" where
  "then_with m f = (fst m, and_then (snd m) f)"

section \<open>URLs\<close>

text \<open>\<open>application/x-www-form-urlencoded\<close>, over the UTF-8 bytes of a character below 256.\<close>

definition form_encode_char :: "char \<Rightarrow> string" where
  "form_encode_char c =
     (if is_alphanumeric c \<or> c = CHR ''*'' \<or> c = CHR ''-'' \<or> c = CHR ''.'' \<or> c = CHR ''_'' then [c]
      else if c = CHR '' '' then ''+''
      else if code c < 128 then percent (code c)
      else percent (192 + code c div 64) @ percent (128 + code c mod 64))"

definition form_encode :: "string \<Rightarrow> string" where
  "form_encode s = concat (map form_encode_char s)"

fun join_params :: "string list \<Rightarrow> string" where
  "join_params [] = []"
| "join_params [s] = s"
| "join_params (s # t # ss) = s @ ''&'' @ join_params (t # ss)"

definition query_text :: "(string \<times> string) list \<Rightarrow> string" where
  "query_text ps = join_params (map (\<lambda>(k, v). form_encode k @ ''='' @ form_encode v) ps)"

text \<open>\<open>params.set\<close> for a parameter that may be absent; the names set are new.\<close>

definition param :: "string \<Rightarrow> string option \<Rightarrow> (string \<times> string) list" where
  "param k v = (case v of None \<Rightarrow> [] | Some s \<Rightarrow> [(k, s)])"

definition is_slash :: "char \<Rightarrow> bool" where
  "is_slash c \<longleftrightarrow> c = CHR ''/''"

definition join_url :: "string \<Rightarrow> string \<Rightarrow> string" where
  "join_url base path = rev (dropWhile is_slash (rev base)) @ ''/'' @ dropWhile is_slash path"

section \<open>Reading a payload\<close>

text \<open>
  \<open>payload['key']\<close> on a parsed body: \<open>null\<close> throws, a value that is no object has none of the
  properties read here.
\<close>

fun fields_of :: "jsval \<Rightarrow> anchor_failure + fields" where
  "fields_of JNull = Inl (PlatformError ''Cannot read properties of null'')"
| "fields_of JUndefined = Inl (PlatformError ''Cannot read properties of undefined'')"
| "fields_of (JObject f) = Inr f"
| "fields_of v = Inr []"

fun is_object :: "jsval \<Rightarrow> bool" where
  "is_object (JObject f) = True"
| "is_object (JArray vs) = True"
| "is_object (JBytes bs) = True"
| "is_object v = False"

fun own_fields :: "jsval \<Rightarrow> fields" where
  "own_fields (JObject f) = f"
| "own_fields v = []"

text \<open>\<open>Object.entries\<close> of a value \<open>JSON.parse\<close> can return.\<close>

fun entries_of :: "jsval \<Rightarrow> (string \<times> jsval) list" where
  "entries_of (JObject f) = f"
| "entries_of (JArray vs) = zip (map nat_to_string [0..<length vs]) vs"
| "entries_of v = []"

definition as_string :: "jsval \<Rightarrow> string option" where
  "as_string v = (case v of JString (c # s) \<Rightarrow> Some (c # s) | _ \<Rightarrow> None)"

definition text_field :: "fields \<Rightarrow> string \<Rightarrow> string option" where
  "text_field f k = as_string (get_field f k)"

text \<open>\<open>a ?? b\<close>\<close>

definition or_else :: "'a option \<Rightarrow> 'a option \<Rightarrow> 'a option" where
  "or_else a b = (case a of None \<Rightarrow> b | Some x \<Rightarrow> Some x)"

definition or_default :: "'a option \<Rightarrow> 'a \<Rightarrow> 'a" where
  "or_default a d = (case a of None \<Rightarrow> d | Some x \<Rightarrow> x)"

section \<open>Transport\<close>

record json_request =
  jr_url :: string
  jr_method :: string
  jr_session :: "anchor_session option"
  jr_body :: "jsval option"
  jr_failureCode :: anchor_error_code

definition get_json :: "string \<Rightarrow> anchor_session option \<Rightarrow> anchor_error_code \<Rightarrow> json_request" where
  "get_json url session failureCode =
     \<lparr>jr_url = url, jr_method = ''GET'', jr_session = session, jr_body = None,
      jr_failureCode = failureCode\<rparr>"

definition send_json ::
  "string \<Rightarrow> string \<Rightarrow> anchor_session option \<Rightarrow> jsval \<Rightarrow> anchor_error_code \<Rightarrow> json_request" where
  "send_json method url session body failureCode =
     \<lparr>jr_url = url, jr_method = method, jr_session = session, jr_body = Some body,
      jr_failureCode = failureCode\<rparr>"

definition bearer :: "anchor_session \<Rightarrow> string \<times> string" where
  "bearer session = (''Authorization'', ''Bearer '' @ as_token session)"

definition http_request_of :: "json_request \<Rightarrow> http_request" where
  "http_request_of q =
     \<lparr>rq_url = jr_url q, rq_method = jr_method q,
      rq_headers = (''Accept'', ''application/json'')
        # (case jr_session q of None \<Rightarrow> [] | Some s \<Rightarrow> [bearer s])
        @ (if jr_body q \<noteq> None then [(''Content-Type'', ''application/json'')] else []),
      rq_body = jr_body q\<rparr>"

definition session_over :: "rat \<Rightarrow> anchor_session option \<Rightarrow> bool" where
  "session_over now session =
     (case session of None \<Rightarrow> False | Some s \<Rightarrow> number_le (as_expiresAt s) (Some now))"

definition read_json :: "anchor_error_code \<Rightarrow> http_response option \<Rightarrow> anchor_failure + jsval" where
  "read_json failureCode response =
     (case response of
        None \<Rightarrow> Inl (AnchorError AnchorUnavailable ''The local-payment provider is unreachable.'' None)
      | Some r \<Rightarrow>
          if rs_status r = 401 \<or> rs_status r = 403
          then Inl (AnchorError SessionExpired ''The provider rejected this session. Reconnect your wallet.''
                      (Some (rs_status r)))
          else if \<not> response_ok r
          then Inl (AnchorError failureCode
                 (''The provider rejected the request (HTTP '' @ int_to_string (rs_status r) @ '').'')
                 (Some (rs_status r)))
          else (case rs_json r of
                 None \<Rightarrow> Inl (AnchorError failureCode
                   ''The provider returned a response Milvance could not read.'' None)
               | Some v \<Rightarrow> Inr v))"

definition json_call :: "network \<Rightarrow> rat \<Rightarrow> json_request \<Rightarrow> jsval answered" where
  "json_call fetch now q =
     (if session_over now (jr_session q)
      then ([], Inl (AnchorError SessionExpired ''Your local-payment session expired.'' None))
      else ([http_request_of q], read_json (jr_failureCode q) (fetch (http_request_of q))))"

section \<open>SEP-1: discovery\<close>

definition bare_domain :: "string \<Rightarrow> string" where
  "bare_domain homeDomain =
     (case strip_prefix ''http://'' homeDomain of
        Some d \<Rightarrow> d
      | None \<Rightarrow> or_default (strip_prefix ''https://'' homeDomain) homeDomain)"

definition plain_get :: "string \<Rightarrow> http_request" where
  "plain_get url = \<lparr>rq_url = url, rq_method = ''GET'', rq_headers = [], rq_body = None\<rparr>"

definition read_discovery ::
  "string \<Rightarrow> string option \<Rightarrow> http_response option \<Rightarrow> anchor_failure + anchor_capabilities" where
  "read_discovery homeDomain expected response =
     (case response of
        None \<Rightarrow> Inl (AnchorError AnchorUnavailable (''Could not reach '' @ homeDomain @ ''.'') None)
      | Some r \<Rightarrow>
          if \<not> response_ok r
          then Inl (AnchorError DiscoveryFailed (homeDomain @ '' did not serve a usable configuration.'')
                      (Some (rs_status r)))
          else (case rs_text r of
                 None \<Rightarrow> Inl (PlatformError ''the body could not be read'')
               | Some txt \<Rightarrow> parse_stellar_toml txt homeDomain expected))"

definition discover :: "network \<Rightarrow> string option \<Rightarrow> string \<Rightarrow> anchor_capabilities answered" where
  "discover fetch expected homeDomain =
     (let q = plain_get (''https://'' @ bare_domain homeDomain @ ''/.well-known/stellar.toml'')
      in ([q], read_discovery homeDomain expected (fetch q)))"

section \<open>SEP-10: the session\<close>

definition read_challenge :: "string option \<Rightarrow> jsval \<Rightarrow> anchor_failure + auth_challenge" where
  "read_challenge expected payload =
     and_then (fields_of payload) (\<lambda>f.
     case (text_field f ''transaction'', text_field f ''network_passphrase'') of
       (Some xdr, Some passphrase) \<Rightarrow>
         if expected \<noteq> None \<and> expected \<noteq> Some passphrase
         then Inl (AnchorError NetworkMismatch
                ''The sign-in challenge targets a different Stellar network.'' None)
         else Inr \<lparr>ch_transactionXdr = xdr, ch_networkPassphrase = passphrase\<rparr>
     | _ \<Rightarrow> Inl (AnchorError AuthFailed ''The provider returned an unusable sign-in challenge.'' None))"

definition begin_auth ::
  "network \<Rightarrow> rat \<Rightarrow> string option \<Rightarrow> anchor_capabilities \<Rightarrow> string \<Rightarrow> string option \<Rightarrow> auth_challenge answered" where
  "begin_auth fetch now expected caps account memo =
     then_with (json_call fetch now (get_json
         (cap_webAuthEndpoint caps @ ''?'' @ query_text
           ([(''account'', account), (''home_domain'', cap_homeDomain caps)] @ param ''memo'' memo))
         None AuthFailed))
       (read_challenge expected)"

text \<open>\<open>decodeJwtClaims\<close>: \<open>sub\<close> up to the first colon and \<open>exp\<close>, of the second part of the token.\<close>

definition base64_text :: "string \<Rightarrow> string" where
  "base64_text part =
     (let normalized = map (\<lambda>c. if c = CHR ''-'' then CHR ''+'' else if c = CHR ''_'' then CHR ''/'' else c) part
      in pad_end (length normalized + (4 - length normalized mod 4) mod 4) (CHR ''='') normalized)"

definition claims_in :: "jsval option \<Rightarrow> string option \<times> rat option option" where
  "claims_in json =
     (case json of
        Some (JObject f) \<Rightarrow>
          ((case get_field f ''sub'' of JString s \<Rightarrow> Some (hd (split_at (CHR '':'') s)) | _ \<Rightarrow> None),
           (case get_field f ''exp'' of JNumber n \<Rightarrow> Some n | _ \<Rightarrow> None))
      | _ \<Rightarrow> (None, None))"

definition decode_jwt_claims :: "(string \<Rightarrow> jsval option) \<Rightarrow> string \<Rightarrow> string option \<times> rat option option" where
  "decode_jwt_claims decode token =
     (case split_at (CHR ''.'') token of
        p # part # rest \<Rightarrow> claims_in (decode (base64_text part))
      | _ \<Rightarrow> (None, None))"

definition read_session ::
  "(string \<Rightarrow> jsval option) \<Rightarrow> rat \<Rightarrow> jsval \<Rightarrow> anchor_failure + anchor_session" where
  "read_session decode now payload =
     and_then (fields_of payload) (\<lambda>f.
     case text_field f ''token'' of
       None \<Rightarrow> Inl (AnchorError AuthFailed ''The provider did not issue a session.'' None)
     | Some token \<Rightarrow>
         let claims = decode_jwt_claims decode token
         in Inr \<lparr>as_token = token, as_account = or_default (fst claims) [],
                 as_expiresAt = or_default (snd claims) (Some (now + 900))\<rparr>)"

definition complete_auth ::
  "network \<Rightarrow> (string \<Rightarrow> jsval option) \<Rightarrow> rat \<Rightarrow> anchor_capabilities \<Rightarrow> string \<Rightarrow> anchor_session answered" where
  "complete_auth fetch decode now caps signedTransactionXdr =
     then_with (json_call fetch now (send_json ''POST'' (cap_webAuthEndpoint caps) None
         (JObject [(''transaction'', JString signedTransactionXdr)]) AuthFailed))
       (read_session decode now)"

section \<open>SEP-12: the customer\<close>

definition read_customer :: "jsval \<Rightarrow> anchor_failure + customer_status" where
  "read_customer payload =
     and_then (fields_of payload) (\<lambda>f.
       Inr \<lparr>cs_status = or_default (text_field f ''status'') ''NEEDS_INFO'', cs_id = text_field f ''id'',
            cs_missingFields = map fst (entries_of (get_field f ''fields''))\<rparr>)"

definition get_customer_status ::
  "network \<Rightarrow> rat \<Rightarrow> anchor_session \<Rightarrow> anchor_capabilities \<Rightarrow> customer_status answered" where
  "get_customer_status fetch now session caps =
     then_with (json_call fetch now (get_json
         (join_url (cap_kycServer caps) ''customer'' @ ''?'' @ query_text [(''account'', as_account session)])
         (Some session) CustomerNotReady))
       read_customer"

text \<open>\<open>{ account, ...fields }\<close>: a given \<open>account\<close> replaces the session's, in its place.\<close>

definition customer_body :: "string \<Rightarrow> (string \<times> string) list \<Rightarrow> jsval" where
  "customer_body account fs =
     JObject ((''account'', JString (or_default (map_of fs ''account'') account))
       # map (\<lambda>(k, v). (k, JString v)) (filter (\<lambda>kv. fst kv \<noteq> ''account'') fs))"

definition put_customer ::
  "network \<Rightarrow> rat \<Rightarrow> anchor_session \<Rightarrow> anchor_capabilities \<Rightarrow> (string \<times> string) list \<Rightarrow> customer_status answered" where
  "put_customer fetch now session caps fs =
     (let sent = json_call fetch now (send_json ''PUT'' (join_url (cap_kycServer caps) ''customer'')
            (Some session) (customer_body (as_account session) fs) CustomerNotReady)
      in case snd sent of
           Inl e \<Rightarrow> (fst sent, Inl e)
         | Inr v \<Rightarrow> (let status = get_customer_status fetch now session caps
                     in (fst sent @ fst status, snd status)))"

section \<open>SEP-38: quotes\<close>

record quote_input =
  qi_sellAsset :: string
  qi_buyAsset :: string
  qi_sellAmount :: "string option"
  qi_buyAmount :: "string option"
  qi_context :: "string option"
  qi_sellDeliveryMethod :: "string option"
  qi_buyDeliveryMethod :: "string option"

definition quote_body :: "quote_input \<Rightarrow> jsval" where
  "quote_body i = JObject (map (\<lambda>(k, v). (k, JString v))
     ([(''sell_asset'', qi_sellAsset i), (''buy_asset'', qi_buyAsset i),
       (''context'', or_default (qi_context i) ''sep6'')]
      @ param ''sell_amount'' (qi_sellAmount i) @ param ''buy_amount'' (qi_buyAmount i)
      @ param ''sell_delivery_method'' (qi_sellDeliveryMethod i)
      @ param ''buy_delivery_method'' (qi_buyDeliveryMethod i)))"

definition fee_detail :: "jsval \<Rightarrow> anchor_failure + quote_fee_detail" where
  "fee_detail entry =
     and_then (fields_of entry) (\<lambda>f.
       Inr \<lparr>fd_name = or_default (text_field f ''name'') ''fee'',
            fd_amount = or_default (text_field f ''amount'') ''0'',
            fd_description = text_field f ''description''\<rparr>)"

fun array_items :: "jsval \<Rightarrow> jsval list" where
  "array_items (JArray vs) = vs"
| "array_items v = []"

definition seconds_of :: "int option \<Rightarrow> rat option" where
  "seconds_of ms = map_option (\<lambda>t. of_int (t div 1000)) ms"

definition read_quote :: "(string \<Rightarrow> int option) \<Rightarrow> quote_input \<Rightarrow> jsval \<Rightarrow> anchor_failure + anchor_quote" where
  "read_quote date_ms i payload =
     and_then (fields_of payload) (\<lambda>f.
     case (text_field f ''id'', text_field f ''expires_at'') of
       (Some ident, Some expiresAtRaw) \<Rightarrow>
         let fee = own_fields (get_field f ''fee''); text = (\<lambda>k d. or_default (text_field f k) d) in
         and_then (traverse fee_detail (array_items (get_field fee ''details''))) (\<lambda>details.
         Inr \<lparr>qt_id = ident,
              qt_sellAsset = text ''sell_asset'' (qi_sellAsset i),
              qt_sellAmount = text ''sell_amount'' (or_default (qi_sellAmount i) ''0''),
              qt_buyAsset = text ''buy_asset'' (qi_buyAsset i),
              qt_buyAmount = text ''buy_amount'' (or_default (qi_buyAmount i) ''0''),
              qt_price = text ''price'' ''0'',
              qt_totalPrice = or_default (or_else (text_field f ''total_price'') (text_field f ''price'')) ''0'',
              qt_expiresAt = seconds_of (date_ms expiresAtRaw),
              qt_feeTotal = text_field fee ''total'', qt_feeAsset = text_field fee ''asset'',
              qt_feeDetails = details\<rparr>)
     | _ \<Rightarrow> Inl (AnchorError QuoteFailed ''The provider returned an unusable exchange rate.'' None))"

definition get_quote ::
  "network \<Rightarrow> (string \<Rightarrow> int option) \<Rightarrow> rat \<Rightarrow> anchor_session \<Rightarrow> anchor_capabilities \<Rightarrow> quote_input
    \<Rightarrow> anchor_quote answered" where
  "get_quote fetch date_ms now session caps i =
     (if (qi_sellAmount i = None) = (qi_buyAmount i = None)
      then ([], Inl (AnchorError QuoteFailed
        ''A quote needs exactly one of an amount to sell or an amount to buy.'' None))
      else then_with (json_call fetch now (send_json ''POST'' (join_url (cap_quoteServer caps) ''quote'')
             (Some session) (quote_body i) QuoteFailed))
           (read_quote date_ms i))"

section \<open>SEP-6: transfers\<close>

definition instruction_of :: "string \<times> jsval \<Rightarrow> (string \<times> anchor_instruction) option" where
  "instruction_of kv =
     (if is_object (snd kv)
      then let entry = own_fields (snd kv)
           in Some (fst kv, \<lparr>in_value = or_default (text_field entry ''value'') [],
                            in_description = text_field entry ''description''\<rparr>)
      else None)"

definition transfer_of_fields :: "fields \<Rightarrow> anchor_transaction_kind \<Rightarrow> anchor_transfer" where
  "transfer_of_fields source kind =
     (let text = text_field source in
      \<lparr>tx_id = or_default (text ''id'') [], tx_kind = kind,
       tx_status = or_default (text ''status'') ''pending_user_transfer_start'',
       tx_amountIn = text ''amount_in'', tx_amountOut = text ''amount_out'',
       tx_amountFee = text ''amount_fee'', tx_quoteId = text ''quote_id'',
       tx_instructions = List.map_filter instruction_of (entries_of (get_field source ''instructions'')),
       tx_withdrawAnchorAccount = or_else (text ''withdraw_anchor_account'') (text ''account_id''),
       tx_withdrawMemo = or_else (text ''withdraw_memo'') (text ''memo''),
       tx_withdrawMemoType = or_else (text ''withdraw_memo_type'') (text ''memo_type''),
       tx_stellarTransactionId = text ''stellar_transaction_id'',
       tx_externalTransactionId = text ''external_transaction_id'',
       tx_message = text ''message'', tx_startedAt = text ''started_at'',
       tx_completedAt = text ''completed_at''\<rparr>)"

definition to_transaction :: "anchor_transaction_kind \<Rightarrow> jsval \<Rightarrow> anchor_failure + anchor_transfer" where
  "to_transaction kind payload =
     and_then (fields_of payload) (\<lambda>f.
       let inner = get_field f ''transaction''
       in Inr (transfer_of_fields (if is_object inner then own_fields inner else f) kind))"

record deposit_input =
  di_assetCode :: string
  di_destinationAccount :: string
  di_amount :: "string option"
  di_quoteId :: "string option"
  di_sourceAsset :: "string option"
  di_fundingMethod :: "string option"

definition deposit_url :: "anchor_capabilities \<Rightarrow> deposit_input \<Rightarrow> string" where
  "deposit_url caps i =
     join_url (cap_transferServer caps) (if di_sourceAsset i = None then ''deposit'' else ''deposit-exchange'')
     @ ''?'' @ query_text
       ([(''account'', di_destinationAccount i), (''type'', or_default (di_fundingMethod i) ''bank_account'')]
        @ param ''amount'' (di_amount i) @ param ''quote_id'' (di_quoteId i)
        @ (case di_sourceAsset i of
             None \<Rightarrow> [(''asset_code'', di_assetCode i)]
           | Some a \<Rightarrow> [(''destination_asset'', di_assetCode i), (''source_asset'', a)]))"

definition deposit ::
  "network \<Rightarrow> rat \<Rightarrow> anchor_session \<Rightarrow> anchor_capabilities \<Rightarrow> deposit_input \<Rightarrow> anchor_transfer answered" where
  "deposit fetch now session caps i =
     then_with (json_call fetch now (get_json (deposit_url caps i) (Some session) DepositFailed))
       (to_transaction DepositKind)"

record withdraw_input =
  wi_assetCode :: string
  wi_sourceAccount :: string
  wi_amount :: "string option"
  wi_quoteId :: "string option"
  wi_destinationAsset :: "string option"
  wi_fundingMethod :: "string option"

definition withdraw_url :: "anchor_capabilities \<Rightarrow> withdraw_input \<Rightarrow> string" where
  "withdraw_url caps i =
     join_url (cap_transferServer caps)
       (if wi_destinationAsset i = None then ''withdraw'' else ''withdraw-exchange'')
     @ ''?'' @ query_text
       ([(''type'', or_default (wi_fundingMethod i) ''bank_account''), (''account'', wi_sourceAccount i)]
        @ param ''amount'' (wi_amount i) @ param ''quote_id'' (wi_quoteId i)
        @ (case wi_destinationAsset i of
             None \<Rightarrow> [(''asset_code'', wi_assetCode i)]
           | Some a \<Rightarrow> [(''source_asset'', wi_assetCode i), (''destination_asset'', a)]))"

definition payable :: "anchor_transfer \<Rightarrow> anchor_failure + anchor_transfer" where
  "payable t =
     (if tx_withdrawAnchorAccount t = None
      then Inl (AnchorError WithdrawFailed ''The provider did not say where to send the USDC.'' None)
      else if tx_withdrawMemo t = None \<or> tx_withdrawMemoType t = None
      then Inl (AnchorError MissingMemo ''The provider did not return a payment reference.'' None)
      else Inr t)"

definition withdraw ::
  "network \<Rightarrow> rat \<Rightarrow> anchor_session \<Rightarrow> anchor_capabilities \<Rightarrow> withdraw_input \<Rightarrow> anchor_transfer answered" where
  "withdraw fetch now session caps i =
     then_with (json_call fetch now (get_json (withdraw_url caps i) (Some session) WithdrawFailed))
       (\<lambda>payload. and_then (to_transaction WithdrawalKind payload) payable)"

definition read_transfer :: "jsval \<Rightarrow> anchor_failure + anchor_transfer" where
  "read_transfer payload =
     and_then (fields_of payload) (\<lambda>f.
       let raw = get_field f ''transaction'' in
       if \<not> is_object raw
       then Inl (AnchorError TransactionNotFound ''The provider has no record of this transfer.'' None)
       else Inr (transfer_of_fields (own_fields raw)
         (if text_field (own_fields raw) ''kind'' = Some ''withdrawal'' then WithdrawalKind else DepositKind)))"

definition get_transaction ::
  "network \<Rightarrow> rat \<Rightarrow> string \<Rightarrow> anchor_session \<Rightarrow> anchor_capabilities \<Rightarrow> anchor_transfer answered" where
  "get_transaction fetch now ident session caps =
     then_with (json_call fetch now (get_json
         (join_url (cap_transferServer caps) ''transaction'' @ ''?'' @ query_text [(''id'', ident)])
         (Some session) TransactionNotFound))
       read_transfer"

end
