(* ===== verification/AnchorFlow.thy ===== *)
theory AnchorFlow
  imports AnchorProvider
begin

text \<open>
  The browser's side of a local payment: \<open>apps/web/lib/anchor/\<close> (\<open>session.ts\<close>, \<open>flow.ts\<close>,
  \<open>payment.ts\<close>, \<open>record.ts\<close>). A \<open>null\<close> or \<open>undefined\<close> option is \<open>None\<close>. \<open>number\<close> is \<open>Number\<close> of a
  text, \<open>None\<close> where it is not finite.
\<close>

section \<open>The session store\<close>

text \<open>The module's \<open>current\<close> is a state; reading an expired session also forgets it.\<close>

definition store_session :: "anchor_session \<Rightarrow> anchor_session option \<Rightarrow> anchor_session option" where
  "store_session session current = Some session"

definition clear_session :: "anchor_session option \<Rightarrow> anchor_session option" where
  "clear_session current = None"

definition active_session ::
  "rat \<Rightarrow> anchor_session option \<Rightarrow> anchor_session option \<times> anchor_session option" where
  "active_session nowSeconds current =
     (case current of
        None \<Rightarrow> (None, None)
      | Some s \<Rightarrow> if number_le (as_expiresAt s) (Some nowSeconds) then (None, None)
                  else (Some s, Some s))"

definition session_summary :: "anchor_session \<Rightarrow> string \<times> rat option" where
  "session_summary session = (as_account session, as_expiresAt session)"

section \<open>Quotes and amounts\<close>

text \<open>\<open>Math.max(0, quote.expiresAt - nowSeconds)\<close>\<close>

definition quote_seconds_left :: "anchor_quote \<Rightarrow> rat \<Rightarrow> rat option" where
  "quote_seconds_left quote nowSeconds = map_option (\<lambda>t. max 0 (t - nowSeconds)) (qt_expiresAt quote)"

definition assert_quote_usable :: "anchor_quote \<Rightarrow> rat \<Rightarrow> string + unit" where
  "assert_quote_usable quote nowSeconds =
     throw_if (is_quote_expired quote nowSeconds)
       ''That exchange rate expired. Get a new rate before continuing.''"

definition DEPOSIT_MIN :: rat where "DEPOSIT_MIN = 50"
definition DEPOSIT_MAX :: rat where "DEPOSIT_MAX = 3000"
definition WITHDRAW_MIN :: rat where "WITHDRAW_MIN = 1"

datatype amount_problem = EnterAnAmount | BelowMinimum | AboveMaximum

definition validate_deposit_amount :: "(string \<Rightarrow> rat option) \<Rightarrow> string \<Rightarrow> amount_problem option" where
  "validate_deposit_amount number amount =
     (case number amount of
        None \<Rightarrow> Some EnterAnAmount
      | Some v \<Rightarrow> if v \<le> 0 then Some EnterAnAmount
          else if v < DEPOSIT_MIN then Some BelowMinimum
          else if DEPOSIT_MAX < v then Some AboveMaximum
          else None)"

definition validate_withdraw_amount :: "(string \<Rightarrow> rat option) \<Rightarrow> string \<Rightarrow> amount_problem option" where
  "validate_withdraw_amount number amount =
     (case number amount of
        None \<Rightarrow> Some EnterAnAmount
      | Some v \<Rightarrow> if v \<le> 0 then Some EnterAnAmount
          else if v < WITHDRAW_MIN then Some BelowMinimum
          else None)"

text \<open>What a transfer is described as; the sentences themselves are left out.\<close>

datatype transfer_note =
    WaitingForLocalTransfer | WaitingForUsdc | BeingMatched | BankProcessing | ExchangeProcessing
  | SettlingOnStellar | WaitingForTrustline | NeedsSomething | UsdcInWallet | LocalPaidOut | WasRefunded
  | HasExpired | WasTooSmall | WasTooLarge | NoMarketFound | ProviderSays "string option" | Starting

definition describe_status :: "anchor_transfer \<Rightarrow> transfer_note" where
  "describe_status t =
     (let st = tx_status t; isDeposit = (tx_kind t = DepositKind) in
      if st = ''pending_user_transfer_start''
      then (if isDeposit then WaitingForLocalTransfer else WaitingForUsdc)
      else if st = ''pending_user_transfer_complete'' then BeingMatched
      else if st = ''pending_external'' then BankProcessing
      else if st = ''pending_anchor'' then ExchangeProcessing
      else if st = ''pending_stellar'' then SettlingOnStellar
      else if st = ''pending_trust'' then WaitingForTrustline
      else if st = ''pending_user'' then NeedsSomething
      else if st = ''completed'' then (if isDeposit then UsdcInWallet else LocalPaidOut)
      else if st = ''refunded'' then WasRefunded
      else if st = ''expired'' then HasExpired
      else if st = ''too_small'' then WasTooSmall
      else if st = ''too_large'' then WasTooLarge
      else if st = ''no_market'' then NoMarketFound
      else if st = ''error'' then ProviderSays (tx_message t)
      else Starting)"

definition is_finished :: "anchor_transfer \<Rightarrow> bool" where
  "is_finished t = is_terminal (tx_status t)"

section \<open>Polling\<close>

text \<open>
  \<open>read k\<close> is the answer of the read after \<open>k\<close> others. The loop runs at most \<open>n\<close> more reads;
  beside the result come the transfers reported to \<open>onUpdate\<close>.
\<close>

fun poll_rest ::
  "(nat \<Rightarrow> anchor_failure + anchor_transfer) \<Rightarrow> nat \<Rightarrow> nat \<Rightarrow> anchor_transfer
    \<Rightarrow> anchor_transfer list \<times> (anchor_failure + anchor_transfer)" where
  "poll_rest read 0 attempt latest = ([], Inr latest)"
| "poll_rest read (Suc n) attempt latest =
     (if is_terminal (tx_status latest) then ([], Inr latest)
      else case read attempt of
             Inl e \<Rightarrow> ([], Inl e)
           | Inr t \<Rightarrow> (t # fst (poll_rest read n (attempt + 1) t), snd (poll_rest read n (attempt + 1) t)))"

definition poll_transfer ::
  "(nat \<Rightarrow> anchor_failure + anchor_transfer) \<Rightarrow> nat
    \<Rightarrow> anchor_transfer list \<times> (anchor_failure + anchor_transfer)" where
  "poll_transfer read maxAttempts =
     (case read 0 of
        Inl e \<Rightarrow> ([], Inl e)
      | Inr t \<Rightarrow> (t # fst (poll_rest read (maxAttempts - 1) 1 t), snd (poll_rest read (maxAttempts - 1) 1 t)))"

section \<open>Paying a withdrawal\<close>

record payment_plan =
  pp_destination :: string
  pp_amount :: string
  pp_memo :: string
  pp_memoType :: string

definition plan_withdrawal_payment :: "anchor_transfer \<Rightarrow> string \<Rightarrow> anchor_failure + payment_plan" where
  "plan_withdrawal_payment t amount =
     (case tx_withdrawAnchorAccount t of
        None \<Rightarrow> Inl (AnchorError WithdrawFailed ''The provider did not say where to send the USDC.'' None)
      | Some destination \<Rightarrow>
          (case (tx_withdrawMemo t, tx_withdrawMemoType t) of
             (Some memo, Some memoType) \<Rightarrow>
               Inr \<lparr>pp_destination = destination, pp_amount = amount, pp_memo = memo, pp_memoType = memoType\<rparr>
           | _ \<Rightarrow> Inl (AnchorError MissingMemo
               ''The provider did not return the payment reference this withdrawal needs.'' None)))"

datatype payment_memo = MemoId string | MemoHash string | MemoText string

definition payment_memo_of :: "payment_plan \<Rightarrow> payment_memo" where
  "payment_memo_of plan =
     (if pp_memoType plan = ''id'' then MemoId (pp_memo plan)
      else if pp_memoType plan = ''hash'' then MemoHash (pp_memo plan)
      else MemoText (pp_memo plan))"

section \<open>Recording a finished transfer\<close>

record payment_leg =
  lg_direction :: string
  lg_walletAddress :: string
  lg_anchorTransactionId :: string
  lg_stellarTxHash :: string
  lg_sourceAmount :: string
  lg_destinationAmount :: string
  lg_status :: string
  lg_quoteId :: "string option"

text \<open>The body that is posted.\<close>

definition leg_fields :: "payment_leg \<Rightarrow> fields" where
  "leg_fields leg =
     [(''direction'', JString (lg_direction leg)), (''walletAddress'', JString (lg_walletAddress leg)),
      (''anchorTransactionId'', JString (lg_anchorTransactionId leg)),
      (''stellarTxHash'', JString (lg_stellarTxHash leg)), (''sourceAmount'', JString (lg_sourceAmount leg)),
      (''destinationAmount'', JString (lg_destinationAmount leg)), (''status'', JString (lg_status leg))]
     @ (case lg_quoteId leg of None \<Rightarrow> [] | Some q \<Rightarrow> [(''quoteId'', JString q)])"

definition FORBIDDEN_WORDS :: "string list" where
  "FORBIDDEN_WORDS =
     [''jwt'', ''token'', ''authorization'', ''bearer'', ''secret'', ''seed'', ''privatekey'',
      ''private_key'', ''secretkey'', ''kyc'', ''bankaccount'', ''bank_account'', ''iban'',
      ''nationalid'', ''national_id'', ''email'', ''phone'']"

definition is_word_char :: "char \<Rightarrow> bool" where
  "is_word_char c \<longleftrightarrow> is_alphanumeric c \<or> c = CHR ''_''"

text \<open>Some place of the text that does not follow a word character starts a text with \<open>P\<close>.\<close>

fun at_word_start :: "(string \<Rightarrow> bool) \<Rightarrow> bool \<Rightarrow> string \<Rightarrow> bool" where
  "at_word_start P after_word [] = False"
| "at_word_start P after_word (c # s) =
     ((\<not> after_word \<and> P (c # s)) \<or> at_word_start P (is_word_char c) s)"

text \<open>\<open>/\beyJ[A-Za-z0-9_-]{6,}\./\<close> and \<open>/\bS[A-Z2-7]{55}\b/\<close>\<close>

definition is_token_char :: "char \<Rightarrow> bool" where
  "is_token_char c \<longleftrightarrow> is_word_char c \<or> c = CHR ''-''"

definition looks_like_token :: "string \<Rightarrow> bool" where
  "looks_like_token s = at_word_start (\<lambda>t. starts_with ''eyJ'' t
     \<and> 6 \<le> length (takeWhile is_token_char (drop 3 t))
     \<and> take 1 (dropWhile is_token_char (drop 3 t)) = ''.'') False s"

definition looks_like_secret :: "string \<Rightarrow> bool" where
  "looks_like_secret s = at_word_start (\<lambda>t. take 1 t = ''S'' \<and> 56 \<le> length t
     \<and> list_all is_base32 (take 55 (drop 1 t)) \<and> (drop 56 t = [] \<or> \<not> is_word_char (hd (drop 56 t)))) False s"

definition unsafe_entry :: "string \<times> jsval \<Rightarrow> bool" where
  "unsafe_entry kv \<longleftrightarrow>
     list_ex (\<lambda>w. str_includes w (to_lower (fst kv))) FORBIDDEN_WORDS
   \<or> (case snd kv of JString s \<Rightarrow> looks_like_token s \<or> looks_like_secret s | _ \<Rightarrow> False)"

definition unsafe_field :: "fields \<Rightarrow> string option" where
  "unsafe_field f = map_option fst (List.find unsafe_entry f)"

record leg_input =
  li_transfer :: anchor_transfer
  li_direction :: anchor_transaction_kind
  li_walletAddress :: string
  li_submittedPaymentHash :: "string option"
  li_sentAmount :: "string option"

definition leg_hash :: "leg_input \<Rightarrow> string option" where
  "leg_hash i =
     (if li_direction i = WithdrawalKind
      then or_else (li_submittedPaymentHash i) (tx_stellarTransactionId (li_transfer i))
      else tx_stellarTransactionId (li_transfer i))"

definition leg_source :: "leg_input \<Rightarrow> string option" where
  "leg_source i =
     (if li_direction i = WithdrawalKind then or_else (li_sentAmount i) (tx_amountIn (li_transfer i))
      else tx_amountIn (li_transfer i))"

definition leg_from :: "leg_input \<Rightarrow> string \<Rightarrow> string \<Rightarrow> string \<Rightarrow> payment_leg" where
  "leg_from i hash source destination =
     \<lparr>lg_direction = (if li_direction i = DepositKind then ''TRY_TO_USDC'' else ''USDC_TO_TRY''),
      lg_walletAddress = li_walletAddress i, lg_anchorTransactionId = tx_id (li_transfer i),
      lg_stellarTxHash = to_lower hash, lg_sourceAmount = source, lg_destinationAmount = destination,
      lg_status = tx_status (li_transfer i),
      lg_quoteId = (case tx_quoteId (li_transfer i) of None \<Rightarrow> None
                    | Some q \<Rightarrow> if is_reference q then Some q else None)\<rparr>"

text \<open>\<open>text !== undefined && text !== null && pattern.test(text)\<close>\<close>

definition known :: "(string \<Rightarrow> bool) \<Rightarrow> string option \<Rightarrow> string \<Rightarrow> string + string" where
  "known P v reason = (case v of None \<Rightarrow> Inl reason | Some s \<Rightarrow> if P s then Inr s else Inl reason)"

definition build_local_payment_leg :: "leg_input \<Rightarrow> string + payment_leg" where
  "build_local_payment_leg i =
     and_then (throw_if (\<not> is_wallet (li_walletAddress i))
       ''No connected wallet to attribute this transfer to.'') (\<lambda>_.
     and_then (throw_if (tx_status (li_transfer i) \<noteq> ''completed'') ''The transfer has not completed yet.'') (\<lambda>_.
     and_then (known is_any_hex64 (leg_hash i) ''No Stellar transaction hash is known for this transfer.'') (\<lambda>hash.
     and_then (known is_decimal (leg_source i) ''The transfer has no exact amount to record.'') (\<lambda>source.
     and_then (known is_decimal (tx_amountOut (li_transfer i))
       ''The transfer has no exact received amount to record.'') (\<lambda>destination.
     and_then (throw_if (\<not> is_reference (tx_id (li_transfer i))) ''The transfer has no usable reference.'') (\<lambda>_.
     let leg = leg_from i hash source destination in
     case unsafe_field (leg_fields leg) of
       Some k \<Rightarrow> Inl (''Refusing to record a field named '' @ [CHR 0x22] @ k @ [CHR 0x22] @ ''.'')
     | None \<Rightarrow> Inr leg))))))"

end
