(* ===== verification/Tour.thy ===== *)
theory Tour
  imports Workspace JsValues EventOrder
begin

text \<open>
  The guided tour: \<open>apps/web/lib/demo/tour.ts\<close> (steps from the indexed events of one order) and
  \<open>flow.ts\<close> (the steps as money moving between four parties). Of a narration the theme, actor,
  amount and its meaning are kept; titles, details and lessons, which are fixed texts, are left
  out. A \<open>BigInt\<close> of a text that is no integer throws.
\<close>

section \<open>Steps\<close>

record activity_item =
  ai_eventId :: string
  ai_eventName :: string
  ai_ledger :: string
  ai_txHash :: string
  ai_ledgerClosedAt :: string
  ai_projected :: bool
  ai_fields :: jsval

datatype tour_theme =
    Setup | BuyerProtection | WorkingCapital | LocalMoney | Verification | Settling | Disputing

datatype amount_meaning = ProtectedAmount | AdvancedAmount | RepaidAmount | PaidOutAmount | RefundedAmount

datatype tour_actor = TheBuyer | TheSupplier | TheFunder | TheAttestor | TheResolver | TheContract

record settlement_split =
  sp_funderRepayment :: string
  sp_supplierPayout :: string

record narration =
  nr_theme :: tour_theme
  nr_actor :: tour_actor
  nr_amount :: "string option"
  nr_amountMeans :: "amount_meaning option"
  nr_settlement :: "settlement_split option"

record tour_step =
  ts_narration :: narration
  ts_id :: string
  ts_txHash :: string
  ts_ledger :: string
  ts_at :: string

definition item_fields :: "activity_item \<Rightarrow> fields" where
  "item_fields item = (case ai_fields item of JObject f \<Rightarrow> f | _ \<Rightarrow> [])"

definition text_of :: "jsval \<Rightarrow> string option" where
  "text_of v = (case v of JString s \<Rightarrow> if s \<noteq> [] then Some s else None | _ \<Rightarrow> None)"

definition told ::
  "tour_theme \<Rightarrow> tour_actor \<Rightarrow> string option \<Rightarrow> amount_meaning option \<Rightarrow> narration option" where
  "told theme actor amount means =
     Some \<lparr>nr_theme = theme, nr_actor = actor, nr_amount = amount, nr_amountMeans = means,
           nr_settlement = None\<rparr>"

definition text_or :: "string option \<Rightarrow> string \<Rightarrow> string" where
  "text_or v d = (case v of None \<Rightarrow> d | Some s \<Rightarrow> s)"

definition narrate :: "activity_item \<Rightarrow> narration option" where
  "narrate item =
     (let f = item_fields item; text = (\<lambda>k. text_of (get_field f k)); event = ai_eventName item in
      if event = ''order_created'' then told Setup TheBuyer None None
      else if event = ''milestone_created'' then told Setup TheBuyer (text ''amount'') None
      else if event = ''order_accepted'' then told Setup TheSupplier None None
      else if event = ''milestone_funded''
      then told BuyerProtection TheBuyer (text ''amount'') (Some ProtectedAmount)
      else if event = ''finance_requested''
      then told WorkingCapital TheSupplier (text ''requested_principal'') None
      else if event = ''funding_offer_created'' then told WorkingCapital TheFunder (text ''principal'') None
      else if event = ''offer_accepted'' then told WorkingCapital TheSupplier (text ''repayment'') None
      else if event = ''advance_funded''
      then told WorkingCapital TheFunder (text ''principal'') (Some AdvancedAmount)
      else if event = ''evidence_submitted'' then told Verification TheSupplier None None
      else if event = ''milestone_verified'' then told Verification TheAttestor None None
      else if event = ''milestone_settled''
      then Some \<lparr>nr_theme = Settling, nr_actor = TheContract, nr_amount = text ''protected_amount'',
                 nr_amountMeans = Some RepaidAmount,
                 nr_settlement = Some \<lparr>sp_funderRepayment = text_or (text ''funder_repayment'') ''0'',
                                       sp_supplierPayout = text_or (text ''supplier_payout'') ''0''\<rparr>\<rparr>
      else if event = ''dispute_opened'' then told Disputing TheBuyer None None
      else if event = ''milestone_refunded''
      then told Disputing TheResolver (text ''refunded_amount'') (Some RefundedAmount)
      else if event = ''dispute_resolved'' then told Disputing TheResolver None None
      else if event = ''order_completed'' then told Settling TheContract None None
      else None)"

definition belongs_to :: "string \<Rightarrow> string list \<Rightarrow> activity_item \<Rightarrow> bool" where
  "belongs_to orderId milestoneIds item \<longleftrightarrow>
     (let f = item_fields item in
      text_of (get_field f ''order_id'') = Some orderId
      \<or> (case text_of (get_field f ''milestone_id'') of
           None \<Rightarrow> False | Some m \<Rightarrow> List.member milestoneIds m))"

definition step_of :: "activity_item \<Rightarrow> narration \<Rightarrow> tour_step" where
  "step_of item n =
     \<lparr>ts_narration = n, ts_id = ai_eventId item, ts_txHash = ai_txHash item, ts_ledger = ai_ledger item,
      ts_at = ai_ledgerClosedAt item\<rparr>"

definition step_for :: "web_order \<Rightarrow> activity_item \<Rightarrow> tour_step option" where
  "step_for order item =
     (if \<not> ai_projected item then None
      else if \<not> belongs_to (wo_orderId order) (map wm_milestoneId (wo_milestones order)) item then None
      else map_option (step_of item) (narrate item))"

definition build_tour :: "web_order \<Rightarrow> activity_item list \<Rightarrow> tour_step list" where
  "build_tour order acts = List.map_filter (step_for order) (rev acts)"

definition order_rank :: "web_order \<Rightarrow> int" where
  "order_rank order =
     (if wo_status order = OS_COMPLETED then 3 else if wo_status order = OS_ACTIVE then 2 else 1)"

definition compare_tour_orders :: "web_order \<Rightarrow> web_order \<Rightarrow> int" where
  "compare_tour_orders left right =
     (let byRank = order_rank right - order_rank left in
      if byRank \<noteq> 0 then byRank
      else if int_of_string (wo_orderId left) < int_of_string (wo_orderId right) then 1 else - 1)"

definition pick_tour_order :: "web_order list \<Rightarrow> web_order option" where
  "pick_tour_order os = (case js_sort compare_tour_orders os of [] \<Rightarrow> None | first # rest \<Rightarrow> Some first)"

definition tour_is_tellable :: "tour_step list \<Rightarrow> bool" where
  "tour_is_tellable steps \<longleftrightarrow>
     list_ex (\<lambda>s. nr_amountMeans (ts_narration s) = Some ProtectedAmount) steps"

section \<open>Money between the parties\<close>

datatype flow_party = BuyerParty | EscrowParty | SupplierParty | FunderParty

datatype pool = ProtectedPool | AdvancePool

record flow_transfer =
  ft_from :: flow_party
  ft_to :: flow_party
  ft_amount :: string
  ft_pool :: pool

record balances =
  bl_escrow :: string
  bl_supplier :: string
  bl_funderExposed :: string
  bl_buyerRefunded :: string

record flow_frame =
  ff_stepId :: string
  ff_transfers :: "flow_transfer list"
  ff_balances :: balances
  ff_active :: "flow_party list"

definition ZERO_BALANCES :: balances where
  "ZERO_BALANCES = \<lparr>bl_escrow = ''0'', bl_supplier = ''0'', bl_funderExposed = ''0'', bl_buyerRefunded = ''0''\<rparr>"

definition big :: "string \<Rightarrow> string + int" where
  "big text = (case js_big_int text of
     None \<Rightarrow> Inl (''Cannot convert '' @ text @ '' to a BigInt'') | Some n \<Rightarrow> Inr n)"

definition add_to :: "string \<Rightarrow> int \<Rightarrow> string + string" where
  "add_to val delta = and_then (big val) (\<lambda>n. Inr (int_to_string (n + delta)))"

definition transfer_of :: "flow_party \<Rightarrow> flow_party \<Rightarrow> string \<Rightarrow> pool \<Rightarrow> flow_transfer" where
  "transfer_of from to amount pl = \<lparr>ft_from = from, ft_to = to, ft_amount = amount, ft_pool = pl\<rparr>"

definition parties_for :: "tour_step \<Rightarrow> flow_party list" where
  "parties_for step =
     (case nr_actor (ts_narration step) of
        TheBuyer \<Rightarrow> [BuyerParty] | TheSupplier \<Rightarrow> [SupplierParty] | TheFunder \<Rightarrow> [FunderParty]
      | _ \<Rightarrow> [EscrowParty])"

definition frame_of ::
  "tour_step \<Rightarrow> flow_transfer list \<Rightarrow> flow_party list \<Rightarrow> balances \<Rightarrow> string + flow_frame" where
  "frame_of step transfers active b =
     Inr \<lparr>ff_stepId = ts_id step, ff_transfers = transfers, ff_balances = b, ff_active = active\<rparr>"

definition payout :: "flow_party \<Rightarrow> int \<Rightarrow> flow_transfer list" where
  "payout to amount =
     (if 0 < amount then [transfer_of EscrowParty to (int_to_string amount) ProtectedPool] else [])"

definition flow_step :: "balances \<Rightarrow> tour_step \<Rightarrow> string + flow_frame" where
  "flow_step b step =
     (let n = ts_narration step; amount = text_or (nr_amount n) ''0'' in
      case nr_amountMeans n of
        Some ProtectedAmount \<Rightarrow>
          and_then (big amount) (\<lambda>a. and_then (add_to (bl_escrow b) a) (\<lambda>e.
            frame_of step [transfer_of BuyerParty EscrowParty amount ProtectedPool] [BuyerParty, EscrowParty]
              (b\<lparr>bl_escrow := e\<rparr>)))
      | Some AdvancedAmount \<Rightarrow>
          and_then (big amount) (\<lambda>a. and_then (add_to (bl_supplier b) a) (\<lambda>s.
          and_then (add_to (bl_funderExposed b) a) (\<lambda>x.
            frame_of step [transfer_of FunderParty SupplierParty amount AdvancePool]
              [FunderParty, SupplierParty] (b\<lparr>bl_supplier := s, bl_funderExposed := x\<rparr>))))
      | Some RepaidAmount \<Rightarrow>
          and_then (big amount) (\<lambda>released.
          and_then (big (case nr_settlement n of None \<Rightarrow> ''0'' | Some sp \<Rightarrow> sp_funderRepayment sp)) (\<lambda>toFunder.
          and_then (big (case nr_settlement n of None \<Rightarrow> ''0'' | Some sp \<Rightarrow> sp_supplierPayout sp)) (\<lambda>toSupplier.
          and_then (add_to (bl_escrow b) (- released)) (\<lambda>e.
          and_then (add_to (bl_supplier b) toSupplier) (\<lambda>s.
            frame_of step (payout FunderParty toFunder @ payout SupplierParty toSupplier)
              [EscrowParty, FunderParty, SupplierParty]
              (b\<lparr>bl_escrow := e, bl_supplier := s, bl_funderExposed := ''0''\<rparr>))))))
      | Some RefundedAmount \<Rightarrow>
          and_then (big amount) (\<lambda>a. and_then (add_to (bl_escrow b) (- a)) (\<lambda>e.
          and_then (add_to (bl_buyerRefunded b) a) (\<lambda>r.
            frame_of step [transfer_of EscrowParty BuyerParty (int_to_string a) ProtectedPool]
              [EscrowParty, BuyerParty] (b\<lparr>bl_escrow := e, bl_buyerRefunded := r\<rparr>))))
      | _ \<Rightarrow> frame_of step [] (parties_for step) b)"

fun flow_from :: "balances \<Rightarrow> tour_step list \<Rightarrow> string + flow_frame list" where
  "flow_from b [] = Inr []"
| "flow_from b (step # steps) =
     and_then (flow_step b step) (\<lambda>frame.
     and_then (flow_from (ff_balances frame) steps) (\<lambda>frames. Inr (frame # frames)))"

definition build_flow :: "tour_step list \<Rightarrow> string + flow_frame list" where
  "build_flow steps = flow_from ZERO_BALANCES steps"

fun flow_values :: "flow_frame list \<Rightarrow> string list" where
  "flow_values [] = []"
| "flow_values (fr # frs) =
     [bl_escrow (ff_balances fr), bl_supplier (ff_balances fr), bl_funderExposed (ff_balances fr),
      bl_buyerRefunded (ff_balances fr)] @ flow_values frs"

definition flow_scale :: "flow_frame list \<Rightarrow> int" where
  "flow_scale frames = fold (\<lambda>v largest. max (int_of_string v) largest) (flow_values frames) 1"

end
