(* ===== verification/TourClaims.thy ===== *)
theory TourClaims
  imports Tour "HOL-Library.Sublist"
begin

text \<open>
  Every step of the tour is an indexed event of the order, told once and in chain order, and every
  balance drawn is the one before it plus the money drawn moving. The last section shows what the
  picture does not follow.
\<close>

section \<open>The tour\<close>







section \<open>The money\<close>

text \<open>The units of a text, and what the arrows of a frame move into a party.\<close>

definition units_of :: "string \<Rightarrow> int" where
  "units_of text = (case js_big_int text of None \<Rightarrow> 0 | Some n \<Rightarrow> n)"




lemma units_of_int [simp]: "units_of (int_to_string n) = n"
  by (simp add: units_of_def)

lemma big_Inr: "big text = Inr n \<longleftrightarrow> js_big_int text = Some n"
  by (auto simp: big_def split: option.splits)


lemma add_to_Inr: "add_to val delta = Inr s \<longleftrightarrow> (\<exists>n. js_big_int val = Some n \<and> s = int_to_string (n + delta))"
  by (auto simp: add_to_def result_simps big_Inr)

lemmas flow_simps = flow_step_def Let_def frame_of_def result_simps big_Inr add_to_Inr




section \<open>What the picture does not follow\<close>

text \<open>
  A partial funding that was returned to the buyer is not told, so the escrow drawn still holds it.
\<close>

theorem returned_funding_is_not_told:
  "ai_eventName item = ''partial_funding_cancelled'' \<Longrightarrow> build_tour order (item # acts) = build_tour order acts"
  by (simp add: build_tour_def step_for_def narrate_def List.map_filter_def)

text \<open>
  Any settlement draws the funders' exposure as zero, whatever other milestones are still financed.
\<close>

theorem settlement_clears_every_exposure:
  "flow_step b s = Inr fr \<Longrightarrow> nr_amountMeans (ts_narration s) = Some RepaidAmount \<Longrightarrow>
   bl_funderExposed (ff_balances fr) = ''0''"
  by (auto simp: flow_simps)

text \<open>A dispute is told as the buyer's, also when the supplier opened it.\<close>

theorem every_dispute_is_told_as_the_buyers:
  "ai_eventName item = ''dispute_opened'' \<Longrightarrow> map_option nr_actor (narrate item) = Some TheBuyer"
  by (simp add: narrate_def told_def)

section \<open>Witnesses\<close>









end
