(* ===== verification/Wallet.thy ===== *)
theory Wallet
  imports Prelude
begin

text \<open>
  The wallet controller of the browser: \<open>apps/web/lib/wallet/controller.ts\<close> over the ports of
  \<open>ports.ts\<close>. Every method runs without interruption up to its next \<open>await\<close>; there the rest of it
  waits as a \<open>task\<close> for the answer of a port, and other calls and answers may come between. The
  state is the fields of the object, with the browser's stored session.
\<close>

section \<open>State\<close>

datatype wallet_phase =
    Disconnected | Connecting | Connected | WrongNetworkPhase | TrustlineRequired | PreparingTransaction
  | SimulationFailed | AwaitingWalletSignature | SubmittedPhase | ConfirmingPhase | ConfirmedPhase | FailedPhase

datatype trustline_status = TrustlinePresent | TrustlineMissing | AccountUnfunded

record chain_order =
  co_id :: string
  co_buyer :: string
  co_supplier :: string
  co_attestor :: string
  co_resolver :: string
  co_asset :: string
  co_status :: string

record wallet_state =
  ws_phase :: wallet_phase
  ws_address :: "string option"
  ws_trustline :: "trustline_status option"
  ws_transactionHash :: "string option"
  ws_order :: "chain_order option"
  ws_message :: "string option"
  ws_detail :: "string option"

record controller =
  wc_state :: wallet_state
  wc_busy :: bool
  wc_syncing :: bool
  wc_session :: "string option"

text \<open>A state patch with nothing but a phase, to be filled in.\<close>

definition phase_only :: "wallet_phase \<Rightarrow> wallet_state" where
  "phase_only p = \<lparr>ws_phase = p, ws_address = None, ws_trustline = None, ws_transactionHash = None,
     ws_order = None, ws_message = None, ws_detail = None\<rparr>"

definition phase_at :: "wallet_phase \<Rightarrow> string \<Rightarrow> wallet_state" where
  "phase_at p address = (phase_only p)\<lparr>ws_address := Some address\<rparr>"

definition initial_controller :: "string option \<Rightarrow> controller" where
  "initial_controller stored =
     \<lparr>wc_state = phase_only Disconnected, wc_busy = False, wc_syncing = False, wc_session = stored\<rparr>"

definition can_sign :: "wallet_state \<Rightarrow> bool" where
  "can_sign s \<longleftrightarrow> ws_address s \<noteq> None \<and> ws_phase s \<noteq> Disconnected \<and> ws_phase s \<noteq> Connecting
     \<and> ws_phase s \<noteq> WrongNetworkPhase"

text \<open>\<open>signRaw\<close>: what the wallet port is asked to sign, and for whom.\<close>

definition sign_raw :: "string \<Rightarrow> wallet_state \<Rightarrow> string + string \<times> string" where
  "sign_raw xdr s =
     (if can_sign s then Inr (xdr, the (ws_address s))
      else Inl (if ws_phase s = WrongNetworkPhase then ''Switch Freighter to Stellar Testnet before signing.''
                else ''Connect your wallet before signing.''))"

definition truthy :: "string option \<Rightarrow> bool" where
  "truthy v \<longleftrightarrow> v \<noteq> None \<and> v \<noteq> Some []"

definition update :: "wallet_state \<Rightarrow> controller \<Rightarrow> controller" where
  "update patch c = c\<lparr>wc_state := patch\<rparr>"

section \<open>Tasks\<close>

text \<open>Who called \<open>inspect\<close>: where it returns to, and who catches its throw.\<close>

datatype inspector = ByConnect | ByRestore | BySync | ByRefresh

datatype task =
    ConnectWallet
  | RestoreWallet
  | DisconnectWallet
  | InspectNetwork string inspector
  | InspectTrustline string inspector
  | SyncAddress
  | SyncNetwork string
  | RefreshAddress
  | OrderAddress string
  | OrderNetwork string
  | OrderPrepare string
  | OrderSign string string
  | OrderSend string string
  | OrderRead string string string

datatype wallet_call = CallConnect | CallRestore | CallDisconnect | CallSync | CallRefresh | CallCreateOrder

text \<open>A method up to its first \<open>await\<close>.\<close>

fun call_method :: "wallet_call \<Rightarrow> controller \<Rightarrow> controller \<times> task list" where
  "call_method CallConnect c =
     (if wc_busy c then (c, [])
      else (update (phase_only Connecting) (c\<lparr>wc_busy := True\<rparr>), [ConnectWallet]))"
| "call_method CallRestore c =
     (if \<not> truthy (wc_session c) \<or> wc_busy c then (c, [])
      else (update (phase_only Connecting) (c\<lparr>wc_busy := True\<rparr>), [RestoreWallet]))"
| "call_method CallDisconnect c = (if wc_busy c then (c, []) else (c, [DisconnectWallet]))"
| "call_method CallSync c =
     (if \<not> truthy (ws_address (wc_state c)) \<or> wc_busy c \<or> wc_syncing c then (c, [])
      else (c\<lparr>wc_syncing := True\<rparr>, [SyncAddress]))"
| "call_method CallRefresh c =
     (if \<not> truthy (ws_address (wc_state c)) \<or> wc_busy c then (c, []) else (c, [RefreshAddress]))"
| "call_method CallCreateOrder c =
     (case ws_address (wc_state c) of
        None \<Rightarrow> (c, [])
      | Some buyer \<Rightarrow> if buyer = [] \<or> wc_busy c then (c, [])
                      else (c\<lparr>wc_busy := True\<rparr>, [OrderAddress buyer]))"

section \<open>Answers\<close>

text \<open>
  The answer a port gives to the call a task waits for; a callback of \<open>send\<close> leaves the task
  waiting. An answer of the wrong kind does not occur and changes nothing.
\<close>

datatype answer =
    TextAnswer string | TrustAnswer trustline_status | PreparedAnswer string | DoneAnswer
  | OrderAnswer chain_order | SubmittedCall string | ConfirmingCall | ThrownAnswer string

definition wrong_network :: "string \<Rightarrow> wallet_state" where
  "wrong_network address = (phase_at WrongNetworkPhase address)
     \<lparr>ws_message := Some ''Switch Freighter to Stellar Testnet.''\<rparr>"

text \<open>The \<open>finally\<close> blocks, and what the callers of \<open>inspect\<close> do when it throws.\<close>

fun inspected :: "inspector \<Rightarrow> controller \<Rightarrow> controller" where
  "inspected ByConnect c = c\<lparr>wc_busy := False\<rparr>"
| "inspected ByRestore c = c\<lparr>wc_busy := False\<rparr>"
| "inspected BySync c = c\<lparr>wc_syncing := False\<rparr>"
| "inspected ByRefresh c = c"

definition could_not_connect :: "string \<Rightarrow> controller \<Rightarrow> controller" where
  "could_not_connect d c = update ((phase_only Disconnected)
     \<lparr>ws_message := Some ''Could not connect Freighter.'', ws_detail := Some d\<rparr>) c"

definition forgotten :: "controller \<Rightarrow> controller" where
  "forgotten c = update (phase_only Disconnected) (c\<lparr>wc_session := None\<rparr>)"

definition could_not_refresh :: "string \<Rightarrow> controller \<Rightarrow> controller" where
  "could_not_refresh d c = update ((wc_state c)\<lparr>ws_phase := FailedPhase,
     ws_message := Some ''Could not refresh wallet status.'', ws_detail := Some d\<rparr>) c"

fun inspect_threw :: "inspector \<Rightarrow> string \<Rightarrow> controller \<Rightarrow> controller" where
  "inspect_threw ByConnect d c = could_not_connect d c"
| "inspect_threw ByRestore d c = forgotten c"
| "inspect_threw BySync d c = c"
| "inspect_threw ByRefresh d c = could_not_refresh d c"

definition previous :: "string \<Rightarrow> wallet_state \<Rightarrow> wallet_state \<Rightarrow> wallet_state" where
  "previous address old patch =
     (if ws_address old = Some address
      then patch\<lparr>ws_transactionHash := (if truthy (ws_transactionHash old) then ws_transactionHash old else None),
                 ws_order := ws_order old\<rparr>
      else patch)"

definition trustline_known :: "string \<Rightarrow> trustline_status \<Rightarrow> controller \<Rightarrow> controller" where
  "trustline_known address t c =
     update (previous address (wc_state c)
       ((phase_at (if t = TrustlinePresent then Connected else TrustlineRequired) address)
         \<lparr>ws_trustline := Some t\<rparr>)) c"

definition trustline_unknown :: "string \<Rightarrow> string \<Rightarrow> controller \<Rightarrow> controller" where
  "trustline_unknown address d c =
     update ((phase_at Connected address)
       \<lparr>ws_message := Some ''Could not check the USDC trustline. Retry with Refresh wallet status.'',
        ws_detail := Some d\<rparr>) c"

definition order_failed :: "string \<Rightarrow> string \<Rightarrow> string \<Rightarrow> controller \<Rightarrow> controller" where
  "order_failed buyer msg d c =
     update ((phase_at FailedPhase buyer)\<lparr>ws_message := Some msg, ws_detail := Some d\<rparr>) (c\<lparr>wc_busy := False\<rparr>)"

text \<open>The outer \<open>catch\<close> of \<open>createOrder\<close>.\<close>

definition order_threw :: "string \<Rightarrow> controller \<Rightarrow> controller" where
  "order_threw d c =
     update ((wc_state c)\<lparr>ws_phase := FailedPhase,
       ws_message := Some ''Transaction submission, confirmation, or contract refresh failed.'',
       ws_detail := Some d\<rparr>) (c\<lparr>wc_busy := False\<rparr>)"

fun at_connect_wallet :: "string \<Rightarrow> answer \<Rightarrow> controller \<Rightarrow> controller \<times> task list" where
  "at_connect_wallet testnet (TextAnswer address) c =
     (c\<lparr>wc_session := Some address\<rparr>, [InspectNetwork address ByConnect])"
| "at_connect_wallet testnet (ThrownAnswer d) c = (inspected ByConnect (inspect_threw ByConnect d c), [])"
| "at_connect_wallet testnet a c = (c, [ConnectWallet])"

fun at_restore_wallet :: "string \<Rightarrow> answer \<Rightarrow> controller \<Rightarrow> controller \<times> task list" where
  "at_restore_wallet testnet (TextAnswer address) c =
     (c\<lparr>wc_session := Some address\<rparr>, [InspectNetwork address ByRestore])"
| "at_restore_wallet testnet (ThrownAnswer d) c = (inspected ByRestore (inspect_threw ByRestore d c), [])"
| "at_restore_wallet testnet a c = (c, [RestoreWallet])"

fun at_disconnect_wallet :: "string \<Rightarrow> answer \<Rightarrow> controller \<Rightarrow> controller \<times> task list" where
  "at_disconnect_wallet testnet DoneAnswer c = (forgotten c, [])"
| "at_disconnect_wallet testnet (ThrownAnswer d) c = (c, [])"
| "at_disconnect_wallet testnet a c = (c, [DisconnectWallet])"

fun at_inspect_network :: "string \<Rightarrow> string \<Rightarrow> inspector \<Rightarrow> answer \<Rightarrow> controller \<Rightarrow> controller \<times> task list" where
  "at_inspect_network testnet address by (TextAnswer passphrase) c =
     (if passphrase \<noteq> testnet then (inspected by (update (wrong_network address) c), [])
      else (c, [InspectTrustline address by]))"
| "at_inspect_network testnet address by (ThrownAnswer d) c = (inspected by (inspect_threw by d c), [])"
| "at_inspect_network testnet address by a c = (c, [InspectNetwork address by])"

fun at_inspect_trustline :: "string \<Rightarrow> string \<Rightarrow> inspector \<Rightarrow> answer \<Rightarrow> controller \<Rightarrow> controller \<times> task list" where
  "at_inspect_trustline testnet address by (TrustAnswer t) c =
     (inspected by (trustline_known address t c), [])"
| "at_inspect_trustline testnet address by (ThrownAnswer d) c =
     (inspected by (trustline_unknown address d c), [])"
| "at_inspect_trustline testnet address by a c = (c, [InspectTrustline address by])"

fun at_sync_address :: "string \<Rightarrow> answer \<Rightarrow> controller \<Rightarrow> controller \<times> task list" where
  "at_sync_address testnet (TextAnswer address) c =
     (if Some address \<noteq> ws_address (wc_state c)
      then (c\<lparr>wc_session := Some address\<rparr>, [InspectNetwork address BySync])
      else (c, [SyncNetwork address]))"
| "at_sync_address testnet (ThrownAnswer d) c = (c\<lparr>wc_syncing := False\<rparr>, [])"
| "at_sync_address testnet a c = (c, [SyncAddress])"

fun at_sync_network :: "string \<Rightarrow> string \<Rightarrow> answer \<Rightarrow> controller \<Rightarrow> controller \<times> task list" where
  "at_sync_network testnet address (TextAnswer passphrase) c =
     (if passphrase \<noteq> testnet \<and> ws_phase (wc_state c) \<noteq> WrongNetworkPhase
      then (update (wrong_network address) (c\<lparr>wc_syncing := False\<rparr>), [])
      else if passphrase = testnet \<and> ws_phase (wc_state c) = WrongNetworkPhase
      then (c, [InspectNetwork address BySync])
      else (c\<lparr>wc_syncing := False\<rparr>, []))"
| "at_sync_network testnet address (ThrownAnswer d) c = (c\<lparr>wc_syncing := False\<rparr>, [])"
| "at_sync_network testnet address a c = (c, [SyncNetwork address])"

fun at_refresh_address :: "string \<Rightarrow> answer \<Rightarrow> controller \<Rightarrow> controller \<times> task list" where
  "at_refresh_address testnet (TextAnswer address) c =
     ((if Some address \<noteq> ws_address (wc_state c) then c\<lparr>wc_session := Some address\<rparr> else c),
      [InspectNetwork address ByRefresh])"
| "at_refresh_address testnet (ThrownAnswer d) c = (could_not_refresh d c, [])"
| "at_refresh_address testnet a c = (c, [RefreshAddress])"

fun at_order_address :: "string \<Rightarrow> string \<Rightarrow> answer \<Rightarrow> controller \<Rightarrow> controller \<times> task list" where
  "at_order_address testnet buyer (TextAnswer address) c =
     (if buyer \<noteq> address
      then (update ((phase_at FailedPhase buyer)\<lparr>ws_message := Some ''Wallet account changed. Refresh.''\<rparr>)
              (c\<lparr>wc_busy := False\<rparr>), [])
      else (c, [OrderNetwork buyer]))"
| "at_order_address testnet buyer (ThrownAnswer d) c = (order_threw d c, [])"
| "at_order_address testnet buyer a c = (c, [OrderAddress buyer])"

fun at_order_network :: "string \<Rightarrow> string \<Rightarrow> answer \<Rightarrow> controller \<Rightarrow> controller \<times> task list" where
  "at_order_network testnet buyer (TextAnswer passphrase) c =
     (if passphrase \<noteq> testnet then (update (wrong_network buyer) (c\<lparr>wc_busy := False\<rparr>), [])
      else (update (phase_at PreparingTransaction buyer) c, [OrderPrepare buyer]))"
| "at_order_network testnet buyer (ThrownAnswer d) c = (order_threw d c, [])"
| "at_order_network testnet buyer a c = (c, [OrderNetwork buyer])"

fun at_order_prepare :: "string \<Rightarrow> string \<Rightarrow> answer \<Rightarrow> controller \<Rightarrow> controller \<times> task list" where
  "at_order_prepare testnet buyer (PreparedAnswer orderId) c =
     (update (phase_at AwaitingWalletSignature buyer) c, [OrderSign buyer orderId])"
| "at_order_prepare testnet buyer (ThrownAnswer d) c =
     (update ((phase_at SimulationFailed buyer)
        \<lparr>ws_message := Some ''Contract simulation failed. Check account funding and party addresses.'',
         ws_detail := Some d\<rparr>) (c\<lparr>wc_busy := False\<rparr>), [])"
| "at_order_prepare testnet buyer a c = (c, [OrderPrepare buyer])"

fun at_order_sign :: "string \<Rightarrow> string \<Rightarrow> string \<Rightarrow> answer \<Rightarrow> controller \<Rightarrow> controller \<times> task list" where
  "at_order_sign testnet buyer orderId DoneAnswer c = (c, [OrderSend buyer orderId])"
| "at_order_sign testnet buyer orderId (ThrownAnswer d) c =
     (order_failed buyer ''Wallet signature was rejected or failed. No transaction was submitted.'' d c, [])"
| "at_order_sign testnet buyer orderId a c = (c, [OrderSign buyer orderId])"

fun at_order_send :: "string \<Rightarrow> string \<Rightarrow> string \<Rightarrow> answer \<Rightarrow> controller \<Rightarrow> controller \<times> task list" where
  "at_order_send testnet buyer orderId (SubmittedCall hash) c =
     (update ((phase_at SubmittedPhase buyer)\<lparr>ws_transactionHash := Some hash\<rparr>) c, [OrderSend buyer orderId])"
| "at_order_send testnet buyer orderId ConfirmingCall c =
     (update ((wc_state c)\<lparr>ws_phase := ConfirmingPhase\<rparr>) c, [OrderSend buyer orderId])"
| "at_order_send testnet buyer orderId (TextAnswer hash) c =
     (update ((phase_at ConfirmingPhase buyer)\<lparr>ws_transactionHash := Some hash\<rparr>) c,
      [OrderRead buyer orderId hash])"
| "at_order_send testnet buyer orderId (ThrownAnswer d) c = (order_threw d c, [])"
| "at_order_send testnet buyer orderId a c = (c, [OrderSend buyer orderId])"

fun at_order_read :: "string \<Rightarrow> string \<Rightarrow> string \<Rightarrow> string \<Rightarrow> answer \<Rightarrow> controller \<Rightarrow> controller \<times> task list" where
  "at_order_read testnet buyer orderId hash (OrderAnswer order) c =
     (if co_buyer order \<noteq> buyer \<or> co_id order \<noteq> orderId
      then (order_threw ''Confirmed order does not match the connected buyer.'' c, [])
      else (update ((phase_at ConfirmedPhase buyer)\<lparr>ws_transactionHash := Some hash, ws_order := Some order\<rparr>)
              (c\<lparr>wc_busy := False\<rparr>), []))"
| "at_order_read testnet buyer orderId hash (ThrownAnswer d) c = (order_threw d c, [])"
| "at_order_read testnet buyer orderId hash a c = (c, [OrderRead buyer orderId hash])"

fun resume :: "string \<Rightarrow> task \<Rightarrow> answer \<Rightarrow> controller \<Rightarrow> controller \<times> task list" where
  "resume testnet ConnectWallet a c = at_connect_wallet testnet a c"
| "resume testnet RestoreWallet a c = at_restore_wallet testnet a c"
| "resume testnet DisconnectWallet a c = at_disconnect_wallet testnet a c"
| "resume testnet (InspectNetwork address by) a c = at_inspect_network testnet address by a c"
| "resume testnet (InspectTrustline address by) a c = at_inspect_trustline testnet address by a c"
| "resume testnet SyncAddress a c = at_sync_address testnet a c"
| "resume testnet (SyncNetwork address) a c = at_sync_network testnet address a c"
| "resume testnet RefreshAddress a c = at_refresh_address testnet a c"
| "resume testnet (OrderAddress buyer) a c = at_order_address testnet buyer a c"
| "resume testnet (OrderNetwork buyer) a c = at_order_network testnet buyer a c"
| "resume testnet (OrderPrepare buyer) a c = at_order_prepare testnet buyer a c"
| "resume testnet (OrderSign buyer orderId) a c = at_order_sign testnet buyer orderId a c"
| "resume testnet (OrderSend buyer orderId) a c = at_order_send testnet buyer orderId a c"
| "resume testnet (OrderRead buyer orderId hash) a c = at_order_read testnet buyer orderId hash a c"

section \<open>Runs\<close>

text \<open>A call is made, or a waiting task gets its answer, in any order.\<close>

inductive wallet_step :: "string \<Rightarrow> controller \<times> task list \<Rightarrow> controller \<times> task list \<Rightarrow> bool"
  for testnet :: string where
  called: "call_method m c = (c', new) \<Longrightarrow> wallet_step testnet (c, ts) (c', ts @ new)"
| answered: "resume testnet t a c = (c', new) \<Longrightarrow>
     wallet_step testnet (c, ts @ t # us) (c', ts @ new @ us)"

definition wallet_reaches :: "string \<Rightarrow> string option \<Rightarrow> controller \<times> task list \<Rightarrow> bool" where
  "wallet_reaches testnet stored x \<longleftrightarrow> (wallet_step testnet)\<^sup>*\<^sup>* (initial_controller stored, []) x"

end
