(* ===== verification/WalletPorts.thy ===== *)
theory WalletPorts
  imports Wallet UsdcAmounts LocalPayments
begin

text \<open>
  What stands behind the ports of the wallet controller: \<open>lib/wallet/freighter.ts\<close> (signing),
  \<open>trustline.ts\<close> and \<open>balance.ts\<close> (what Horizon says an account holds) and \<open>contract.ts\<close> (preparing,
  sending and reading an order). The extension, Horizon and the generated client answer from outside:
  their answers are arguments, a thrown error being its message. The deployment's passphrase and issuer
  are arguments too.
\<close>

section \<open>Freighter\<close>

text \<open>The answers of the kit while one transaction is signed, in the order it is asked.\<close>

record signed_reply =
  sr_signerAddress :: "string option"
  sr_signedTxXdr :: string

record kit_session =
  kit_loaded :: "string + unit"
  kit_network :: "string + string"
  kit_address :: "string + string"
  kit_sign :: "string \<Rightarrow> string \<Rightarrow> string \<Rightarrow> string + signed_reply"

text \<open>The checks made before the person is asked, and the answer after.\<close>

definition may_ask :: "string \<Rightarrow> kit_session \<Rightarrow> string \<Rightarrow> string + unit" where
  "may_ask testnet k address =
     and_then (kit_loaded k) (\<lambda>_.
     and_then (kit_network k) (\<lambda>passphrase.
     and_then (throw_if (passphrase \<noteq> testnet) ''Switch Freighter to Stellar Testnet before signing.'') (\<lambda>_.
     and_then (kit_address k) (\<lambda>selected.
     throw_if (selected \<noteq> address)
       ''Freighter account changed before signing. Reconnect and try again.''))))"

definition sign_transaction :: "string \<Rightarrow> kit_session \<Rightarrow> string \<Rightarrow> string \<Rightarrow> string + string" where
  "sign_transaction testnet k xdr address =
     and_then (may_ask testnet k address) (\<lambda>_.
     and_then (kit_sign k xdr address testnet) (\<lambda>reply.
     and_then (throw_if (truthy (sr_signerAddress reply) \<and> sr_signerAddress reply \<noteq> Some address)
       ''Freighter signed with a different account. Reconnect and try again.'') (\<lambda>_.
     and_then (throw_if (sr_signedTxXdr reply = []) ''Freighter did not return a signed transaction.'') (\<lambda>_.
     Inr (sr_signedTxXdr reply)))))"

text \<open>\<open>signRaw\<close> of the controller, on this port.\<close>

definition sign_with_freighter :: "string \<Rightarrow> kit_session \<Rightarrow> string \<Rightarrow> wallet_state \<Rightarrow> string + string" where
  "sign_with_freighter testnet k xdr s =
     and_then (sign_raw xdr s) (\<lambda>(x, address). sign_transaction testnet k x address)"

section \<open>Horizon\<close>

record horizon_balance =
  hb_asset_type :: string
  hb_asset_code :: "string option"
  hb_asset_issuer :: "string option"
  hb_balance :: "string option"

text \<open>
  A response: its status, and what reading the body gives: an error, or the account's balances when
  they are an array.
\<close>

datatype horizon_reply = HorizonReply nat "string + horizon_balance list option"

definition is_usdc_line :: "string \<Rightarrow> horizon_balance \<Rightarrow> bool" where
  "is_usdc_line issuer b \<longleftrightarrow> hb_asset_type b = ''credit_alphanum4''
     \<and> hb_asset_code b = Some ''USDC'' \<and> hb_asset_issuer b = Some issuer"

definition usdc_trustline_status :: "string \<Rightarrow> horizon_balance list \<Rightarrow> trustline_status" where
  "usdc_trustline_status issuer balances =
     (if list_ex (is_usdc_line issuer) balances then TrustlinePresent else TrustlineMissing)"

fun check_trustline :: "string \<Rightarrow> horizon_reply \<Rightarrow> string + trustline_status" where
  "check_trustline issuer (HorizonReply status body) =
     (if status = 404 then Inr AccountUnfunded
      else if status < 200 \<or> 299 < status
      then Inl (''Could not check the Stellar account ('' @ nat_to_string status @ '').'')
      else and_then body (\<lambda>balances. case balances of
             None \<Rightarrow> Inl ''Invalid account response from Horizon.''
           | Some bs \<Rightarrow> Inr (usdc_trustline_status issuer bs)))"

datatype usdc_holding = Unfunded | NoTrustline | Holds int

text \<open>\<open>/^0+(\.0+)?$/\<close>\<close>

definition is_zero :: "char \<Rightarrow> bool" where
  "is_zero c \<longleftrightarrow> c = CHR ''0''"

definition is_zero_text :: "string \<Rightarrow> bool" where
  "is_zero_text s \<longleftrightarrow> (let rest = dropWhile is_zero s in
     takeWhile is_zero s \<noteq> []
     \<and> (rest = [] \<or> hd rest = CHR ''.'' \<and> tl rest \<noteq> [] \<and> list_all is_zero (tl rest)))"

definition horizon_balance_to_units :: "string \<Rightarrow> string + int" where
  "horizon_balance_to_units balance =
     (if is_zero_text balance then Inr 0
      else case parse_usdc_input balance of
             Inl e \<Rightarrow> Inl (''Unrecognised balance from Horizon: '' @ balance)
           | Inr units \<Rightarrow> Inr units)"

definition usdc_holding_of :: "string \<Rightarrow> horizon_balance list \<Rightarrow> string + usdc_holding" where
  "usdc_holding_of issuer balances =
     (case List.find (is_usdc_line issuer) balances of
        None \<Rightarrow> Inr NoTrustline
      | Some line \<Rightarrow> (case hb_balance line of
          None \<Rightarrow> Inr NoTrustline
        | Some balance \<Rightarrow> and_then (horizon_balance_to_units balance) (\<lambda>units. Inr (Holds units))))"

fun read_usdc_holding :: "string \<Rightarrow> horizon_reply \<Rightarrow> string + usdc_holding" where
  "read_usdc_holding issuer (HorizonReply status body) =
     (if status = 404 then Inr Unfunded
      else if status < 200 \<or> 299 < status
      then Inl (''Could not read the Stellar account ('' @ nat_to_string status @ '').'')
      else and_then body (\<lambda>balances. case balances of
             None \<Rightarrow> Inl ''Invalid account response.''
           | Some bs \<Rightarrow> usdc_holding_of issuer bs))"

section \<open>The contract port\<close>

record create_order_input =
  ci_supplier :: string
  ci_attestor :: string
  ci_resolver :: string

definition validate_parties :: "(string \<Rightarrow> bool) \<Rightarrow> string \<Rightarrow> create_order_input \<Rightarrow> string + unit" where
  "validate_parties is_key buyer input =
     (let parties = [buyer, ci_supplier input, ci_attestor input, ci_resolver input] in
      and_then (throw_if (list_ex (\<lambda>address. \<not> is_key address) parties)
        ''Each party must have a valid classic Stellar public address (G...).'') (\<lambda>_.
      throw_if (card (set parties) \<noteq> length parties)
        ''Buyer, supplier, attestor, and resolver must have different addresses.''))"

text \<open>\<open>prepareCreateOrder\<close>: the simulation throws, is an error of the contract, or gives the new id.\<close>

definition prepare_create_order ::
  "(string \<Rightarrow> bool) \<Rightarrow> (string \<Rightarrow> create_order_input \<Rightarrow> string + string + int) \<Rightarrow>
   string \<Rightarrow> create_order_input \<Rightarrow> string + string" where
  "prepare_create_order is_key simulate buyer input =
     and_then (validate_parties is_key buyer input) (\<lambda>_.
     and_then (simulate buyer input) (\<lambda>result. case result of
       Inl message \<Rightarrow> Inl message
     | Inr order_id \<Rightarrow> Inr (int_to_string order_id)))"

text \<open>What \<open>send\<close> makes of the final response: its status and hash, if there is one.\<close>

definition sent_hash :: "(string \<times> string) option \<Rightarrow> string + string" where
  "sent_hash response =
     (case response of
        None \<Rightarrow> Inl ''Transaction was not confirmed successfully (unknown).''
      | Some (status, tx_hash) \<Rightarrow>
          if status \<noteq> ''SUCCESS''
          then Inl (''Transaction was not confirmed successfully ('' @ status @ '').'')
          else Inr tx_hash)"

record contract_order =
  on_id :: int
  on_buyer :: string
  on_supplier :: string
  on_attestor :: string
  on_resolver :: string
  on_asset :: string
  on_status :: string

definition chain_order_of :: "contract_order \<Rightarrow> chain_order" where
  "chain_order_of o' = \<lparr>co_id = int_to_string (on_id o'), co_buyer = on_buyer o',
     co_supplier = on_supplier o', co_attestor = on_attestor o', co_resolver = on_resolver o',
     co_asset = on_asset o', co_status = on_status o'\<rparr>"

definition read_chain_order ::
  "(int \<Rightarrow> string + string + contract_order) \<Rightarrow> string \<Rightarrow> string + chain_order" where
  "read_chain_order get_order order_id =
     (case js_big_int order_id of
        None \<Rightarrow> Inl (''Cannot convert '' @ order_id @ '' to a BigInt'')
      | Some i \<Rightarrow> and_then (get_order i) (\<lambda>result. case result of
            Inl message \<Rightarrow> Inl message
          | Inr o' \<Rightarrow> Inr (chain_order_of o')))"

section \<open>What they guarantee\<close>

lemma signed_as_asked:
  "sign_transaction testnet k xdr address = Inr signature \<Longrightarrow>
   kit_network k = Inr testnet \<and> kit_address k = Inr address \<and> signature \<noteq> []
   \<and> (\<exists>reply. kit_sign k xdr address testnet = Inr reply \<and> sr_signedTxXdr reply = signature
        \<and> (sr_signerAddress reply \<in> {None, Some [], Some address}))"
  by (auto simp: sign_transaction_def may_ask_def result_simps truthy_def)

lemma sign_raw_Inr: "sign_raw xdr s = Inr (x, address) \<longleftrightarrow>
    can_sign s \<and> x = xdr \<and> ws_address s = Some address"
  by (auto simp: sign_raw_def can_sign_def)

lemma signs_for_the_state:
  "sign_with_freighter testnet k xdr s = Inr signature \<Longrightarrow>
   can_sign s \<and> (\<exists>address. ws_address s = Some address \<and> sign_transaction testnet k xdr address = Inr signature)"
  unfolding sign_with_freighter_def and_then_Inr by (auto simp: sign_raw_Inr)

text \<open>The answer does not depend on the signature function unless the checks before it pass.\<close>

lemma not_asked:
  "may_ask testnet k address = Inl e \<Longrightarrow> sign_transaction testnet k xdr address = Inl e"
  by (simp add: sign_transaction_def)

lemma prepared_parties:
  assumes "prepare_create_order is_key simulate buyer input = Inr order_id"
  shows "distinct [buyer, ci_supplier input, ci_attestor input, ci_resolver input]
    \<and> is_key buyer \<and> is_key (ci_supplier input) \<and> is_key (ci_attestor input) \<and> is_key (ci_resolver input)"
proof -
  have "validate_parties is_key buyer input = Inr ()"
    using assms by (auto simp: prepare_create_order_def result_simps)
  then show ?thesis
    unfolding validate_parties_def Let_def and_then_Inr throw_if_Inr
    using card_distinct by fastforce
qed

section \<open>Balances as Horizon writes them\<close>

text \<open>A balance of \<open>u\<close> units: the whole part, a point, seven digits.\<close>

lemma parse_fraction:
  assumes "list_all is_digit w" "w \<noteq> []" "list_all is_digit f" "length f = USDC_DECIMALS"
    and "0 < nat_of_digits (w @ f)" and "int (nat_of_digits (w @ f)) \<le> MAX_I128"
  shows "parse_usdc_input (w @ CHR ''.'' # f) = Inr (int (nat_of_digits (w @ f)))"
proof -
  have "f \<noteq> []" using assms(4) by (auto simp: USDC_DECIMALS_def)
  moreover have "pad_end USDC_DECIMALS (CHR ''0'') f = f" using assms(4) by (simp add: pad_end_def)
  moreover have "int (nat_of_digits w) * SCALE + int (nat_of_digits f) = int (nat_of_digits (w @ f))"
    using assms(4) by (simp add: nat_of_digits_append SCALE_def)
  ultimately show ?thesis
    using assms unfolding parse_usdc_input_def trim_amount [OF assms(1-3) \<open>f \<noteq> []\<close>] Let_def
      match_amount_parts [OF assms(1-3) \<open>f \<noteq> []\<close>]
    by (simp add: option.case)
qed

lemma digit_zero: "is_digit c \<Longrightarrow> digit_val c = 0 \<longleftrightarrow> is_zero c"
proof -
  have "code (CHR ''0'') = 48" by (simp add: code_def)
  moreover have "code c = code (CHR ''0'') \<longleftrightarrow> c = CHR ''0''" unfolding code_def by (rule of_char_eq_iff)
  ultimately show "is_digit c \<Longrightarrow> digit_val c = 0 \<longleftrightarrow> is_zero c"
    by (auto simp: is_digit_def digit_val_def is_zero_def)
qed

lemma zero_digits:
  "list_all is_digit s \<Longrightarrow> nat_of_digits s = 0 \<longleftrightarrow> list_all is_zero s"
  by (induction s rule: rev_induct) (simp_all add: digit_zero)

lemma zero_text_digits:
  assumes "list_all is_digit w" "w \<noteq> []" "list_all is_digit f" "f \<noteq> []"
  shows "is_zero_text (w @ CHR ''.'' # f) \<longleftrightarrow> list_all is_zero (w @ f)"
proof (cases "list_all is_zero w")
  case True
  then have "takeWhile is_zero (w @ CHR ''.'' # f) = w" "dropWhile is_zero (w @ CHR ''.'' # f) = CHR ''.'' # f"
    using takeWhile_append2 [of w is_zero "CHR ''.'' # f"] dropWhile_append2 [of w is_zero "CHR ''.'' # f"]
    by (simp_all add: list_all_iff is_zero_def)
  with True assms(2,4) show ?thesis by (simp add: is_zero_text_def Let_def)
next
  case False
  then obtain z c s where w: "w = z @ c # s" "\<not> is_zero c" "\<forall>y \<in> set z. \<not> \<not> is_zero y"
    using split_list_first_prop [of w "\<lambda>c. \<not> is_zero c"] by (auto simp: list_all_iff)
  then have "dropWhile is_zero (w @ CHR ''.'' # f) = c # s @ CHR ''.'' # f"
    using dropWhile_append2 [of z is_zero "c # s @ CHR ''.'' # f"] by (simp add: list_all_iff)
  moreover have "c \<noteq> CHR ''.''" using assms(1) w(1) by auto
  ultimately show ?thesis using False by (simp add: is_zero_text_def Let_def)
qed

lemma horizon_text_exact:
  assumes "0 \<le> u" and "u \<le> MAX_I128"
  shows "horizon_balance_to_units (to_fixed7 u) = Inr u"
proof -
  let ?d = "pad_start 8 (CHR ''0'') (nat_to_string (nat u))"
  let ?w = "take (length ?d - 7) ?d" and ?f = "drop (length ?d - 7) ?d"
  have digits: "list_all is_digit ?d" by (simp add: digits_pad)
  have parts: "list_all is_digit ?w" "list_all is_digit ?f"
    using digits by (auto simp: list_all_iff dest: in_set_takeD in_set_dropD)
  have len: "8 \<le> length ?d" by simp
  then have "?d \<noteq> []" by fastforce
  with len have nonempty: "?w \<noteq> []" "?f \<noteq> []" by (simp_all del: length_pad_start)
  have seven: "length ?f = USDC_DECIMALS" by (simp add: USDC_DECIMALS_def)
  have units: "int (nat_of_digits (?w @ ?f)) = u"
    using assms(1) by (simp add: nat_of_digits_pad_start)
  have written: "to_fixed7 u = ?w @ CHR ''.'' # ?f"
    using assms(1) by (simp add: to_fixed7_def from_base_units_def Let_def)
  show ?thesis
  proof (cases "u = 0")
    case True
    then have "nat_of_digits (?w @ ?f) = 0" using units by linarith
    then have "list_all is_zero (?w @ ?f)" using zero_digits [of "?w @ ?f"] digits by simp
    then show ?thesis unfolding written horizon_balance_to_units_def
      using zero_text_digits [OF parts(1) nonempty(1) parts(2) nonempty(2)] True by simp
  next
    case False
    then have pos: "0 < nat_of_digits (?w @ ?f)" using units assms(1) by linarith
    then have "\<not> is_zero_text (?w @ CHR ''.'' # ?f)"
      using zero_text_digits [OF parts(1) nonempty(1) parts(2) nonempty(2)] zero_digits [of "?w @ ?f"] digits
      by simp
    moreover have "parse_usdc_input (?w @ CHR ''.'' # ?f) = Inr u"
      using parse_fraction [OF parts(1) nonempty(1) parts(2) seven pos] assms(2) units by simp
    ultimately show ?thesis unfolding written horizon_balance_to_units_def by simp
  qed
qed

text \<open>The trustline check and the holding read the same lines of the same account.\<close>

lemma holding_agrees:
  assumes "\<forall>b \<in> set balances. hb_balance b \<noteq> None" and "usdc_holding_of issuer balances = Inr h"
  shows "h = NoTrustline \<longleftrightarrow> usdc_trustline_status issuer balances = TrustlineMissing"
proof (cases "List.find (is_usdc_line issuer) balances")
  case None
  then have "\<not> list_ex (is_usdc_line issuer) balances" by (simp add: find_None_iff list_ex_iff)
  with None assms(2) show ?thesis by (simp add: usdc_holding_of_def usdc_trustline_status_def)
next
  case (Some line)
  then have "line \<in> set balances" "is_usdc_line issuer line" using find_Some_in by fastforce+
  with Some assms show ?thesis
    by (auto simp: usdc_holding_of_def usdc_trustline_status_def list_ex_iff result_simps)
qed

end
