(* ===== verification/WalletClaims.thy ===== *)
theory WalletClaims
  imports WalletPorts
begin

text \<open>
  In every interleaving of the controller's methods and the answers they wait for, the two locks
  are held exactly by the operations in flight, a failing port always releases them, and an order
  is shown as confirmed only to the buyer who owns it. Two races are shown after it. The last
  sections are about signing and about what Horizon says an account holds.
\<close>

section \<open>The locks\<close>

fun busy_inspector :: "inspector \<Rightarrow> bool" where
  "busy_inspector ByConnect = True"
| "busy_inspector ByRestore = True"
| "busy_inspector BySync = False"
| "busy_inspector ByRefresh = False"

fun busy_task :: "task \<Rightarrow> bool" where
  "busy_task (InspectNetwork a by) = busy_inspector by"
| "busy_task (InspectTrustline a by) = busy_inspector by"
| "busy_task DisconnectWallet = False"
| "busy_task SyncAddress = False"
| "busy_task (SyncNetwork a) = False"
| "busy_task RefreshAddress = False"
| "busy_task t = True"

fun sync_task :: "task \<Rightarrow> bool" where
  "sync_task (InspectNetwork a by) = (by = BySync)"
| "sync_task (InspectTrustline a by) = (by = BySync)"
| "sync_task SyncAddress = True"
| "sync_task (SyncNetwork a) = True"
| "sync_task t = False"

definition held :: "bool \<Rightarrow> nat" where
  "held b = (if b then 1 else 0)"

definition holders :: "(task \<Rightarrow> bool) \<Rightarrow> task list \<Rightarrow> nat" where
  "holders P ts = length (filter P ts)"

lemma holders_simps [simp]:
  "holders P [] = 0" "holders P (t # ts) = held (P t) + holders P ts"
  "holders P (ts @ us) = holders P ts + holders P us"
  by (simp_all add: holders_def held_def)

lemma held_simps [simp]: "held True = 1" "held False = 0" "held b \<le> 1"
  by (simp_all add: held_def)

lemma held_inject [simp]: "held a = held b \<longleftrightarrow> a = b"
  by (simp add: held_def)

lemma inspected_locks [simp]:
  "wc_busy (inspected by c) = (wc_busy c \<and> \<not> busy_inspector by)"
  "wc_syncing (inspected by c) = (wc_syncing c \<and> by \<noteq> BySync)"
  "wc_state (inspected by c) = wc_state c"
  by (cases "by"; simp)+

lemma update_simps [simp]:
  "wc_busy (update p c) = wc_busy c" "wc_syncing (update p c) = wc_syncing c" "wc_state (update p c) = p"
  by (simp_all add: update_def)

lemma inspect_threw_locks [simp]:
  "wc_busy (inspect_threw by d c) = wc_busy c" "wc_syncing (inspect_threw by d c) = wc_syncing c"
  by (cases "by"; simp add: forgotten_def could_not_connect_def could_not_refresh_def)+

lemma frames [simp]:
  "wc_busy (could_not_connect d c) = wc_busy c" "wc_syncing (could_not_connect d c) = wc_syncing c"
  "wc_busy (forgotten c) = wc_busy c" "wc_syncing (forgotten c) = wc_syncing c"
  "wc_busy (could_not_refresh d c) = wc_busy c" "wc_syncing (could_not_refresh d c) = wc_syncing c"
  "wc_busy (trustline_known a t c) = wc_busy c" "wc_syncing (trustline_known a t c) = wc_syncing c"
  "wc_busy (trustline_unknown a d c) = wc_busy c" "wc_syncing (trustline_unknown a d c) = wc_syncing c"
  "wc_busy (order_failed a m d c) = False" "wc_syncing (order_failed a m d c) = wc_syncing c"
  "wc_busy (order_threw d c) = False" "wc_syncing (order_threw d c) = wc_syncing c"
  by (simp_all add: forgotten_def could_not_connect_def could_not_refresh_def trustline_known_def
      trustline_unknown_def order_failed_def order_threw_def)

text \<open>One answer: a lock its task holds is passed on or released, the others are left alone.\<close>

definition follows :: "(task \<Rightarrow> bool) \<Rightarrow> bool \<Rightarrow> bool \<Rightarrow> task \<Rightarrow> task list \<Rightarrow> bool" where
  "follows P before after t new \<longleftrightarrow>
     (if P t then before \<longrightarrow> holders P new = held after else after = before \<and> holders P new = 0)"

definition locks_follow :: "task \<Rightarrow> controller \<Rightarrow> controller \<times> task list \<Rightarrow> bool" where
  "locks_follow t c r \<longleftrightarrow> follows busy_task (wc_busy c) (wc_busy (fst r)) t (snd r)
     \<and> follows sync_task (wc_syncing c) (wc_syncing (fst r)) t (snd r)"

lemmas locks = locks_follow_def follows_def

lemma inspect_network_locks:
  "locks_follow (InspectNetwork address ip) c (at_inspect_network testnet address ip a c)"
  by (cases a; cases ip) (simp_all add: locks)

lemma inspect_trustline_locks:
  "locks_follow (InspectTrustline address ip) c (at_inspect_trustline testnet address ip a c)"
  by (cases a; cases ip) (simp_all add: locks)

lemma connection_locks:
  "locks_follow ConnectWallet c (at_connect_wallet testnet a c)"
  "locks_follow RestoreWallet c (at_restore_wallet testnet a c)"
  "locks_follow DisconnectWallet c (at_disconnect_wallet testnet a c)"
  by (cases a; simp add: locks)+

lemma sync_locks:
  "locks_follow SyncAddress c (at_sync_address testnet a c)"
  "locks_follow (SyncNetwork address) c (at_sync_network testnet address a c)"
  "locks_follow RefreshAddress c (at_refresh_address testnet a c)"
  by (cases a; simp add: locks)+

lemma order_locks:
  "locks_follow (OrderAddress buyer) c (at_order_address testnet buyer a c)"
  "locks_follow (OrderNetwork buyer) c (at_order_network testnet buyer a c)"
  "locks_follow (OrderPrepare buyer) c (at_order_prepare testnet buyer a c)"
  "locks_follow (OrderSign buyer orderId) c (at_order_sign testnet buyer orderId a c)"
  "locks_follow (OrderSend buyer orderId) c (at_order_send testnet buyer orderId a c)"
  "locks_follow (OrderRead buyer orderId hash) c (at_order_read testnet buyer orderId hash a c)"
  by (cases a; simp add: locks)+

lemma resume_locks: "locks_follow t c (resume testnet t a c)"
  by (cases t) (simp_all only: resume.simps inspect_network_locks inspect_trustline_locks connection_locks
      sync_locks order_locks)

lemma call_locks:
  assumes "call_method m c = (c', new)"
  shows "held (wc_busy c') = held (wc_busy c) + holders busy_task new
     \<and> held (wc_syncing c') = held (wc_syncing c) + holders sync_task new"
  using assms by (cases m) (auto split: if_splits option.splits)

section \<open>The order shown\<close>

text \<open>An order in the state is the connected wallet's, and a confirmed phase has one.\<close>

definition order_shown :: "wallet_state \<Rightarrow> bool" where
  "order_shown s \<longleftrightarrow> (\<forall>o'. ws_order s = Some o' \<longrightarrow> ws_address s = Some (co_buyer o'))
     \<and> (ws_phase s = ConfirmedPhase \<longrightarrow> ws_order s \<noteq> None \<and> ws_transactionHash s \<noteq> None)"

lemma order_shown_simps [simp]:
  "p \<noteq> ConfirmedPhase \<Longrightarrow> order_shown (phase_only p)"
  "p \<noteq> ConfirmedPhase \<Longrightarrow> order_shown (phase_at p a)"
  "p \<noteq> ConfirmedPhase \<Longrightarrow> order_shown ((phase_at p a)\<lparr>ws_message := m\<rparr>)"
  "p \<noteq> ConfirmedPhase \<Longrightarrow> order_shown ((phase_at p a)\<lparr>ws_message := m, ws_detail := d\<rparr>)"
  "p \<noteq> ConfirmedPhase \<Longrightarrow> order_shown ((phase_only p)\<lparr>ws_message := m, ws_detail := d\<rparr>)"
  "p \<noteq> ConfirmedPhase \<Longrightarrow> order_shown ((phase_at p a)\<lparr>ws_transactionHash := h\<rparr>)"
  "order_shown s \<Longrightarrow> p \<noteq> ConfirmedPhase \<Longrightarrow> order_shown (s\<lparr>ws_phase := p\<rparr>)"
  "order_shown s \<Longrightarrow> p \<noteq> ConfirmedPhase \<Longrightarrow> order_shown (s\<lparr>ws_phase := p, ws_message := m, ws_detail := d\<rparr>)"
  by (simp_all add: order_shown_def phase_only_def phase_at_def)

lemma previous_shown:
  "order_shown old \<Longrightarrow> p \<noteq> ConfirmedPhase \<Longrightarrow>
   order_shown (previous address old ((phase_at p address)\<lparr>ws_trustline := t\<rparr>))"
  by (auto simp: order_shown_def previous_def phase_at_def phase_only_def)

lemma updates_shown:
  "order_shown (wc_state c) \<Longrightarrow> order_shown (wc_state (inspect_threw ip d c))"
  "order_shown (wc_state (forgotten c))"
  "order_shown (wc_state (could_not_connect d c))"
  "order_shown (wc_state c) \<Longrightarrow> order_shown (wc_state (could_not_refresh d c))"
  "order_shown (wc_state c) \<Longrightarrow> order_shown (wc_state (trustline_known address t c))"
  "order_shown (wc_state (trustline_unknown address d c))"
  "order_shown (wc_state (order_failed address m d c))"
  "order_shown (wc_state c) \<Longrightarrow> order_shown (wc_state (order_threw d c))"
  "order_shown (wrong_network address)"
  by (cases ip; simp add: forgotten_def could_not_connect_def could_not_refresh_def)
    (simp_all add: forgotten_def could_not_connect_def could_not_refresh_def trustline_known_def
      trustline_unknown_def order_failed_def order_threw_def wrong_network_def previous_shown)

lemma confirmed_shown:
  "co_buyer o' = buyer \<Longrightarrow>
   order_shown ((phase_at ConfirmedPhase buyer)\<lparr>ws_transactionHash := Some h, ws_order := Some o'\<rparr>)"
  by (simp add: order_shown_def phase_at_def)

lemma resume_shown:
  assumes "order_shown (wc_state c)"
  shows "order_shown (wc_state (fst (resume testnet t a c)))"
  using assms
  by (cases t; cases a) (simp_all add: updates_shown confirmed_shown)

lemma call_shown:
  assumes "order_shown (wc_state c)" and "call_method m c = (c', new)"
  shows "order_shown (wc_state c')"
  using assms by (cases m) (auto split: if_splits option.splits)

section \<open>Every interleaving\<close>

definition wallet_ok :: "controller \<times> task list \<Rightarrow> bool" where
  "wallet_ok x \<longleftrightarrow> holders busy_task (snd x) = held (wc_busy (fst x))
     \<and> holders sync_task (snd x) = held (wc_syncing (fst x)) \<and> order_shown (wc_state (fst x))"

lemma follows_holders:
  assumes "follows P before after t new" and "holders P ts + held (P t) + holders P us = held before"
  shows "holders P ts + holders P new + holders P us = held after"
proof (cases "P t")
  case True
  with assms(2) have "before" "holders P ts = 0" "holders P us = 0"
    by (cases before; simp)+
  with assms(1) True show ?thesis by (simp add: follows_def)
qed (use assms in \<open>simp add: follows_def\<close>)

lemma wallet_step_ok: "wallet_step testnet x y \<Longrightarrow> wallet_ok x \<Longrightarrow> wallet_ok y"
proof (induction rule: wallet_step.induct)
  case (called m c c' new ts)
  then show ?case using call_locks [OF called.hyps] call_shown [OF _ called.hyps]
    by (simp add: wallet_ok_def)
next
  case (answered t a c c' new ts us)
  then show ?case
    using resume_locks [of t c testnet a] resume_shown [of c testnet t a]
      follows_holders [of busy_task "wc_busy c" "wc_busy c'" t new ts us]
      follows_holders [of sync_task "wc_syncing c" "wc_syncing c'" t new ts us]
    by (simp add: wallet_ok_def locks_follow_def)
qed

lemma wallet_reaches_ok: "wallet_reaches testnet stored x \<Longrightarrow> wallet_ok x"
  unfolding wallet_reaches_def
proof (induction rule: rtranclp_induct)
  case base
  then show ?case by (simp add: wallet_ok_def initial_controller_def)
next
  case (step y z)
  then show ?case by (blast intro: wallet_step_ok)
qed

lemma held_some:
  assumes "holders P ts = held b"
  shows "b \<longleftrightarrow> (\<exists>t \<in> set ts. P t)"
proof -
  have "(\<exists>t \<in> set ts. P t) \<longleftrightarrow> holders P ts \<noteq> 0"
    by (auto simp: holders_def filter_empty_conv)
  with assms show ?thesis by (simp add: held_def)
qed

lemma thrown_ends: "snd (resume testnet t (ThrownAnswer d) c) = []"
  by (cases t) simp_all

text \<open>
  C33: The controller cannot lock itself up, and shows a confirmed order only to its buyer. In every
  interleaving of its methods with the answers of the wallet, Horizon and the contract: the busy flag
  is set exactly while a connect, restore or create-order is in flight, and there is never more than
  one of them; the same holds of the sync flag; a port that throws ends its operation; an order in the
  state is one whose buyer is the connected address, and the phase is confirmed only with such an order
  and its transaction.
\<close>

theorem wallet_locks_and_orders:
  assumes "wallet_reaches testnet stored (c, ts)"
  shows "(wc_busy c \<longleftrightarrow> (\<exists>t \<in> set ts. busy_task t)) \<and> length (filter busy_task ts) \<le> 1
    \<and> (wc_syncing c \<longleftrightarrow> (\<exists>t \<in> set ts. sync_task t)) \<and> length (filter sync_task ts) \<le> 1
    \<and> (\<forall>t d. snd (resume testnet t (ThrownAnswer d) c) = [])
    \<and> (\<forall>o'. ws_order (wc_state c) = Some o' \<longrightarrow> ws_address (wc_state c) = Some (co_buyer o'))
    \<and> (ws_phase (wc_state c) = ConfirmedPhase \<longrightarrow>
         ws_order (wc_state c) \<noteq> None \<and> ws_transactionHash (wc_state c) \<noteq> None)"
proof -
  have ok: "holders busy_task ts = held (wc_busy c)" "holders sync_task ts = held (wc_syncing c)"
    "order_shown (wc_state c)"
    using wallet_reaches_ok [OF assms] by (simp_all add: wallet_ok_def)
  have "length (filter busy_task ts) \<le> 1" "length (filter sync_task ts) \<le> 1"
    using ok(1,2) held_simps(3) by (metis holders_def)+
  with held_some [OF ok(1)] held_some [OF ok(2)] ok(3) thrown_ends show ?thesis
    by (simp add: order_shown_def)
qed

section \<open>Two races\<close>

lemma answered_first:
  "resume testnet t a c = (c', new) \<Longrightarrow> wallet_step testnet (c, t # us) (c', new @ us)"
  using answered [of testnet t a c c' new "[]" us] by simp

lemma answered_second:
  "resume testnet t a c = (c', new) \<Longrightarrow> wallet_step testnet (c, [s, t]) (c', s # new)"
  using answered [of testnet t a c c' new "[s]" "[]"] by simp

text \<open>
  A person disconnects while a background check is in flight. The check finds the wallet's address
  different from the state's, which is none now, and connects it again.
\<close>

theorem disconnect_can_be_undone:
  assumes "ws_address (wc_state c) = Some a" and "a \<noteq> []" and "\<not> wc_busy c" and "\<not> wc_syncing c"
  shows "\<exists>left home. (wallet_step testnet)\<^sup>*\<^sup>* (c, []) (left, [SyncAddress])
    \<and> ws_phase (wc_state left) = Disconnected \<and> wc_session left = None
    \<and> (wallet_step testnet)\<^sup>*\<^sup>* (left, [SyncAddress]) (home, [])
    \<and> ws_phase (wc_state home) = Connected \<and> wc_session home = Some a"
proof -
  let ?c1 = "c\<lparr>wc_syncing := True\<rparr>"
  let ?left = "forgotten ?c1"
  let ?c2 = "?left\<lparr>wc_session := Some a\<rparr>"
  let ?home = "inspected BySync (trustline_known a TrustlinePresent ?c2)"
  have "wallet_step testnet (c, []) (?c1, [SyncAddress])"
    using called [of CallSync c ?c1 "[SyncAddress]" testnet "[]"] assms by (simp add: truthy_def)
  moreover have "wallet_step testnet (?c1, [SyncAddress]) (?c1, [SyncAddress, DisconnectWallet])"
    using called [of CallDisconnect ?c1 ?c1 "[DisconnectWallet]" testnet "[SyncAddress]"] assms(3) by simp
  moreover have "wallet_step testnet (?c1, [SyncAddress, DisconnectWallet]) (?left, [SyncAddress])"
    by (rule answered_second [of testnet DisconnectWallet DoneAnswer]) simp
  ultimately have away: "(wallet_step testnet)\<^sup>*\<^sup>* (c, []) (?left, [SyncAddress])"
    by (meson converse_rtranclp_into_rtranclp rtranclp.rtrancl_refl)
  have "wallet_step testnet (?left, [SyncAddress]) (?c2, [InspectNetwork a BySync])"
    using answered_first [of testnet SyncAddress "TextAnswer a" ?left ?c2 "[InspectNetwork a BySync]" "[]"]
    by (simp add: forgotten_def phase_only_def)
  moreover have "wallet_step testnet (?c2, [InspectNetwork a BySync]) (?c2, [InspectTrustline a BySync])"
    using answered_first [of testnet "InspectNetwork a BySync" "TextAnswer testnet" ?c2 ?c2 "[InspectTrustline a BySync]" "[]"]
    by simp
  moreover have "wallet_step testnet (?c2, [InspectTrustline a BySync]) (?home, [])"
    using answered_first [of testnet "InspectTrustline a BySync" "TrustAnswer TrustlinePresent" ?c2 ?home "[]" "[]"]
    by simp
  ultimately have "(wallet_step testnet)\<^sup>*\<^sup>* (?left, [SyncAddress]) (?home, [])"
    by (meson converse_rtranclp_into_rtranclp rtranclp.rtrancl_refl)
  moreover have "ws_phase (wc_state ?left) = Disconnected" "wc_session ?left = None"
    by (simp_all add: forgotten_def phase_only_def update_def)
  moreover have "ws_phase (wc_state ?home) = Connected" "wc_session ?home = Some a"
    by (simp_all add: forgotten_def phase_only_def phase_at_def update_def trustline_known_def previous_def)
  ultimately show ?thesis using away by blast
qed

text \<open>
  On the wrong network, a refresh that fails sets the phase to failed, in which signing is allowed
  again although the network was not seen to change.
\<close>

theorem failed_refresh_allows_signing:
  assumes "ws_phase (wc_state c) = WrongNetworkPhase" and "ws_address (wc_state c) = Some a"
  shows "\<not> can_sign (wc_state c)
    \<and> can_sign (wc_state (fst (resume testnet RefreshAddress (ThrownAnswer d) c)))"
  using assms by (simp add: can_sign_def could_not_refresh_def update_def)

section \<open>Signing\<close>

text \<open>
  C34: A signature that comes back is the connected account's, for the bytes asked for, on Testnet.
  When \<open>signRaw\<close> returns, the extension itself named Testnet and the state's address just before it
  asked, was asked to sign exactly that transaction for that address and network, and named no other
  signer; the controller had an address and was not on the wrong network. When the extension names
  another network or account, it fails without asking, whatever the screen shows.
\<close>

theorem signatures_match_the_account:
  "(sign_with_freighter testnet k xdr s = Inr signature \<longrightarrow>
      can_sign s
      \<and> (\<exists>address reply. ws_address s = Some address
           \<and> kit_network k = Inr testnet \<and> kit_address k = Inr address
           \<and> kit_sign k xdr address testnet = Inr reply
           \<and> sr_signedTxXdr reply = signature \<and> signature \<noteq> []
           \<and> sr_signerAddress reply \<in> {None, Some [], Some address}))
   \<and> (can_sign s \<and> kit_loaded k = Inr ()
        \<and> (\<exists>n. kit_network k = Inr n \<and> (n \<noteq> testnet \<or> (\<exists>a. kit_address k = Inr a \<and> ws_address s \<noteq> Some a)))
      \<longrightarrow> (\<exists>e. \<forall>ask. sign_with_freighter testnet (k\<lparr>kit_sign := ask\<rparr>) xdr s = Inl e))"
proof (intro conjI impI)
  assume "sign_with_freighter testnet k xdr s = Inr signature"
  then obtain address where "can_sign s" "ws_address s = Some address"
    "sign_transaction testnet k xdr address = Inr signature"
    using signs_for_the_state by blast
  then show "can_sign s" and "\<exists>address reply. ws_address s = Some address
      \<and> kit_network k = Inr testnet \<and> kit_address k = Inr address
      \<and> kit_sign k xdr address testnet = Inr reply
      \<and> sr_signedTxXdr reply = signature \<and> signature \<noteq> []
      \<and> sr_signerAddress reply \<in> {None, Some [], Some address}"
    using signed_as_asked by blast+
next
  assume h: "can_sign s \<and> kit_loaded k = Inr ()
    \<and> (\<exists>n. kit_network k = Inr n \<and> (n \<noteq> testnet \<or> (\<exists>a. kit_address k = Inr a \<and> ws_address s \<noteq> Some a)))"
  then obtain address where address: "ws_address s = Some address" by (auto simp: can_sign_def)
  have "\<exists>e. \<forall>ask. may_ask testnet (k\<lparr>kit_sign := ask\<rparr>) address = Inl e"
    using h address by (auto simp: may_ask_def throw_if_def)
  then obtain e where "may_ask testnet (k\<lparr>kit_sign := ask\<rparr>) address = Inl e" for ask by blast
  then have "sign_transaction testnet (k\<lparr>kit_sign := ask\<rparr>) xdr address = Inl e" for ask
    by (rule not_asked)
  then show "\<exists>e. \<forall>ask. sign_with_freighter testnet (k\<lparr>kit_sign := ask\<rparr>) xdr s = Inl e"
    using h address by (auto simp: sign_with_freighter_def sign_raw_def)
qed

section \<open>Holdings\<close>

text \<open>
  A balance Horizon writes with seven decimals is read back as exactly its units, zero included, and
  the trustline port says the same account can receive USDC.
\<close>

theorem horizon_balances_are_exact:
  assumes "0 \<le> u" and "u \<le> MAX_I128" and "is_usdc_line issuer line" and "hb_balance line = Some (to_fixed7 u)"
    and "\<forall>b \<in> set before. \<not> is_usdc_line issuer b"
  shows "read_usdc_holding issuer (HorizonReply 200 (Inr (Some (before @ line # after)))) = Inr (Holds u)
    \<and> check_trustline issuer (HorizonReply 200 (Inr (Some (before @ line # after)))) = Inr TrustlinePresent"
proof -
  have "List.find (is_usdc_line issuer) (before @ line # after) = Some line"
    using assms(3,5) by (induction before) auto
  with assms horizon_text_exact [OF assms(1,2)] show ?thesis
    by (simp add: usdc_holding_of_def usdc_trustline_status_def)
qed

section \<open>Witness\<close>

lemma connect_reaches:
  "wallet_reaches testnet None
     (update (phase_only Connecting) ((initial_controller None)\<lparr>wc_busy := True\<rparr>), [ConnectWallet])"
  using called [of CallConnect "initial_controller None" _ _ testnet "[]"]
  by (auto simp: wallet_reaches_def initial_controller_def)

theorem wallet_locks_and_orders_witness:
  "\<exists>c. wallet_reaches ''T'' None (c, [ConnectWallet]) \<and> wc_busy c"
  using connect_reaches [of "''T''"] wallet_locks_and_orders [OF connect_reaches [of "''T''"]] by auto

theorem signatures_match_the_account_witness:
  "(let k = \<lparr>kit_loaded = Inr (), kit_network = Inr ''Testnet'', kit_address = Inr ''GA'',
              kit_sign = (\<lambda>x a n. Inr \<lparr>sr_signerAddress = Some a, sr_signedTxXdr = x @ ''+sig''\<rparr>)\<rparr> in
    sign_with_freighter ''Testnet'' k ''XDR'' (phase_at Connected ''GA'') = Inr ''XDR+sig''
    \<and> can_sign (phase_at Connected ''GA'')
    \<and> (\<exists>e. \<forall>ask. sign_with_freighter ''Testnet'' (k\<lparr>kit_sign := ask\<rparr>) ''XDR'' (phase_at FailedPhase ''GB'') = Inl e))"
proof -
  let ?k = "\<lparr>kit_loaded = Inr (), kit_network = Inr ''Testnet'', kit_address = Inr ''GA'',
    kit_sign = (\<lambda>x a n. Inr \<lparr>sr_signerAddress = Some a, sr_signedTxXdr = x @ ''+sig''\<rparr>)\<rparr>"
  have "sign_with_freighter ''Testnet'' ?k ''XDR'' (phase_at Connected ''GA'') = Inr ''XDR+sig''"
    by (simp add: sign_with_freighter_def sign_raw_def can_sign_def phase_at_def phase_only_def
        sign_transaction_def may_ask_def)
  moreover have "\<exists>e. \<forall>ask. sign_with_freighter ''Testnet'' (?k\<lparr>kit_sign := ask\<rparr>) ''XDR'' (phase_at FailedPhase ''GB'') = Inl e"
    by (rule mp [OF conjunct2 [OF signatures_match_the_account]])
      (simp add: can_sign_def phase_at_def phase_only_def)
  ultimately show ?thesis
    using signatures_match_the_account [of "''Testnet''" ?k "''XDR''" "phase_at Connected ''GA''"]
    by (simp add: Let_def)
qed

end
