(* ===== verification/Base64.thy ===== *)
theory Base64
  imports JsValues
begin

text \<open>
  Base64 as \<open>Buffer\<close> and \<open>btoa\<close> compute it: \<open>Buffer.toString('base64')\<close> with its padding, and
  \<open>Buffer.from(text, 'base64')\<close>, which skips every character outside the two alphabets and drops
  a lone sextet at the end. Three bytes are four sextets, so encoding is undone by decoding.
\<close>

definition sextet_char :: "nat \<Rightarrow> char" where
  "sextet_char d =
     (if d < 26 then char_of (65 + d)
      else if d < 52 then char_of (71 + d)
      else if d < 62 then char_of (d - 4)
      else if d = 62 then CHR ''+'' else CHR ''/'')"

text \<open>The value of a character, of the standard alphabet or the one for URLs.\<close>

definition char_sextet :: "char \<Rightarrow> nat option" where
  "char_sextet c =
     (let n = code c in
      if 65 \<le> n \<and> n \<le> 90 then Some (n - 65)
      else if 97 \<le> n \<and> n \<le> 122 then Some (n - 71)
      else if 48 \<le> n \<and> n \<le> 57 then Some (n + 4)
      else if n = 43 \<or> n = 45 then Some 62
      else if n = 47 \<or> n = 95 then Some 63
      else None)"

fun sextets_of :: "nat list \<Rightarrow> nat list" where
  "sextets_of (a # b # c # bs) =
     (a div 4) # (a mod 4 * 16 + b div 16) # (b mod 16 * 4 + c div 64) # (c mod 64) # sextets_of bs"
| "sextets_of [a, b] = [a div 4, a mod 4 * 16 + b div 16, b mod 16 * 4]"
| "sextets_of [a] = [a div 4, a mod 4 * 16]"
| "sextets_of [] = []"

fun bytes_of_sextets :: "nat list \<Rightarrow> nat list" where
  "bytes_of_sextets (a # b # c # d # ss) =
     (a * 4 + b div 16) # (b mod 16 * 16 + c div 4) # (c mod 4 * 64 + d) # bytes_of_sextets ss"
| "bytes_of_sextets [a, b, c] = [a * 4 + b div 16, b mod 16 * 16 + c div 4]"
| "bytes_of_sextets [a, b] = [a * 4 + b div 16]"
| "bytes_of_sextets [a] = []"
| "bytes_of_sextets [] = []"

definition to_base64 :: "8 word list \<Rightarrow> string" where
  "to_base64 bytes =
     map sextet_char (sextets_of (map unat bytes))
       @ (case length bytes mod 3 of 0 \<Rightarrow> [] | Suc 0 \<Rightarrow> ''=='' | _ \<Rightarrow> ''='')"

definition from_base64 :: "string \<Rightarrow> 8 word list" where
  "from_base64 s = map of_nat (bytes_of_sextets (List.map_filter char_sextet s))"

section \<open>Decoding undoes encoding\<close>

lemma code_char_of: "n < 256 \<Longrightarrow> code (char_of n) = n"
  by (simp add: code_def)

lemma char_sextet_char: "d < 64 \<Longrightarrow> char_sextet (sextet_char d) = Some d"
proof -
  assume "d < 64"
  then consider "d < 26" | "26 \<le> d" "d < 52" | "52 \<le> d" "d < 62" | "d = 62" | "d = 63" by linarith
  then show ?thesis
    by cases (simp_all add: sextet_char_def char_sextet_def code_char_of Let_def, simp_all add: code_def, auto)
qed

lemma pad_skipped: "char_sextet (CHR ''='') = None"
  by code_simp

lemma sextets_small: "\<forall>b \<in> set bs. b < 256 \<Longrightarrow> \<forall>s \<in> set (sextets_of bs). s < 64"
  by (induction bs rule: sextets_of.induct) auto

lemma bytes_of_sextets_of: "\<forall>b \<in> set bs. b < 256 \<Longrightarrow> bytes_of_sextets (sextets_of bs) = bs"
proof (induction bs rule: sextets_of.induct)
  case (1 a b c bs)
  have "(a mod 4 * 16 + b div 16) div 16 = a mod 4" "(a mod 4 * 16 + b div 16) mod 16 = b div 16"
    "(b mod 16 * 4 + c div 64) div 4 = b mod 16" "(b mod 16 * 4 + c div 64) mod 4 = c div 64"
    using "1.prems" by auto
  with 1 show ?case by simp
next
  case (2 a b)
  have "(a mod 4 * 16 + b div 16) div 16 = a mod 4" "(a mod 4 * 16 + b div 16) mod 16 = b div 16"
    using "2.prems" by auto
  then show ?case by simp
qed simp_all

lemma map_filter_sextets:
  "\<forall>d \<in> set ds. d < 64 \<Longrightarrow> List.map_filter char_sextet (map sextet_char ds @ s) = ds @ List.map_filter char_sextet s"
  by (induction ds) (simp_all add: List.map_filter_simps char_sextet_char)

lemma from_to_base64 [simp]: "from_base64 (to_base64 bytes) = bytes"
proof -
  have small: "\<forall>b \<in> set (map unat bytes). b < 256"
    using unsigned_less [where ?'b = 8 and ?'a = nat] by auto
  have "List.map_filter char_sextet (case length bytes mod 3 of 0 \<Rightarrow> [] | Suc 0 \<Rightarrow> ''=='' | _ \<Rightarrow> ''='') = []"
    by (simp add: List.map_filter_simps pad_skipped split: nat.split)
  then have "List.map_filter char_sextet (to_base64 bytes) = sextets_of (map unat bytes)"
    using map_filter_sextets [OF sextets_small [OF small]] by (simp add: to_base64_def)
  then have "from_base64 (to_base64 bytes) = map of_nat (map unat bytes)"
    using bytes_of_sextets_of [OF small] by (simp add: from_base64_def)
  then show ?thesis by (simp add: o_def)
qed

lemma canonical_base64: "to_base64 (from_base64 s) = s \<longleftrightarrow> (\<exists>bytes. s = to_base64 bytes)"
  by (metis from_to_base64)

section \<open>Lengths\<close>

lemma length_sextets_of:
  "length (sextets_of bs) = (case length bs mod 3 of 0 \<Rightarrow> 0 | Suc 0 \<Rightarrow> 2 | _ \<Rightarrow> 3) + 4 * (length bs div 3)"
  by (induction bs rule: sextets_of.induct) (auto split: nat.splits)

lemma length_to_base64: "length (to_base64 bytes) = 4 * ((length bytes + 2) div 3)"
proof -
  have "length bytes mod 3 < 3" by simp
  then consider "length bytes mod 3 = 0" | "length bytes mod 3 = 1" | "length bytes mod 3 = 2" by linarith
  then show ?thesis
  proof cases
    case 1
    then have "(length bytes + 2) div 3 = length bytes div 3" by presburger
    with 1 show ?thesis by (simp add: to_base64_def length_sextets_of)
  next
    case 2
    then have "(length bytes + 2) div 3 = length bytes div 3 + 1" by presburger
    with 2 show ?thesis by (simp add: to_base64_def length_sextets_of)
  next
    case 3
    then have "(length bytes + 2) div 3 = length bytes div 3 + 1" by presburger
    with 3 show ?thesis by (simp add: to_base64_def length_sextets_of numeral_2_eq_2)
  qed
qed

lemma to_base64_Nil: "to_base64 bytes = [] \<longleftrightarrow> bytes = []"
  by (cases bytes; cases "to_base64 bytes") (use length_to_base64 [of bytes] in \<open>auto simp: to_base64_def\<close>)

end
