(* ===== verification/EvidenceStorage.thy ===== *)
theory EvidenceStorage
  imports Base64 IsoDates LocalPayments
begin

text \<open>
  Where evidence documents are kept: \<open>apps/api/src/evidence/hash.ts\<close>, \<open>storage.ts\<close> and \<open>s3.ts\<close>.
  SHA-256 and HMAC are arguments. A file system is a map from absolute paths to bytes; of its errors
  only that a file cannot be written is kept.
\<close>

type_synonym bytes = "8 word list"
type_synonym file_system = "string \<Rightarrow> bytes option"

section \<open>Digests\<close>

definition hash_evidence :: "(bytes \<Rightarrow> bytes) \<Rightarrow> bytes \<Rightarrow> string" where
  "hash_evidence sha256 bs = bytes_to_hex (sha256 bs)"

definition is_evidence_hash :: "string \<Rightarrow> bool" where
  "is_evidence_hash v \<longleftrightarrow> is_hex64 (to_lower (trim v))"

definition normalise_evidence_hash :: "string \<Rightarrow> api_error + string" where
  "normalise_evidence_hash v =
     (let lowered = to_lower (trim v) in
      if is_hex64 lowered then Inr lowered
      else Inl (EvidenceHashError (''Evidence hash must be 64 lower-case hex characters ''
             @ ''(SHA-256, the format submit_evidence expects)'')))"

definition verify_evidence :: "(bytes \<Rightarrow> bytes) \<Rightarrow> bytes \<Rightarrow> string \<Rightarrow> api_error + bool" where
  "verify_evidence sha256 bs expected =
     and_then (normalise_evidence_hash expected) (\<lambda>h. Inr (hash_evidence sha256 bs = h))"

definition digest_key :: "string \<Rightarrow> string" where
  "digest_key digest = ''evidence/'' @ take 2 digest @ ''/'' @ take 2 (drop 2 digest) @ ''/'' @ digest"

definition storage_key_for :: "string \<Rightarrow> api_error + string" where
  "storage_key_for contentHash = and_then (normalise_evidence_hash contentHash) (\<lambda>d. Inr (digest_key d))"

text \<open>The segment after the last slash or backslash, without controls and leading dots.\<close>

definition is_separator :: "char \<Rightarrow> bool" where
  "is_separator c \<longleftrightarrow> c = CHR ''/'' \<or> c = CHR 0x5C"

definition is_control :: "char \<Rightarrow> bool" where
  "is_control c \<longleftrightarrow> code c < 32 \<or> code c = 127"

definition sanitise_filename :: "string \<Rightarrow> string" where
  "sanitise_filename filename =
     (let base = rev (takeWhile (\<lambda>c. \<not> is_separator c) (rev filename));
          withoutControls = filter (\<lambda>c. \<not> is_control c) base;
          cleaned = trim (dropWhile (\<lambda>c. c = CHR ''.'') withoutControls)
      in if cleaned = [] then ''evidence'' else take 200 cleaned)"

section \<open>The local driver\<close>

text \<open>
  \<open>resolve\<close> and \<open>join\<close> of \<open>node:path\<close> on an absolute POSIX path: empty segments and \<open>.\<close> are dropped,
  \<open>..\<close> removes the segment before it.
\<close>

definition path_step :: "string list \<Rightarrow> string \<Rightarrow> string list" where
  "path_step acc seg =
     (if seg = [] \<or> seg = ''.'' then acc else if seg = ''..'' then tl acc else seg # acc)"

fun join_slash :: "string list \<Rightarrow> string" where
  "join_slash [] = []"
| "join_slash [s] = s"
| "join_slash (s # t # ss) = s @ ''/'' @ join_slash (t # ss)"

definition path_segments :: "string \<Rightarrow> string list" where
  "path_segments p = rev (foldl path_step [] (split_at (CHR ''/'') p))"

definition resolve_path :: "string \<Rightarrow> string" where
  "resolve_path p = CHR ''/'' # join_slash (path_segments p)"

definition path_for :: "string \<Rightarrow> string \<Rightarrow> api_error + string" where
  "path_for directory storageKey =
     (let candidate = resolve_path (directory @ ''/'' @ storageKey) in
      if candidate \<noteq> directory \<and> \<not> starts_with (directory @ ''/'') candidate
      then Inl (EvidenceStorageError ''Refusing a storage key that escapes the evidence root'')
      else Inr candidate)"

text \<open>
  The driver's root is the configured directory, resolved when it is built. \<open>put\<close> and \<open>get\<close> follow:
  \<open>writable\<close> says which files the disk lets be written.
\<close>

definition local_root :: "string \<Rightarrow> string \<Rightarrow> string" where
  "local_root cwd directory =
     resolve_path (if starts_with ''/'' directory then directory else cwd @ ''/'' @ directory)"

definition local_put ::
  "string \<Rightarrow> (string \<Rightarrow> bool) \<Rightarrow> string \<Rightarrow> bytes \<Rightarrow> file_system \<Rightarrow> (api_error + string) \<times> file_system" where
  "local_put rootPath writable contentHash bs fs =
     (case and_then (storage_key_for contentHash) (\<lambda>key.
           and_then (path_for rootPath key) (\<lambda>path.
           and_then (throw_if (\<not> writable path) (EvidenceStorageError (''cannot write '' @ path))) (\<lambda>_.
           Inr (key, path)))) of
        Inl e \<Rightarrow> (Inl e, fs)
      | Inr (key, path) \<Rightarrow> (Inr key, fs(path \<mapsto> bs)))"

definition local_get :: "string \<Rightarrow> string \<Rightarrow> file_system \<Rightarrow> api_error + bytes" where
  "local_get rootPath storageKey fs =
     and_then (path_for rootPath storageKey) (\<lambda>path.
     case fs path of
       None \<Rightarrow> Inl (EvidenceStorageError ''Evidence object is not present in storage'')
     | Some bs \<Rightarrow> Inr bs)"

text \<open>\<open>new LocalEvidenceStorage(directory)\<close>: both operations on its root.\<close>

definition put_file ::
  "string \<Rightarrow> string \<Rightarrow> (string \<Rightarrow> bool) \<Rightarrow> string \<Rightarrow> bytes \<Rightarrow> file_system \<Rightarrow> (api_error + string) \<times> file_system" where
  "put_file cwd directory = local_put (local_root cwd directory)"

definition get_file :: "string \<Rightarrow> string \<Rightarrow> string \<Rightarrow> file_system \<Rightarrow> api_error + bytes" where
  "get_file cwd directory = local_get (local_root cwd directory)"

section \<open>The S3 driver\<close>

record s3_credentials =
  s3_endpoint_origin :: string
  s3_endpoint_host :: string
  s3_bucket :: string
  s3_region :: string
  s3_accessKeyId :: string
  s3_secretAccessKey :: string

text \<open>
  \<open>/^[A-Za-z0-9/._-]+$/\<close> and the other tests of \<open>assertSafeKey\<close>.
\<close>

definition is_key_char :: "char \<Rightarrow> bool" where
  "is_key_char c \<longleftrightarrow> is_alphanumeric c \<or> c = CHR ''/'' \<or> c = CHR ''.'' \<or> c = CHR ''_'' \<or> c = CHR ''-''"

definition assert_safe_key :: "string \<Rightarrow> api_error + unit" where
  "assert_safe_key key =
     throw_if (key = [] \<or> starts_with ''/'' key \<or> str_includes ''..'' key \<or> str_includes ''//'' key
         \<or> \<not> list_all is_key_char key)
       (EvidenceStorageError ''Refusing a storage key that escapes the evidence prefix'')"

text \<open>
  \<open>encodeSegment\<close>: \<open>encodeURIComponent\<close> with \<open>!'()*\<close> encoded too, over the UTF-8 bytes of a
  character below 256.
\<close>

definition encode_segment_char :: "char \<Rightarrow> string" where
  "encode_segment_char c =
     (if is_alphanumeric c \<or> c = CHR ''-'' \<or> c = CHR ''_'' \<or> c = CHR ''.'' \<or> c = CHR ''~'' then [c]
      else if code c < 128 then percent (code c)
      else percent (192 + code c div 64) @ percent (128 + code c mod 64))"

definition encode_segment :: "string \<Rightarrow> string" where
  "encode_segment s = concat (map encode_segment_char s)"

definition canonical_path :: "string \<Rightarrow> string \<Rightarrow> string" where
  "canonical_path bucket key =
     (let segments = filter (\<lambda>s. s \<noteq> []) (split_at (CHR ''/'') key)
      in ''/'' @ encode_segment bucket @ ''/'' @ join_slash (map encode_segment segments))"

definition UNSIGNED_HEADERS :: string where
  "UNSIGNED_HEADERS = ''host;x-amz-content-sha256;x-amz-date''"

fun join_lines :: "string list \<Rightarrow> string" where
  "join_lines [] = []"
| "join_lines [s] = s"
| "join_lines (s # t # ss) = s @ [CHR 0x0A] @ join_lines (t # ss)"

definition utf8_char :: "char \<Rightarrow> bytes" where
  "utf8_char c = (if code c < 128 then [of_nat (code c)]
     else [of_nat (192 + code c div 64), of_nat (128 + code c mod 64)])"

definition utf8 :: "string \<Rightarrow> bytes" where
  "utf8 s = concat (map utf8_char s)"

definition amz_date :: "int \<Rightarrow> string" where
  "amz_date now =
     take 15 (filter (\<lambda>c. c \<noteq> CHR ''-'' \<and> c \<noteq> CHR '':'') (to_iso_string now)) @ ''Z''"

definition canonical_request :: "string \<Rightarrow> string \<Rightarrow> string \<Rightarrow> string \<Rightarrow> string \<Rightarrow> string" where
  "canonical_request verb path host payloadHash date =
     join_lines [verb, path, [], ''host:'' @ host, ''x-amz-content-sha256:'' @ payloadHash,
       ''x-amz-date:'' @ date, [], UNSIGNED_HEADERS, payloadHash]"

record signed_request =
  sg_url :: string
  sg_headers :: "(string \<times> string) list"

definition sign_s3_request ::
  "(bytes \<Rightarrow> bytes) \<Rightarrow> (bytes \<Rightarrow> bytes \<Rightarrow> bytes) \<Rightarrow> s3_credentials \<Rightarrow> string \<Rightarrow> string \<Rightarrow> bytes \<Rightarrow> int \<Rightarrow>
   signed_request" where
  "sign_s3_request sha256 hmac cr verb key payload now =
     (let date = amz_date now; dateStamp = take 8 date;
          payloadHash = bytes_to_hex (sha256 payload);
          path = canonical_path (s3_bucket cr) key;
          canonicalRequest = canonical_request verb path (s3_endpoint_host cr) payloadHash date;
          scope = dateStamp @ ''/'' @ s3_region cr @ ''/s3/aws4_request'';
          stringToSign = join_lines [''AWS4-HMAC-SHA256'', date, scope,
            bytes_to_hex (sha256 (utf8 canonicalRequest))];
          signingKey = hmac (hmac (hmac (hmac (utf8 (''AWS4'' @ s3_secretAccessKey cr)) (utf8 dateStamp))
            (utf8 (s3_region cr))) (utf8 ''s3'')) (utf8 ''aws4_request'');
          signature = bytes_to_hex (hmac signingKey (utf8 stringToSign))
      in \<lparr>sg_url = s3_endpoint_origin cr @ path,
          sg_headers = [(''Host'', s3_endpoint_host cr), (''x-amz-date'', date),
            (''x-amz-content-sha256'', payloadHash),
            (''Authorization'', ''AWS4-HMAC-SHA256 Credential='' @ s3_accessKeyId cr @ ''/'' @ scope
              @ '', SignedHeaders='' @ UNSIGNED_HEADERS @ '', Signature='' @ signature)]\<rparr>)"

text \<open>
  \<open>put\<close> and \<open>get\<close> on a remote store: \<open>send\<close> answers a signed request with a status and a body, and
  may change the store.
\<close>

type_synonym 's s3_service = "string \<Rightarrow> signed_request \<Rightarrow> bytes \<Rightarrow> 's \<Rightarrow> nat \<times> bytes \<times> 's"

definition s3_put ::
  "(string \<Rightarrow> bytes \<Rightarrow> signed_request) \<Rightarrow> 's s3_service \<Rightarrow> string \<Rightarrow> bytes \<Rightarrow> 's \<Rightarrow> (api_error + string) \<times> 's" where
  "s3_put sign send contentHash bs s =
     (case and_then (storage_key_for contentHash) (\<lambda>key.
           and_then (assert_safe_key key) (\<lambda>_. Inr key)) of
        Inl e \<Rightarrow> (Inl e, s)
      | Inr key \<Rightarrow>
          let (status, body, s') = send ''PUT'' (sign key bs) bs s in
          (if status < 200 \<or> 299 < status
           then Inl (EvidenceStorageError (''Evidence storage rejected the upload ('' @ nat_to_string status @ '')''))
           else Inr key, s'))"

definition s3_get ::
  "(string \<Rightarrow> bytes \<Rightarrow> signed_request) \<Rightarrow> 's s3_service \<Rightarrow> string \<Rightarrow> 's \<Rightarrow> api_error + bytes" where
  "s3_get sign send storageKey s =
     and_then (assert_safe_key storageKey) (\<lambda>_.
     let (status, body, s') = send ''GET'' (sign storageKey []) [] s in
     if status < 200 \<or> 299 < status
     then Inl (EvidenceStorageError ''Evidence object is not present in storage'')
     else Inr body)"

section \<open>Choosing a driver\<close>

record s3_settings =
  st_endpoint :: "string option"
  st_bucket :: "string option"
  st_region :: "string option"
  st_accessKeyId :: "string option"
  st_secretAccessKey :: "string option"

datatype evidence_driver = S3Driver s3_settings | LocalDriver string

definition missing_settings :: "s3_settings option \<Rightarrow> string list" where
  "missing_settings s3 =
     map fst (filter (\<lambda>(name, v). v = None \<or> v = Some [])
       (case s3 of
          None \<Rightarrow> map (\<lambda>name. (name, None))
            [''endpoint'', ''bucket'', ''region'', ''accessKeyId'', ''secretAccessKey'']
        | Some c \<Rightarrow> [(''endpoint'', st_endpoint c), (''bucket'', st_bucket c), (''region'', st_region c),
            (''accessKeyId'', st_accessKeyId c), (''secretAccessKey'', st_secretAccessKey c)]))"

fun join_list :: "string list \<Rightarrow> string" where
  "join_list [] = []"
| "join_list [s] = s"
| "join_list (s # t # ss) = s @ '', '' @ join_list (t # ss)"

definition create_evidence_storage ::
  "string \<Rightarrow> string \<Rightarrow> s3_settings option \<Rightarrow> api_error + evidence_driver" where
  "create_evidence_storage driver localDirectory s3 =
     (if driver = ''s3'' then
        (case s3 of
           Some c \<Rightarrow> if missing_settings s3 = [] then Inr (S3Driver c)
                     else Inl (EvidenceStorageError
                       (''S3 evidence storage is missing configuration: '' @ join_list (missing_settings s3)))
         | None \<Rightarrow> Inl (EvidenceStorageError
             (''S3 evidence storage is missing configuration: '' @ join_list (missing_settings None))))
      else Inr (LocalDriver localDirectory))"

end
