(* ===== verification/EvidencePaths.thy ===== *)
theory EvidencePaths
  imports EvidenceStorage
begin

text \<open>
  What the storage drivers guarantee: a digest's key is always stored below the root, in a file of
  its own, and an S3 request names the digest as the hash of its payload. The interface every driver
  gives the controller is the locale \<open>evidence_store\<close>; the local driver is an instance of it.
\<close>

section \<open>Paths\<close>

definition proper :: "string \<Rightarrow> bool" where
  "proper seg \<longleftrightarrow> seg \<noteq> [] \<and> seg \<noteq> ''.'' \<and> seg \<noteq> ''..'' \<and> CHR ''/'' \<notin> set seg"

lemma split_at_plain: "c \<notin> set s \<Longrightarrow> split_at c s = [s]"
  by (induction s) auto

lemma split_at_not_Nil [simp]: "split_at c s \<noteq> []"
  by (induction s) (auto split: list.split)

lemma split_at_append: "split_at c (s @ c # t) = split_at c s @ split_at c t"
  by (induction s) (auto split: list.split)

lemma split_at_no: "seg \<in> set (split_at c s) \<Longrightarrow> c \<notin> set seg"
  by (induction s arbitrary: seg) (auto split: list.splits if_splits)

lemma split_at_join: "list_all proper ss \<Longrightarrow> ss \<noteq> [] \<Longrightarrow> split_at (CHR ''/'') (join_slash ss) = ss"
  by (induction ss rule: join_slash.induct) (simp_all add: split_at_plain proper_def split_at_append)

lemma steps_proper: "list_all proper ss \<Longrightarrow> foldl path_step acc ss = rev ss @ acc"
  by (induction ss arbitrary: acc) (simp_all add: path_step_def proper_def)

lemma step_proper:
  "list_all proper acc \<Longrightarrow> CHR ''/'' \<notin> set seg \<Longrightarrow> list_all proper (path_step acc seg)"
  by (cases acc) (auto simp: path_step_def proper_def)

lemma steps_keep_proper:
  "list_all proper acc \<Longrightarrow> \<forall>seg \<in> set ss. CHR ''/'' \<notin> set seg \<Longrightarrow> list_all proper (foldl path_step acc ss)"
  by (induction ss arbitrary: acc) (simp_all add: step_proper)

lemma segments_proper: "list_all proper (path_segments p)"
  using steps_keep_proper [of "[]" "split_at (CHR ''/'') p"] split_at_no [of _ "CHR ''/''" p]
  by (auto simp: path_segments_def list_all_iff)

lemma split_resolved:
  "split_at (CHR ''/'') (resolve_path p) = [] # (if path_segments p = [] then [[]] else path_segments p)"
  using split_at_join [OF segments_proper, of p] by (simp add: resolve_path_def)

lemma segments_resolved: "foldl path_step [] (split_at (CHR ''/'') (resolve_path p)) = rev (path_segments p)"
  using steps_proper [OF segments_proper [of p], of "[]"]
  by (simp add: split_resolved) (simp add: path_step_def)

lemma resolved_child:
  assumes "list_all proper ks" "ks \<noteq> []"
  shows "resolve_path (resolve_path p @ ''/'' @ join_slash ks)
    = CHR ''/'' # join_slash (path_segments p @ ks)"
proof -
  have "path_segments (resolve_path p @ ''/'' @ join_slash ks) = path_segments p @ ks"
    unfolding path_segments_def [of "resolve_path p @ ''/'' @ join_slash ks"]
    using steps_proper [OF assms(1), of "rev (path_segments p)"]
    by (simp add: split_at_append segments_resolved split_at_join [OF assms])
  then show ?thesis by (simp add: resolve_path_def)
qed

lemma join_slash_append:
  "ss \<noteq> [] \<Longrightarrow> ts \<noteq> [] \<Longrightarrow> join_slash (ss @ ts) = join_slash ss @ ''/'' @ join_slash ts"
  by (induction ss rule: join_slash.induct) (auto simp: neq_Nil_conv)

section \<open>Keys\<close>

definition key_segments :: "string \<Rightarrow> string list" where
  "key_segments h = [''evidence'', take 2 h, take 2 (drop 2 h), h]"

lemma digest_key_segments: "digest_key h = join_slash (key_segments h)"
  by (simp add: digest_key_def key_segments_def)

lemma hex_plain: "is_lower_hex c \<Longrightarrow> c \<noteq> CHR ''/'' \<and> c \<noteq> CHR ''.'' \<and> is_alphanumeric c"
  by (auto simp: is_lower_hex_def is_digit_def is_alphanumeric_def code_def)

lemma proper_hex: "list_all is_lower_hex s \<Longrightarrow> s \<noteq> [] \<Longrightarrow> proper s"
  using hex_plain by (cases s) (fastforce simp: proper_def list_all_iff)+

lemma key_segments_proper: "is_hex64 h \<Longrightarrow> list_all proper (key_segments h)"
proof -
  assume "is_hex64 h"
  then have h: "length h = 64" "list_all is_lower_hex h" by (simp_all add: is_hex64_def)
  then have "list_all is_lower_hex (take 2 h)" "list_all is_lower_hex (take 2 (drop 2 h))"
    by (auto simp: list_all_iff dest!: in_set_takeD in_set_dropD)
  moreover have "take 2 h \<noteq> []" "take 2 (drop 2 h) \<noteq> []" "h \<noteq> []" using h(1) by auto
  ultimately show ?thesis using h(2) by (simp add: key_segments_def proper_hex) (simp add: proper_def)
qed

lemma to_lower_hex: "list_all is_lower_hex s \<Longrightarrow> to_lower s = s"
  by (induction s) (auto simp: to_lower_def to_lower_char_def is_lower_hex_def is_digit_def)

lemma trim_hex: "list_all is_lower_hex s \<Longrightarrow> trim s = s"
  by (rule trim_no_space) (auto simp: list_all_iff is_lower_hex_def is_digit_def is_space_def)

lemma normalise_hex [simp]: "is_hex64 h \<Longrightarrow> normalise_evidence_hash h = Inr h"
  by (simp add: normalise_evidence_hash_def is_hex64_def trim_hex to_lower_hex)

lemma normalised_hex: "normalise_evidence_hash v = Inr h \<Longrightarrow> is_hex64 h"
  by (auto simp: normalise_evidence_hash_def Let_def split: if_splits)

lemma storage_key_hex [simp]: "is_hex64 h \<Longrightarrow> storage_key_for h = Inr (digest_key h)"
  by (simp add: storage_key_for_def)

text \<open>The path of a key: below the root, or refused when the root is the whole file system.\<close>

lemma path_for_key:
  assumes "is_hex64 h" and "path_segments p \<noteq> []"
  shows "path_for (resolve_path p) (digest_key h) = Inr (resolve_path p @ ''/'' @ digest_key h)"
proof -
  have ks: "list_all proper (key_segments h)" "key_segments h \<noteq> []"
    using key_segments_proper [OF assms(1)] by (simp_all add: key_segments_def)
  have "resolve_path (resolve_path p @ ''/'' @ digest_key h) = resolve_path p @ ''/'' @ digest_key h"
    unfolding digest_key_segments resolved_child [OF ks] join_slash_append [OF assms(2) ks(2)]
    by (simp add: resolve_path_def)
  then show ?thesis by (simp add: path_for_def Let_def starts_with_def)
qed

lemma path_for_top:
  assumes "is_hex64 h" and "path_segments p = []"
  shows "\<exists>e. path_for (resolve_path p) (digest_key h) = Inl e"
proof -
  have ks: "list_all proper (key_segments h)" "key_segments h \<noteq> []"
    using key_segments_proper [OF assms(1)] by (simp_all add: key_segments_def)
  have "resolve_path p = ''/''" using assms(2) by (simp add: resolve_path_def)
  moreover have "resolve_path (resolve_path p @ ''/'' @ digest_key h) = CHR ''/'' # digest_key h"
    unfolding digest_key_segments resolved_child [OF ks] using assms(2) by simp
  ultimately show ?thesis
    by (simp add: path_for_def Let_def starts_with_def digest_key_def)
qed

lemma digest_key_inject: "is_hex64 h \<Longrightarrow> is_hex64 k \<Longrightarrow> digest_key h = digest_key k \<longleftrightarrow> h = k"
proof
  assume h: "is_hex64 h" "is_hex64 k" "digest_key h = digest_key k"
  have "rev (take 64 (rev (digest_key d))) = d" if "is_hex64 d" for d
    using that by (simp add: digest_key_def is_hex64_def)
  with h show "h = k" by metis
qed simp

lemma paths_differ:
  assumes "is_hex64 h" "is_hex64 k" "path_for (resolve_path p) (digest_key h) = Inr x"
    and "path_for (resolve_path p) (digest_key k) = Inr y"
  shows "x = y \<longleftrightarrow> h = k"
proof (cases "path_segments p = []")
  case True
  then show ?thesis using path_for_top [OF assms(1)] assms(3) by fastforce
next
  case False
  with assms show ?thesis by (auto simp: path_for_key digest_key_inject)
qed

section \<open>S3 requests\<close>

lemma includes_set: "str_includes p s \<Longrightarrow> set p \<subseteq> set s"
proof (induction s)
  case (Cons c s)
  show ?case
  proof (cases "starts_with p (c # s)")
    case True
    then show ?thesis unfolding starts_with_def by (metis set_take_subset)
  next
    case False
    with Cons show ?thesis by auto
  qed
qed simp

lemma double_slash_step:
  "CHR ''/'' \<notin> set s \<Longrightarrow>
   str_includes ''//'' (s @ CHR ''/'' # t) \<longleftrightarrow> starts_with ''/'' t \<or> str_includes ''//'' t"
  by (induction s) (auto simp: starts_with_def take_Cons' split: if_splits)

lemma join_slash_no_double: "list_all proper ss \<Longrightarrow> \<not> str_includes ''//'' (join_slash ss)"
proof (induction ss rule: join_slash.induct)
  case (2 s)
  then show ?case using includes_set [of "''//''" s] by (auto simp: proper_def)
next
  case (3 s t ss)
  have "\<not> starts_with ''/'' (join_slash (t # ss))"
    using "3.prems" by (cases ss; cases t) (auto simp: starts_with_def proper_def)
  with 3 show ?case by (simp add: double_slash_step proper_def)
qed simp

lemma safe_digest_key:
  assumes "is_hex64 h"
  shows "assert_safe_key (digest_key h) = Inr ()"
proof -
  have h: "\<forall>c \<in> set h. c \<noteq> CHR ''/'' \<and> c \<noteq> CHR ''.'' \<and> is_alphanumeric c"
    using assms hex_plain unfolding is_hex64_def list_all_iff by blast
  have plain: "\<forall>c \<in> set (digest_key h). is_alphanumeric c \<or> c = CHR ''/''"
    using h by (auto simp: digest_key_def is_alphanumeric_def code_def is_digit_def dest!: in_set_takeD in_set_dropD)
  then have "CHR ''.'' \<notin> set (digest_key h)"
    by (auto simp: is_alphanumeric_def code_def is_digit_def)
  then have "\<not> str_includes ''..'' (digest_key h)" using includes_set by fastforce
  moreover have "\<not> str_includes ''//'' (digest_key h)"
    unfolding digest_key_segments by (rule join_slash_no_double [OF key_segments_proper [OF assms]])
  moreover have "list_all is_key_char (digest_key h)" using plain by (auto simp: list_all_iff is_key_char_def)
  ultimately show ?thesis
    by (simp add: assert_safe_key_def throw_if_def digest_key_def starts_with_def)
qed

lemma encode_plain: "list_all (\<lambda>c. is_alphanumeric c) s \<Longrightarrow> encode_segment s = s"
  by (induction s) (simp_all add: encode_segment_def encode_segment_char_def)

text \<open>A request for a digest's object is for exactly its key in the bucket, and names the payload's digest.\<close>

lemma digest_request:
  assumes "is_hex64 h"
  shows "sg_url (sign_s3_request sha256 hmac cr verb (digest_key h) bs now)
      = s3_endpoint_origin cr @ ''/'' @ encode_segment (s3_bucket cr) @ ''/'' @ digest_key h"
    and "map_of (sg_headers (sign_s3_request sha256 hmac cr verb key bs now)) ''x-amz-content-sha256''
      = Some (hash_evidence sha256 bs)"
proof -
  have ks: "list_all proper (key_segments h)" "key_segments h \<noteq> []"
    using key_segments_proper [OF assms] by (simp_all add: key_segments_def)
  have h: "\<forall>c \<in> set h. is_alphanumeric c"
    using assms hex_plain unfolding is_hex64_def list_all_iff by blast
  have "list_all (\<lambda>c. is_alphanumeric c) ''evidence''"
    by (simp add: is_alphanumeric_def code_def)
  with h have "encode_segment s = s" if "s \<in> set (key_segments h)" for s
    using that by (auto simp: key_segments_def list_all_iff intro!: encode_plain dest!: in_set_takeD in_set_dropD)
  then have "map encode_segment (key_segments h) = key_segments h" by (rule map_idI)
  moreover have "filter (\<lambda>s. s \<noteq> []) (key_segments h) = key_segments h"
    using ks(1) by (auto simp: list_all_iff proper_def intro!: filter_True)
  ultimately have "canonical_path b (digest_key h) = ''/'' @ encode_segment b @ ''/'' @ digest_key h" for b
    unfolding canonical_path_def digest_key_segments Let_def split_at_join [OF ks] by simp
  then show "sg_url (sign_s3_request sha256 hmac cr verb (digest_key h) bs now)
      = s3_endpoint_origin cr @ ''/'' @ encode_segment (s3_bucket cr) @ ''/'' @ digest_key h"
    by (simp add: sign_s3_request_def Let_def)
  show "map_of (sg_headers (sign_s3_request sha256 hmac cr verb key bs now)) ''x-amz-content-sha256''
      = Some (hash_evidence sha256 bs)"
    by (simp add: sign_s3_request_def Let_def hash_evidence_def)
qed

end
