(* ===== verification/Evidence.thy ===== *)
theory Evidence
  imports EvidencePaths Serialise
begin

text \<open>
  Uploading and reading evidence: \<open>apps/api/src/evidence/evidence.controller.ts\<close> over a storage
  driver, and what the browser does before it: \<open>apps/web/lib/evidence/hash.ts\<close> and the submit action
  of \<open>components/evidence/evidence-panel.tsx\<close>. The driver's \<open>put\<close> is an argument, as it is injected.
\<close>

section \<open>The request\<close>

definition MAX_LABEL_LENGTH :: nat where
  "MAX_LABEL_LENGTH = 120"

text \<open>\<open>ALLOWED_MIME\<close>: two names of letters, digits and \<open>.+-\<close>, each starting with a letter or digit.\<close>

definition mime_name :: "string \<Rightarrow> bool" where
  "mime_name s \<longleftrightarrow> s \<noteq> [] \<and> is_alphanumeric (hd s)
     \<and> list_all (\<lambda>c. is_alphanumeric c \<or> c = CHR ''.'' \<or> c = CHR ''+'' \<or> c = CHR ''-'') (tl s)"

definition allowed_mime :: "string \<Rightarrow> bool" where
  "allowed_mime s \<longleftrightarrow> (case split_at (CHR ''/'') s of [a, b] \<Rightarrow> mime_name a \<and> mime_name b | _ \<Rightarrow> False)"

definition text_field :: "jsval \<Rightarrow> string option" where
  "text_field v = (case v of JString s \<Rightarrow> Some s | _ \<Rightarrow> None)"

record upload =
  up_bytes :: bytes
  up_mimeType :: string
  up_label :: "string option"
  up_uploadedBy :: "string option"
  up_milestoneId :: "int option"
  up_contentHash :: string
  up_filename :: string

text \<open>The document: canonical base64, not empty, within the limit.\<close>

definition read_document :: "nat \<Rightarrow> jsval \<Rightarrow> api_error + bytes" where
  "read_document maxBytes v =
     (case v of
        JString content \<Rightarrow>
          and_then (throw_if (content = []) (BadRequest ''contentBase64 is required'')) (\<lambda>_.
          and_then (throw_if (length content > (maxBytes + 2) div 3 * 4 + 4)
            (BadRequest ''Evidence document exceeds the configured byte limit'')) (\<lambda>_.
          let bs = from_base64 content in
          and_then (throw_if (to_base64 bs \<noteq> content)
            (BadRequest ''contentBase64 is not canonical base64'')) (\<lambda>_.
          and_then (throw_if (bs = []) (BadRequest ''Evidence document is empty'')) (\<lambda>_.
          and_then (throw_if (length bs > maxBytes)
            (BadRequest (''Evidence document exceeds the '' @ nat_to_string maxBytes @ '' byte limit''))) (\<lambda>_.
          Inr bs)))))
      | _ \<Rightarrow> Inl (BadRequest ''contentBase64 is required''))"

definition read_milestone :: "jsval \<Rightarrow> api_error + int option" where
  "read_milestone v =
     (case v of
        JUndefined \<Rightarrow> Inr None
      | JString raw \<Rightarrow>
          (if \<not> all_digits raw \<or> nat_of_digits raw = 0 \<or> nat_of_digits raw > 9223372036854775807
           then Inl (BadRequest ''milestoneId must be a positive chain ID'')
           else Inr (Some (int (nat_of_digits raw))))
      | _ \<Rightarrow> Inl (BadRequest ''milestoneId must be a decimal chain ID string''))"

definition check_expected :: "jsval \<Rightarrow> string \<Rightarrow> api_error + unit" where
  "check_expected v contentHash =
     (case v of
        JUndefined \<Rightarrow> Inr ()
      | JString expected \<Rightarrow>
          and_then (throw_if (\<not> is_evidence_hash expected)
            (BadRequest ''expectedHash must be a SHA-256 digest in hex'')) (\<lambda>_.
          and_then (normalise_evidence_hash expected) (\<lambda>digest.
          throw_if (digest \<noteq> contentHash) (BadRequest ''Evidence hash does not match the uploaded bytes'')))
      | _ \<Rightarrow> Inl (BadRequest ''expectedHash must be a SHA-256 digest in hex''))"

definition read_upload :: "(bytes \<Rightarrow> bytes) \<Rightarrow> nat \<Rightarrow> jsval \<Rightarrow> api_error + upload" where
  "read_upload sha256 maxBytes body =
     (let f = (case body of JObject f \<Rightarrow> f | _ \<Rightarrow> []) in
      and_then (read_document maxBytes (get_field f ''contentBase64'')) (\<lambda>bs.
      let mimeType = (case text_field (get_field f ''mimeType'') of Some s \<Rightarrow> s | None \<Rightarrow> ''application/octet-stream'') in
      and_then (throw_if (\<not> allowed_mime mimeType) (BadRequest ''mimeType is not a valid media type'')) (\<lambda>_.
      let label = map_option (take MAX_LABEL_LENGTH) (text_field (get_field f ''documentLabel''));
          uploadedBy = text_field (get_field f ''uploadedBy'') in
      and_then (throw_if (uploadedBy \<noteq> None \<and> \<not> is_wallet (the uploadedBy))
        (BadRequest ''uploadedBy must be a Stellar public key'')) (\<lambda>_.
      and_then (read_milestone (get_field f ''milestoneId'')) (\<lambda>milestoneId.
      let contentHash = hash_evidence sha256 bs in
      and_then (check_expected (get_field f ''expectedHash'') contentHash) (\<lambda>_.
      Inr \<lparr>up_bytes = bs, up_mimeType = mimeType, up_label = label, up_uploadedBy = uploadedBy,
           up_milestoneId = milestoneId, up_contentHash = contentHash,
           up_filename = sanitise_filename
             (case text_field (get_field f ''filename'') of Some s \<Rightarrow> s | None \<Rightarrow> ''evidence'')\<rparr>))))))"

section \<open>Recording it\<close>

definition evidence_key :: "evidence_object \<Rightarrow> projection_context \<times> string" where
  "evidence_key e = (e_ctx e, e_contentHash e)"

definition new_evidence ::
  "projection_context \<Rightarrow> string \<Rightarrow> int \<Rightarrow> string \<Rightarrow> upload \<Rightarrow> evidence_object" where
  "new_evidence ctx driver now storageKey u =
     \<lparr>e_ctx = ctx, e_milestoneId = up_milestoneId u, e_milestoneRow = None, e_contentHash = up_contentHash u,
      e_filename = up_filename u, e_mimeType = up_mimeType u, e_byteSize = int (length (up_bytes u)),
      e_storageKey = storageKey, e_storageDriver = driver, e_uploadedBy = up_uploadedBy u,
      e_documentLabel = up_label u, e_anchoredOnChain = False, e_anchoredAt = None, e_anchoredTxHash = None,
      e_createdAt = now\<rparr>"

text \<open>\<open>upsert\<close> with an empty update: the row that is there, or the new one.\<close>

definition upsert_evidence :: "evidence_object \<Rightarrow> db \<Rightarrow> evidence_object \<times> db" where
  "upsert_evidence e d =
     (case find_row evidence_key (evidence_key e) (evidence_objects d) of
        Some r \<Rightarrow> (r, d)
      | None \<Rightarrow> (e, d\<lparr>evidence_objects := evidence_objects d @ [e]\<rparr>))"

definition upload_json :: "evidence_object \<Rightarrow> jsval" where
  "upload_json r = JObject
     [(''contentHash'', JString (e_contentHash r)), (''byteSize'', JString (int_to_string (e_byteSize r))),
      (''filename'', JString (e_filename r)), (''mimeType'', JString (e_mimeType r)),
      (''documentLabel'', js_text (e_documentLabel r)), (''anchoredOnChain'', JBool (e_anchoredOnChain r)),
      (''storageDriver'', JString (e_storageDriver r)),
      (''nextStep'', JObject [(''action'', JString ''submit_evidence''),
        (''argument'', JString (e_contentHash r)),
        (''signedBy'', JString ''the supplier, in their own wallet'')])]"

type_synonym 's storage_put = "string \<Rightarrow> bytes \<Rightarrow> 's \<Rightarrow> (api_error + string) \<times> 's"

definition complete_upload ::
  "(bytes \<Rightarrow> bytes) \<Rightarrow> nat \<Rightarrow> projection_context \<Rightarrow> string \<Rightarrow> 's storage_put \<Rightarrow> int \<Rightarrow> jsval \<Rightarrow> 's \<times> db \<Rightarrow>
   (api_error + jsval) \<times> 's \<times> db" where
  "complete_upload sha256 maxBytes ctx driver put now body st =
     (case read_upload sha256 maxBytes body of
        Inl e \<Rightarrow> (Inl e, st)
      | Inr u \<Rightarrow>
          (case put (up_contentHash u) (up_bytes u) (fst st) of
             (Inl e, s) \<Rightarrow> (Inl e, s, snd st)
           | (Inr storageKey, s) \<Rightarrow>
               let (r, d) = upsert_evidence (new_evidence ctx driver now storageKey u) (snd st)
               in (Inr (upload_json r), s, d)))"

definition evidence_by_hash :: "projection_context \<Rightarrow> string \<Rightarrow> db \<Rightarrow> api_error + jsval" where
  "evidence_by_hash ctx contentHash d =
     and_then (throw_if (\<not> is_evidence_hash contentHash)
       (BadRequest ''contentHash must be a SHA-256 digest in hex'')) (\<lambda>_.
     and_then (normalise_evidence_hash contentHash) (\<lambda>digest.
     case find_row evidence_key (ctx, digest) (evidence_objects d) of
       None \<Rightarrow> Inl (NotFound ''No evidence metadata for that digest'')
     | Some r \<Rightarrow>
         and_then (storage_key_for (e_contentHash r)) (\<lambda>key.
         Inr (JObject
           [(''contentHash'', JString (e_contentHash r)), (''filename'', JString (e_filename r)),
            (''mimeType'', JString (e_mimeType r)), (''byteSize'', JString (int_to_string (e_byteSize r))),
            (''documentLabel'', js_text (e_documentLabel r)), (''uploadedBy'', js_text (e_uploadedBy r)),
            (''milestoneId'', js_text (map_option int_to_string (e_milestoneId r))),
            (''anchoredOnChain'', JBool (e_anchoredOnChain r)), (''anchoredTxHash'', js_text (e_anchoredTxHash r)),
            (''anchoredAt'', js_time_option (e_anchoredAt r)), (''storageKey'', JString key),
            (''createdAt'', js_time (e_createdAt r)),
            (''note'', JString (''The chain stores this digest only. A human attestor decides ''
                @ ''whether the document is true.''))]))))"

section \<open>The browser\<close>

definition MAX_EVIDENCE_BYTES :: nat where
  "MAX_EVIDENCE_BYTES = 25 * 1024 * 1024"

text \<open>Choosing a file: a problem, or the digest shown.\<close>

definition choose_file :: "(bytes \<Rightarrow> bytes) \<Rightarrow> bytes \<Rightarrow> string + string" where
  "choose_file sha256 content =
     (if content = [] then Inl ''That file is empty.''
      else if length content > MAX_EVIDENCE_BYTES then Inl ''That file is larger than 25 MB.''
      else Inr (bytes_to_hex (sha256 content)))"

text \<open>The body of the upload: the bytes, and the digest the server has to reach.\<close>

definition upload_body ::
  "bytes \<Rightarrow> string \<Rightarrow> string \<Rightarrow> string \<Rightarrow> string \<Rightarrow> string option \<Rightarrow> string \<Rightarrow> jsval" where
  "upload_body content digest fileName fileType label wallet milestoneId = JObject
     [(''contentBase64'', JString (to_base64 content)), (''expectedHash'', JString digest),
      (''filename'', JString fileName),
      (''mimeType'', JString (if fileType = [] then ''application/octet-stream'' else fileType)),
      (''documentLabel'', JString label), (''uploadedBy'', js_text wallet), (''milestoneId'', JString milestoneId)]"

end
