(* ===== verification/EvidenceClaims.thy ===== *)
theory EvidenceClaims
  imports Evidence ProjectorProperties IndexerService TxClaims
begin

text \<open>
  What evidence uploads guarantee. The contract between the controller and a storage driver is the
  locale \<open>evidence_store\<close>; in it, an upload keeps every stored document under the digest of its bytes
  and every recorded row's document in storage. The local driver is an instance, so the same holds of
  every interleaving of uploads with the indexer's projections and resets.
\<close>

section \<open>A storage driver\<close>

locale evidence_store =
  fixes put :: "string \<Rightarrow> bytes \<Rightarrow> 's \<Rightarrow> (api_error + string) \<times> 's"
    and fetch :: "string \<Rightarrow> 's \<Rightarrow> api_error + bytes"
  assumes put_key: "is_hex64 h \<Longrightarrow> put h bs s = (Inr k, s') \<Longrightarrow> k = digest_key h"
    and put_fetch: "is_hex64 h \<Longrightarrow> put h bs s = (Inr k, s') \<Longrightarrow> fetch (digest_key h) s' = Inr bs"
    and put_other: "is_hex64 h \<Longrightarrow> is_hex64 g \<Longrightarrow> g \<noteq> h \<Longrightarrow> put h bs s = (r, s') \<Longrightarrow>
      fetch (digest_key g) s' = fetch (digest_key g) s"
    and put_failed: "is_hex64 h \<Longrightarrow> put h bs s = (Inl e, s') \<Longrightarrow>
      fetch (digest_key h) s' = fetch (digest_key h) s \<or> fetch (digest_key h) s' = Inr bs"

text \<open>Every document in storage hashes to its digest; every row of the driver has its document there.\<close>

definition documents_hashed ::
  "(bytes \<Rightarrow> bytes) \<Rightarrow> (string \<Rightarrow> 's \<Rightarrow> api_error + bytes) \<Rightarrow> 's \<Rightarrow> bool" where
  "documents_hashed sha256 fetch s \<longleftrightarrow>
     (\<forall>h bs. is_hex64 h \<longrightarrow> fetch (digest_key h) s = Inr bs \<longrightarrow> hash_evidence sha256 bs = h)"

definition documents_filed :: "(string \<Rightarrow> 's \<Rightarrow> api_error + bytes) \<Rightarrow> 's \<Rightarrow> evidence_object list \<Rightarrow> bool" where
  "documents_filed fetch s rows \<longleftrightarrow>
     (\<forall>r \<in> set rows. is_hex64 (e_contentHash r) \<and> e_storageKey r = digest_key (e_contentHash r)
        \<and> (\<exists>bs. fetch (digest_key (e_contentHash r)) s = Inr bs))"

definition evidence_ok ::
  "(bytes \<Rightarrow> bytes) \<Rightarrow> (string \<Rightarrow> 's \<Rightarrow> api_error + bytes) \<Rightarrow> 's \<times> db \<Rightarrow> bool" where
  "evidence_ok sha256 fetch x \<longleftrightarrow> documents_hashed sha256 fetch (fst x)
     \<and> documents_filed fetch (fst x) (evidence_objects (snd x))
     \<and> distinct (map evidence_key (evidence_objects (snd x)))"

section \<open>What an accepted upload is\<close>

lemma hash_is_hex64:
  assumes "\<And>bs. length (sha256 bs) = 32"
  shows "is_hex64 (hash_evidence sha256 bs)"
  using assms [of bs] lower_hex_bytes_to_hex [of "sha256 bs"] by (simp add: is_hex64_def hash_evidence_def)

lemma read_document_Inr:
  "read_document maxBytes v = Inr bs \<longleftrightarrow> v = JString (to_base64 bs) \<and> bs \<noteq> [] \<and> length bs \<le> maxBytes"
proof
  assume "read_document maxBytes v = Inr bs"
  then show "v = JString (to_base64 bs) \<and> bs \<noteq> [] \<and> length bs \<le> maxBytes"
    by (auto simp: read_document_def Let_def result_simps split: jsval.splits)
next
  assume a: "v = JString (to_base64 bs) \<and> bs \<noteq> [] \<and> length bs \<le> maxBytes"
  then have "(length bs + 2) div 3 \<le> (maxBytes + 2) div 3" by (intro div_le_mono) simp
  with a show "read_document maxBytes v = Inr bs"
    by (simp add: read_document_def Let_def to_base64_Nil length_to_base64)
qed

lemma read_upload_Inr:
  assumes "read_upload sha256 maxBytes body = Inr u"
  shows "up_contentHash u = hash_evidence sha256 (up_bytes u)"
    and "\<exists>f. body = JObject f \<and> get_field f ''contentBase64'' = JString (to_base64 (up_bytes u))
      \<and> (\<forall>e. get_field f ''expectedHash'' = JString e \<longrightarrow> to_lower (trim e) = up_contentHash u)"
    and "up_bytes u \<noteq> [] \<and> length (up_bytes u) \<le> maxBytes"
proof -
  let ?f = "case body of JObject f \<Rightarrow> f | _ \<Rightarrow> []"
  from assms have u: "read_document maxBytes (get_field ?f ''contentBase64'') = Inr (up_bytes u)"
    "up_contentHash u = hash_evidence sha256 (up_bytes u)"
    "check_expected (get_field ?f ''expectedHash'') (up_contentHash u) = Inr ()"
    unfolding read_upload_def Let_def and_then_Inr throw_if_Inr by auto
  then show "up_contentHash u = hash_evidence sha256 (up_bytes u)"
    and "up_bytes u \<noteq> [] \<and> length (up_bytes u) \<le> maxBytes"
    by (simp_all add: read_document_Inr)
  have "get_field ?f ''contentBase64'' \<noteq> JUndefined" using u(1) by (auto simp: read_document_Inr)
  then obtain f where f: "body = JObject f" by (cases body) (auto simp: get_field_def)
  have "to_lower (trim e) = up_contentHash u" if "get_field f ''expectedHash'' = JString e" for e
    using u(3) that unfolding f
    by (auto simp: check_expected_def normalise_evidence_hash_def Let_def result_simps split: if_splits)
  with u(1) f show "\<exists>f. body = JObject f \<and> get_field f ''contentBase64'' = JString (to_base64 (up_bytes u))
      \<and> (\<forall>e. get_field f ''expectedHash'' = JString e \<longrightarrow> to_lower (trim e) = up_contentHash u)"
    by (auto simp: read_document_Inr)
qed

lemma upsert_evidence_rows:
  assumes "upsert_evidence e d = (r, d')"
  shows "evidence_objects d' = insert_if_absent evidence_key e (evidence_objects d)"
    and "r \<in> set (evidence_objects d')" and "evidence_key r = evidence_key e"
  using assms find_row_in [of evidence_key "evidence_key e" "evidence_objects d"]
    find_row_key [of evidence_key "evidence_key e" "evidence_objects d"]
  by (auto simp: upsert_evidence_def insert_if_absent_def split: option.splits)

section \<open>The controller over a driver\<close>

context evidence_store begin

lemma put_hashed:
  assumes "documents_hashed sha256 fetch s" and "is_hex64 (hash_evidence sha256 bs)"
    and "put (hash_evidence sha256 bs) bs s = (r, s')"
  shows "documents_hashed sha256 fetch s'"
  unfolding documents_hashed_def
proof (intro allI impI)
  fix h cs assume h: "is_hex64 h" "fetch (digest_key h) s' = Inr cs"
  show "hash_evidence sha256 cs = h"
  proof (cases "h = hash_evidence sha256 bs")
    case True
    then have "fetch (digest_key h) s' = fetch (digest_key h) s \<or> fetch (digest_key h) s' = Inr bs"
      using put_fetch [OF assms(2)] put_failed [OF assms(2)] assms(3) by (cases r) blast+
    with h True assms(1) show ?thesis by (auto simp: documents_hashed_def)
  next
    case False
    with put_other [OF assms(2) h(1) False assms(3)] h assms(1) show ?thesis
      by (simp add: documents_hashed_def)
  qed
qed

lemma put_filed:
  assumes "documents_filed fetch s rows" and "is_hex64 h" and "put h bs s = (r, s')"
  shows "documents_filed fetch s' rows"
  unfolding documents_filed_def
proof
  fix x assume "x \<in> set rows"
  with assms(1) have x: "is_hex64 (e_contentHash x)" "e_storageKey x = digest_key (e_contentHash x)"
    "\<exists>cs. fetch (digest_key (e_contentHash x)) s = Inr cs"
    by (auto simp: documents_filed_def)
  have "\<exists>cs. fetch (digest_key (e_contentHash x)) s' = Inr cs"
  proof (cases "e_contentHash x = h")
    case True
    with x(3) put_fetch [OF assms(2)] put_failed [OF assms(2)] assms(3) show ?thesis
      by (cases r) (metis)+
  next
    case False
    with x put_other [OF assms(2) x(1) False assms(3)] show ?thesis by simp
  qed
  with x show "is_hex64 (e_contentHash x) \<and> e_storageKey x = digest_key (e_contentHash x)
      \<and> (\<exists>bs. fetch (digest_key (e_contentHash x)) s' = Inr bs)" by simp
qed

lemma complete_keeps_ok:
  assumes "\<And>bs. length (sha256 bs) = 32" and "evidence_ok sha256 fetch x"
  shows "evidence_ok sha256 fetch (snd (complete_upload sha256 maxBytes ctx driver put now body x))"
proof (cases "read_upload sha256 maxBytes body")
  case (Inl e)
  with assms(2) show ?thesis by (simp add: complete_upload_def)
next
  case (Inr u)
  obtain s d where x: "x = (s, d)" by (cases x)
  note hash = read_upload_Inr(1) [OF Inr]
  have hex: "is_hex64 (up_contentHash u)" unfolding hash by (rule hash_is_hex64 [OF assms(1)])
  obtain r s' where put: "put (up_contentHash u) (up_bytes u) s = (r, s')"
    by (cases "put (up_contentHash u) (up_bytes u) s")
  have ok: "documents_hashed sha256 fetch s'" "documents_filed fetch s' (evidence_objects d)"
    "distinct (map evidence_key (evidence_objects d))"
    using put_hashed [of sha256 s "up_bytes u" r s'] put_filed [OF _ hex put] assms(2) hex put hash
    by (simp_all add: evidence_ok_def x)
  show ?thesis
  proof (cases r)
    case (Inl e)
    with Inr put ok show ?thesis by (simp add: complete_upload_def evidence_ok_def x)
  next
    case (Inr k)
    let ?e = "new_evidence ctx driver now k u"
    obtain row d' where ups: "upsert_evidence ?e d = (row, d')" by (cases "upsert_evidence ?e d")
    have "k = digest_key (up_contentHash u)" "fetch (digest_key (up_contentHash u)) s' = Inr (up_bytes u)"
      using put_key [OF hex] put_fetch [OF hex] put Inr by blast+
    then have "documents_filed fetch s' [?e]" using hex by (simp add: documents_filed_def new_evidence_def)
    moreover have "evidence_objects d' = insert_if_absent evidence_key ?e (evidence_objects d)"
      by (rule upsert_evidence_rows(1) [OF ups])
    ultimately have "documents_filed fetch s' (evidence_objects d')"
      "distinct (map evidence_key (evidence_objects d'))"
      using ok by (auto simp: insert_if_absent_def documents_filed_def find_row_None)
    with ok(1) Inr put ups \<open>read_upload sha256 maxBytes body = Inr u\<close> show ?thesis
      by (simp add: complete_upload_def evidence_ok_def x)
  qed
qed

end

section \<open>The local driver is one\<close>

lemma local_root_resolved: "\<exists>p. local_root cwd directory = resolve_path p"
  by (auto simp: local_root_def)

interpretation local_files: evidence_store "put_file cwd directory writable" "get_file cwd directory"
proof
  obtain p where p: "local_root cwd directory = resolve_path p" using local_root_resolved by blast
  have put: "put_file cwd directory writable h bs fs =
      (case path_for (resolve_path p) (digest_key h) of
         Inl e \<Rightarrow> (Inl e, fs)
       | Inr path \<Rightarrow> if writable path then (Inr (digest_key h), fs(path \<mapsto> bs))
                     else (Inl (EvidenceStorageError (''cannot write '' @ path)), fs))"
    if "is_hex64 h" for h bs fs
    using that by (simp add: put_file_def local_put_def p throw_if_def split: sum.split)
  fix h bs fs k fs' assume h: "is_hex64 h"
  show "put_file cwd directory writable h bs fs = (Inr k, fs') \<Longrightarrow> k = digest_key h"
    by (auto simp: put [OF h] split: sum.splits if_splits)
  show "put_file cwd directory writable h bs fs = (Inr k, fs') \<Longrightarrow>
      get_file cwd directory (digest_key h) fs' = Inr bs"
    by (auto simp: put [OF h] get_file_def local_get_def p split: sum.splits if_splits)
  show "put_file cwd directory writable h bs fs = (Inl e, fs') \<Longrightarrow>
      get_file cwd directory (digest_key h) fs' = get_file cwd directory (digest_key h) fs
      \<or> get_file cwd directory (digest_key h) fs' = Inr bs" for e
    by (auto simp: put [OF h] split: sum.splits if_splits)
  fix g r assume g: "is_hex64 g" "g \<noteq> h" "put_file cwd directory writable h bs fs = (r, fs')"
  show "get_file cwd directory (digest_key g) fs' = get_file cwd directory (digest_key g) fs"
  proof (cases "path_for (resolve_path p) (digest_key g)")
    case (Inl e)
    then show ?thesis by (simp add: get_file_def local_get_def p)
  next
    case (Inr y)
    have "x \<noteq> y" if "path_for (resolve_path p) (digest_key h) = Inr x" for x
      using paths_differ [OF h g(1) that Inr] g(2) by simp
    with Inr g(3) show ?thesis
      by (auto simp: put [OF h] get_file_def local_get_def p split: sum.splits if_splits)
  qed
qed

section \<open>Uploads, projections and resets\<close>

text \<open>
  The API's uploads, with the indexer's projections and resets between them. All uploads of one
  deployment go through one storage driver, here the local one.
\<close>

record evidence_setup =
  es_maxBytes :: nat
  es_ctx :: projection_context
  es_cwd :: string
  es_directory :: string
  es_writable :: "string \<Rightarrow> bool"

definition upload_step ::
  "(bytes \<Rightarrow> bytes) \<Rightarrow> evidence_setup \<Rightarrow> int \<Rightarrow> jsval \<Rightarrow> file_system \<times> db \<Rightarrow>
   (api_error + jsval) \<times> file_system \<times> db" where
  "upload_step sha256 es = complete_upload sha256 (es_maxBytes es) (es_ctx es) ''local-dev''
     (put_file (es_cwd es) (es_directory es) (es_writable es))"

definition stored_document :: "evidence_setup \<Rightarrow> string \<Rightarrow> file_system \<Rightarrow> api_error + bytes" where
  "stored_document es = get_file (es_cwd es) (es_directory es)"

inductive evidence_step :: "(bytes \<Rightarrow> bytes) \<Rightarrow> evidence_setup \<Rightarrow> file_system \<times> db \<Rightarrow> file_system \<times> db \<Rightarrow> bool"
  for sha256 :: "bytes \<Rightarrow> bytes" and es :: evidence_setup where
  uploaded: "upload_step sha256 es now body x = (r, y) \<Longrightarrow> evidence_step sha256 es x y"
| projected: "project_event ctx ev d = Inr (b, d') \<Longrightarrow> evidence_step sha256 es (fs, d) (fs, d')"
| was_reset: "evidence_step sha256 es (fs, d) (fs, reset ctx start d)"

text \<open>What an upload recorded of a document: everything but the marks of the indexer.\<close>

lemma projection_write_records:
  assumes "projection_write escrow ctx ev d d'"
  shows "map unanchored (evidence_objects d') = map unanchored (evidence_objects d)"
  using assms
  by (cases rule: projection_write.cases)
    (auto simp: statement_defs unanchored_def update_rows_def split: if_splits sum.splits elim!: and_then.elims)

lemma projection_records:
  assumes "project_event ctx ev d = Inr (b, d')"
  shows "map unanchored (evidence_objects d') = map unanchored (evidence_objects d)"
proof -
  have "projection_writes (moves_escrow ev) ctx ev d d'" by (rule project_event_writes(1) [OF assms])
  then show ?thesis by (induction rule: rtranclp_induct) (simp_all add: projection_write_records)
qed

lemma reset_records: "map unanchored (evidence_objects (reset ctx start d)) = map unanchored (evidence_objects d)"
proof -
  have "evidence_objects (ensure_cursor ctx start d) = evidence_objects d"
    by (simp add: ensure_cursor_def)
  then show ?thesis by (simp add: reset_def Let_def update_rows_def unanchored_def)
qed

lemma same_records_ok:
  assumes "map unanchored (evidence_objects d') = map unanchored (evidence_objects d)"
    and "evidence_ok sha256 fetch (s, d)"
  shows "evidence_ok sha256 fetch (s, d')"
proof -
  have un: "e_contentHash (unanchored r) = e_contentHash r" "e_storageKey (unanchored r) = e_storageKey r"
    "evidence_key (unanchored r) = evidence_key r" for r
    by (simp_all add: unanchored_def evidence_key_def)
  have filed: "documents_filed fetch s rows \<longleftrightarrow> documents_filed fetch s (map unanchored rows)" for rows
    by (simp add: documents_filed_def un)
  have "map evidence_key (map unanchored (evidence_objects d')) = map evidence_key (map unanchored (evidence_objects d))"
    using assms(1) by simp
  then have "map evidence_key (evidence_objects d') = map evidence_key (evidence_objects d)"
    by (simp add: un o_def)
  with assms filed [of "evidence_objects d"] filed [of "evidence_objects d'"] show ?thesis
    by (simp add: evidence_ok_def)
qed

lemma evidence_step_ok:
  assumes "\<And>bs. length (sha256 bs) = 32" and "evidence_step sha256 es x y"
    and "evidence_ok sha256 (stored_document es) x"
  shows "evidence_ok sha256 (stored_document es) y"
  using assms(2,3)
proof (induction rule: evidence_step.induct)
  case (uploaded now body x r y)
  then have y: "y = snd (complete_upload sha256 (es_maxBytes es) (es_ctx es) ''local-dev''
      (put_file (es_cwd es) (es_directory es) (es_writable es)) now body x)"
    by (simp add: upload_step_def)
  show ?case unfolding y stored_document_def
    by (rule local_files.complete_keeps_ok [OF assms(1)]) (use uploaded.prems in \<open>simp add: stored_document_def\<close>)
next
  case (projected ctx ev d b d' fs)
  then show ?case by (blast intro: same_records_ok projection_records)
next
  case (was_reset fs d ctx start)
  then show ?case by (blast intro: same_records_ok reset_records)
qed

text \<open>
  C35: A recorded document is always the one in storage. Starting from an empty storage and a database
  without evidence, after any sequence of uploads, projected events and resets, every evidence row has
  a 64-digit digest of its own, its storage key is the one derived from the digest, the file there
  exists below the root, and its bytes hash to exactly that digest; no two rows of a stream share one.
  SHA-256 is any function with 32-byte results.
\<close>

theorem recorded_documents_are_stored:
  assumes "\<And>bs. length (sha256 bs) = 32"
    and "(evidence_step sha256 es)\<^sup>*\<^sup>* (Map.empty, d0) (fs, d)" and "evidence_objects d0 = []"
  shows "(\<forall>r \<in> set (evidence_objects d). is_hex64 (e_contentHash r)
      \<and> storage_key_for (e_contentHash r) = Inr (e_storageKey r)
      \<and> (\<exists>bs. stored_document es (e_storageKey r) fs = Inr bs
           \<and> verify_evidence sha256 bs (e_contentHash r) = Inr True))
    \<and> distinct (map evidence_key (evidence_objects d))"
proof -
  have "evidence_ok sha256 (stored_document es) (Map.empty, d0)"
    using assms(3) by (auto simp: evidence_ok_def documents_hashed_def documents_filed_def
        stored_document_def get_file_def local_get_def result_simps)
  with assms(2) have "evidence_ok sha256 (stored_document es) (fs, d)"
    by (induction rule: rtranclp_induct) (blast intro: evidence_step_ok assms(1))+
  then show ?thesis
    by (fastforce simp: evidence_ok_def documents_hashed_def documents_filed_def verify_evidence_def)
qed

section \<open>From the browser to the chain\<close>

lemma put_file_writes:
  assumes "is_hex64 h" and "path_segments (if starts_with ''/'' directory then directory else cwd @ ''/'' @ directory) \<noteq> []"
    and "writable = (\<lambda>_. True)"
  shows "\<exists>fs'. put_file cwd directory writable h bs fs = (Inr (digest_key h), fs')"
  using path_for_key [OF assms(1,2)] assms(1,3)
  by (simp add: put_file_def local_put_def local_root_def)

definition taken_upload ::
  "bytes \<Rightarrow> string \<Rightarrow> string \<Rightarrow> string \<Rightarrow> string \<Rightarrow> string \<Rightarrow> int \<Rightarrow> upload" where
  "taken_upload content digest fileName fileType label wallet mid =
     \<lparr>up_bytes = content, up_mimeType = (if fileType = [] then ''application/octet-stream'' else fileType),
      up_label = Some (take MAX_LABEL_LENGTH label), up_uploadedBy = Some wallet, up_milestoneId = Some mid,
      up_contentHash = digest, up_filename = sanitise_filename fileName\<rparr>"

lemma read_milestone_id:
  "0 < mid \<Longrightarrow> mid \<le> 9223372036854775807 \<Longrightarrow> read_milestone (JString (int_to_string mid)) = Inr (Some mid)"
  by (simp add: read_milestone_def int_to_string_def nat_le_iff)

lemma octet_stream_allowed: "allowed_mime ''application/octet-stream''"
  by code_simp

lemma read_taken_upload:
  assumes "content \<noteq> []" and "length content \<le> maxBytes" and "fileType = [] \<or> allowed_mime fileType"
    and "is_wallet wallet" and "0 < mid" and "mid \<le> 9223372036854775807"
  shows "read_upload sha256 maxBytes
      (upload_body content h fileName fileType label (Some wallet) (int_to_string mid))
    = and_then (check_expected (JString h) (hash_evidence sha256 content)) (\<lambda>_.
        Inr (taken_upload content (hash_evidence sha256 content) fileName fileType label wallet mid))"
proof -
  have "read_document maxBytes (JString (to_base64 content)) = Inr content"
    using assms(1,2) by (simp add: read_document_Inr)
  then show ?thesis
    using assms(3,4) octet_stream_allowed
    by (auto simp: read_upload_def upload_body_def get_field_def text_field_def js_text_def Let_def
        read_milestone_id [OF assms(5,6)] taken_upload_def)
qed

lemma digest_bytes_hash:
  assumes "is_hex64 (hash_evidence sha256 content)"
  shows "digest_bytes (hash_evidence sha256 content) = Inr (sha256 content)"
proof -
  obtain b where b: "digest_bytes (hash_evidence sha256 content) = Inr b"
    using assms by (simp add: digest_bytes_def)
  then have "bytes_to_hex b = hash_evidence sha256 content" using digest_bytes_Inr by blast
  with b show ?thesis by (simp add: hash_evidence_def bytes_to_hex_inject)
qed

lemma accepted_upload:
  assumes "\<And>bs. length (sha256 bs) = 32" and "content \<noteq> []" and "length content \<le> es_maxBytes es"
    and "fileType = [] \<or> allowed_mime fileType" and "is_wallet wallet"
    and "0 < mid" and "mid \<le> 9223372036854775807"
    and "path_segments (if starts_with ''/'' (es_directory es) then es_directory es
                        else es_cwd es @ ''/'' @ es_directory es) \<noteq> []"
    and "es_writable es = (\<lambda>_. True)" and digest: "digest = hash_evidence sha256 content"
  shows "\<exists>json fs' d'. upload_step sha256 es now
        (upload_body content digest fileName fileType label (Some wallet) (int_to_string mid)) (fs, d)
      = (Inr (JObject json), fs', d')
    \<and> get_field json ''contentHash'' = JString digest
    \<and> stored_document es (digest_key digest) fs' = Inr content
    \<and> (\<exists>new. evidence_objects d' = evidence_objects d @ new)
    \<and> (es_ctx es, digest) \<in> evidence_key ` set (evidence_objects d')"
proof -
  have hex: "is_hex64 digest" unfolding digest by (rule hash_is_hex64 [OF assms(1)])
  let ?u = "taken_upload content digest fileName fileType label wallet mid"
  have "check_expected (JString digest) digest = Inr ()"
    using hex by (simp add: check_expected_def is_evidence_hash_def is_hex64_def trim_hex to_lower_hex)
  then have read: "read_upload sha256 (es_maxBytes es)
      (upload_body content digest fileName fileType label (Some wallet) (int_to_string mid)) = Inr ?u"
    using assms(2-7) by (simp add: read_taken_upload digest)
  obtain fs' where put: "put_file (es_cwd es) (es_directory es) (es_writable es) digest content fs
      = (Inr (digest_key digest), fs')"
    using put_file_writes [OF hex assms(8,9)] by blast
  let ?e = "new_evidence (es_ctx es) ''local-dev'' now (digest_key digest) ?u"
  obtain r d' where ups: "upsert_evidence ?e d = (r, d')" by (cases "upsert_evidence ?e d")
  note rows = upsert_evidence_rows [OF ups]
  have key: "evidence_key ?e = (es_ctx es, digest)"
    by (simp add: evidence_key_def new_evidence_def taken_upload_def)
  obtain json where json: "upload_json r = JObject json" "get_field json ''contentHash'' = JString digest"
    using rows(3) key by (simp add: upload_json_def get_field_def evidence_key_def)
  have "upload_step sha256 es now
      (upload_body content digest fileName fileType label (Some wallet) (int_to_string mid)) (fs, d)
      = (Inr (JObject json), fs', d')"
    using put ups json(1) by (simp add: upload_step_def complete_upload_def read taken_upload_def)
  moreover have "stored_document es (digest_key digest) fs' = Inr content"
    unfolding stored_document_def by (rule local_files.put_fetch [OF hex put])
  moreover have "\<exists>new. evidence_objects d' = evidence_objects d @ new"
    unfolding rows(1) by (auto simp: insert_if_absent_def)
  moreover have "(es_ctx es, digest) \<in> evidence_key ` set (evidence_objects d')"
    using rows(2,3) key by force
  ultimately show ?thesis using json(2) by blast
qed

lemma refused_upload:
  assumes "content \<noteq> []" and "length content \<le> es_maxBytes es"
    and "fileType = [] \<or> allowed_mime fileType" and "is_wallet wallet"
    and "0 < mid" and "mid \<le> 9223372036854775807"
    and "to_lower (trim other) \<noteq> hash_evidence sha256 content"
  shows "\<exists>e. upload_step sha256 es now (upload_body content other fileName fileType label (Some wallet)
        (int_to_string mid)) (fs, d) = (Inl e, fs, d)"
proof -
  have "\<exists>e. check_expected (JString other) (hash_evidence sha256 content) = Inl e"
    using assms(7) by (auto simp: check_expected_def normalise_evidence_hash_def Let_def throw_if_def)
  then show ?thesis
    using read_taken_upload [OF assms(1-6)] by (auto simp: upload_step_def complete_upload_def)
qed

text \<open>
  C36: What a supplier signs is the document they chose. A file the browser accepts, of a type the
  server accepts and within its limit, is taken with the digest the browser showed: the upload
  returns that digest as the argument to sign, the bytes stored under it are the file's, a row for it
  is recorded and no recorded row changes; the transaction built for the wallet then carries exactly
  the SHA-256 of the file. With any other digest the same request is refused and nothing is stored or
  recorded.
\<close>

theorem signed_digest_is_the_document:
  assumes "\<And>bs. length (sha256 bs) = 32"
    and "choose_file sha256 content = Inr digest" and "length content \<le> es_maxBytes es"
    and "fileType = [] \<or> allowed_mime fileType" and "is_wallet wallet"
    and "0 < mid" and "mid \<le> 9223372036854775807"
    and "path_segments (if starts_with ''/'' (es_directory es) then es_directory es
                        else es_cwd es @ ''/'' @ es_directory es) \<noteq> []"
    and "es_writable es = (\<lambda>_. True)"
  shows "(\<exists>json fs' d'.
      upload_step sha256 es now (upload_body content digest fileName fileType label (Some wallet)
        (int_to_string mid)) (fs, d) = (Inr (JObject json), fs', d')
      \<and> get_field json ''contentHash'' = JString digest
      \<and> stored_document es (digest_key digest) fs' = Inr content
      \<and> (\<exists>new. evidence_objects d' = evidence_objects d @ new)
      \<and> (es_ctx es, digest) \<in> evidence_key ` set (evidence_objects d')
      \<and> build_call usdc (SubmitEvidenceCall (int_to_string mid) digest) wallet
          = Inr (invoke ''submit_evidence''
              [(''milestone_id'', IntValue mid), (''evidence_hash'', BytesValue (sha256 content))]))
    \<and> (to_lower (trim other) \<noteq> digest \<longrightarrow>
      (\<exists>e. upload_step sha256 es now (upload_body content other fileName fileType label (Some wallet)
        (int_to_string mid)) (fs, d) = (Inl e, fs, d)))"
proof -
  have content: "content \<noteq> []" and digest: "digest = hash_evidence sha256 content"
    using assms(2) by (auto simp: choose_file_def hash_evidence_def split: if_splits)
  have "build_call usdc (SubmitEvidenceCall (int_to_string mid) digest) wallet
      = Inr (invoke ''submit_evidence'' [(''milestone_id'', IntValue mid), (''evidence_hash'', BytesValue (sha256 content))])"
    using hash_is_hex64 [OF assms(1)] by (simp add: big_int_def digest digest_bytes_hash)
  with accepted_upload [OF assms(1) content assms(3-9) digest, of now fileName label fs d]
    refused_upload [OF content assms(3-7), of other sha256 now fileName label fs d]
  show ?thesis unfolding digest by blast
qed

section \<open>A late upload\<close>

text \<open>
  A document uploaded after its digest was committed on chain gets a row that is not marked as
  anchored, although the commitment is already among the anchors; only a new commitment marks it.
\<close>

theorem late_upload_is_not_marked:
  assumes "read_upload sha256 maxBytes body = Inr u" and "put (up_contentHash u) (up_bytes u) s = (Inr k, s')"
    and "find_row evidence_key (ctx, up_contentHash u) (evidence_objects d) = None"
    and "\<exists>a \<in> set (evidence_anchors d). a_ctx a = ctx \<and> a_contentHash a = up_contentHash u"
  shows "\<exists>r. evidence_objects (snd (snd (complete_upload sha256 maxBytes ctx driver put now body (s, d))))
      = evidence_objects d @ [r]
    \<and> e_contentHash r = up_contentHash u \<and> \<not> e_anchoredOnChain r"
  using assms(1-3)
  by (simp add: complete_upload_def upsert_evidence_def evidence_key_def new_evidence_def)

text \<open>A dot behind a space survives: the name is trimmed only after its leading dots are removed.\<close>

theorem hidden_name_survives: "sanitise_filename '' .env'' = ''.env''"
  by (simp add: sanitise_filename_def is_separator_def is_control_def trim_def is_space_def code_def Let_def)

section \<open>Witnesses\<close>

text \<open>A function with 32-byte results in the place of SHA-256, and a deployment.\<close>

definition sample_digest :: "bytes \<Rightarrow> bytes" where
  "sample_digest bs = take 32 (bs @ replicate 32 0)"

lemma sample_digest_length: "length (sample_digest bs) = 32"
  by (simp add: sample_digest_def)

definition sample_setup :: evidence_setup where
  "sample_setup = \<lparr>es_maxBytes = 100, es_ctx = \<lparr>network = ''testnet'', contractId = ''C''\<rparr>, es_cwd = ''/srv'',
     es_directory = ''evidence'', es_writable = (\<lambda>_. True)\<rparr>"

lemma sample_root:
  "path_segments (if starts_with ''/'' (es_directory sample_setup) then es_directory sample_setup
     else es_cwd sample_setup @ ''/'' @ es_directory sample_setup) \<noteq> []"
  by (simp add: sample_setup_def path_segments_def path_step_def starts_with_def)

definition sample_wallet :: string where
  "sample_wallet = CHR ''G'' # replicate 55 (CHR ''A'')"

lemma sample_wallet_ok: "is_wallet sample_wallet"
  by (simp add: sample_wallet_def is_wallet_def is_base32_def code_def list_all_iff)

lemma sample_choice: "choose_file sample_digest [1, 2, 3] = Inr (hash_evidence sample_digest [1, 2, 3])"
  by (simp add: choose_file_def MAX_EVIDENCE_BYTES_def hash_evidence_def)

text \<open>A database with no rows.\<close>

definition no_rows :: db where
  "no_rows = \<lparr>orders = [], milestones = [], requests = [], offers = [], positions = [], disputes = [],
     settlements = [], refunds = [], evidence_objects = [], evidence_anchors = [], event_log = [],
     daily = [], cursors = [], anchor_transactions = [], cycles = [], participants = []\<rparr>"

theorem signed_digest_is_the_document_witness:
  "\<exists>json fs' d'. upload_step sample_digest sample_setup 0
      (upload_body [1, 2, 3] (hash_evidence sample_digest [1, 2, 3]) ''qc.pdf'' [] ''QC report'' (Some sample_wallet)
        (int_to_string 7)) (Map.empty, no_rows) = (Inr (JObject json), fs', d')
    \<and> stored_document sample_setup (digest_key (hash_evidence sample_digest [1, 2, 3])) fs' = Inr [1, 2, 3]"
proof -
  have "length [1, 2, 3 :: 8 word] \<le> es_maxBytes sample_setup" "es_writable sample_setup = (\<lambda>_. True)"
    by (simp_all add: sample_setup_def)
  then show ?thesis
    using signed_digest_is_the_document [OF sample_digest_length sample_choice, of sample_setup "[]" sample_wallet 7]
      sample_wallet_ok sample_root by fastforce
qed

theorem recorded_documents_are_stored_witness:
  "\<exists>fs d r bs. (evidence_step sample_digest sample_setup)\<^sup>*\<^sup>* (Map.empty, no_rows) (fs, d)
    \<and> r \<in> set (evidence_objects d) \<and> stored_document sample_setup (e_storageKey r) fs = Inr bs
    \<and> verify_evidence sample_digest bs (e_contentHash r) = Inr True"
proof -
  let ?h = "hash_evidence sample_digest [1, 2, 3]"
  have "length [1, 2, 3 :: 8 word] \<le> es_maxBytes sample_setup" "es_writable sample_setup = (\<lambda>_. True)"
    "[1, 2, 3 :: 8 word] \<noteq> []" "[] = [] \<or> allowed_mime []" "(0 :: int) < 7" "(7 :: int) \<le> 9223372036854775807"
    by (simp_all add: sample_setup_def)
  note fits = this
  obtain json fs d where up: "upload_step sample_digest sample_setup 0
      (upload_body [1, 2, 3] ?h [] [] [] (Some sample_wallet) (int_to_string 7)) (Map.empty, no_rows)
      = (Inr (JObject json), fs, d)" and row: "(es_ctx sample_setup, ?h) \<in> evidence_key ` set (evidence_objects d)"
    using accepted_upload [where ?sha256.0 = sample_digest and now = 0 and fileName = "[]" and label = "[]"
        and fs = Map.empty and d = no_rows, OF sample_digest_length fits(3,1,4) sample_wallet_ok fits(5,6)
        sample_root fits(2) refl] by blast
  have "evidence_step sample_digest sample_setup (Map.empty, no_rows) (fs, d)"
    by (rule evidence_step.uploaded [OF up])
  then have reached: "(evidence_step sample_digest sample_setup)\<^sup>*\<^sup>* (Map.empty, no_rows) (fs, d)" by blast
  obtain r where r: "r \<in> set (evidence_objects d)" using row by blast
  have "evidence_objects no_rows = []" by (simp add: no_rows_def)
  from recorded_documents_are_stored [where ?sha256.0 = sample_digest, OF sample_digest_length reached this] r reached
  show ?thesis by blast
qed

end
