(* ===== verification/DemoConsent.thy ===== *)
theory DemoConsent
  imports Serialise PublicMetricsProperties
begin

text \<open>
  Consent to be counted: \<open>apps/api/src/demo/demo.controller.ts\<close>. Recording is two database statements,
  a read and an upsert, between which other requests may run; what the public metrics count from the
  rows is in \<open>PublicMetrics\<close>.
\<close>

section \<open>The request\<close>

definition CONSENT_FORBIDDEN_FIELDS :: "string list" where
  "CONSENT_FORBIDDEN_FIELDS =
     [''jwt'', ''token'', ''authorization'', ''secret'', ''seed'', ''privateKey'', ''secretKey'', ''kyc'',
      ''bankAccount'', ''iban'', ''nationalId'', ''email'', ''phone'', ''name'']"

definition SOURCES :: "string list" where
  "SOURCES = [''trade-lab'', ''invite'', ''workspace'']"

record consent_request =
  cr_wallet :: string
  cr_consent :: bool
  cr_team :: bool
  cr_source :: string

definition parse_address :: "string \<Rightarrow> api_error + string" where
  "parse_address raw =
     (if is_wallet raw then Inr raw else Inl (BadRequest ''walletAddress must be a Stellar public key''))"

definition consent_source :: "(rat option \<Rightarrow> string) \<Rightarrow> jsval \<Rightarrow> string" where
  "consent_source nt v = (if v = JUndefined then ''trade-lab'' else js_string nt v)"

definition read_consent :: "(rat option \<Rightarrow> string) \<Rightarrow> jsval \<Rightarrow> api_error + consent_request" where
  "read_consent nt body =
     (case body of
        JObject f \<Rightarrow>
          (case forbidden_field CONSENT_FORBIDDEN_FIELDS f of
             Some k \<Rightarrow> Inl (BadRequest (''Milvance never stores '' @ [CHR 0x27] @ k @ [CHR 0x27]
                 @ ''. Remove it and resend: this record is a wallet address and a consent flag, nothing else.''))
           | None \<Rightarrow>
               and_then (parse_address (text_or_empty nt (get_field f ''walletAddress''))) (\<lambda>wallet.
               case get_field f ''consentToCount'' of
                 JBool consent \<Rightarrow>
                   (let team = get_field f ''isTeam''; source = consent_source nt (get_field f ''source'') in
                    and_then (throw_if (team \<noteq> JUndefined \<and> typeof team \<noteq> ''boolean'')
                      (BadRequest ''isTeam must be true or false'')) (\<lambda>_.
                    and_then (throw_if (source \<notin> set SOURCES)
                      (BadRequest ''source must be one of trade-lab, invite, workspace'')) (\<lambda>_.
                    Inr \<lparr>cr_wallet = wallet, cr_consent = consent, cr_team = (team = JBool True),
                         cr_source = source\<rparr>)))
               | _ \<Rightarrow> Inl (BadRequest ''consentToCount must be true or false'')))
      | _ \<Rightarrow> Inl (BadRequest ''Participant metadata must be a JSON object''))"

section \<open>The two statements\<close>

definition participant_key :: "demo_participant \<Rightarrow> string \<times> string" where
  "participant_key r = (w_network r, w_walletAddress r)"

text \<open>What \<open>findUnique\<close> found decides the flag to write.\<close>

definition team_flag :: "string \<Rightarrow> consent_request \<Rightarrow> db \<Rightarrow> bool" where
  "team_flag net cr d \<longleftrightarrow>
     (case find_row participant_key (net, cr_wallet cr) (participants d) of
        None \<Rightarrow> cr_team cr
      | Some r \<Rightarrow> w_isTeam r \<or> cr_team cr)"

definition consent_row :: "string \<Rightarrow> int \<Rightarrow> consent_request \<Rightarrow> bool \<Rightarrow> demo_participant" where
  "consent_row net now cr isTeam =
     \<lparr>w_network = net, w_walletAddress = cr_wallet cr, w_isTeam = isTeam, w_consentToCount = cr_consent cr,
      w_source = Some (cr_source cr), w_firstSeenAt = now\<rparr>"

definition write_consent :: "string \<Rightarrow> int \<Rightarrow> consent_request \<Rightarrow> bool \<Rightarrow> db \<Rightarrow> db" where
  "write_consent net now cr isTeam d =
     (case find_row participant_key (net, cr_wallet cr) (participants d) of
        None \<Rightarrow> d\<lparr>participants := participants d @ [consent_row net now cr isTeam]\<rparr>
      | Some _ \<Rightarrow> d\<lparr>participants := update_row participant_key (net, cr_wallet cr)
          (\<lambda>r. r\<lparr>w_consentToCount := cr_consent cr, w_isTeam := isTeam, w_source := Some (cr_source cr)\<rparr>)
          (participants d)\<rparr>)"

definition consent_json :: "consent_request \<Rightarrow> bool \<Rightarrow> jsval" where
  "consent_json cr isTeam = JObject
     [(''walletAddress'', JString (cr_wallet cr)), (''consentToCount'', JBool (cr_consent cr)),
      (''isTeam'', JBool isTeam), (''source'', JString (cr_source cr)),
      (''note'', JString ''Consent only. Public traction still has to come from indexed contract events.'')]"

text \<open>A request that runs alone.\<close>

definition record_consent ::
  "(rat option \<Rightarrow> string) \<Rightarrow> string \<Rightarrow> int \<Rightarrow> jsval \<Rightarrow> db \<Rightarrow> (api_error + jsval) \<times> db" where
  "record_consent nt net now body d =
     (case read_consent nt body of
        Inl e \<Rightarrow> (Inl e, d)
      | Inr cr \<Rightarrow> let isTeam = team_flag net cr d
                  in (Inr (consent_json cr isTeam), write_consent net now cr isTeam d))"

definition show_consent :: "string \<Rightarrow> string \<Rightarrow> db \<Rightarrow> api_error + jsval" where
  "show_consent net address d =
     and_then (parse_address address) (\<lambda>wallet.
     Inr (case find_row participant_key (net, wallet) (participants d) of
            None \<Rightarrow> JObject [(''walletAddress'', JString wallet), (''known'', JBool False),
              (''consentToCount'', JBool False), (''isTeam'', JBool False)]
          | Some r \<Rightarrow> JObject [(''walletAddress'', JString (w_walletAddress r)), (''known'', JBool True),
              (''consentToCount'', JBool (w_consentToCount r)), (''isTeam'', JBool (w_isTeam r)),
              (''source'', js_text (w_source r)), (''firstSeenAt'', js_time (w_firstSeenAt r))]))"

section \<open>Requests side by side\<close>

text \<open>A request that has read the row and not yet written it, with the flag it will write.\<close>

type_synonym consent_state = "(consent_request \<times> bool) list \<times> db"

inductive consent_step :: "(rat option \<Rightarrow> string) \<Rightarrow> string \<Rightarrow> consent_state \<Rightarrow> consent_state \<Rightarrow> bool"
  for nt :: "rat option \<Rightarrow> string" and net :: string where
  consent_read: "read_consent nt body = Inr cr \<Longrightarrow>
    consent_step nt net (ts, d) (ts @ [(cr, team_flag net cr d)], d)"
| consent_written: "consent_step nt net (ts @ (cr, isTeam) # us, d) (ts @ us, write_consent net now cr isTeam d)"

section \<open>One request after the other\<close>

fun record_all :: "(rat option \<Rightarrow> string) \<Rightarrow> string \<Rightarrow> (int \<times> jsval) list \<Rightarrow> db \<Rightarrow> db" where
  "record_all nt net [] d = d"
| "record_all nt net ((now, body) # reqs) d = record_all nt net reqs (snd (record_consent nt net now body d))"

text \<open>The row of a wallet after one request.\<close>

lemma write_consent_row:
  "find_row participant_key (net, w) (participants (write_consent net now cr isTeam d)) =
     (if w = cr_wallet cr
      then Some (case find_row participant_key (net, w) (participants d) of
             None \<Rightarrow> consent_row net now cr isTeam
           | Some r \<Rightarrow> r\<lparr>w_consentToCount := cr_consent cr, w_isTeam := isTeam, w_source := Some (cr_source cr)\<rparr>)
      else find_row participant_key (net, w) (participants d))"
  by (auto simp: write_consent_def find_row_append find_row_Cons consent_row_def participant_key_def
      find_row_update_row split: option.split)

lemma map_key_update_row: "(\<And>r. key (f r) = key r) \<Longrightarrow> map key (update_row key k f t) = map key t"
  by (induction t) (simp_all add: update_row_def update_rows_def)

lemma write_consent_distinct:
  assumes "distinct (map participant_key (participants d))"
  shows "distinct (map participant_key (participants (write_consent net now cr isTeam d)))"
proof (cases "find_row participant_key (net, cr_wallet cr) (participants d)")
  case None
  then have "(net, cr_wallet cr) \<notin> participant_key ` set (participants d)" by (metis find_row_None)
  with None assms show ?thesis by (simp add: write_consent_def consent_row_def participant_key_def image_iff)
next
  case (Some r)
  have "map participant_key (update_row participant_key k
      (\<lambda>r. r\<lparr>w_consentToCount := c, w_isTeam := b, w_source := s\<rparr>) t) = map participant_key t" for k c b s t
    by (rule map_key_update_row) (simp add: participant_key_def)
  with Some assms show ?thesis by (simp add: write_consent_def)
qed

definition team_wallet :: "string \<Rightarrow> db \<Rightarrow> string \<Rightarrow> bool" where
  "team_wallet net d w \<longleftrightarrow>
     (\<exists>r. find_row participant_key (net, w) (participants d) = Some r \<and> w_isTeam r)"

definition counted_wallet :: "string \<Rightarrow> db \<Rightarrow> string \<Rightarrow> bool" where
  "counted_wallet net d w \<longleftrightarrow>
     (\<exists>r. find_row participant_key (net, w) (participants d) = Some r \<and> \<not> w_isTeam r \<and> w_consentToCount r)"

lemma record_consent_team:
  "team_wallet net d w \<Longrightarrow> team_wallet net (snd (record_consent nt net now body d)) w"
  by (auto simp: record_consent_def team_wallet_def write_consent_row team_flag_def Let_def split: sum.split)

lemma record_consent_counted:
  assumes "counted_wallet net (snd (record_consent nt net now body d)) w" and "\<not> counted_wallet net d w"
  shows "\<exists>cr. read_consent nt body = Inr cr \<and> cr_wallet cr = w \<and> cr_consent cr \<and> \<not> cr_team cr"
  using assms
  by (auto simp: record_consent_def counted_wallet_def write_consent_row team_flag_def Let_def consent_row_def
      split: sum.splits if_splits option.splits)

text \<open>What the metrics look up is that row.\<close>

lemma find_row_unique:
  assumes "distinct (map key t)" and "r \<in> set t"
  shows "find_row key (key r) t = Some r"
  using assms by (induction t) (auto simp: find_row_Cons)

lemma tag_for_row:
  assumes "distinct (map participant_key (participants d))" and "w \<in> set wallets"
  shows "tag_for net wallets (participants d) w = find_row participant_key (net, w) (participants d)"
proof -
  let ?rows = "filter (\<lambda>t. w_network t = net \<and> w_walletAddress t \<in> set wallets) (participants d)"
  have "wallets \<noteq> []" using assms(2) by auto
  then have tag: "tag_for net wallets (participants d) w = map_get w_walletAddress ?rows w"
    by (simp add: tag_for_def)
  show ?thesis
  proof (cases "map_get w_walletAddress ?rows w")
    case None
    then have "\<forall>r \<in> set ?rows. w_walletAddress r \<noteq> w" by (simp add: map_get_def find_None_iff)
    then have "(net, w) \<notin> participant_key ` set (participants d)"
      using assms(2) by (auto simp: participant_key_def)
    with None tag show ?thesis by (metis find_row_None)
  next
    case (Some r)
    then have "r \<in> set (participants d)" "participant_key r = (net, w)"
      using find_rev_in [OF Some] by (auto simp: participant_key_def)
    with Some tag find_row_unique [OF assms(1)] show ?thesis by fastforce
  qed
qed

lemma metrics_categories:
  assumes "distinct (map participant_key (participants d))" and "w \<in> set wallets"
  shows "is_team (tag_for net wallets (participants d)) w = team_wallet net d w"
    and "is_external (tag_for net wallets (participants d)) w = counted_wallet net d w"
  using tag_for_row [OF assms]
  by (auto simp: is_team_def is_external_def team_wallet_def counted_wallet_def split: option.split)

lemma record_consent_distinct:
  "distinct (map participant_key (participants d)) \<Longrightarrow>
   distinct (map participant_key (participants (snd (record_consent nt net now body d))))"
  by (auto simp: record_consent_def Let_def write_consent_distinct split: sum.split)

lemma record_all_team: "team_wallet net d w \<Longrightarrow> team_wallet net (record_all nt net reqs d) w"
  by (induction nt net reqs d rule: record_all.induct) (simp_all add: record_consent_team)

lemma record_all_distinct:
  "distinct (map participant_key (participants d)) \<Longrightarrow>
   distinct (map participant_key (participants (record_all nt net reqs d)))"
  by (induction nt net reqs d rule: record_all.induct) (simp_all add: record_consent_distinct)

lemma record_all_counted:
  "counted_wallet net (record_all nt net reqs d) w \<Longrightarrow> \<not> counted_wallet net d w \<Longrightarrow>
   \<exists>(now, body) \<in> set reqs. \<exists>cr. read_consent nt body = Inr cr \<and> cr_wallet cr = w \<and> cr_consent cr \<and> \<not> cr_team cr"
proof (induction reqs arbitrary: d)
  case (Cons req reqs)
  obtain now body where req: "req = (now, body)" by (cases req)
  show ?case
  proof (cases "counted_wallet net (snd (record_consent nt net now body d)) w")
    case True
    with Cons.prems(2) record_consent_counted [of net nt now body d w] req show ?thesis by auto
  next
    case False
    with Cons req show ?thesis by fastforce
  qed
qed simp

text \<open>Everything but the participants stays, and so do the rows of other networks.\<close>

lemma record_all_rest: "(record_all nt net reqs d)\<lparr>participants := x\<rparr> = d\<lparr>participants := x\<rparr>"
proof -
  have "(write_consent net now cr b d)\<lparr>participants := x\<rparr> = d\<lparr>participants := x\<rparr>" for now cr b d
    by (simp add: write_consent_def split: option.split)
  then have "(snd (record_consent nt net now body d))\<lparr>participants := x\<rparr> = d\<lparr>participants := x\<rparr>" for now body d
    by (simp add: record_consent_def Let_def split: sum.split)
  then show ?thesis by (induction reqs arbitrary: d) auto
qed

text \<open>
  C37: A team mark is final, and nobody is counted who did not say so. While requests about consent run
  one after the other, there is one row per wallet; a wallet marked as team stays marked, so the public
  metrics classify it as team and never as external again; a wallet the metrics come to count as
  external was named by a request that consented and did not declare it team; and no other table
  changes.
\<close>

theorem team_marks_are_final:
  assumes "distinct (map participant_key (participants d))" and "d' = record_all nt net reqs d"
  shows "distinct (map participant_key (participants d'))
    \<and> (\<forall>w \<in> set wallets. is_team (tag_for net wallets (participants d)) w \<longrightarrow>
         is_team (tag_for net wallets (participants d')) w
         \<and> \<not> is_external (tag_for net wallets (participants d')) w)
    \<and> (\<forall>w \<in> set wallets. is_external (tag_for net wallets (participants d')) w
         \<and> \<not> is_external (tag_for net wallets (participants d)) w \<longrightarrow>
         (\<exists>(now, body) \<in> set reqs. \<exists>cr. read_consent nt body = Inr cr
            \<and> cr_wallet cr = w \<and> cr_consent cr \<and> \<not> cr_team cr))
    \<and> d'\<lparr>participants := []\<rparr> = d\<lparr>participants := []\<rparr>"
proof -
  have distinct': "distinct (map participant_key (participants d'))"
    unfolding assms(2) by (rule record_all_distinct [OF assms(1)])
  moreover have "is_team (tag_for net wallets (participants d')) w \<and> \<not> is_external (tag_for net wallets (participants d')) w"
    if "w \<in> set wallets" "is_team (tag_for net wallets (participants d)) w" for w
    using that record_all_team [of net d w nt reqs] metrics_categories [OF assms(1) that(1), of net]
      metrics_categories [OF distinct' that(1), of net] team_or_external
    by (metis assms(2))
  moreover have "\<exists>(now, body) \<in> set reqs. \<exists>cr. read_consent nt body = Inr cr
      \<and> cr_wallet cr = w \<and> cr_consent cr \<and> \<not> cr_team cr"
    if "w \<in> set wallets" "is_external (tag_for net wallets (participants d')) w"
      "\<not> is_external (tag_for net wallets (participants d)) w" for w
    using that record_all_counted [of net nt reqs d w] metrics_categories [OF assms(1) that(1), of net]
      metrics_categories [OF distinct' that(1), of net] by (simp add: assms(2))
  ultimately show ?thesis using record_all_rest by (auto simp: assms(2))
qed

section \<open>A race\<close>

text \<open>
  Side by side the mark can be lost: a request without it reads before the one that declares the team
  writes, and writes after it.
\<close>

theorem team_mark_can_be_lost:
  assumes "find_row participant_key (net, w) (participants d) = None"
    and "read_consent nt declares = Inr \<lparr>cr_wallet = w, cr_consent = True, cr_team = True, cr_source = a\<rparr>"
    and "read_consent nt plain = Inr \<lparr>cr_wallet = w, cr_consent = True, cr_team = False, cr_source = b\<rparr>"
  shows "\<exists>marked lost. (consent_step nt net)\<^sup>*\<^sup>* ([], d) marked \<and> team_wallet net (snd marked) w
    \<and> (consent_step nt net)\<^sup>*\<^sup>* marked ([], lost) \<and> counted_wallet net lost w"
proof -
  let ?A = "\<lparr>cr_wallet = w, cr_consent = True, cr_team = True, cr_source = a\<rparr>"
  let ?B = "\<lparr>cr_wallet = w, cr_consent = True, cr_team = False, cr_source = b\<rparr>"
  let ?marked = "write_consent net 0 ?A True d"
  let ?lost = "write_consent net 0 ?B False ?marked"
  have flags: "team_flag net ?A d" "\<not> team_flag net ?B d" using assms(1) by (simp_all add: team_flag_def)
  have "consent_step nt net ([], d) ([(?B, False)], d)"
    using consent_read [OF assms(3), of net "[]" d] flags by simp
  moreover have "consent_step nt net ([(?B, False)], d) ([(?B, False), (?A, True)], d)"
    using consent_read [OF assms(2), of net "[(?B, False)]" d] flags by simp
  moreover have "consent_step nt net ([(?B, False), (?A, True)], d) ([(?B, False)], ?marked)"
    using consent_written [of nt net "[(?B, False)]" ?A True "[]" d 0] by simp
  ultimately have "(consent_step nt net)\<^sup>*\<^sup>* ([], d) ([(?B, False)], ?marked)"
    by (meson converse_rtranclp_into_rtranclp rtranclp.rtrancl_refl)
  moreover have "(consent_step nt net)\<^sup>*\<^sup>* ([(?B, False)], ?marked) ([], ?lost)"
    using consent_written [of nt net "[]" ?B False "[]" ?marked 0] by auto
  moreover have "team_wallet net ?marked w" "counted_wallet net ?lost w"
    by (simp_all add: team_wallet_def counted_wallet_def write_consent_row consent_row_def split: option.split)
  ultimately show ?thesis by (metis snd_conv)
qed

section \<open>Witness\<close>

definition sample_participant :: string where
  "sample_participant = CHR ''G'' # replicate 55 (CHR ''B'')"

definition sample_request :: jsval where
  "sample_request = JObject [(''walletAddress'', JString sample_participant), (''consentToCount'', JBool True)]"

lemma sample_request_read:
  "read_consent nt sample_request = Inr \<lparr>cr_wallet = sample_participant, cr_consent = True, cr_team = False,
     cr_source = ''trade-lab''\<rparr>"
  by (simp add: read_consent_def sample_request_def CONSENT_FORBIDDEN_FIELDS_def key_in_def
      object_prototype_keys_def parse_address_def text_or_empty_def nullish_def get_field_def
      sample_participant_def is_wallet_def is_base32_def code_def list_all_iff consent_source_def SOURCES_def Let_def)

definition sample_team :: db where
  "sample_team = \<lparr>orders = [], milestones = [], requests = [], offers = [], positions = [], disputes = [],
     settlements = [], refunds = [], evidence_objects = [], evidence_anchors = [], event_log = [], daily = [],
     cursors = [], anchor_transactions = [], cycles = [],
     participants = [\<lparr>w_network = ''testnet'', w_walletAddress = sample_participant, w_isTeam = True,
       w_consentToCount = False, w_source = None, w_firstSeenAt = 0\<rparr>]\<rparr>"

theorem team_marks_are_final_witness:
  "is_team (tag_for ''testnet'' [sample_participant]
     (participants (record_all (\<lambda>_. []) ''testnet'' [(5, sample_request)] sample_team))) sample_participant"
proof -
  have "distinct (map participant_key (participants sample_team))" by (simp add: sample_team_def)
  moreover have "is_team (tag_for ''testnet'' [sample_participant] (participants sample_team)) sample_participant"
    by (simp add: is_team_def tag_for_def sample_team_def map_get_def)
  ultimately show ?thesis
    using team_marks_are_final [where wallets = "[sample_participant]" and d = sample_team and net = "''testnet''"
      and nt = "\<lambda>_. []" and reqs = "[(5, sample_request)]", OF _ refl] by auto
qed

end
