(* ===== verification/TradeLab.thy ===== *)
theory TradeLab
  imports Workspace AnchorProvider
begin

text \<open>
  The Trade Lab of the browser: templates (\<open>apps/web/lib/demo/templates.ts\<close>), invite links
  (\<open>invite.ts\<close>), what may become a QR code (\<open>qr.ts\<close>) and the local list of runs (\<open>session.ts\<close>).
  \<open>new URL\<close>, \<open>JSON\<close>, the QR encoder and the clock are arguments; the prose of the templates is left
  out.
\<close>

section \<open>Templates\<close>

record template_milestone =
  tm_stage :: string
  tm_amount :: string

record template_financing =
  tf_principal :: string
  tf_repayment :: string
  tf_milestone :: int

record trade_template =
  tt_id :: string
  tt_name :: string
  tt_minutes :: nat
  tt_milestones :: "template_milestone list"
  tt_financing :: template_financing

definition FAST_TASK :: trade_template where
  "FAST_TASK = \<lparr>tt_id = ''fast-task'', tt_name = ''Review my landing page'', tt_minutes = 5,
     tt_milestones = [\<lparr>tm_stage = ''Review'', tm_amount = ''2''\<rparr>,
       \<lparr>tm_stage = ''Feedback call'', tm_amount = ''3''\<rparr>],
     tt_financing = \<lparr>tf_principal = ''1'', tf_repayment = ''1.5'', tf_milestone = 1\<rparr>\<rparr>"

definition CROSS_BORDER :: trade_template where
  "CROSS_BORDER = \<lparr>tt_id = ''cross-border-manufacturing'', tt_name = ''Cross-border manufacturing order'',
     tt_minutes = 12,
     tt_milestones = [\<lparr>tm_stage = ''Production and QC'', tm_amount = ''10''\<rparr>,
       \<lparr>tm_stage = ''Shipment'', tm_amount = ''6''\<rparr>, \<lparr>tm_stage = ''Delivery'', tm_amount = ''4''\<rparr>],
     tt_financing = \<lparr>tf_principal = ''8'', tf_repayment = ''9'', tf_milestone = 1\<rparr>\<rparr>"

definition TRADE_TEMPLATES :: "trade_template list" where
  "TRADE_TEMPLATES = [FAST_TASK, CROSS_BORDER]"

definition template_by_id :: "string option \<Rightarrow> trade_template option" where
  "template_by_id ident =
     (case ident of None \<Rightarrow> None | Some i \<Rightarrow> List.find (\<lambda>t. tt_id t = i) TRADE_TEMPLATES)"

datatype template_problem =
    DuplicateId | NoMilestones | TooManyMilestones
  | BadAmount string string | UnnamedStage
  | NoSuchMilestone | FinancingUnreadable
  | PrincipalTooLarge | RepaymentBelowPrincipal | RepaymentTooLarge

definition milestone_problems :: "template_milestone \<Rightarrow> template_problem list" where
  "milestone_problems m =
     (case parse_usdc_input (tm_amount m) of Inl e \<Rightarrow> [BadAmount (tm_stage m) e] | Inr u \<Rightarrow> [])
     @ (if trim (tm_stage m) = [] then [UnnamedStage] else [])"

text \<open>\<open>compareUnits\<close> of two parsed amounts.\<close>

definition compare_parsed :: "int \<Rightarrow> int \<Rightarrow> int" where
  "compare_parsed a b = (case compare_units (UBig a) (UBig b) of Inl e \<Rightarrow> 0 | Inr c \<Rightarrow> c)"

definition financing_problems :: "trade_template \<Rightarrow> template_problem list" where
  "financing_problems t =
     (let f = tt_financing t; ms = tt_milestones t in
      if tf_milestone f < 1 \<or> int (length ms) < tf_milestone f then [NoSuchMilestone]
      else
        case (parse_usdc_input (tm_amount (ms ! nat (tf_milestone f - 1))),
              parse_usdc_input (tf_principal f), parse_usdc_input (tf_repayment f)) of
          (Inr protectedAmount, Inr prin, Inr repayment) \<Rightarrow>
            (if 0 \<le> compare_parsed prin protectedAmount then [PrincipalTooLarge] else [])
            @ (if compare_parsed repayment prin < 0 then [RepaymentBelowPrincipal] else [])
            @ (if 0 < compare_parsed repayment protectedAmount then [RepaymentTooLarge] else [])
        | _ \<Rightarrow> [FinancingUnreadable])"

fun problems_from :: "string list \<Rightarrow> trade_template list \<Rightarrow> (string \<times> template_problem) list" where
  "problems_from seen [] = []"
| "problems_from seen (t # ts) =
     map (Pair (tt_id t))
       ((if tt_id t \<in> set seen then [DuplicateId] else [])
        @ (if tt_milestones t = [] then [NoMilestones] else [])
        @ (if 20 < length (tt_milestones t) then [TooManyMilestones] else [])
        @ concat (map milestone_problems (tt_milestones t))
        @ financing_problems t)
     @ problems_from (tt_id t # seen) ts"

definition template_problems :: "trade_template list \<Rightarrow> (string \<times> template_problem) list" where
  "template_problems ts = problems_from [] ts"

section \<open>Invites\<close>

definition INVITE_PATH :: string where
  "INVITE_PATH = ''/app/trade-lab/join''"

definition INVITE_ROLES :: "string list" where
  "INVITE_ROLES = [''supplier'', ''attestor'', ''resolver'', ''funder'', ''buyer'']"

definition U64_MAX :: int where
  "U64_MAX = 18446744073709551615"

text \<open>\<open>/^[1-9]\d{0,19}$/\<close>\<close>

definition chain_id_text :: "string \<Rightarrow> bool" where
  "chain_id_text s \<longleftrightarrow> all_digits s \<and> length s \<le> 20 \<and> hd s \<noteq> CHR ''0''"

definition is_chain_id :: "string \<Rightarrow> bool" where
  "is_chain_id s \<longleftrightarrow> chain_id_text s \<and> int (nat_of_digits s) \<le> U64_MAX"

definition is_invite_role :: "string \<Rightarrow> bool" where
  "is_invite_role s \<longleftrightarrow> s \<in> set INVITE_ROLES"

record invite =
  iv_orderId :: string
  iv_role :: string
  iv_milestoneId :: "string option"
  iv_templateId :: "string option"

text \<open>The parameters an invite sets, in order, and their text.\<close>

definition invite_params :: "invite \<Rightarrow> string + (string \<times> string) list" where
  "invite_params i =
     (if \<not> is_chain_id (iv_orderId i) then Inl ''Invite needs a valid order id.''
      else Inr ([(''order'', iv_orderId i), (''role'', iv_role i)]
        @ (case iv_milestoneId i of None \<Rightarrow> [] | Some m \<Rightarrow> if is_chain_id m then [(''milestone'', m)] else [])
        @ (case iv_templateId i of None \<Rightarrow> [] | Some t \<Rightarrow>
             if template_by_id (Some t) \<noteq> None then [(''template'', t)] else [])))"

definition invite_query :: "invite \<Rightarrow> string + string" where
  "invite_query i = and_then (invite_params i) (\<lambda>ps. Inr (query_text ps))"

definition invite_path :: "invite \<Rightarrow> string + string" where
  "invite_path i = and_then (invite_query i) (\<lambda>q. Inr (INVITE_PATH @ ''?'' @ q))"

text \<open>What \<open>new URL\<close> makes of a text, when it is a URL.\<close>

record parsed_url =
  pu_protocol :: string
  pu_origin :: string
  pu_hostname :: string
  pu_username :: string
  pu_password :: string
  pu_hash :: string
  pu_params :: "(string \<times> string) list"

type_synonym url_parser = "string \<Rightarrow> parsed_url option"

definition is_http :: "parsed_url \<Rightarrow> bool" where
  "is_http u \<longleftrightarrow> pu_protocol u = ''http:'' \<or> pu_protocol u = ''https:''"

definition invite_url :: "url_parser \<Rightarrow> string \<Rightarrow> invite \<Rightarrow> string + string" where
  "invite_url parse origin i =
     (case parse origin of
        None \<Rightarrow> Inl ''Invite needs a valid origin.''
      | Some u \<Rightarrow> if \<not> is_http u then Inl ''Invite links must be http or https.''
                  else and_then (invite_path i) (\<lambda>p. Inr (pu_origin u @ p)))"

definition DEVICE_LOCAL_HOSTS :: "string list" where
  "DEVICE_LOCAL_HOSTS = [''localhost'', ''127.0.0.1'', ''[::1]'', ''::1'', ''0.0.0.0'']"

definition is_device_local :: "url_parser \<Rightarrow> string \<Rightarrow> bool" where
  "is_device_local parse origin \<longleftrightarrow>
     (case parse origin of None \<Rightarrow> False
      | Some u \<Rightarrow> pu_hostname u \<in> set DEVICE_LOCAL_HOSTS \<or> ends_with ''.localhost'' (pu_hostname u))"

definition share_origin :: "url_parser \<Rightarrow> string option \<Rightarrow> string \<Rightarrow> string" where
  "share_origin parse configured browser =
     (case configured of
        None \<Rightarrow> browser
      | Some c \<Rightarrow> if trim c = [] then browser
                  else case parse (trim c) of
                         None \<Rightarrow> browser
                       | Some u \<Rightarrow> if is_http u then pu_origin u else browser)"

text \<open>
  The parameters a page is opened with: a \<open>URLSearchParams\<close>, the record of the router (one text, a
  list of texts, or nothing for a name), or none at all.
\<close>

datatype page_param = OneText string | ManyTexts "string list"

datatype page_params = NoParams | SearchParams "(string \<times> string) list" | RouterParams "(string \<times> page_param) list"

fun read_param :: "page_params \<Rightarrow> string \<Rightarrow> string option" where
  "read_param NoParams key = None"
| "read_param (SearchParams ps) key = map_of ps key"
| "read_param (RouterParams ps) key =
     (case map_of ps key of
        None \<Rightarrow> None
      | Some (OneText s) \<Rightarrow> Some s
      | Some (ManyTexts ss) \<Rightarrow> (case ss of [] \<Rightarrow> None | s # rest \<Rightarrow> Some s))"

definition parse_invite :: "page_params \<Rightarrow> string + invite" where
  "parse_invite params =
     (case read_param params ''order'' of
        None \<Rightarrow> Inl ''This link has no order.''
      | Some order \<Rightarrow>
          if order = [] then Inl ''This link has no order.''
          else if \<not> is_chain_id order then Inl ''This link has an invalid order id.''
          else
            case read_param params ''role'' of
              None \<Rightarrow> Inl ''This link has no role.''
            | Some role \<Rightarrow>
                if role = [] then Inl ''This link has no role.''
                else if \<not> is_invite_role role then Inl ''This link names an unknown role.''
                else
                  let milestone = read_param params ''milestone'' in
                  if milestone \<noteq> None \<and> milestone \<noteq> Some [] \<and> \<not> is_chain_id (the milestone)
                  then Inl ''This link has an invalid milestone id.''
                  else Inr \<lparr>iv_orderId = order, iv_role = role,
                    iv_milestoneId = (if milestone = Some [] then None else milestone),
                    iv_templateId = map_option tt_id (template_by_id (read_param params ''template''))\<rparr>)"

definition invite_destination :: "invite \<Rightarrow> string" where
  "invite_destination i =
     (case iv_milestoneId i of
        None \<Rightarrow> if iv_role i = ''funder'' then ''/app/funding'' else ''/app/orders/'' @ iv_orderId i
      | Some m \<Rightarrow> ''/app/orders/'' @ iv_orderId i @ ''#milestone-'' @ m)"

section \<open>QR codes\<close>

definition QR_ALLOWED_PARAMS :: "string list" where
  "QR_ALLOWED_PARAMS = [''order'', ''role'', ''milestone'', ''template'']"

definition FORBIDDEN_SUBSTRINGS :: "string list" where
  "FORBIDDEN_SUBSTRINGS =
     [''secret'', ''seed'', ''mnemonic'', ''privatekey'', ''private_key'', ''jwt'', ''token'', ''authorization'',
      ''bearer'', ''password'', ''kyc'', ''iban'', ''apikey'', ''api_key'', ''postgres'', ''database_url'']"

definition is_word_char :: "char \<Rightarrow> bool" where
  "is_word_char c \<longleftrightarrow> is_alphanumeric c \<or> c = CHR ''_''"

text \<open>\<open>\b\<close> before the rest of a text: the character before it is no word character.\<close>

definition at_word_start :: "char option \<Rightarrow> bool" where
  "at_word_start prev \<longleftrightarrow> (case prev of None \<Rightarrow> True | Some c \<Rightarrow> \<not> is_word_char c)"

definition secret_key_here :: "char option \<Rightarrow> string \<Rightarrow> bool" where
  "secret_key_here prev s \<longleftrightarrow> at_word_start prev \<and> 56 \<le> length s \<and> take 1 s = ''S''
     \<and> list_all is_base32 (take 55 (drop 1 s))
     \<and> (case drop 56 s of [] \<Rightarrow> True | c # rest \<Rightarrow> \<not> is_word_char c)"

definition is_token_char :: "char \<Rightarrow> bool" where
  "is_token_char c \<longleftrightarrow> is_alphanumeric c \<or> c = CHR ''_'' \<or> c = CHR ''-''"

definition jwt_here :: "char option \<Rightarrow> string \<Rightarrow> bool" where
  "jwt_here prev s \<longleftrightarrow> at_word_start prev \<and> starts_with ''eyJ'' s
     \<and> (let header = takeWhile is_token_char (drop 3 s); rest = dropWhile is_token_char (drop 3 s);
            payload = takeWhile is_token_char (drop 1 rest); after = dropWhile is_token_char (drop 1 rest)
        in 6 \<le> length header \<and> take 1 rest = ''.'' \<and> 6 \<le> length payload \<and> take 1 after = ''.'')"

fun matches_anywhere :: "(char option \<Rightarrow> string \<Rightarrow> bool) \<Rightarrow> char option \<Rightarrow> string \<Rightarrow> bool" where
  "matches_anywhere P prev [] = P prev []"
| "matches_anywhere P prev (c # s) = (P prev (c # s) \<or> matches_anywhere P (Some c) s)"

definition qr_payload_safety :: "url_parser \<Rightarrow> string \<Rightarrow> string + unit" where
  "qr_payload_safety parse payload =
     (case parse payload of
        None \<Rightarrow> Inl ''A QR payload must be an absolute URL.''
      | Some u \<Rightarrow>
          and_then (throw_if (\<not> is_http u) ''A QR payload must be an http or https link.'') (\<lambda>_.
          and_then (throw_if (pu_username u \<noteq> [] \<or> pu_password u \<noteq> [])
            ''A QR payload must not carry credentials.'') (\<lambda>_.
          and_then (throw_if (pu_hash u \<noteq> []) ''A QR payload must not carry a fragment.'') (\<lambda>_.
          and_then (case List.find (\<lambda>k. k \<notin> set QR_ALLOWED_PARAMS) (map fst (pu_params u)) of
                      Some k \<Rightarrow> Inl (''A QR payload must not carry '' @ [CHR 0x22] @ k @ [CHR 0x22] @ ''.'')
                    | None \<Rightarrow> Inr ()) (\<lambda>_.
          and_then (case List.find (\<lambda>w. str_includes w (to_lower payload)) FORBIDDEN_SUBSTRINGS of
                      Some w \<Rightarrow> Inl (''A QR payload must not mention '' @ [CHR 0x22] @ w @ [CHR 0x22] @ ''.'')
                    | None \<Rightarrow> Inr ()) (\<lambda>_.
          and_then (throw_if (matches_anywhere secret_key_here None payload)
            ''A QR payload must never contain a Stellar secret key.'') (\<lambda>_.
          throw_if (matches_anywhere jwt_here None payload) ''A QR payload must never contain a token.'')))))))"

record qr_matrix =
  qm_size :: nat
  qm_dark :: "bool list"

text \<open>\<open>encode\<close> is the QR encoder: the number of modules per side, and which are dark.\<close>

definition qr_matrix_of :: "url_parser \<Rightarrow> (string \<Rightarrow> nat \<times> (nat \<Rightarrow> nat \<Rightarrow> bool)) \<Rightarrow> string \<Rightarrow> string + qr_matrix" where
  "qr_matrix_of parse encode payload =
     and_then (qr_payload_safety parse payload) (\<lambda>_.
     let (size, isDark) = encode payload in
     Inr \<lparr>qm_size = size,
          qm_dark = concat (map (\<lambda>row. map (\<lambda>column. isDark row column) [0..<size]) [0..<size])\<rparr>)"

definition module_path :: "nat \<Rightarrow> nat \<Rightarrow> string" where
  "module_path row column = ''M'' @ nat_to_string column @ '' '' @ nat_to_string row @ ''h1v1h-1z''"

definition dark_at :: "qr_matrix \<Rightarrow> nat \<Rightarrow> bool" where
  "dark_at m i \<longleftrightarrow> i < length (qm_dark m) \<and> qm_dark m ! i"

definition qr_svg_path :: "qr_matrix \<Rightarrow> string" where
  "qr_svg_path m =
     concat (map (\<lambda>row. concat (map (\<lambda>column.
       if dark_at m (row * qm_size m + column) then module_path row column else [])
       [0..<qm_size m])) [0..<qm_size m])"

section \<open>Runs remembered in this browser\<close>

definition MAX_RUNS :: nat where
  "MAX_RUNS = 25"

definition is_run :: "jsval \<Rightarrow> bool" where
  "is_run v \<longleftrightarrow>
     (case v of
        JObject f \<Rightarrow>
          (case (get_field f ''orderId'', get_field f ''templateId'', get_field f ''startedAt'') of
             (JString orderId, JString templateId, JString startedAt) \<Rightarrow>
               chain_id_text orderId \<and> template_by_id (Some templateId) \<noteq> None
           | _ \<Rightarrow> False)
      | _ \<Rightarrow> False)"

definition run_order :: "jsval \<Rightarrow> string" where
  "run_order v = (case v of JObject f \<Rightarrow> (case get_field f ''orderId'' of JString s \<Rightarrow> s | _ \<Rightarrow> []) | _ \<Rightarrow> [])"

text \<open>
  The browser's storage at the key of the runs: what it holds, and whether reading or writing it
  throws; no storage at all is \<open>None\<close>. \<open>parse\<close> and \<open>stringify\<close> are those of \<open>JSON\<close>.
\<close>

record run_store =
  rs_item :: "string option"
  rs_unreadable :: bool
  rs_unwritable :: bool

record json_text =
  js_parse :: "string \<Rightarrow> jsval option"
  js_stringify :: "jsval \<Rightarrow> string"

definition read_runs :: "json_text \<Rightarrow> run_store option \<Rightarrow> jsval list" where
  "read_runs json store =
     (case store of
        None \<Rightarrow> []
      | Some s \<Rightarrow>
          if rs_unreadable s then []
          else case rs_item s of
                 None \<Rightarrow> []
               | Some raw \<Rightarrow>
                   (case js_parse json raw of
                      Some (JArray vs) \<Rightarrow> take MAX_RUNS (filter is_run vs)
                    | _ \<Rightarrow> []))"

definition write_runs :: "json_text \<Rightarrow> run_store option \<Rightarrow> jsval list \<Rightarrow> jsval list \<times> run_store option" where
  "write_runs json store runs =
     (let capped = take MAX_RUNS runs in
      (capped,
       case store of
         None \<Rightarrow> None
       | Some s \<Rightarrow> Some (if rs_unwritable s then s
                          else s\<lparr>rs_item := Some (js_stringify json (JArray capped))\<rparr>)))"

definition attach_run ::
  "json_text \<Rightarrow> string \<Rightarrow> run_store option \<Rightarrow> string \<Rightarrow> string \<Rightarrow> string option \<Rightarrow> jsval list \<times> run_store option" where
  "attach_run json now store orderId templateId startedAt =
     (if \<not> chain_id_text orderId \<or> template_by_id (Some templateId) = None then (read_runs json store, store)
      else
        let existing = filter (\<lambda>r. run_order r \<noteq> orderId) (read_runs json store);
            entry = JObject [(''orderId'', JString orderId), (''templateId'', JString templateId),
              (''startedAt'', JString (case startedAt of None \<Rightarrow> now | Some s \<Rightarrow> s))]
        in write_runs json store (entry # existing))"

definition forget_run :: "json_text \<Rightarrow> run_store option \<Rightarrow> string \<Rightarrow> jsval list \<times> run_store option" where
  "forget_run json store orderId =
     write_runs json store (filter (\<lambda>r. run_order r \<noteq> orderId) (read_runs json store))"

definition clear_runs :: "run_store option \<Rightarrow> jsval list \<times> run_store option" where
  "clear_runs store =
     ([], map_option (\<lambda>s. if rs_unwritable s then s else s\<lparr>rs_item := None\<rparr>) store)"

text \<open>Why a trade that exists is never run again.\<close>

datatype restart_reason = FinishedTrade | CancelledTrade | ActiveTrade | DraftTrade

definition restart_guidance :: "web_order \<Rightarrow> restart_reason" where
  "restart_guidance order =
     (if wo_status order = OS_COMPLETED
         \<or> list_ex (\<lambda>m. wm_status m = SETTLED \<or> wm_status m = REFUNDED) (wo_milestones order)
      then FinishedTrade
      else if wo_status order = OS_CANCELLED then CancelledTrade
      else if wo_status order = OS_ACTIVE then ActiveTrade
      else DraftTrade)"

text \<open>The address an invited wallet is expected to be; a funder may be anyone else.\<close>

definition expected_address_for :: "string \<Rightarrow> web_order \<Rightarrow> string option" where
  "expected_address_for role order =
     (if role = ''funder'' then None
      else if role = ''buyer'' then Some (party order Buyer)
      else if role = ''supplier'' then Some (party order Supplier)
      else if role = ''attestor'' then Some (party order Attestor)
      else Some (party order Resolver))"

end
