(* ===== verification/TradeLabClaims.thy ===== *)
theory TradeLabClaims
  imports TradeLab TxClaims
begin

text \<open>
  Invite links survive their text and are never more than navigation; the shipped templates can be
  typed into the ordinary forms; the local list of runs stays short and has one entry per order.
\<close>

section \<open>Invites\<close>

lemma template_by_id_Some: "template_by_id v = Some t \<Longrightarrow> v = Some (tt_id t) \<and> t \<in> set TRADE_TEMPLATES"
  by (auto simp: template_by_id_def dest: find_Some_in split: option.splits)

lemma template_id_kept: "template_by_id (Some i) \<noteq> None \<Longrightarrow> map_option tt_id (template_by_id (Some i)) = Some i"
  using template_by_id_Some by fastforce

text \<open>What a link keeps of an invite: a milestone that is an identifier, a template that is shipped.\<close>

definition kept_invite :: "invite \<Rightarrow> invite" where
  "kept_invite i = i
     \<lparr>iv_milestoneId := (case iv_milestoneId i of None \<Rightarrow> None | Some m \<Rightarrow> if is_chain_id m then Some m else None),
      iv_templateId := (case iv_templateId i of None \<Rightarrow> None
        | Some t \<Rightarrow> if template_by_id (Some t) = None then None else Some t)\<rparr>"

lemma chain_id_not_empty: "is_chain_id s \<Longrightarrow> s \<noteq> []"
  by (auto simp: is_chain_id_def chain_id_text_def all_digits_def)

lemma invite_role_not_empty: "is_invite_role s \<Longrightarrow> s \<noteq> []"
  by (auto simp: is_invite_role_def INVITE_ROLES_def)

lemma params_parse_back:
  assumes "invite_params i = Inr ps" and "is_invite_role (iv_role i)"
  shows "parse_invite (SearchParams ps) = Inr (kept_invite i)"
proof -
  have order: "is_chain_id (iv_orderId i)" using assms(1) by (auto simp: invite_params_def split: if_splits)
  have "map_of ps ''order'' = Some (iv_orderId i)" "map_of ps ''role'' = Some (iv_role i)"
    "map_of ps ''milestone'' = iv_milestoneId (kept_invite i)"
    "map_of ps ''template'' = iv_templateId (kept_invite i)"
    using assms(1) order
    by (auto simp: invite_params_def kept_invite_def split: option.splits if_splits)
  moreover have "map_option tt_id (template_by_id (iv_templateId (kept_invite i))) = iv_templateId (kept_invite i)"
    using template_id_kept by (auto simp: kept_invite_def template_by_id_def split: option.split)
  moreover have "iv_milestoneId (kept_invite i) \<noteq> Some []"
    "iv_milestoneId (kept_invite i) = None \<or> is_chain_id (the (iv_milestoneId (kept_invite i)))"
    using chain_id_not_empty by (auto simp: kept_invite_def split: option.split)
  moreover have "kept_invite i = \<lparr>iv_orderId = iv_orderId i, iv_role = iv_role i,
      iv_milestoneId = iv_milestoneId (kept_invite i), iv_templateId = iv_templateId (kept_invite i)\<rparr>"
    by (simp add: kept_invite_def)
  ultimately show ?thesis
    using order assms(2) chain_id_not_empty [OF order] invite_role_not_empty [OF assms(2)]
    by (simp add: parse_invite_def Let_def)
qed

lemma parsed_invite:
  assumes "parse_invite params = Inr i"
  shows "is_chain_id (iv_orderId i) \<and> is_invite_role (iv_role i)
    \<and> (\<forall>m. iv_milestoneId i = Some m \<longrightarrow> is_chain_id m)
    \<and> (\<forall>t. iv_templateId i = Some t \<longrightarrow> template_by_id (Some t) \<noteq> None)"
proof -
  have "template_by_id (Some (tt_id t)) \<noteq> None" if "template_by_id v = Some t" for v t
    using that template_by_id_Some [OF that] by auto
  with assms show ?thesis
    by (auto simp: parse_invite_def Let_def split: option.splits if_splits)
qed

lemma digit_alphanumeric: "is_digit c \<Longrightarrow> is_alphanumeric c"
  by (simp add: is_alphanumeric_def)

lemma form_encode_plain:
  "list_all (\<lambda>c. is_alphanumeric c \<or> c = CHR ''-'') s \<Longrightarrow> form_encode s = s"
  by (induction s) (auto simp: form_encode_def form_encode_char_def)

lemma plain_values:
  "is_chain_id s \<Longrightarrow> form_encode s = s"
  "is_invite_role s \<Longrightarrow> form_encode s = s"
  "template_by_id (Some s) \<noteq> None \<Longrightarrow> form_encode s = s"
proof -
  show "is_chain_id s \<Longrightarrow> form_encode s = s"
    by (rule form_encode_plain)
      (auto simp: is_chain_id_def chain_id_text_def all_digits_def list_all_iff digit_alphanumeric)
  show "is_invite_role s \<Longrightarrow> form_encode s = s"
    by (rule form_encode_plain) (auto simp: is_invite_role_def INVITE_ROLES_def is_alphanumeric_def code_def)
  assume "template_by_id (Some s) \<noteq> None"
  then obtain t where "template_by_id (Some s) = Some t" by blast
  then have "s = tt_id FAST_TASK \<or> s = tt_id CROSS_BORDER"
    using template_by_id_Some by (fastforce simp: TRADE_TEMPLATES_def)
  then show "form_encode s = s"
    by (intro form_encode_plain) (auto simp: FAST_TASK_def CROSS_BORDER_def is_alphanumeric_def code_def)
qed

text \<open>
  C38: An invite survives its link and carries nothing else. Whatever parameters a page is opened with,
  an accepted invite has an order id that is a u64 without leading zeros, one of the five roles, a
  milestone id only if it is such a number, and a template only if it is shipped. Making a link of it
  sets at most the parameters order, role, milestone and template, in that order, with values no
  encoding changes, and opening that link gives the same invite again. An invite with a bad milestone
  or an unknown template keeps everything else.
\<close>

theorem invites_survive_the_link:
  assumes "parse_invite params = Inr i"
  shows "is_chain_id (iv_orderId i) \<and> iv_role i \<in> set INVITE_ROLES
    \<and> (\<forall>m. iv_milestoneId i = Some m \<longrightarrow> is_chain_id m)
    \<and> (\<forall>t. iv_templateId i = Some t \<longrightarrow> t \<in> tt_id ` set TRADE_TEMPLATES)
    \<and> (\<exists>ps. invite_params i = Inr ps
         \<and> set (map fst ps) \<subseteq> set QR_ALLOWED_PARAMS \<and> distinct (map fst ps)
         \<and> (\<forall>(k, v) \<in> set ps. form_encode v = v)
         \<and> parse_invite (SearchParams ps) = Inr i)
    \<and> (\<exists>ps. invite_params (i\<lparr>iv_milestoneId := Some bad, iv_templateId := Some unknown\<rparr>) = Inr ps
         \<and> (\<not> is_chain_id bad \<and> template_by_id (Some unknown) = None \<longrightarrow>
              parse_invite (SearchParams ps) = Inr (i\<lparr>iv_milestoneId := None, iv_templateId := None\<rparr>)))"
proof -
  note ok = parsed_invite [OF assms]
  have kept: "kept_invite i = i"
    using ok by (cases i) (auto simp: kept_invite_def split: option.split)
  obtain ps where ps: "invite_params i = Inr ps" using ok by (simp add: invite_params_def)
  have "set (map fst ps) \<subseteq> set QR_ALLOWED_PARAMS" "distinct (map fst ps)"
    using ps by (auto simp: invite_params_def QR_ALLOWED_PARAMS_def split: if_splits option.splits)
  moreover have "\<forall>(k, v) \<in> set ps. form_encode v = v"
    using ps ok plain_values by (auto simp: invite_params_def split: if_splits option.splits)
  moreover have "parse_invite (SearchParams ps) = Inr i"
    using params_parse_back [OF ps] ok kept by simp
  moreover have "t \<in> tt_id ` set TRADE_TEMPLATES" if "iv_templateId i = Some t" for t
    using that ok template_by_id_Some [of "Some t"] by fastforce
  moreover have "\<exists>qs. invite_params (i\<lparr>iv_milestoneId := Some bad, iv_templateId := Some unknown\<rparr>) = Inr qs
      \<and> (\<not> is_chain_id bad \<and> template_by_id (Some unknown) = None \<longrightarrow>
           parse_invite (SearchParams qs) = Inr (i\<lparr>iv_milestoneId := None, iv_templateId := None\<rparr>))"
  proof -
    let ?j = "i\<lparr>iv_milestoneId := Some bad, iv_templateId := Some unknown\<rparr>"
    obtain qs where "invite_params ?j = Inr qs" using ok by (simp add: invite_params_def)
    moreover from params_parse_back [OF this] ok have "parse_invite (SearchParams qs) = Inr (kept_invite ?j)" by simp
    ultimately show ?thesis by (auto simp: kept_invite_def)
  qed
  ultimately show ?thesis using ok ps by (auto simp: is_invite_role_def)
qed

section \<open>Templates\<close>

lemma compare_parsed_simps [simp]:
  "0 \<le> compare_parsed a b \<longleftrightarrow> b \<le> a" "compare_parsed a b < 0 \<longleftrightarrow> a < b" "0 < compare_parsed a b \<longleftrightarrow> b < a"
  by (auto simp: compare_parsed_def compare_units_def)

text \<open>
  A template without problems: from one to twenty milestones of positive amounts, and a financing
  example of one of them whose principal is less than it and not more than the repayment.
\<close>

lemma no_problems_sound:
  assumes "problems_from seen [t] = []"
  shows "1 \<le> length (tt_milestones t) \<and> length (tt_milestones t) \<le> 20
    \<and> (\<forall>m \<in> set (tt_milestones t). \<exists>u. parse_usdc_input (tm_amount m) = Inr u \<and> 0 < u)
    \<and> (\<exists>i p r u. tf_milestone (tt_financing t) = int i + 1 \<and> i < length (tt_milestones t)
         \<and> parse_usdc_input (tm_amount (tt_milestones t ! i)) = Inr u
         \<and> parse_usdc_input (tf_principal (tt_financing t)) = Inr p
         \<and> parse_usdc_input (tf_repayment (tt_financing t)) = Inr r
         \<and> 0 < p \<and> p < u \<and> p \<le> r \<and> r \<le> u)"
proof -
  let ?ms = "tt_milestones t" and ?f = "tt_financing t"
  from assms have none: "?ms \<noteq> []" "length ?ms \<le> 20" "\<forall>m \<in> set ?ms. milestone_problems m = []"
    "financing_problems t = []"
    by (auto split: if_splits)
  have "\<exists>u. parse_usdc_input (tm_amount m) = Inr u \<and> 0 < u" if "m \<in> set ?ms" for m
    using none(3) that parse_usdc_exact [of "tm_amount m"]
    by (cases "parse_usdc_input (tm_amount m)") (auto simp: milestone_problems_def)
  moreover from none(4) have range: "1 \<le> tf_milestone ?f" "tf_milestone ?f \<le> int (length ?ms)"
    by (auto simp: financing_problems_def Let_def split: if_splits)
  moreover obtain u p r where
    "parse_usdc_input (tm_amount (?ms ! nat (tf_milestone ?f - 1))) = Inr u"
    "parse_usdc_input (tf_principal ?f) = Inr p" "parse_usdc_input (tf_repayment ?f) = Inr r"
    "p < u" "p \<le> r" "r \<le> u"
    using none(4) range
    by (auto simp: financing_problems_def Let_def split: sum.splits if_splits)
  moreover have "0 < p" using parse_usdc_exact calculation(5) by blast
  moreover have "tf_milestone ?f = int (nat (tf_milestone ?f - 1)) + 1" "nat (tf_milestone ?f - 1) < length ?ms"
    using range by auto
  ultimately show ?thesis using none(1,2) by (metis Suc_leI length_greater_0_conv One_nat_def)
qed

lemma zeros:
  "replicate 6 c = [c, c, c, c, c, c]" "replicate 7 c = [c, c, c, c, c, c, c]"
  by (simp_all add: eval_nat_numeral)

lemma shipped_amounts:
  "parse_usdc_input ''1'' = Inr 10000000" "parse_usdc_input ''1.5'' = Inr 15000000"
  "parse_usdc_input ''2'' = Inr 20000000" "parse_usdc_input ''3'' = Inr 30000000"
  "parse_usdc_input ''4'' = Inr 40000000" "parse_usdc_input ''6'' = Inr 60000000"
  "parse_usdc_input ''8'' = Inr 80000000" "parse_usdc_input ''9'' = Inr 90000000"
  "parse_usdc_input ''10'' = Inr 100000000"
  by (simp_all add: parse_usdc_input_def trim_def is_space_def code_def match_amount_def is_digit_def
      nat_of_digits_def digit_val_def pad_end_def SCALE_def USDC_DECIMALS_def MAX_I128_def Let_def zeros code_def)

lemma shipped_stages:
  "trim ''Review'' \<noteq> []" "trim ''Feedback call'' \<noteq> []" "trim ''Production and QC'' \<noteq> []"
  "trim ''Shipment'' \<noteq> []" "trim ''Delivery'' \<noteq> []"
  by (simp_all add: trim_def is_space_def code_def)

lemma shipped_templates_sound: "template_problems TRADE_TEMPLATES = []"
  by (simp add: template_problems_def TRADE_TEMPLATES_def FAST_TASK_def CROSS_BORDER_def milestone_problems_def
      financing_problems_def shipped_amounts shipped_stages Let_def not_le)

section \<open>Runs\<close>

definition runs_ok :: "jsval list \<Rightarrow> bool" where
  "runs_ok vs \<longleftrightarrow> length vs \<le> MAX_RUNS \<and> list_all is_run vs"

lemma read_runs_ok: "runs_ok (read_runs json store)"
  by (auto simp: read_runs_def runs_ok_def list_all_iff dest!: in_set_takeD split: option.split jsval.split)

lemma written_read_back:
  assumes "\<And>v. js_parse json (js_stringify json v) = Some v" and "list_all is_run runs"
    and "\<not> rs_unreadable s" and "\<not> rs_unwritable s" and "write_runs json (Some s) runs = (shown, store')"
  shows "read_runs json store' = shown \<and> shown = take MAX_RUNS runs"
proof -
  have "list_all is_run (take MAX_RUNS runs)" using assms(2) by (auto simp: list_all_iff dest: in_set_takeD)
  then have "filter is_run (take MAX_RUNS runs) = take MAX_RUNS runs" by (simp add: list_all_iff)
  with assms show ?thesis by (auto simp: write_runs_def read_runs_def Let_def)
qed

text \<open>
  The run list is a short stack of distinct orders: attaching puts the run on top, keeps the others in
  order, and forgets only what no longer fits in twenty-five.
\<close>

lemma attached_run_is_first:
  assumes "\<And>v. js_parse json (js_stringify json v) = Some v" and "chain_id_text orderId"
    and "template_by_id (Some templateId) \<noteq> None" and "\<not> rs_unreadable s" and "\<not> rs_unwritable s"
    and "attach_run json now (Some s) orderId templateId started = (shown, store')"
  shows "read_runs json store' = shown \<and> runs_ok shown
    \<and> (\<exists>entry. run_order entry = orderId
         \<and> shown = take MAX_RUNS (entry # filter (\<lambda>r. run_order r \<noteq> orderId) (read_runs json (Some s))))
    \<and> (distinct (map run_order (read_runs json (Some s))) \<longrightarrow> distinct (map run_order shown))"
proof -
  let ?entry = "JObject [(''orderId'', JString orderId), (''templateId'', JString templateId),
    (''startedAt'', JString (case started of None \<Rightarrow> now | Some s \<Rightarrow> s))]"
  let ?others = "filter (\<lambda>r. run_order r \<noteq> orderId) (read_runs json (Some s))"
  have wrote: "write_runs json (Some s) (?entry # ?others) = (shown, store')"
    using assms(2,3,6) by (auto simp: attach_run_def Let_def)
  have entry: "is_run ?entry" "run_order ?entry = orderId"
    using assms(2,3) by (simp_all add: is_run_def run_order_def get_field_def)
  have runs: "list_all is_run (?entry # ?others)"
    using entry read_runs_ok [of json "Some s"] by (auto simp: runs_ok_def list_all_iff)
  note again = written_read_back [OF assms(1) runs assms(4,5) wrote]
  have "runs_ok shown" using again read_runs_ok [of json store'] by simp
  moreover have "distinct (map run_order shown)" if "distinct (map run_order (read_runs json (Some s)))"
  proof -
    have "distinct (map run_order ?others)" using that by (rule distinct_map_filter)
    then have "distinct (map run_order (?entry # ?others))"
      unfolding list.map distinct.simps entry(2) by auto
    then have "distinct (take MAX_RUNS (map run_order (?entry # ?others)))" by (rule distinct_take)
    moreover have "shown = take MAX_RUNS (?entry # ?others)" using again by (rule conjunct2)
    ultimately show ?thesis by (simp only: take_map)
  qed
  moreover have "read_runs json store' = shown" "shown = take MAX_RUNS (?entry # ?others)"
    using again by (rule conjunct1, rule conjunct2)
  ultimately show ?thesis using entry(2) by (intro conjI impI exI [of _ ?entry])
qed

section \<open>Witness\<close>

theorem invites_survive_the_link_witness:
  "\<exists>i. parse_invite (RouterParams [(''order'', OneText ''42''), (''role'', ManyTexts [''funder'', ''x'']),
       (''template'', OneText ''fast-task'')]) = Inr i
    \<and> (\<exists>ps. invite_params i = Inr ps \<and> parse_invite (SearchParams ps) = Inr i)"
proof -
  have "parse_invite (RouterParams [(''order'', OneText ''42''), (''role'', ManyTexts [''funder'', ''x'']),
       (''template'', OneText ''fast-task'')])
      = Inr \<lparr>iv_orderId = ''42'', iv_role = ''funder'', iv_milestoneId = None, iv_templateId = Some ''fast-task''\<rparr>"
    by code_simp
  with invites_survive_the_link [OF this] show ?thesis by blast
qed

end
