(* ===== verification/Schemas.thy ===== *)
theory Schemas
  imports Serialise LocalPayments
begin

text \<open>
  \<open>apps/web/lib/api/schemas.ts\<close>: what the browser requires of every API response. A schema is
  a value of \<open>schema\<close>, one constructor per zod constructor the file uses. What zod does with
  a schema is not in this repository: the definitions that parse take \<open>safeParse\<close> as an
  argument, and \<open>documented_zod\<close> states the behaviour they rely on. \<open>validate\<close> is a function with
  that behaviour, and by \<open>documented_zod_validate\<close> the only one.
\<close>

section \<open>Patterns\<close>

datatype text_pattern =
  IntegerText | AccountText | ContractText | DigestText | HashText | BaseUnitsText | FixedDecimalText

text \<open>\<open>/^C[A-Z2-7]{55}$/\<close> and \<open>/^-?\d+\.\d+$/\<close>.\<close>

definition is_contract_id :: "string \<Rightarrow> bool" where
  "is_contract_id s \<longleftrightarrow> length s = 56 \<and> take 1 s = ''C'' \<and> list_all is_base32 (drop 1 s)"

definition is_fixed_decimal :: "string \<Rightarrow> bool" where
  "is_fixed_decimal s \<longleftrightarrow>
     (let t = (if take 1 s = ''-'' then drop 1 s else s); rest = dropWhile is_digit t
      in takeWhile is_digit t \<noteq> [] \<and> take 1 rest = ''.'' \<and> all_digits (drop 1 rest))"

fun pattern_matches :: "text_pattern \<Rightarrow> string \<Rightarrow> bool" where
  "pattern_matches IntegerText s = is_integer_string s"
| "pattern_matches AccountText s = is_wallet s"
| "pattern_matches ContractText s = is_contract_id s"
| "pattern_matches DigestText s = is_hex64 s"
| "pattern_matches HashText s = is_any_hex64 s"
| "pattern_matches BaseUnitsText s = all_digits s"
| "pattern_matches FixedDecimalText s = is_fixed_decimal s"

section \<open>Schemas\<close>

datatype schema =
    ZString
  | ZNonEmpty
  | ZMatching text_pattern
  | ZNumber
  | ZCount
  | ZBoolean
  | ZOneOf "string list"
  | ZUnknown
  | ZNullable schema
  | ZOptional schema
  | ZArray schema
  | ZObject "(string \<times> schema) list"

text \<open>
  \<open>z.string().min(1)\<close> is \<open>ZNonEmpty\<close>, \<open>z.number().int().nonnegative()\<close> is \<open>ZCount\<close>, and
  \<open>z.literal\<close> and \<open>z.enum\<close> are \<open>ZOneOf\<close>. \<open>extend_schema\<close> adds keys to an object schema.
\<close>

fun extend_schema :: "schema \<Rightarrow> (string \<times> schema) list \<Rightarrow> schema" where
  "extend_schema (ZObject fs) gs = ZObject (fs @ gs)"
| "extend_schema s gs = s"

abbreviation "integerString \<equiv> ZMatching IntegerText"
abbreviation "account \<equiv> ZMatching AccountText"
abbreviation "contract \<equiv> ZMatching ContractText"
abbreviation "digest \<equiv> ZMatching DigestText"
abbreviation "txHash \<equiv> ZMatching HashText"
abbreviation "isoDate \<equiv> ZNonEmpty"
abbreviation "baseUnits \<equiv> ZMatching BaseUnitsText"
abbreviation "fixedDecimal \<equiv> ZMatching FixedDecimalText"

definition ORDER_STATUSES :: "string list" where
  "ORDER_STATUSES = [''CREATED'', ''ACTIVE'', ''COMPLETED'', ''CANCELLED'']"

definition MILESTONE_STATUSES :: "string list" where
  "MILESTONE_STATUSES =
     [''UNFUNDED'', ''FUNDED'', ''FINANCE_REQUESTED'', ''FINANCED'', ''SUBMITTED'', ''VERIFIED'',
      ''DISPUTED'', ''SETTLED'', ''REFUNDED'']"

definition DERIVED_STATUSES :: "string list" where
  "DERIVED_STATUSES = [''ON_TRACK'', ''DELAYED'', ''NEEDS_REVIEW'', ''CLOSED'']"

definition provenanceSchema :: schema where
  "provenanceSchema = ZObject
     [(''source'', ZOneOf [''soroban-projection'']), (''network'', ZString), (''contractId'', contract),
      (''lastEventId'', ZString), (''lastLedger'', integerString)]"

definition orderSchema :: schema where
  "orderSchema = ZObject
     [(''orderId'', integerString), (''buyer'', account), (''supplier'', account), (''attestor'', account),
      (''resolver'', account), (''settlementAsset'', contract), (''status'', ZOneOf ORDER_STATUSES),
      (''createdLedger'', integerString), (''createdTxHash'', txHash), (''createdAt'', isoDate),
      (''provenance'', provenanceSchema)]"

definition milestoneSchema :: schema where
  "milestoneSchema = ZObject
     [(''milestoneId'', integerString), (''orderId'', integerString), (''index'', ZCount),
      (''amount'', integerString), (''fundedAmount'', integerString), (''fullyFunded'', ZBoolean),
      (''deadline'', ZNullable isoDate), (''evidenceHash'', ZNullable digest),
      (''status'', ZOneOf MILESTONE_STATUSES), (''derivedStatus'', ZOneOf DERIVED_STATUSES),
      (''createdLedger'', integerString), (''createdTxHash'', txHash), (''createdAt'', isoDate),
      (''provenance'', provenanceSchema)]"

definition orderWithMilestonesSchema :: schema where
  "orderWithMilestonesSchema = extend_schema orderSchema [(''milestones'', ZArray milestoneSchema)]"

definition orderListSchema :: schema where
  "orderListSchema = ZObject [(''orders'', ZArray orderWithMilestonesSchema), (''count'', ZCount)]"

definition financeRequestSchema :: schema where
  "financeRequestSchema = ZObject
     [(''milestoneId'', integerString), (''supplier'', account), (''requestedPrincipal'', integerString),
      (''protectedAmount'', integerString), (''status'', ZOneOf [''OPEN'', ''ACCEPTED'', ''CANCELLED'']),
      (''expiresAt'', isoDate), (''cancelledWhileExpired'', ZNullable ZBoolean), (''createdAt'', isoDate)]"

definition offerSchema :: schema where
  "offerSchema = ZObject
     [(''offerId'', integerString), (''milestoneId'', integerString), (''funder'', account),
      (''principal'', integerString), (''repayment'', integerString),
      (''status'', ZOneOf [''OPEN'', ''CANCELLED'', ''ACCEPTED'', ''FUNDED'']), (''expiresAt'', isoDate),
      (''createdAt'', isoDate)]"

definition positionSchema :: schema where
  "positionSchema = ZObject
     [(''milestoneId'', integerString), (''offerId'', integerString), (''funder'', account),
      (''supplier'', account), (''principal'', integerString), (''repayment'', integerString),
      (''protectedAmountAtFunding'', integerString), (''status'', ZOneOf [''ACTIVE'', ''REPAID'', ''CLOSED'']),
      (''fundedAt'', isoDate), (''fundedTxHash'', txHash), (''repaidAt'', ZNullable isoDate),
      (''closedAt'', ZNullable isoDate)]"

definition disputeSchema :: schema where
  "disputeSchema = ZObject
     [(''disputeId'', integerString), (''milestoneId'', integerString), (''openedBy'', account),
      (''resolver'', account), (''status'', ZOneOf [''OPEN'', ''RESOLVED_SETTLE'', ''RESOLVED_REFUND'']),
      (''openedAt'', isoDate), (''openedTxHash'', txHash), (''resolvedAt'', ZNullable isoDate),
      (''resolvedTxHash'', ZNullable txHash)]"

definition settlementSchema :: schema where
  "settlementSchema = ZObject
     [(''protectedAmount'', integerString), (''funderRepayment'', integerString),
      (''supplierPayout'', integerString), (''settledAt'', isoDate), (''settledTxHash'', txHash)]"

definition refundSchema :: schema where
  "refundSchema = ZObject
     [(''refundedAmount'', integerString), (''funderAdvanceOutstanding'', integerString),
      (''refundedAt'', isoDate), (''refundedTxHash'', txHash)]"

definition milestoneFinanceSchema :: schema where
  "milestoneFinanceSchema = ZObject
     [(''milestoneId'', integerString), (''buyerProtectedEscrow'', integerString),
      (''funderAdvance'', integerString), (''request'', ZNullable financeRequestSchema),
      (''offers'', ZArray offerSchema), (''positions'', ZArray positionSchema),
      (''settlement'', ZNullable settlementSchema), (''refund'', ZNullable refundSchema)]"

definition evidenceDocumentSchema :: schema where
  "evidenceDocumentSchema = ZObject
     [(''contentHash'', digest), (''filename'', ZString), (''mimeType'', ZString),
      (''byteSize'', integerString), (''documentLabel'', ZNullable ZString),
      (''uploadedBy'', ZNullable account), (''anchoredOnChain'', ZBoolean),
      (''anchoredTxHash'', ZNullable txHash), (''createdAt'', isoDate)]"

definition milestoneEvidenceSchema :: schema where
  "milestoneEvidenceSchema = ZObject
     [(''milestoneId'', integerString), (''onChainEvidenceHash'', ZNullable digest),
      (''documents'', ZArray evidenceDocumentSchema)]"

definition milestoneDisputesSchema :: schema where
  "milestoneDisputesSchema = ZObject
     [(''milestoneId'', integerString), (''disputes'', ZArray disputeSchema)]"

definition opportunitiesSchema :: schema where
  "opportunitiesSchema = ZObject
     [(''opportunities'', ZArray (extend_schema financeRequestSchema
         [(''milestone'', milestoneSchema), (''order'', orderSchema)]))]"

definition funderOffersSchema :: schema where
  "funderOffersSchema = ZObject
     [(''offers'', ZArray (extend_schema offerSchema
         [(''milestone'', milestoneSchema), (''order'', orderSchema),
          (''request'', ZNullable financeRequestSchema)]))]"

definition positionsSchema :: schema where
  "positionsSchema = ZObject [(''positions'', ZArray positionSchema)]"

definition activitySchema :: schema where
  "activitySchema = ZObject
     [(''activity'', ZArray (ZObject
         [(''eventId'', ZString), (''eventName'', ZString), (''ledger'', integerString), (''txHash'', txHash),
          (''ledgerClosedAt'', isoDate), (''projected'', ZBoolean), (''fields'', ZUnknown)]))]"

definition checkSchema :: schema where
  "checkSchema = ZObject
     [(''status'', ZOneOf [''ok'', ''degraded'', ''down'']), (''detail'', ZOptional ZString)]"

definition readinessSchema :: schema where
  "readinessSchema = ZObject
     [(''status'', ZOneOf [''ok'', ''degraded'', ''down'']),
      (''checks'', ZObject [(''database'', checkSchema), (''rpc'', checkSchema), (''indexer'', checkSchema)]),
      (''time'', isoDate)]"

definition indexerStatusSchema :: schema where
  "indexerStatusSchema = ZObject
     [(''scannedThroughLedger'', ZNullable integerString), (''chainHead'', ZNullable integerString),
      (''ledgersBehind'', ZNullable integerString), (''lastError'', ZNullable ZString),
      (''unprojectedSuccessfulEvents'', ZCount)]"

definition evidenceUploadSchema :: schema where
  "evidenceUploadSchema = ZObject
     [(''contentHash'', digest), (''byteSize'', integerString), (''filename'', ZString),
      (''mimeType'', ZString), (''documentLabel'', ZNullable ZString), (''anchoredOnChain'', ZBoolean)]"

definition participantSchema :: schema where
  "participantSchema = ZObject
     [(''walletAddress'', account), (''known'', ZOptional ZBoolean), (''consentToCount'', ZBoolean),
      (''isTeam'', ZBoolean), (''source'', ZOptional (ZNullable ZString)),
      (''firstSeenAt'', ZOptional ZString), (''note'', ZOptional ZString)]"

definition metricDefinitionSchema :: schema where
  "metricDefinitionSchema = ZObject
     [(''key'', ZString), (''label'', ZString), (''definition'', ZString), (''source'', ZString),
      (''excludes'', ZString),
      (''unit'', ZOneOf [''count'', ''usdc-base-units'', ''try-decimal'', ''seconds'']),
      (''provenance'', ZOneOf [''on-chain'', ''anchor-reported'', ''anchor-reported-chain-confirmed'',
         ''self-declared'']),
      (''population'', ZOneOf [''all-participants'', ''external-only''])]"

definition metricScopeSchema :: schema where
  "metricScopeSchema = ZObject
     [(''network'', ZString), (''contractId'', ZString), (''testnetOnly'', ZBoolean),
      (''usdcDecimals'', ZNumber), (''note'', ZString)]"

definition metricProvenanceSchema :: schema where
  "metricProvenanceSchema = ZObject
     [(''chainMetrics'', ZString), (''localPaymentMetrics'', ZString), (''adoptionMetrics'', ZString),
      (''indexedThroughLedger'', ZNullable ZString), (''indexedEvents'', ZNumber)]"

definition protocolActivitySchema :: schema where
  "protocolActivitySchema = ZObject
     [(''ordersCreated'', ZNumber), (''ordersAccepted'', ZNumber), (''ordersCompleted'', ZNumber),
      (''milestonesCreated'', ZNumber), (''milestonesProtected'', ZNumber), (''protectedVolume'', baseUnits),
      (''financeRequests'', ZNumber), (''fundingOffers'', ZNumber), (''advancesFunded'', ZNumber),
      (''advanceVolume'', baseUnits), (''milestonesSettled'', ZNumber),
      (''funderRepaymentVolume'', baseUnits), (''supplierResidualVolume'', baseUnits),
      (''disputesOpened'', ZNumber), (''milestonesRefunded'', ZNumber), (''refundVolume'', baseUnits),
      (''distinctWallets'', ZNumber)]"

definition localPaymentsSchema :: schema where
  "localPaymentsSchema = ZObject
     [(''onRampsReported'', ZNumber), (''offRampsReported'', ZNumber), (''legsChainConfirmed'', ZNumber),
      (''legsMismatched'', ZNumber), (''legsUnchecked'', ZNumber), (''tryOnboarded'', fixedDecimal),
      (''tryPaidToSuppliers'', fixedDecimal)]"

definition cycleSchema :: schema where
  "cycleSchema = ZObject
     [(''milestoneId'', ZString), (''orderId'', ZNullable ZString), (''counted'', ZBoolean),
      (''link'', ZNullable (ZOneOf [''supplier-offramp'', ''buyer-onramp''])),
      (''localPaymentTxHash'', ZNullable ZString), (''missing'', ZArray ZString)]"

definition northStarSchema :: schema where
  "northStarSchema = ZObject
     [(''completedLocalPaymentFinanceCycles'', ZNumber), (''candidateCycles'', ZNumber),
      (''supplierOffRampCycles'', ZNumber), (''buyerOnRampCycles'', ZNumber),
      (''cycles'', ZArray cycleSchema)]"

definition adoptionSchema :: schema where
  "adoptionSchema = ZObject
     [(''externalWallets'', ZNumber), (''teamWallets'', ZNumber), (''unclassifiedWallets'', ZNumber),
      (''distinctWallets'', ZNumber)]"

definition timingsSchema :: schema where
  "timingsSchema = ZObject
     [(''medianOrderCompletionSeconds'', ZNullable ZNumber),
      (''medianTimeToLocalCashSeconds'', ZNullable ZNumber)]"

definition metricDefinitionsSchema :: schema where
  "metricDefinitionsSchema = ZObject
     [(''protocolActivity'', ZArray metricDefinitionSchema), (''localPayments'', ZArray metricDefinitionSchema),
      (''northStar'', metricDefinitionSchema), (''adoption'', ZArray metricDefinitionSchema),
      (''timings'', ZArray metricDefinitionSchema),
      (''notDerivable'', ZArray (ZObject [(''key'', ZString), (''reason'', ZString)])), (''count'', ZNumber)]"

definition publicMetricsSchema :: schema where
  "publicMetricsSchema = ZObject
     [(''scope'', metricScopeSchema), (''provenance'', metricProvenanceSchema),
      (''protocolActivity'', protocolActivitySchema), (''localPayments'', localPaymentsSchema),
      (''northStar'', northStarSchema), (''adoption'', adoptionSchema), (''timings'', timingsSchema),
      (''definitions'', metricDefinitionsSchema)]"

definition localPaymentRecordedSchema :: schema where
  "localPaymentRecordedSchema = ZObject
     [(''recorded'', ZBoolean), (''verification'', ZString), (''id'', ZString),
      (''direction'', ZOneOf [''TRY_TO_USDC'', ''USDC_TO_TRY'']), (''status'', ZString)]"

section \<open>Parsing\<close>

text \<open>\<open>Number.MAX_SAFE_INTEGER\<close>\<close>

definition safe_count :: "rat option \<Rightarrow> bool" where
  "safe_count n = (case n of None \<Rightarrow> False
     | Some q \<Rightarrow> of_int \<lfloor>q\<rfloor> = q \<and> 0 \<le> q \<and> q \<le> 9007199254740991)"

text \<open>The object parsed: every key must have parsed; an absent optional key stays absent.\<close>

fun parsed_fields :: "(string \<times> jsval option) list \<Rightarrow> fields option" where
  "parsed_fields [] = Some []"
| "parsed_fields ((k, None) # kvs) = None"
| "parsed_fields ((k, Some v) # kvs) =
     map_option (\<lambda>f. if v = JUndefined then f else (k, v) # f) (parsed_fields kvs)"

fun those_values :: "jsval option list \<Rightarrow> jsval list option" where
  "those_values [] = Some []"
| "those_values (None # vs) = None"
| "those_values (Some v # vs) = map_option (\<lambda>ws. v # ws) (those_values vs)"

fun string_of :: "jsval \<Rightarrow> string option" where
  "string_of (JString s) = Some s"
| "string_of _ = None"

definition keep_if :: "bool \<Rightarrow> jsval \<Rightarrow> jsval option" where
  "keep_if b v = (if b then Some v else None)"

type_synonym parser = "schema \<Rightarrow> jsval \<Rightarrow> jsval option"

fun validate :: parser where
  "validate ZString v = keep_if (string_of v \<noteq> None) v"
| "validate ZNonEmpty v = keep_if (string_of v \<noteq> None \<and> string_of v \<noteq> Some []) v"
| "validate (ZMatching p) v =
     keep_if (case string_of v of None \<Rightarrow> False | Some s \<Rightarrow> pattern_matches p s) v"
| "validate ZNumber v = keep_if (case v of JNumber (Some q) \<Rightarrow> True | _ \<Rightarrow> False) v"
| "validate ZCount v = keep_if (case v of JNumber n \<Rightarrow> safe_count n | _ \<Rightarrow> False) v"
| "validate ZBoolean v = keep_if (case v of JBool b \<Rightarrow> True | _ \<Rightarrow> False) v"
| "validate (ZOneOf names) v =
     keep_if (case string_of v of None \<Rightarrow> False | Some s \<Rightarrow> List.member names s) v"
| "validate ZUnknown v = Some v"
| "validate (ZNullable s) v = (if v = JNull then Some v else validate s v)"
| "validate (ZOptional s) v = (if v = JUndefined then Some v else validate s v)"
| "validate (ZArray s) v =
     (case v of JArray vs \<Rightarrow> map_option JArray (those_values (map (validate s) vs)) | _ \<Rightarrow> None)"
| "validate (ZObject fs) v =
     (case v of
        JObject kvs \<Rightarrow> map_option JObject
          (parsed_fields (map (\<lambda>(k, s). (k, validate s (get_field kvs k))) fs))
      | _ \<Rightarrow> None)"

text \<open>
  What zod documents of the constructors used here. \<open>safeParse\<close> of a schema gives the value on
  success: strings, numbers and booleans are checked and returned as they are, \<open>int()\<close> admits
  safe integers, \<open>number()\<close> refuses NaN and the infinities, \<open>nullable\<close> and \<open>optional\<close> let one
  more value through, an array is parsed by element, and an object by key, unknown keys dropped.
\<close>

definition documented_zod :: "parser \<Rightarrow> bool" where
  "documented_zod z \<longleftrightarrow>
     (\<forall>v. z ZString v = keep_if (string_of v \<noteq> None) v)
   \<and> (\<forall>v. z ZNonEmpty v = keep_if (string_of v \<noteq> None \<and> string_of v \<noteq> Some []) v)
   \<and> (\<forall>p v. z (ZMatching p) v =
        keep_if (case string_of v of None \<Rightarrow> False | Some s \<Rightarrow> pattern_matches p s) v)
   \<and> (\<forall>v. z ZNumber v = keep_if (case v of JNumber (Some q) \<Rightarrow> True | _ \<Rightarrow> False) v)
   \<and> (\<forall>v. z ZCount v = keep_if (case v of JNumber n \<Rightarrow> safe_count n | _ \<Rightarrow> False) v)
   \<and> (\<forall>v. z ZBoolean v = keep_if (case v of JBool b \<Rightarrow> True | _ \<Rightarrow> False) v)
   \<and> (\<forall>names v. z (ZOneOf names) v =
        keep_if (case string_of v of None \<Rightarrow> False | Some s \<Rightarrow> List.member names s) v)
   \<and> (\<forall>v. z ZUnknown v = Some v)
   \<and> (\<forall>s v. z (ZNullable s) v = (if v = JNull then Some v else z s v))
   \<and> (\<forall>s v. z (ZOptional s) v = (if v = JUndefined then Some v else z s v))
   \<and> (\<forall>s v. z (ZArray s) v =
        (case v of JArray vs \<Rightarrow> map_option JArray (those_values (map (z s) vs)) | _ \<Rightarrow> None))
   \<and> (\<forall>fs v. z (ZObject fs) v =
        (case v of
           JObject kvs \<Rightarrow> map_option JObject
             (parsed_fields (map (\<lambda>(k, s). (k, z s (get_field kvs k))) fs))
         | _ \<Rightarrow> None))"

lemma validate_documented: "documented_zod validate"
  by (simp add: documented_zod_def)

lemma documented_compounds:
  assumes "documented_zod z"
  shows "z (ZArray s) v =
      (case v of JArray vs \<Rightarrow> map_option JArray (those_values (map (z s) vs)) | _ \<Rightarrow> None)"
    and "z (ZObject fs) v =
      (case v of
         JObject kvs \<Rightarrow> map_option JObject (parsed_fields (map (\<lambda>(k, s). (k, z s (get_field kvs k))) fs))
       | _ \<Rightarrow> None)"
  using assms by (simp_all add: documented_zod_def)

lemma documented_zod_validate:
  assumes "documented_zod z" shows "z s v = validate s v"
proof (induction s v rule: validate.induct)
  case (11 s v)
  show ?case
  proof (cases v)
    case (JArray vs)
    with 11 have "map (z s) vs = map (validate s) vs" by simp
    with JArray show ?thesis by (simp only: documented_compounds [OF assms] validate.simps jsval.case)
  qed (simp_all add: documented_compounds [OF assms])
next
  case (12 fs v)
  show ?case
  proof (cases v)
    case (JObject kvs)
    with 12 have "map (\<lambda>(k, s). (k, z s (get_field kvs k))) fs = map (\<lambda>(k, s). (k, validate s (get_field kvs k))) fs"
      by auto
    with JObject show ?thesis by (simp only: documented_compounds [OF assms] validate.simps jsval.case)
  qed (simp_all add: documented_compounds [OF assms])
qed (use assms in \<open>simp_all add: documented_zod_def\<close>)

end
