(* ===== verification/MetricsApi.thy ===== *)
theory MetricsApi
  imports PublicMetrics Serialise
begin

text \<open>
  The public metrics endpoint: the catalogue of \<open>apps/api/src/metrics/definitions.ts\<close> and the
  response of \<open>metrics.controller.ts\<close>. The prose of a definition (its label, what it means, its
  source, what it excludes) and of a reason is an argument, by key; the rest of the catalogue is
  as in the file.
\<close>

section \<open>The catalogue\<close>

record metric_definition =
  md_key :: string
  md_unit :: string
  md_provenance :: string
  md_population :: string

definition USDC_DECIMALS :: nat where
  "USDC_DECIMALS = 7"

definition chain_metric :: "string \<Rightarrow> metric_definition" where
  "chain_metric key = \<lparr>md_key = key, md_unit = ''count'', md_provenance = ''on-chain'',
     md_population = ''all-participants''\<rparr>"

definition chain_money :: "string \<Rightarrow> metric_definition" where
  "chain_money key = (chain_metric key)\<lparr>md_unit := ''usdc-base-units''\<rparr>"

definition PROTOCOL_METRICS :: "metric_definition list" where
  "PROTOCOL_METRICS =
     [chain_metric ''ordersCreated'', chain_metric ''ordersAccepted'', chain_metric ''ordersCompleted'',
      chain_metric ''milestonesCreated'', chain_metric ''milestonesProtected'', chain_money ''protectedVolume'',
      chain_metric ''financeRequests'', chain_metric ''fundingOffers'', chain_metric ''advancesFunded'',
      chain_money ''advanceVolume'', chain_metric ''milestonesSettled'', chain_money ''funderRepaymentVolume'',
      chain_money ''supplierResidualVolume'', chain_metric ''disputesOpened'',
      chain_metric ''milestonesRefunded'', chain_money ''refundVolume'', chain_metric ''distinctWallets'']"

definition reported :: "string \<Rightarrow> string \<Rightarrow> metric_definition" where
  "reported key unit = \<lparr>md_key = key, md_unit = unit, md_provenance = ''anchor-reported'',
     md_population = ''all-participants''\<rparr>"

definition confirmed :: "string \<Rightarrow> string \<Rightarrow> metric_definition" where
  "confirmed key unit = \<lparr>md_key = key, md_unit = unit,
     md_provenance = ''anchor-reported-chain-confirmed'', md_population = ''all-participants''\<rparr>"

definition LOCAL_PAYMENT_METRICS :: "metric_definition list" where
  "LOCAL_PAYMENT_METRICS =
     [reported ''onRampsReported'' ''count'', reported ''offRampsReported'' ''count'',
      confirmed ''legsChainConfirmed'' ''count'', confirmed ''legsMismatched'' ''count'',
      reported ''tryOnboarded'' ''try-decimal'', reported ''tryPaidToSuppliers'' ''try-decimal'']"

definition NORTH_STAR :: metric_definition where
  "NORTH_STAR = confirmed ''completedLocalPaymentFinanceCycles'' ''count''"

definition ADOPTION_METRICS :: "metric_definition list" where
  "ADOPTION_METRICS =
     [\<lparr>md_key = ''externalWallets'', md_unit = ''count'', md_provenance = ''self-declared'',
       md_population = ''external-only''\<rparr>,
      \<lparr>md_key = ''teamWallets'', md_unit = ''count'', md_provenance = ''self-declared'',
       md_population = ''all-participants''\<rparr>,
      \<lparr>md_key = ''unclassifiedWallets'', md_unit = ''count'', md_provenance = ''self-declared'',
       md_population = ''all-participants''\<rparr>]"

definition TIMING_METRICS :: "metric_definition list" where
  "TIMING_METRICS =
     [(chain_metric ''medianOrderCompletionSeconds'')\<lparr>md_unit := ''seconds''\<rparr>,
      confirmed ''medianTimeToLocalCashSeconds'' ''seconds'']"

definition NOT_DERIVABLE :: "string list" where
  "NOT_DERIVABLE =
     [''walletsConnected'', ''financedShipmentOrDeliveryMilestones'', ''medianDemoCompletionTime'']"

definition ALL_DEFINITIONS :: "metric_definition list" where
  "ALL_DEFINITIONS = PROTOCOL_METRICS @ LOCAL_PAYMENT_METRICS @ [NORTH_STAR] @ ADOPTION_METRICS @ TIMING_METRICS"

section \<open>The response\<close>

text \<open>The prose of a key: \<open>label\<close>, \<open>definition\<close>, \<open>source\<close>, \<open>excludes\<close>, and \<open>reason\<close>.\<close>

type_synonym prose = "string \<Rightarrow> string \<Rightarrow> string"

definition definition_json :: "prose \<Rightarrow> metric_definition \<Rightarrow> jsval" where
  "definition_json prose m = JObject
     [(''key'', JString (md_key m)), (''label'', JString (prose (md_key m) ''label'')),
      (''definition'', JString (prose (md_key m) ''definition'')),
      (''source'', JString (prose (md_key m) ''source'')),
      (''excludes'', JString (prose (md_key m) ''excludes'')), (''unit'', JString (md_unit m)),
      (''provenance'', JString (md_provenance m)), (''population'', JString (md_population m))]"

definition js_count :: "nat \<Rightarrow> jsval" where
  "js_count n = JNumber (Some (of_nat n))"

definition js_int :: "int \<Rightarrow> jsval" where
  "js_int i = JNumber (Some (of_int i))"

definition protocol_json :: "protocol_activity \<Rightarrow> fields" where
  "protocol_json p =
     [(''ordersCreated'', js_count (pa_ordersCreated p)), (''ordersAccepted'', js_count (pa_ordersAccepted p)),
      (''ordersCompleted'', js_count (pa_ordersCompleted p)),
      (''milestonesCreated'', js_count (pa_milestonesCreated p)),
      (''milestonesProtected'', js_count (pa_milestonesProtected p)),
      (''protectedVolume'', JString (pa_protectedVolume p)),
      (''financeRequests'', js_count (pa_financeRequests p)), (''fundingOffers'', js_count (pa_fundingOffers p)),
      (''advancesFunded'', js_count (pa_advancesFunded p)), (''advanceVolume'', JString (pa_advanceVolume p)),
      (''milestonesSettled'', js_count (pa_milestonesSettled p)),
      (''funderRepaymentVolume'', JString (pa_funderRepaymentVolume p)),
      (''supplierResidualVolume'', JString (pa_supplierResidualVolume p)),
      (''disputesOpened'', js_count (pa_disputesOpened p)),
      (''milestonesRefunded'', js_count (pa_milestonesRefunded p)), (''refundVolume'', JString (pa_refundVolume p)),
      (''distinctWallets'', js_count (pa_distinctWallets p))]"

definition local_payments_json :: "local_payment_figures \<Rightarrow> fields" where
  "local_payments_json l =
     [(''onRampsReported'', js_count (lp_onRampsReported l)), (''offRampsReported'', js_count (lp_offRampsReported l)),
      (''legsChainConfirmed'', js_count (lp_legsChainConfirmed l)),
      (''legsMismatched'', js_count (lp_legsMismatched l)), (''legsUnchecked'', js_count (lp_legsUnchecked l)),
      (''tryOnboarded'', JString (lp_tryOnboarded l)), (''tryPaidToSuppliers'', JString (lp_tryPaidToSuppliers l))]"

fun link_text :: "cycle_link \<Rightarrow> string" where
  "link_text SUPPLIER_OFFRAMP = ''supplier-offramp''"
| "link_text BUYER_ONRAMP = ''buyer-onramp''"

definition cycle_json :: "public_cycle \<Rightarrow> jsval" where
  "cycle_json c = JObject
     [(''milestoneId'', JString (pc_milestoneId c)), (''orderId'', js_text (pc_orderId c)),
      (''counted'', JBool (pc_counted c)), (''link'', js_text (map_option link_text (pc_link c))),
      (''localPaymentTxHash'', js_text (pc_localPaymentTxHash c)),
      (''missing'', JArray (map JString (pc_missing c)))]"

definition north_star_json :: "north_star \<Rightarrow> fields" where
  "north_star_json n =
     [(''completedLocalPaymentFinanceCycles'', js_count (ns_completedLocalPaymentFinanceCycles n)),
      (''candidateCycles'', js_count (ns_candidateCycles n)),
      (''supplierOffRampCycles'', js_count (ns_supplierOffRampCycles n)),
      (''buyerOnRampCycles'', js_count (ns_buyerOnRampCycles n)),
      (''cycles'', JArray (map cycle_json (ns_cycles n)))]"

definition adoption_json :: "adoption \<Rightarrow> fields" where
  "adoption_json a =
     [(''externalWallets'', js_int (ad_externalWallets a)), (''teamWallets'', js_int (ad_teamWallets a)),
      (''unclassifiedWallets'', js_int (ad_unclassifiedWallets a)),
      (''distinctWallets'', js_int (ad_distinctWallets a))]"

definition timings_json :: "timings \<Rightarrow> fields" where
  "timings_json t =
     [(''medianOrderCompletionSeconds'',
        case tm_medianOrderCompletionSeconds t of None \<Rightarrow> JNull | Some s \<Rightarrow> js_int s),
      (''medianTimeToLocalCashSeconds'',
        case tm_medianTimeToLocalCashSeconds t of None \<Rightarrow> JNull | Some s \<Rightarrow> js_int s)]"

definition definitions_json :: "prose \<Rightarrow> jsval" where
  "definitions_json prose = JObject
     [(''protocolActivity'', JArray (map (definition_json prose) PROTOCOL_METRICS)),
      (''localPayments'', JArray (map (definition_json prose) LOCAL_PAYMENT_METRICS)),
      (''northStar'', definition_json prose NORTH_STAR),
      (''adoption'', JArray (map (definition_json prose) ADOPTION_METRICS)),
      (''timings'', JArray (map (definition_json prose) TIMING_METRICS)),
      (''notDerivable'', JArray (map (\<lambda>k. JObject [(''key'', JString k),
         (''reason'', JString (prose k ''reason''))]) NOT_DERIVABLE)),
      (''count'', js_count (length ALL_DEFINITIONS))]"

text \<open>\<open>publicMetrics\<close>; \<open>prose ''scope''\<close> and \<open>prose ''provenance''\<close> are the controller's own notes.\<close>

definition public_metrics_json :: "prose \<Rightarrow> projection_context \<Rightarrow> db \<Rightarrow> jsval" where
  "public_metrics_json prose ctx d =
     (let m = compute_public_metrics ctx d in JObject
       [(''scope'', JObject
           [(''network'', JString (network ctx)), (''contractId'', JString (contractId ctx)),
            (''testnetOnly'', JBool (network ctx \<noteq> ''public'')), (''usdcDecimals'', js_count USDC_DECIMALS),
            (''note'', JString (prose ''scope'' ''note''))]),
        (''provenance'', JObject
           [(''chainMetrics'', JString (prose ''provenance'' ''chainMetrics'')),
            (''localPaymentMetrics'', JString (prose ''provenance'' ''localPaymentMetrics'')),
            (''adoptionMetrics'', JString (prose ''provenance'' ''adoptionMetrics'')),
            (''indexedThroughLedger'', js_text (case find_cursor ctx d of None \<Rightarrow> None
               | Some c \<Rightarrow> map_option int_to_string (c_scannedThroughLedger c))),
            (''indexedEvents'', js_count (count_rows (\<lambda>l. l_ctx l = ctx) (event_log d)))]),
        (''protocolActivity'', JObject (protocol_json (protocolActivity m))),
        (''localPayments'', JObject (local_payments_json (localPayments m))),
        (''northStar'', JObject (north_star_json (northStar m))),
        (''adoption'', JObject (adoption_json (adoptionFigures m))),
        (''timings'', JObject (timings_json (timingFigures m))),
        (''definitions'', definitions_json prose)])"

section \<open>Published numbers without a definition\<close>

definition figure_keys :: "public_metrics \<Rightarrow> string list" where
  "figure_keys m = map fst (protocol_json (protocolActivity m) @ local_payments_json (localPayments m)
     @ north_star_json (northStar m) @ adoption_json (adoptionFigures m) @ timings_json (timingFigures m))"

text \<open>
  The figures of the response that no definition is about; \<open>cycles\<close> is the list of cycles and not
  a number.
\<close>

lemma published_without_a_definition:
  "filter (\<lambda>k. k \<notin> set (map md_key ALL_DEFINITIONS)) (figure_keys m) =
    [''legsUnchecked'', ''candidateCycles'', ''supplierOffRampCycles'', ''buyerOnRampCycles'', ''cycles'']"
  by (simp add: figure_keys_def protocol_json_def local_payments_json_def north_star_json_def
      adoption_json_def timings_json_def ALL_DEFINITIONS_def PROTOCOL_METRICS_def
      LOCAL_PAYMENT_METRICS_def NORTH_STAR_def ADOPTION_METRICS_def TIMING_METRICS_def
      chain_metric_def chain_money_def reported_def confirmed_def)

lemma every_definition_is_published:
  "set (map md_key ALL_DEFINITIONS) \<subseteq> set (figure_keys m)"
  by (simp add: figure_keys_def protocol_json_def local_payments_json_def north_star_json_def
      adoption_json_def timings_json_def ALL_DEFINITIONS_def PROTOCOL_METRICS_def
      LOCAL_PAYMENT_METRICS_def NORTH_STAR_def ADOPTION_METRICS_def TIMING_METRICS_def
      chain_metric_def chain_money_def reported_def confirmed_def)

end
