(* ===== verification/Health.thy ===== *)
theory Health
  imports IndexerProperties Serialise
begin

text \<open>
  Whether the read models can be trusted: \<open>IndexerService.status\<close> and \<open>chainHead\<close>, the two
  readiness endpoints of \<open>apps/api/src/health/health.controller.ts\<close> and the modes of
  \<open>apps/api/src/indexer/indexer.main.ts\<close>. The reply of the RPC server and the reachability of the
  database are arguments.
\<close>

section \<open>The state of the indexer\<close>

record indexer_status =
  st_network :: string
  st_contractId :: string
  st_startLedger :: string
  st_lastEventId :: "string option"
  st_lastLedger :: "string option"
  st_scannedThroughLedger :: "string option"
  st_eventsIngested :: string
  st_unprojected :: nat
  st_lastPollAt :: "string option"
  st_lastEventAt :: "string option"
  st_lastErrorAt :: "string option"
  st_lastError :: "string option"
  st_running :: bool

definition status_of :: "projection_context \<Rightarrow> db \<Rightarrow> bool \<Rightarrow> cursor_row \<Rightarrow> indexer_status" where
  "status_of ctx d busy c =
     \<lparr>st_network = network (c_ctx c), st_contractId = contractId (c_ctx c),
      st_startLedger = int_to_string (c_startLedger c), st_lastEventId = c_lastEventId c,
      st_lastLedger = map_option int_to_string (c_lastLedger c),
      st_scannedThroughLedger = map_option int_to_string (c_scannedThroughLedger c),
      st_eventsIngested = int_to_string (c_eventsIngested c),
      st_unprojected = unprojected_successful_events ctx d,
      st_lastPollAt = map_option to_iso_string (c_lastPollAt c),
      st_lastEventAt = map_option to_iso_string (c_lastEventAt c),
      st_lastErrorAt = map_option to_iso_string (c_lastErrorAt c),
      st_lastError = c_lastError c, st_running = busy\<rparr>"

text \<open>\<open>status\<close>: creates the cursor when there is none, so it always has one to read.\<close>

definition worker_status :: "projection_context \<Rightarrow> int \<Rightarrow> worker \<Rightarrow> indexer_status option \<times> worker" where
  "worker_status ctx start w =
     (let d = ensure_cursor ctx start (store w)
      in (map_option (status_of ctx d (running w)) (find_cursor ctx d), w\<lparr>store := d\<rparr>))"

section \<open>Readiness\<close>

datatype health = Ok_health | Degraded | Down

record health_check =
  hc_status :: health
  hc_detail :: "string option"

definition LAG_THRESHOLD_LEDGERS :: int where
  "LAG_THRESHOLD_LEDGERS = 120"

definition check_database :: "bool \<Rightarrow> health_check" where
  "check_database pings =
     (if pings then \<lparr>hc_status = Ok_health, hc_detail = None\<rparr>
      else \<lparr>hc_status = Down, hc_detail = Some ''PostgreSQL is not reachable''\<rparr>)"

definition check_rpc :: "int rpc_reply \<Rightarrow> health_check \<times> int option" where
  "check_rpc reply =
     (case latest_ledger reply of
        Inr head \<Rightarrow> (\<lparr>hc_status = Ok_health, hc_detail = Some (''ledger '' @ int_to_string head)\<rparr>, Some head)
      | Inl e \<Rightarrow> (\<lparr>hc_status = Down, hc_detail = Some ''Stellar RPC is not reachable''\<rparr>, None))"

definition degraded :: "string \<Rightarrow> health_check" where
  "degraded detail = \<lparr>hc_status = Degraded, hc_detail = Some detail\<rparr>"

text \<open>The status is \<open>None\<close> where reading it throws.\<close>

definition check_indexer :: "int option \<Rightarrow> indexer_status option \<Rightarrow> health_check" where
  "check_indexer head st =
     (case st of
        None \<Rightarrow> \<lparr>hc_status = Down, hc_detail = Some ''indexer state is unreadable''\<rparr>
      | Some s \<Rightarrow>
          (case st_lastError s of
             Some e \<Rightarrow> degraded e
           | None \<Rightarrow>
               if 0 < st_unprojected s
               then degraded (nat_to_string (st_unprojected s) @ '' successful event(s) need projection support'')
               else
                 (case st_scannedThroughLedger s of
                    None \<Rightarrow> degraded ''indexer has not completed a pass yet''
                  | Some scanned \<Rightarrow>
                      if (case head of None \<Rightarrow> False
                          | Some h \<Rightarrow> LAG_THRESHOLD_LEDGERS < h - int_of_string scanned)
                      then degraded (int_to_string (the head - int_of_string scanned) @ '' ledgers behind chain head'')
                      else \<lparr>hc_status = Ok_health,
                            hc_detail = Some (''scanned through ledger '' @ scanned)\<rparr>)))"

record readiness =
  rd_status :: health
  rd_database :: health_check
  rd_rpc :: health_check
  rd_indexer :: health_check
  rd_time :: string

definition overall :: "health_check list \<Rightarrow> health" where
  "overall checks =
     (if list_ex (\<lambda>c. hc_status c = Down) checks then Down
      else if list_ex (\<lambda>c. hc_status c = Degraded) checks then Degraded else Ok_health)"

text \<open>
  \<open>ready\<close>: \<open>pings\<close> and \<open>reads\<close> say whether the database answers the ping and the status query,
  which are two queries.
\<close>

definition ready ::
  "bool \<Rightarrow> bool \<Rightarrow> int rpc_reply \<Rightarrow> projection_context \<Rightarrow> int \<Rightarrow> int \<Rightarrow> worker \<Rightarrow> readiness \<times> worker" where
  "ready pings reads reply ctx start now w =
     (let database = check_database pings;
          (rpcCheck, head) = check_rpc reply;
          (st, w') = (if reads then worker_status ctx start w else (None, w));
          indexer = check_indexer head st
      in (\<lparr>rd_status = overall [database, rpcCheck, indexer], rd_database = database, rd_rpc = rpcCheck,
           rd_indexer = indexer, rd_time = to_iso_string now\<rparr>, w'))"

fun health_text :: "health \<Rightarrow> string" where
  "health_text Ok_health = ''ok''"
| "health_text Degraded = ''degraded''"
| "health_text Down = ''down''"

definition check_json :: "health_check \<Rightarrow> jsval" where
  "check_json c = JObject ((''status'', JString (health_text (hc_status c)))
     # (case hc_detail c of None \<Rightarrow> [] | Some s \<Rightarrow> [(''detail'', JString s)]))"

definition ready_json :: "readiness \<Rightarrow> jsval" where
  "ready_json r = JObject
     [(''status'', JString (health_text (rd_status r))),
      (''checks'', JObject [(''database'', check_json (rd_database r)), (''rpc'', check_json (rd_rpc r)),
         (''indexer'', check_json (rd_indexer r))]),
      (''time'', JString (rd_time r))]"

text \<open>\<open>indexerStatus\<close>: the chain head and the ledgers behind it, when both are known.\<close>

definition indexer_status ::
  "int rpc_reply \<Rightarrow> projection_context \<Rightarrow> int \<Rightarrow> worker
    \<Rightarrow> (indexer_status \<times> string option \<times> string option) option \<times> worker" where
  "indexer_status reply ctx start w =
     (let (st, w') = worker_status ctx start w in
      (map_option (\<lambda>s.
         case latest_ledger reply of
           Inl e \<Rightarrow> (s, None, None)
         | Inr head \<Rightarrow>
             (s, Some (int_to_string head),
              map_option (\<lambda>scanned. int_to_string (max 0 (head - int_of_string scanned)))
                (st_scannedThroughLedger s))) st, w'))"

definition indexer_status_json :: "indexer_status \<times> string option \<times> string option \<Rightarrow> jsval" where
  "indexer_status_json t =
     (let (s, chainHead, lag) = t in JObject
       [(''network'', JString (st_network s)), (''contractId'', JString (st_contractId s)),
        (''startLedger'', JString (st_startLedger s)), (''lastEventId'', js_text (st_lastEventId s)),
        (''lastLedger'', js_text (st_lastLedger s)),
        (''scannedThroughLedger'', js_text (st_scannedThroughLedger s)),
        (''eventsIngested'', JString (st_eventsIngested s)),
        (''unprojectedSuccessfulEvents'', JNumber (Some (of_nat (st_unprojected s)))),
        (''lastPollAt'', js_text (st_lastPollAt s)), (''lastEventAt'', js_text (st_lastEventAt s)),
        (''lastErrorAt'', js_text (st_lastErrorAt s)), (''lastError'', js_text (st_lastError s)),
        (''running'', JBool (st_running s)), (''chainHead'', js_text chainHead),
        (''ledgersBehind'', js_text lag)])"

section \<open>The process\<close>

datatype mode = Once | Watch | Status | Replay_mode

definition MODES :: "(string \<times> mode) list" where
  "MODES = [(''once'', Once), (''watch'', Watch), (''status'', Status), (''replay'', Replay_mode)]"

text \<open>\<open>parseMode\<close>: the third argument, \<open>once\<close> when it is missing; \<open>None\<close> is the throw.\<close>

definition parse_mode :: "string list \<Rightarrow> mode option" where
  "parse_mode argv = map_of MODES (if 2 < length argv then argv ! 2 else ''once'')"

text \<open>
  Passes until the stream is caught up or a shutdown was requested, which \<open>stopping\<close> says after
  each pass; \<open>run\<close> is \<open>catchUp\<close> in the surroundings of pass \<open>i\<close>. \<open>None\<close> is a pass that does not
  return, or no more fuel.
\<close>

fun passes ::
  "nat \<Rightarrow> (nat \<Rightarrow> worker \<Rightarrow> ((api_error + run_result) \<times> worker) option) \<Rightarrow> (nat \<Rightarrow> bool) \<Rightarrow> nat \<Rightarrow> worker
    \<Rightarrow> ((api_error + run_result) \<times> worker) option" where
  "passes 0 run stopping i w = None"
| "passes (Suc fuel) run stopping i w =
     (case run i w of
        None \<Rightarrow> None
      | Some (Inl e, w') \<Rightarrow> Some (Inl e, w')
      | Some (Inr res, w') \<Rightarrow>
          if \<not> caughtUp res \<and> \<not> stopping i then passes fuel run stopping (i + 1) w' else Some (Inr res, w'))"

text \<open>\<open>watch\<close>: after a pause, one pass; a failed pass is logged and the next one tried.\<close>

fun watch ::
  "nat \<Rightarrow> (nat \<Rightarrow> worker \<Rightarrow> ((api_error + run_result) \<times> worker) option) \<Rightarrow> (nat \<Rightarrow> bool) \<Rightarrow> nat \<Rightarrow> worker
    \<Rightarrow> worker option" where
  "watch 0 run stopping i w = None"
| "watch (Suc fuel) run stopping i w =
     (if stopping i then Some w
      else case run i w of None \<Rightarrow> None | Some (_, w') \<Rightarrow> watch fuel run stopping (i + 1) w')"

text \<open>
  \<open>main\<close> after the connection, with the result the first passes ended with; \<open>printed\<close> is what
  mode \<open>status\<close> prints.
\<close>

record outcome =
  printed :: "indexer_status option"
  failed :: "api_error option"
  final :: worker

definition indexer_main ::
  "nat \<Rightarrow> (nat \<Rightarrow> worker \<Rightarrow> ((api_error + run_result) \<times> worker) option) \<Rightarrow> (nat \<Rightarrow> bool)
    \<Rightarrow> projection_context \<Rightarrow> int \<Rightarrow> mode \<Rightarrow> worker \<Rightarrow> outcome option" where
  "indexer_main fuel run stopping ctx start m w =
     (let w0 = w\<lparr>store := ensure_cursor ctx start (store w)\<rparr> in
      if m = Status
      then let (st, w1) = worker_status ctx start w0 in Some \<lparr>printed = st, failed = None, final = w1\<rparr>
      else
        let w1 = (if m = Replay_mode then w0\<lparr>store := reset ctx start (store w0)\<rparr> else w0) in
        (case passes fuel run stopping 0 w1 of
           None \<Rightarrow> None
         | Some (Inl e, w2) \<Rightarrow> Some \<lparr>printed = None, failed = Some e, final = w2\<rparr>
         | Some (Inr res, w2) \<Rightarrow>
             if m = Watch
             then map_option (\<lambda>w3. \<lparr>printed = None, failed = None, final = w3\<rparr>)
                    (watch fuel run stopping fuel w2)
             else Some \<lparr>printed = None, failed = None, final = w2\<rparr>))"

end
