(* ===== verification/ApiClient.thy ===== *)
theory ApiClient
  imports Schemas ReadApi MetricsApi Health DemoConsent
begin

text \<open>
  One request of the browser to the API, from end to end: \<open>apps/web/lib/api/client.ts\<close> and
  \<open>queries.ts\<close> on one side, the routes and \<open>apps/api/src/common/safe-exception.filter.ts\<close> on the
  other. A response travels as JSON. The network and zod are arguments.
\<close>

section \<open>JSON in transit\<close>

text \<open>
  \<open>JSON.parse(JSON.stringify(v))\<close>: \<open>undefined\<close> properties are left out, \<open>undefined\<close> elements
  become \<open>null\<close>, as do NaN and the infinities, and bytes become an object of their positions.
  \<open>None\<close> is the \<open>TypeError\<close> a \<open>bigint\<close> raises.
\<close>

fun has_bigint :: "jsval \<Rightarrow> bool" where
  "has_bigint (JBigInt i) = True"
| "has_bigint (JArray vs) = list_ex has_bigint vs"
| "has_bigint (JObject kvs) = list_ex (\<lambda>kv. has_bigint (snd kv)) kvs"
| "has_bigint _ = False"

fun json_copy :: "jsval \<Rightarrow> jsval" where
  "json_copy (JNumber None) = JNull"
| "json_copy (JBytes bs) =
     JObject (map (\<lambda>(i, b). (nat_to_string i, JNumber (Some (of_nat (unat b))))) (enumerate 0 bs))"
| "json_copy (JArray vs) = JArray (map (\<lambda>v. if v = JUndefined then JNull else json_copy v) vs)"
| "json_copy (JObject kvs) =
     JObject (map (\<lambda>kv. (fst kv, json_copy (snd kv))) (filter (\<lambda>kv. snd kv \<noteq> JUndefined) kvs))"
| "json_copy v = v"

section \<open>The exception filter\<close>

datatype http_reply = NoReply | HttpReply int "jsval option"

text \<open>
  The status of what a handler throws: the HTTP exceptions of the controllers carry theirs, any
  other error is 500. The body of a 500 says nothing of the error.
\<close>

fun thrown_status :: "api_error \<Rightarrow> int" where
  "thrown_status (BadRequest m) = 400"
| "thrown_status (NotFound m) = 404"
| "thrown_status _ = 500"

fun thrown_message :: "api_error \<Rightarrow> string" where
  "thrown_message (BadRequest m) = m"
| "thrown_message (NotFound m) = m"
| "thrown_message _ = ''Internal server error''"

definition error_reply :: "string option \<Rightarrow> int \<Rightarrow> string \<Rightarrow> http_reply" where
  "error_reply requestId status message = HttpReply status (Some (JObject
     [(''statusCode'', JNumber (Some (of_int status))), (''requestId'', js_text requestId),
      (''message'', JString message)]))"

definition safe_exception :: "string option \<Rightarrow> api_error \<Rightarrow> http_reply" where
  "safe_exception requestId e = error_reply requestId (thrown_status e) (thrown_message e)"

text \<open>What the server sends for a handler's outcome; \<open>created\<close> is the status of a success.\<close>

definition send :: "string option \<Rightarrow> int \<Rightarrow> api_error + jsval \<Rightarrow> http_reply" where
  "send requestId created outcome =
     (case outcome of
        Inl e \<Rightarrow> safe_exception requestId e
      | Inr v \<Rightarrow> if has_bigint v then error_reply requestId 500 ''Internal server error''
                 else HttpReply created (Some (json_copy v)))"

section \<open>The client\<close>

datatype failure_kind = Unreachable_service | Not_found | Rejected | Server_failed | Invalid_response

record api_failure =
  af_kind :: failure_kind
  af_message :: string
  af_status :: "int option"

definition request_failed :: "int \<Rightarrow> string" where
  "request_failed status = ''Request failed ('' @ int_to_string status @ '')''"

definition read_message :: "int \<Rightarrow> jsval option \<Rightarrow> string" where
  "read_message status body =
     (case body of
        None \<Rightarrow> request_failed status
      | Some v \<Rightarrow> (case member v ''message'' of Inr (JString m) \<Rightarrow> m | _ \<Rightarrow> request_failed status))"

definition api_request :: "parser \<Rightarrow> schema \<Rightarrow> http_reply \<Rightarrow> api_failure + jsval" where
  "api_request safeParse s reply =
     (case reply of
        NoReply \<Rightarrow> Inl \<lparr>af_kind = Unreachable_service,
          af_message = ''The workspace service is not reachable.'', af_status = None\<rparr>
      | HttpReply status body \<Rightarrow>
          if status = 404
          then Inl \<lparr>af_kind = Not_found, af_message = read_message status body, af_status = Some 404\<rparr>
          else if 400 \<le> status \<and> status < 500
          then Inl \<lparr>af_kind = Rejected, af_message = read_message status body, af_status = Some status\<rparr>
          else if \<not> (200 \<le> status \<and> status < 300)
          then Inl \<lparr>af_kind = Server_failed, af_message = request_failed status, af_status = Some status\<rparr>
          else
            (case body of
               None \<Rightarrow> Inl \<lparr>af_kind = Invalid_response, af_message = ''Response was not JSON.'',
                 af_status = None\<rparr>
             | Some v \<Rightarrow>
                 (case safeParse s v of
                    None \<Rightarrow> Inl \<lparr>af_kind = Invalid_response,
                      af_message = ''Response did not match the expected shape.'', af_status = None\<rparr>
                  | Some parsed \<Rightarrow> Inr parsed)))"

section \<open>The requests\<close>

datatype api_query =
    Orders string
  | AllOrders
  | OrderOf string
  | MilestoneFinance string
  | MilestoneEvidence string
  | MilestoneDisputes string
  | Opportunities
  | FunderOffers string
  | Positions string
  | Activity
  | PublicMetrics
  | Readiness
  | Participant string

text \<open>What is asked for: the segments of the path below \<open>/api\<close> and the query's parameters.\<close>

fun target :: "api_query \<Rightarrow> string list \<times> (string \<times> string) list" where
  "target (Orders participant) = ([''orders''], [(''participant'', participant), (''limit'', ''200'')])"
| "target AllOrders = ([''orders''], [(''limit'', ''200'')])"
| "target (OrderOf orderId) = ([''orders'', orderId], [])"
| "target (MilestoneFinance i) = ([''milestones'', i, ''finance''], [])"
| "target (MilestoneEvidence i) = ([''milestones'', i, ''evidence''], [])"
| "target (MilestoneDisputes i) = ([''milestones'', i, ''disputes''], [])"
| "target Opportunities = ([''funding'', ''opportunities''], [(''limit'', ''200'')])"
| "target (FunderOffers funder) = ([''funding'', ''offers''], [(''funder'', funder), (''limit'', ''200'')])"
| "target (Positions funder) = ([''funding'', ''positions''], [(''funder'', funder), (''limit'', ''200'')])"
| "target Activity = ([''activity''], [(''limit'', ''100'')])"
| "target PublicMetrics = ([''metrics'', ''public''], [])"
| "target Readiness = ([''health'', ''ready''], [])"
| "target (Participant address) = ([''demo'', ''participants'', address], [])"

fun schema_of :: "api_query \<Rightarrow> schema" where
  "schema_of (Orders participant) = orderListSchema"
| "schema_of AllOrders = orderListSchema"
| "schema_of (OrderOf orderId) = orderWithMilestonesSchema"
| "schema_of (MilestoneFinance i) = milestoneFinanceSchema"
| "schema_of (MilestoneEvidence i) = milestoneEvidenceSchema"
| "schema_of (MilestoneDisputes i) = milestoneDisputesSchema"
| "schema_of Opportunities = opportunitiesSchema"
| "schema_of (FunderOffers funder) = funderOffersSchema"
| "schema_of (Positions funder) = positionsSchema"
| "schema_of Activity = activitySchema"
| "schema_of PublicMetrics = publicMetricsSchema"
| "schema_of Readiness = readinessSchema"
| "schema_of (Participant address) = participantSchema"

text \<open>\<open>encodeURIComponent\<close>, over the UTF-8 bytes of a character below 256.\<close>

definition enc_char :: "char \<Rightarrow> string" where
  "enc_char c =
     (if is_alphanumeric c \<or> code c \<in> {33, 39, 40, 41, 42, 45, 46, 95, 126} then [c]
      else if code c < 128 then percent (code c)
      else percent (192 + code c div 64) @ percent (128 + code c mod 64))"

definition enc :: "string \<Rightarrow> string" where
  "enc s = concat (map enc_char s)"

fun join_with :: "char \<Rightarrow> string list \<Rightarrow> string" where
  "join_with c [] = []"
| "join_with c [s] = s"
| "join_with c (s # t # ss) = s @ c # join_with c (t # ss)"

text \<open>The text of the request: fixed texts and encoded arguments, as \<open>api\<close> puts them together.\<close>

definition path_text :: "api_query \<Rightarrow> string" where
  "path_text q =
     (let (segments, params) = target q in
      concat (map (\<lambda>s. ''/'' @ enc s) segments)
      @ (if params = [] then [] else ''?'' @ join_with CHR ''&'' (map (\<lambda>(k, v). k @ ''='' @ enc v) params)))"

section \<open>The routes\<close>

text \<open>
  Nest hands a \<open>GET\<close> to the handler whose decorator names its path, with the decoded segments
  and query parameters; a path no decorator names is a 404.
\<close>

definition param :: "(string \<times> string) list \<Rightarrow> string \<Rightarrow> string option" where
  "param params k = map_of params k"

definition read_route ::
  "js_numbers \<Rightarrow> projection_context \<Rightarrow> int \<Rightarrow> string list \<times> (string \<times> string) list \<Rightarrow> db
    \<Rightarrow> api_error + jsval" where
  "read_route js ctx now t d =
     (let (path, q) = t; limit = param q ''limit''; status = param q ''status'' in
      case path of
        [a] \<Rightarrow>
          if a = ''orders''
          then list_orders js ctx now (param q ''buyer'') (param q ''supplier'') (param q ''participant'')
                 status limit d
          else if a = ''activity'' then activity js ctx limit d
          else Inl (NotFound (''Cannot GET /api/'' @ a))
      | [a, b] \<Rightarrow>
          if a = ''orders'' then get_order ctx now b d
          else if a = ''milestones'' then get_milestone ctx now b d
          else if a = ''funding'' \<and> b = ''opportunities'' then funding_opportunities js ctx now limit d
          else if a = ''funding'' \<and> b = ''offers''
          then funding_offers js ctx now (param q ''funder'') status limit d
          else if a = ''funding'' \<and> b = ''positions''
          then funding_positions js ctx (param q ''funder'') limit d
          else Inl (NotFound (''Cannot GET /api/'' @ a @ ''/'' @ b))
      | [a, b, c] \<Rightarrow>
          if a = ''orders'' \<and> c = ''milestones'' then list_order_milestones ctx now b d
          else if a = ''milestones'' \<and> c = ''finance'' then get_milestone_finance ctx b d
          else if a = ''milestones'' \<and> c = ''evidence'' then get_milestone_evidence ctx b d
          else if a = ''milestones'' \<and> c = ''disputes'' then get_milestone_disputes ctx b d
          else Inl (NotFound (''Cannot GET /api/'' @ a @ ''/'' @ b @ ''/'' @ c))
      | _ \<Rightarrow> Inl (NotFound ''Cannot GET''))"

text \<open>
  What the other handlers depend on besides the database: the prose of the metrics, whether the
  database answers, the RPC server's reply for its latest ledger, and the configured start.
\<close>

record surroundings =
  numbers :: js_numbers
  metric_prose :: prose
  pings :: bool
  reads :: bool
  head_reply :: "int rpc_reply"
  start_ledger :: int

definition get_route ::
  "surroundings \<Rightarrow> projection_context \<Rightarrow> int \<Rightarrow> string list \<times> (string \<times> string) list \<Rightarrow> db
    \<Rightarrow> api_error + jsval" where
  "get_route env ctx now t d =
     (if fst t = [''metrics'', ''public''] then Inr (public_metrics_json (metric_prose env) ctx d)
      else if fst t = [''health'', ''ready'']
      then Inr (ready_json (fst (ready (pings env) (reads env) (head_reply env) ctx (start_ledger env) now
             \<lparr>running = False, store = d\<rparr>)))
      else
        (case fst t of
           [a, b, c] \<Rightarrow>
             if a = ''demo'' \<and> b = ''participants'' then show_consent (network ctx) c d
             else read_route (numbers env) ctx now t d
         | _ \<Rightarrow> read_route (numbers env) ctx now t d))"

text \<open>What the browser gets of a request that reaches the server and comes back.\<close>

definition browser_read ::
  "parser \<Rightarrow> string option \<Rightarrow> surroundings \<Rightarrow> projection_context \<Rightarrow> int \<Rightarrow> api_query \<Rightarrow> db
    \<Rightarrow> api_failure + jsval" where
  "browser_read safeParse requestId env ctx now q d =
     api_request safeParse (schema_of q) (send requestId 200 (get_route env ctx now (target q) d))"

end
