(* ===== verification/ApiContract.thy ===== *)
theory ApiContract
  imports ApiClient ProjectorProperties PublicMetricsProperties
begin

text \<open>
  What the browser reads is what the API wrote: every response of the read-only routes has the
  shape its schema asks for, as long as the rows hold account addresses, digests and hashes of
  the usual form (\<open>presentable\<close>). The projector keeps rows that way for events whose addresses
  have that form; the last section shows what happens when one does not.
\<close>

section \<open>Values a schema lets through unchanged\<close>

text \<open>A value JSON carries unchanged.\<close>

fun plain :: "jsval \<Rightarrow> bool" where
  "plain JUndefined = False"
| "plain (JNumber n) = (n \<noteq> None)"
| "plain (JBigInt i) = False"
| "plain (JBytes bs) = False"
| "plain (JArray vs) = list_all plain vs"
| "plain (JObject kvs) = list_all (\<lambda>kv. plain (snd kv)) kvs"
| "plain v = True"

lemma plain_travels: "plain v \<Longrightarrow> json_copy v = v \<and> \<not> has_bigint v"
proof (induction v rule: plain.induct)
  case (5 vs)
  then have "JUndefined \<notin> set vs" by (auto simp: list_all_iff)
  with 5 show ?case by (auto simp: list_all_iff list_ex_iff intro!: map_idI)
next
  case (6 kvs)
  then have "filter (\<lambda>kv. snd kv \<noteq> JUndefined) kvs = kvs"
    by (intro filter_True) (auto simp: list_all_iff)
  with 6 show ?case
    by (auto simp: list_all_iff list_ex_iff intro!: map_idI)
qed auto

definition fits :: "schema \<Rightarrow> jsval \<Rightarrow> bool" where
  "fits s v \<longleftrightarrow> validate s v = Some v \<and> plain v"

named_theorems fits_simps \<open>which values a schema lets through\<close>

lemma fits_text [fits_simps]:
  "fits ZString (JString s)"
  "fits ZNonEmpty (JString s) \<longleftrightarrow> s \<noteq> []"
  "fits (ZMatching p) (JString s) \<longleftrightarrow> pattern_matches p s"
  "fits ZBoolean (JBool b)"
  "fits (ZOneOf names) (JString s) \<longleftrightarrow> s \<in> set names"
  "fits ZUnknown v \<longleftrightarrow> plain v"
  "fits ZCount (JNumber n) \<longleftrightarrow> safe_count n"
  "fits ZNumber (JNumber (Some q))"
  by (auto simp: fits_def keep_if_def safe_count_def split: option.splits)

lemma fits_nullable: "fits (ZNullable s) v \<longleftrightarrow> v = JNull \<or> fits s v"
  by (auto simp: fits_def)

lemma fits_array [fits_simps]: "fits (ZArray s) (JArray vs) \<longleftrightarrow> list_all (fits s) vs"
proof -
  have "those_values (map (validate s) vs) = Some vs \<longleftrightarrow> list_all (\<lambda>v. validate s v = Some v) vs"
  proof (induction vs)
    case (Cons v vs)
    then show ?case by (cases "validate s v") auto
  qed simp
  then show ?thesis by (auto simp: fits_def list_all_iff)
qed

text \<open>An object with exactly the keys of its schema, in their order.\<close>

fun fits_fields :: "(string \<times> schema) list \<Rightarrow> fields \<Rightarrow> bool" where
  "fits_fields [] [] = True"
| "fits_fields ((k, s) # fs) ((k', v) # kvs) = (k = k' \<and> fits s v \<and> fits_fields fs kvs)"
| "fits_fields _ _ = False"

lemma fits_fields_keys: "fits_fields fs kvs \<Longrightarrow> map fst kvs = map fst fs"
  by (induction fs kvs rule: fits_fields.induct) auto

lemma fits_fields_append:
  "fits_fields fs kvs \<Longrightarrow> fits_fields fs' kvs' \<Longrightarrow> fits_fields (fs @ fs') (kvs @ kvs')"
  by (induction fs kvs rule: fits_fields.induct) auto

lemma fits_fields_plain: "fits_fields fs kvs \<Longrightarrow> list_all (\<lambda>kv. plain (snd kv)) kvs"
  by (induction fs kvs rule: fits_fields.induct) (auto simp: fits_def)

lemma fits_fields_parsed:
  assumes "fits_fields fs kvs" and "\<And>k v. (k, v) \<in> set kvs \<Longrightarrow> get_field obj k = v"
  shows "parsed_fields (map (\<lambda>(k, s). (k, validate s (get_field obj k))) fs) = Some kvs"
  using assms
proof (induction fs kvs rule: fits_fields.induct)
  case (2 k s fs k' v kvs)
  then have same: "k' = k" and v: "validate s v = Some v" "v \<noteq> JUndefined" by (auto simp: fits_def)
  have g: "get_field obj k = v" using 2 same by simp
  have rest: "parsed_fields (map (\<lambda>(k, s). (k, validate s (get_field obj k))) fs) = Some kvs"
    using 2 by simp
  show ?case unfolding list.map prod.case g v(1) parsed_fields.simps rest same using v(2) by simp
qed auto

lemma fits_object [fits_simps]:
  assumes "distinct (map fst fs)" and "fits_fields fs kvs"
  shows "fits (ZObject fs) (JObject kvs)"
proof -
  have "get_field kvs k = v" if "(k, v) \<in> set kvs" for k v
    using that assms fits_fields_keys [OF assms(2)] by (simp add: get_field_def)
  with assms show ?thesis
    by (simp add: fits_def fits_fields_parsed fits_fields_plain)
qed

section \<open>Rows of the usual form\<close>

definition order_presentable :: "order_row \<Rightarrow> bool" where
  "order_presentable r \<longleftrightarrow> is_wallet (o_buyer r) \<and> is_wallet (o_supplier r) \<and> is_wallet (o_attestor r)
     \<and> is_wallet (o_resolver r) \<and> is_contract_id (o_asset r) \<and> is_any_hex64 (o_createdTxHash r)
     \<and> is_contract_id (contractId (o_ctx r))"

definition milestone_presentable :: "milestone_row \<Rightarrow> bool" where
  "milestone_presentable m \<longleftrightarrow> 0 \<le> m_index m \<and> m_index m \<le> 4294967295 \<and> is_any_hex64 (m_createdTxHash m)
     \<and> hash_ok m \<and> 0 \<le> m_fundedAmount m \<and> is_contract_id (contractId (m_ctx m))"

definition position_presentable :: "position_row \<Rightarrow> bool" where
  "position_presentable p \<longleftrightarrow> is_wallet (p_funder p) \<and> is_wallet (p_supplier p) \<and> is_any_hex64 (p_fundedTxHash p)
     \<and> 0 \<le> p_principal p"

definition settlement_presentable :: "settlement_row \<Rightarrow> bool" where
  "settlement_presentable s \<longleftrightarrow> is_any_hex64 (s_settledTxHash s) \<and> 0 \<le> s_protectedAmount s
     \<and> 0 \<le> s_funderRepayment s \<and> 0 \<le> s_supplierPayout s"

definition refund_presentable :: "refund_row \<Rightarrow> bool" where
  "refund_presentable r \<longleftrightarrow> is_any_hex64 (r_refundedTxHash r) \<and> 0 \<le> r_refundedAmount r"

definition participant_presentable :: "demo_participant \<Rightarrow> bool" where
  "participant_presentable w \<longleftrightarrow> is_wallet (w_walletAddress w)"

definition dispute_presentable :: "dispute_row \<Rightarrow> bool" where
  "dispute_presentable x \<longleftrightarrow> is_wallet (d_openedBy x) \<and> is_wallet (d_resolver x)
     \<and> is_any_hex64 (d_openedTxHash x)
     \<and> (case d_resolvedTxHash x of None \<Rightarrow> True | Some h \<Rightarrow> is_any_hex64 h)"

definition document_presentable :: "evidence_object \<Rightarrow> bool" where
  "document_presentable e \<longleftrightarrow> is_hex64 (e_contentHash e)
     \<and> (case e_uploadedBy e of None \<Rightarrow> True | Some w \<Rightarrow> is_wallet w)"

definition presentable :: "db \<Rightarrow> bool" where
  "presentable d \<longleftrightarrow>
     list_all order_presentable (orders d) \<and> list_all milestone_presentable (milestones d)
   \<and> list_all (\<lambda>q. is_wallet (q_supplier q)) (requests d)
   \<and> list_all (\<lambda>f. is_wallet (f_funder f)) (offers d)
   \<and> list_all position_presentable (positions d) \<and> list_all dispute_presentable (disputes d)
   \<and> list_all settlement_presentable (settlements d)
   \<and> list_all refund_presentable (refunds d)
   \<and> list_all document_presentable (evidence_objects d)
   \<and> list_all (\<lambda>a. is_any_hex64 (a_submittedTxHash a)) (evidence_anchors d)
   \<and> list_all (\<lambda>l. is_any_hex64 (l_txHash l) \<and> plain (l_payload l)) (event_log d)
   \<and> list_all participant_presentable (participants d)"

section \<open>What each row becomes\<close>

lemma iso_not_empty [simp]: "to_iso_string ms \<noteq> []"
  by (simp add: to_iso_string_def Let_def split: prod.split)

lemma fits_values [fits_simps]:
  "fits integerString (dec i)"
  "fits isoDate (js_time t)"
  "fits (ZNullable isoDate) (js_time_option tt)"
  "fits (ZNullable ZString) (js_text so)"
  "fits (ZNullable (ZMatching p)) (js_text so)
     \<longleftrightarrow> (case so of None \<Rightarrow> True | Some s \<Rightarrow> pattern_matches p s)"
  by (auto simp: dec_def js_time_def js_time_option_def js_text_def fits_nullable fits_simps split: option.split)

lemma fits_or_null [fits_simps]:
  "(\<And>x. v = Some x \<Longrightarrow> fits s (f x)) \<Longrightarrow> fits (ZNullable s) (or_null f v)"
  by (auto simp: or_null_def fits_nullable split: option.split)

lemma fits_status [fits_simps]:
  "order_status_text os \<in> set ORDER_STATUSES"
  "milestone_status_text ms \<in> set MILESTONE_STATUSES"
  "derived_status_text ds \<in> set DERIVED_STATUSES"
  by (cases os; simp add: ORDER_STATUSES_def)
    ((cases ms; simp add: MILESTONE_STATUSES_def), (cases ds; simp add: DERIVED_STATUSES_def))

lemma status_texts [fits_simps]:
  "request_status_text qs \<in> {''OPEN'', ''ACCEPTED'', ''CANCELLED''}"
  "offer_status_text fs \<in> {''OPEN'', ''CANCELLED'', ''ACCEPTED'', ''FUNDED''}"
  "position_status_text ps \<in> {''ACTIVE'', ''REPAID'', ''CLOSED''}"
  "dispute_status_text xs \<in> {''OPEN'', ''RESOLVED_SETTLE'', ''RESOLVED_REFUND''}"
  by ((cases qs; simp), (cases fs; simp), (cases ps; simp)) (cases xs; simp)

lemma fits_provenance [fits_simps]:
  "is_contract_id (contractId c) \<Longrightarrow> fits provenanceSchema (provenance c evId l)"
  by (simp add: provenanceSchema_def provenance_def fits_simps)

text \<open>The fields of a schema's object, and an object extended by more.\<close>

fun fields_of :: "schema \<Rightarrow> (string \<times> schema) list" where
  "fields_of (ZObject fs) = fs"
| "fields_of s = []"

lemma extended_fields: "s = ZObject fs \<Longrightarrow> extend_schema s gs = ZObject (fields_of s @ gs)"
  by simp

lemma order_fields:
  "order_presentable r \<Longrightarrow> fits_fields (fields_of orderSchema) (serialise_order r)"
  by (simp add: orderSchema_def serialise_order_def order_presentable_def fits_simps)

lemma safe_index: "0 \<le> i \<Longrightarrow> i \<le> 4294967295 \<Longrightarrow> safe_count (Some (of_int i))"
  by (simp add: safe_count_def)

lemma milestone_fields:
  "milestone_presentable m \<Longrightarrow> fits_fields (fields_of milestoneSchema) (serialise_milestone now m)"
  by (simp add: milestoneSchema_def serialise_milestone_def milestone_presentable_def fits_simps
      hash_ok_def safe_index split: option.splits)

lemma request_fields:
  "is_wallet (q_supplier q) \<Longrightarrow> fits_fields (fields_of financeRequestSchema) (serialise_finance_request q)"
  using status_texts(1) [of "q_status q"]
  by (simp add: financeRequestSchema_def serialise_finance_request_def fits_nullable fits_simps
      split: option.split)

lemma offer_fields:
  "is_wallet (f_funder f) \<Longrightarrow> fits_fields (fields_of offerSchema) (serialise_offer f)"
  using status_texts(2) [of "f_status f"]
  by (simp add: offerSchema_def serialise_offer_def fits_simps)

lemma position_fields:
  "position_presentable p \<Longrightarrow> fits_fields (fields_of positionSchema) (serialise_position p)"
  using status_texts(3) [of "p_status p"]
  by (simp add: positionSchema_def serialise_position_def position_presentable_def fits_simps)

lemma dispute_fields:
  "dispute_presentable x \<Longrightarrow> fits_fields (fields_of disputeSchema) (serialise_dispute x)"
  using status_texts(4) [of "d_status x"]
  by (simp add: disputeSchema_def serialise_dispute_def dispute_presentable_def fits_simps
      split: option.splits)

lemmas schema_defs = orderSchema_def milestoneSchema_def financeRequestSchema_def offerSchema_def
  positionSchema_def disputeSchema_def

lemma distinct_fields:
  "distinct (map fst (fields_of orderSchema))" "distinct (map fst (fields_of milestoneSchema))"
  "distinct (map fst (fields_of financeRequestSchema))" "distinct (map fst (fields_of offerSchema))"
  "distinct (map fst (fields_of positionSchema))" "distinct (map fst (fields_of disputeSchema))"
  by (simp_all add: schema_defs)

lemma object_schemas:
  "orderSchema = ZObject (fields_of orderSchema)" "milestoneSchema = ZObject (fields_of milestoneSchema)"
  "financeRequestSchema = ZObject (fields_of financeRequestSchema)"
  "offerSchema = ZObject (fields_of offerSchema)" "positionSchema = ZObject (fields_of positionSchema)"
  "disputeSchema = ZObject (fields_of disputeSchema)"
  by (simp_all add: schema_defs)

lemma rows_fit [fits_simps]:
  "order_presentable r \<Longrightarrow> fits orderSchema (JObject (serialise_order r))"
  "milestone_presentable m \<Longrightarrow> fits milestoneSchema (JObject (serialise_milestone now m))"
  "is_wallet (q_supplier q) \<Longrightarrow> fits financeRequestSchema (JObject (serialise_finance_request q))"
  "is_wallet (f_funder f) \<Longrightarrow> fits offerSchema (JObject (serialise_offer f))"
  "position_presentable p \<Longrightarrow> fits positionSchema (JObject (serialise_position p))"
  "dispute_presentable x \<Longrightarrow> fits disputeSchema (JObject (serialise_dispute x))"
  by (subst object_schemas, rule fits_object, rule distinct_fields,
      erule order_fields milestone_fields request_fields offer_fields position_fields dispute_fields)+

section \<open>What each route sends\<close>

lemma presentableD:
  assumes "presentable d"
  shows "r \<in> set (orders d) \<Longrightarrow> order_presentable r"
    and "m \<in> set (milestones d) \<Longrightarrow> milestone_presentable m"
    and "q \<in> set (requests d) \<Longrightarrow> is_wallet (q_supplier q)"
    and "f \<in> set (offers d) \<Longrightarrow> is_wallet (f_funder f)"
    and "p \<in> set (positions d) \<Longrightarrow> position_presentable p"
    and "x \<in> set (disputes d) \<Longrightarrow> dispute_presentable x"
    and "s \<in> set (settlements d) \<Longrightarrow> settlement_presentable s"
    and "b \<in> set (refunds d) \<Longrightarrow> refund_presentable b"
    and "e \<in> set (evidence_objects d) \<Longrightarrow> document_presentable e"
    and "a \<in> set (evidence_anchors d) \<Longrightarrow> is_any_hex64 (a_submittedTxHash a)"
    and "l \<in> set (event_log d) \<Longrightarrow> is_any_hex64 (l_txHash l) \<and> plain (l_payload l)"
    and "list_all participant_presentable (participants d)"
  using assms by (simp_all add: presentable_def list_all_iff)

lemma found_in:
  "find_order ctx i d = Some r \<Longrightarrow> r \<in> set (orders d)"
  "find_milestone ctx i d = Some m \<Longrightarrow> m \<in> set (milestones d)"
  by (simp_all add: find_order_def find_milestone_def find_row_in)

lemma order_with_milestones_fits:
  assumes "presentable d" and "r \<in> set (orders d)"
  shows "fits orderWithMilestonesSchema (order_with_milestones ctx now d r)"
proof -
  have "list_all (fits milestoneSchema) (map (JObject \<circ> serialise_milestone now) (milestones_of ctx (o_orderId r) d))"
    using presentableD(2) [OF assms(1)] by (auto simp: list_all_iff milestones_of_def rows_fit)
  then have "fits_fields [(''milestones'', ZArray milestoneSchema)]
      [(''milestones'', JArray (map (JObject \<circ> serialise_milestone now) (milestones_of ctx (o_orderId r) d)))]"
    by (simp add: fits_simps)
  from fits_fields_append [OF order_fields this] presentableD(1) [OF assms]
  show ?thesis
    unfolding orderWithMilestonesSchema_def order_with_milestones_def extended_fields [OF object_schemas(1)]
    by (intro fits_object) (simp_all add: schema_defs)
qed

lemma safe_length: "n \<le> 200 \<Longrightarrow> safe_count (Some (of_nat n))"
proof -
  assume "n \<le> 200"
  then have "(of_nat n :: rat) \<le> of_nat 200" unfolding of_nat_le_iff .
  then show ?thesis by (simp add: safe_count_def)
qed

lemma parse_limit_bound: "parse_limit js raw = Inr n \<Longrightarrow> n \<le> 200"
  by (auto simp: parse_limit_def split: option.splits if_splits)

lemma list_orders_fits:
  assumes "presentable d" and "list_orders js ctx now b su pa st li d = Inr v"
  shows "fits orderListSchema v"
proof -
  from assms(2) obtain w n e where n: "n \<le> 200"
    and v: "v = JObject [(''orders'', JArray (map (order_with_milestones ctx now d) (find_orders ctx b su w e n d))),
      (''count'', JNumber (Some (of_nat (length (find_orders ctx b su w e n d)))))]"
    by (auto simp: list_orders_def result_simps Let_def dest: parse_limit_bound)
  have "set (find_orders ctx b su w e n d) \<subseteq> set (orders d)"
    by (auto simp: find_orders_def dest: in_set_takeD)
  with assms(1) have "list_all (fits orderWithMilestonesSchema)
      (map (order_with_milestones ctx now d) (find_orders ctx b su w e n d))"
    by (auto simp: list_all_iff order_with_milestones_fits)
  moreover have "length (find_orders ctx b su w e n d) \<le> 200" using n by (simp add: find_orders_def)
  ultimately show ?thesis
    unfolding v orderListSchema_def by (intro fits_object) (simp_all add: fits_simps safe_length)
qed

lemma get_order_fits:
  "presentable d \<Longrightarrow> get_order ctx now i d = Inr v \<Longrightarrow> fits orderWithMilestonesSchema v"
  by (auto simp: get_order_def result_simps order_with_milestones_fits found_in split: option.splits)

lemma integer_text: "parse_chain_id raw label = Inr i \<Longrightarrow> is_integer_string raw"
  by (auto simp: parse_chain_id_def is_integer_string_digits Let_def split: if_splits)

lemma settlement_fits [fits_simps]:
  "settlement_presentable s \<Longrightarrow> fits settlementSchema (settlement_json s)"
  unfolding settlementSchema_def settlement_json_def settlement_presentable_def by (intro fits_object) (simp_all add: fits_simps)

lemma refund_fits [fits_simps]:
  "refund_presentable r \<Longrightarrow> fits refundSchema (refund_json r)"
  unfolding refundSchema_def refund_json_def refund_presentable_def by (intro fits_object) (simp_all add: fits_simps)

lemma finance_fits:
  assumes ok: "presentable d" and v: "get_milestone_finance ctx raw d = Inr v"
  shows "fits milestoneFinanceSchema v"
proof -
  note row = presentableD [OF ok]
  have offers: "list_all (fits offerSchema) (map (JObject \<circ> serialise_offer) (offers_of ctx mid d))" for mid
    using row(4) by (auto simp: list_all_iff offers_of_def rows_fit)
  have positions: "list_all (fits positionSchema) (map (JObject \<circ> serialise_position) (positions_of ctx mid d))" for mid
    using row(5) by (auto simp: list_all_iff positions_of_def rows_fit)
  have request: "fits (ZNullable financeRequestSchema) (or_null (JObject \<circ> serialise_finance_request)
      (find_row request_key (ctx, mid) (requests d)))" for mid
    by (rule fits_or_null) (auto intro!: rows_fit row(3) dest: find_row_in)
  have settlement: "fits (ZNullable settlementSchema) (or_null settlement_json
      (find_row settlement_key (ctx, mid) (settlements d)))" for mid
    by (rule fits_or_null) (auto intro!: settlement_fits row(7) dest: find_row_in)
  have refund: "fits (ZNullable refundSchema) (or_null refund_json
      (find_row refund_key (ctx, mid) (refunds d)))" for mid
    by (rule fits_or_null) (auto intro!: refund_fits row(8) dest: find_row_in)
  have zero: "all_digits ''0''" by code_simp
  from v show ?thesis
    by (auto simp: get_milestone_finance_def result_simps Let_def milestoneFinanceSchema_def integer_text
        offers positions request settlement refund zero fits_simps split: option.splits
        intro!: fits_object)
qed

lemma document_fits:
  assumes "document_presentable e" and "\<And>a. a \<in> set anchors \<Longrightarrow> is_any_hex64 (a_submittedTxHash a)"
  shows "fits evidenceDocumentSchema (document_json anchors e)"
proof -
  have "is_any_hex64 (a_submittedTxHash a)" if "anchor_of anchors h = Some a" for a h
    using assms(2) that by (auto simp: anchor_of_def dest: find_Some_in)
  with assms(1) show ?thesis
    unfolding evidenceDocumentSchema_def document_json_def document_presentable_def
    by (intro fits_object) (simp_all add: fits_simps split: option.splits)
qed

lemma evidence_fits:
  assumes ok: "presentable d" and v: "get_milestone_evidence ctx raw d = Inr v"
  shows "fits milestoneEvidenceSchema v"
proof -
  have documents: "list_all (fits evidenceDocumentSchema) (map (document_json (filter P (evidence_anchors d)))
      (documents_of ctx mid (filter P (evidence_anchors d)) d))" for P mid
    using presentableD(9,10) [OF ok] by (auto simp: list_all_iff documents_of_def intro!: document_fits)
  have digest: "is_hex64 h" if "find_milestone ctx mid d = Some m" and "m_evidenceHash m = Some h" for mid m h
    using presentableD(2) [OF ok found_in(2) [OF that(1)]] that(2)
    by (simp add: milestone_presentable_def hash_ok_def)
  from v show ?thesis
    by (auto simp: get_milestone_evidence_def result_simps Let_def milestoneEvidenceSchema_def integer_text
        documents fits_simps split: option.splits intro!: fits_object) (metis digest)
qed

lemma disputes_fits:
  assumes ok: "presentable d" and v: "get_milestone_disputes ctx raw d = Inr v"
  shows "fits milestoneDisputesSchema v"
proof -
  have "list_all (fits disputeSchema) (map (JObject \<circ> serialise_dispute)
      (sort_key d_disputeId (filter P (disputes d))))" for P
    using presentableD(6) [OF ok] by (auto simp: list_all_iff rows_fit)
  with v show ?thesis
    by (auto simp: get_milestone_disputes_def result_simps milestoneDisputesSchema_def integer_text
        fits_simps intro!: fits_object)
qed

lemma related_in:
  "related ctx mid d = Some (m, r) \<Longrightarrow> m \<in> set (milestones d) \<and> r \<in> set (orders d)"
  by (auto simp: related_def found_in split: option.splits)

lemma map_filter_all:
  "(\<And>x y. x \<in> set xs \<Longrightarrow> f x = Some y \<Longrightarrow> P y) \<Longrightarrow> list_all P (List.map_filter f xs)"
  by (auto simp: List.map_filter_def list_all_iff)

lemma opportunity_fits:
  assumes ok: "presentable d" and "q \<in> set (requests d)" and "opportunity_json ctx now d q = Some v"
  shows "fits (extend_schema financeRequestSchema [(''milestone'', milestoneSchema), (''order'', orderSchema)]) v"
proof -
  from assms(3) obtain m r where mr: "related ctx (q_milestoneId q) d = Some (m, r)"
    and v: "v = JObject (serialise_finance_request q
      @ [(''milestone'', JObject (serialise_milestone now m)), (''order'', JObject (serialise_order r))])"
    by (auto simp: opportunity_json_def)
  have "fits_fields [(''milestone'', milestoneSchema), (''order'', orderSchema)]
      [(''milestone'', JObject (serialise_milestone now m)), (''order'', JObject (serialise_order r))]"
    using presentableD(1,2) [OF ok] related_in [OF mr] by (simp add: rows_fit)
  from fits_fields_append [OF request_fields this] presentableD(3) [OF ok assms(2)]
  show ?thesis
    unfolding v extended_fields [OF object_schemas(3)] by (intro fits_object) (simp_all add: schema_defs)
qed

lemma opportunities_fit:
  assumes "presentable d" and "funding_opportunities js ctx now li d = Inr v"
  shows "fits opportunitiesSchema v"
proof -
  have "list_all (fits (extend_schema financeRequestSchema
      [(''milestone'', milestoneSchema), (''order'', orderSchema)]))
    (List.map_filter (opportunity_json ctx now d)
      (take n (sort_key (\<lambda>q. - q_createdAt q) (filter P (requests d)))))" for n P
    by (rule map_filter_all, drule in_set_takeD, rule opportunity_fits [OF assms(1)]) auto
  with assms(2) show ?thesis
    by (auto simp: funding_opportunities_def result_simps opportunitiesSchema_def fits_simps
        intro!: fits_object)
qed

lemma funder_offer_fits:
  assumes ok: "presentable d" and "f \<in> set (offers d)" and "offer_json ctx now d f = Some v"
  shows "fits (extend_schema offerSchema [(''milestone'', milestoneSchema), (''order'', orderSchema),
    (''request'', ZNullable financeRequestSchema)]) v"
proof -
  from assms(3) obtain m r where mr: "related ctx (f_milestoneId f) d = Some (m, r)"
    and v: "v = JObject (serialise_offer f
      @ [(''milestone'', JObject (serialise_milestone now m)), (''order'', JObject (serialise_order r)),
         (''request'', or_null (JObject \<circ> serialise_finance_request)
            (find_row request_key (ctx, f_milestoneId f) (requests d)))])"
    by (auto simp: offer_json_def)
  have "fits (ZNullable financeRequestSchema) (or_null (JObject \<circ> serialise_finance_request)
      (find_row request_key (ctx, f_milestoneId f) (requests d)))"
    by (rule fits_or_null) (auto intro!: rows_fit presentableD(3) [OF ok] dest: find_row_in)
  then have "fits_fields [(''milestone'', milestoneSchema), (''order'', orderSchema),
        (''request'', ZNullable financeRequestSchema)]
      [(''milestone'', JObject (serialise_milestone now m)), (''order'', JObject (serialise_order r)),
       (''request'', or_null (JObject \<circ> serialise_finance_request)
          (find_row request_key (ctx, f_milestoneId f) (requests d)))]"
    using presentableD(1,2) [OF ok] related_in [OF mr] by (simp add: rows_fit)
  from fits_fields_append [OF offer_fields this] presentableD(4) [OF ok assms(2)]
  show ?thesis
    unfolding v extended_fields [OF object_schemas(4)] by (intro fits_object) (simp_all add: schema_defs)
qed

lemma funder_offers_fit:
  assumes "presentable d" and "funding_offers js ctx now fu st li d = Inr v"
  shows "fits funderOffersSchema v"
proof -
  have "list_all (fits (extend_schema offerSchema [(''milestone'', milestoneSchema),
      (''order'', orderSchema), (''request'', ZNullable financeRequestSchema)]))
    (List.map_filter (offer_json ctx now d)
      (take n (sort_key (\<lambda>f. - f_createdAt f) (filter P (offers d)))))" for n P
    by (rule map_filter_all, drule in_set_takeD, rule funder_offer_fits [OF assms(1)]) auto
  with assms(2) show ?thesis
    by (auto simp: funding_offers_def result_simps funderOffersSchema_def fits_simps
        intro!: fits_object split: option.splits)
qed

lemma positions_fit:
  assumes "presentable d" and "funding_positions js ctx fu li d = Inr v"
  shows "fits positionsSchema v"
proof -
  have "list_all (fits positionSchema) (map (JObject \<circ> serialise_position)
      (take n (sort_key (\<lambda>p. - p_fundedAt p) (filter P (positions d)))))" for n P
    using presentableD(5) [OF assms(1)] by (auto simp: list_all_iff intro!: rows_fit dest: in_set_takeD)
  with assms(2) show ?thesis
    by (auto simp: funding_positions_def result_simps positionsSchema_def fits_simps intro!: fits_object)
qed

definition activity_item_schema :: schema where
  "activity_item_schema = ZObject
     [(''eventId'', ZString), (''eventName'', ZString), (''ledger'', integerString), (''txHash'', txHash),
      (''ledgerClosedAt'', isoDate), (''projected'', ZBoolean), (''fields'', ZUnknown)]"

lemma activity_fits:
  assumes "presentable d" and "activity js ctx li d = Inr v"
  shows "fits activitySchema v"
proof -
  have "fits activity_item_schema (JObject
         [(''eventId'', JString (l_eventId l)), (''eventName'', JString (l_eventName l)),
          (''ledger'', dec (l_ledger l)), (''txHash'', JString (l_txHash l)),
          (''ledgerClosedAt'', js_time (l_ledgerClosedAt l)), (''projected'', JBool (l_projected l)),
          (''fields'', l_payload l)])" if "l \<in> set (event_log d)" for l
    using presentableD(11) [OF assms(1) that] unfolding activity_item_schema_def
    by (intro fits_object) (simp_all add: fits_simps)
  with assms(2) show ?thesis
    unfolding activitySchema_def activity_item_schema_def [symmetric]
    by (auto simp: activity_def result_simps fits_simps list_all_iff intro!: fits_object dest!: in_set_takeD)
qed

section \<open>Readiness, consent and metrics\<close>

lemma check_fits [fits_simps]: "fits checkSchema (check_json c)"
  by (cases "hc_status c"; cases "hc_detail c")
    (simp_all add: fits_def checkSchema_def check_json_def get_field_def keep_if_def)

lemma readiness_fits: "fits readinessSchema (ready_json (fst (ready p r h ctx start now w)))"
proof -
  have names: "health_text h = ''ok'' \<or> health_text h = ''degraded'' \<or> health_text h = ''down''" for h
    by (cases h) simp_all
  have checks: "fits (ZObject [(''database'', checkSchema), (''rpc'', checkSchema), (''indexer'', checkSchema)])
      (JObject [(''database'', check_json a), (''rpc'', check_json b), (''indexer'', check_json c)])" for a b c
    by (intro fits_object) (simp_all add: fits_simps)
  show ?thesis
    unfolding readinessSchema_def ready_json_def
    by (intro fits_object)
      (simp_all add: fits_simps checks names ready_def Let_def split: prod.split)
qed

lemma participant_fits:
  assumes "list_all participant_presentable (participants d)" and "show_consent net a d = Inr v"
  shows "fits participantSchema v"
proof -
  from assms(2) obtain w where w: "is_wallet w" and v: "v =
      (case find_row participant_key (net, w) (participants d) of
         None \<Rightarrow> JObject [(''walletAddress'', JString w), (''known'', JBool False),
           (''consentToCount'', JBool False), (''isTeam'', JBool False)]
       | Some r \<Rightarrow> JObject [(''walletAddress'', JString (w_walletAddress r)), (''known'', JBool True),
           (''consentToCount'', JBool (w_consentToCount r)), (''isTeam'', JBool (w_isTeam r)),
           (''source'', js_text (w_source r)), (''firstSeenAt'', js_time (w_firstSeenAt r))])"
    by (auto simp: show_consent_def parse_address_def result_simps split: if_splits)
  show ?thesis
  proof (cases "find_row participant_key (net, w) (participants d)")
    case None
    with w show ?thesis
      by (simp add: v fits_def participantSchema_def get_field_def keep_if_def)
  next
    case (Some r)
    then have "is_wallet (w_walletAddress r)"
      using assms(1) find_row_in [OF Some] by (auto simp: list_all_iff participant_presentable_def)
    with Some show ?thesis
      by (cases "w_source r")
        (simp_all add: v fits_def participantSchema_def get_field_def keep_if_def js_text_def js_time_def)
  qed
qed

text \<open>A count of base units is written with digits only when it is not negative.\<close>

lemma base_units_text: "0 \<le> i \<Longrightarrow> all_digits (int_to_string i)"
  by (simp add: int_to_string_def)

lemma takeWhile_digits:
  "list_all is_digit s \<Longrightarrow> takeWhile is_digit (s @ CHR ''.'' # t) = s
    \<and> dropWhile is_digit (s @ CHR ''.'' # t) = CHR ''.'' # t"
  by (induction s) (simp_all add: is_digit_def code_def)

lemma fixed_decimal_text: "is_fixed_decimal (from_base_units v 7)"
proof -
  define digits where "digits = pad_start 8 (CHR ''0'') (nat_to_string (nat \<bar>v\<bar>))"
  have zeros: "list_all is_digit (replicate n (CHR ''0''))" for n by (induction n) simp_all
  have d: "list_all is_digit digits" "8 \<le> length digits"
    by (simp_all add: zeros digits_def pad_start_def)
  define whole where "whole = take (length digits - 7) digits"
  define fraction where "fraction = drop (length digits - 7) digits"
  have w: "list_all is_digit whole" "whole \<noteq> []"
    using d by (auto simp: whole_def list_all_iff dest: in_set_takeD)
  have f: "all_digits fraction"
    using d by (auto simp: fraction_def all_digits_def list_all_iff dest: in_set_dropD)
  have shown: "from_base_units v 7 = (if v < 0 then CHR ''-'' # whole @ CHR ''.'' # fraction else whole @ CHR ''.'' # fraction)"
    by (simp add: from_base_units_def digits_def whole_def fraction_def Let_def)
  obtain c cs where c: "whole = c # cs" "c \<noteq> CHR ''-''" using w minus_not_digit by (cases whole) (simp, fastforce)
  show ?thesis
    using takeWhile_digits [OF w(1), of fraction] f c
    by (auto simp: shown is_fixed_decimal_def Let_def)
qed

lemma sum_base_nonneg: "(\<And>v. v \<in> set vs \<Longrightarrow> 0 \<le> v) \<Longrightarrow> 0 \<le> sum_base vs"
  by (simp add: sum_base_eq sum_list_nonneg)

lemma metric_values_fit [fits_simps]:
  "fits ZNumber (js_count n)" "fits ZNumber (js_int i)"
  by (simp_all add: js_count_def js_int_def fits_simps)

lemma protocol_fits:
  assumes ok: "presentable d"
  shows "fits protocolActivitySchema (JObject (protocol_json (protocolActivity (compute_public_metrics ctx d))))"
proof -
  note row = presentableD [OF ok]
  have sums: "all_digits (int_to_string (sum_base (map p_principal (filter P (positions d)))))"
    "all_digits (int_to_string (sum_base (map s_funderRepayment (filter Q (settlements d)))))"
    "all_digits (int_to_string (sum_base (map s_supplierPayout (filter Q (settlements d)))))"
    "all_digits (int_to_string (sum_base (map r_refundedAmount (filter R (refunds d)))))" for P Q R
    using row(5,7,8)
    by (auto intro!: base_units_text sum_base_nonneg
        simp: position_presentable_def settlement_presentable_def refund_presentable_def)
  have "0 \<le> protected_volume (filter Q (settlements d)) (filter R (refunds d)) (filter S (milestones d))" for Q R S
    using row(2,7,8) unfolding protected_volume_def still_held_def
    by (intro add_nonneg_nonneg sum_base_nonneg)
      (auto simp: settlement_presentable_def refund_presentable_def milestone_presentable_def)
  then have protected: "all_digits (int_to_string (protected_volume (filter Q (settlements d))
      (filter R (refunds d)) (filter S (milestones d))))" for Q R S
    by (rule base_units_text)
  show ?thesis
    unfolding protocolActivitySchema_def protocol_json_def
    by (intro fits_object)
      (simp_all add: fits_simps compute_public_metrics_def Let_def sums protected split: prod.split)
qed

lemma local_payments_fit:
  "fits localPaymentsSchema (JObject (local_payments_json (localPayments (compute_public_metrics ctx d))))"
  unfolding localPaymentsSchema_def local_payments_json_def
  by (intro fits_object)
    (simp_all add: fits_simps compute_public_metrics_def Let_def sum_try_def FIAT_DECIMALS_def
      fixed_decimal_text split: prod.split)

lemma cycle_fits: "fits cycleSchema (cycle_json c)"
proof -
  have "fits (ZNullable (ZOneOf [''supplier-offramp'', ''buyer-onramp''])) (js_text (map_option link_text l))" for l
    by (cases l; cases "the l") (auto simp: js_text_def fits_nullable fits_simps)
  moreover have "list_all (fits ZString) (map JString ss)" for ss by (simp add: list_all_iff fits_simps)
  ultimately show ?thesis
    unfolding cycleSchema_def cycle_json_def by (intro fits_object) (simp_all add: fits_simps)
qed

lemma north_star_fits: "fits northStarSchema (JObject (north_star_json n))"
  unfolding northStarSchema_def north_star_json_def
  by (intro fits_object) (simp_all add: fits_simps list_all_iff cycle_fits)

lemma adoption_fits: "fits adoptionSchema (JObject (adoption_json a))"
  unfolding adoptionSchema_def adoption_json_def by (intro fits_object) (simp_all add: fits_simps)

lemma timings_fit: "fits timingsSchema (JObject (timings_json t))"
proof -
  have "fits (ZNullable ZNumber) (case s of None \<Rightarrow> JNull | Some s \<Rightarrow> js_int s)" for s
    by (auto simp: fits_nullable fits_simps split: option.split)
  then show ?thesis
    unfolding timingsSchema_def timings_json_def by (intro fits_object) (simp_all add: fits_simps)
qed

lemma catalogue_fits:
  "m \<in> set ALL_DEFINITIONS \<Longrightarrow> fits metricDefinitionSchema (definition_json prose m)"
  unfolding metricDefinitionSchema_def definition_json_def
  by (intro fits_object)
    (auto simp: fits_simps ALL_DEFINITIONS_def PROTOCOL_METRICS_def LOCAL_PAYMENT_METRICS_def NORTH_STAR_def
      ADOPTION_METRICS_def TIMING_METRICS_def chain_metric_def chain_money_def reported_def confirmed_def)

lemma definitions_fit: "fits metricDefinitionsSchema (definitions_json prose)"
proof -
  have "fits (ZObject [(''key'', ZString), (''reason'', ZString)])
      (JObject [(''key'', JString k), (''reason'', JString s)])" for k s
    by (intro fits_object) (simp_all add: fits_simps)
  then show ?thesis
    unfolding metricDefinitionsSchema_def definitions_json_def
    by (intro fits_object)
      (auto simp: fits_simps list_all_iff ALL_DEFINITIONS_def intro!: catalogue_fits)
qed

lemma metrics_fit:
  assumes "presentable d"
  shows "fits publicMetricsSchema (public_metrics_json prose ctx d)"
proof -
  have scope: "fits metricScopeSchema (JObject
      [(''network'', JString n), (''contractId'', JString c), (''testnetOnly'', JBool b),
       (''usdcDecimals'', js_count u), (''note'', JString s)])" for n c b u s
    unfolding metricScopeSchema_def by (intro fits_object) (simp_all add: fits_simps)
  have source: "fits metricProvenanceSchema (JObject
      [(''chainMetrics'', JString a), (''localPaymentMetrics'', JString b), (''adoptionMetrics'', JString c),
       (''indexedThroughLedger'', js_text l), (''indexedEvents'', js_count e)])" for a b c l e
    unfolding metricProvenanceSchema_def by (intro fits_object) (simp_all add: fits_simps)
  show ?thesis
    unfolding publicMetricsSchema_def public_metrics_json_def Let_def
    by (intro fits_object)
      (simp_all add: scope source protocol_fits [OF assms] local_payments_fit north_star_fits adoption_fits
        timings_fit definitions_fit)
qed

text \<open>Every response of every request fits the schema the browser reads it with.\<close>

lemma read_route_fits:
  assumes ok: "presentable d" and v: "read_route js ctx now (target q) d = Inr v"
    and "q \<noteq> PublicMetrics" "q \<noteq> Readiness" "\<And>a. q \<noteq> Participant a"
  shows "fits (schema_of q) v"
  using v assms(3-5)
  by (cases q)
    (simp_all add: read_route_def list_orders_fits [OF ok] get_order_fits [OF ok] finance_fits [OF ok]
      evidence_fits [OF ok] disputes_fits [OF ok] opportunities_fit [OF ok] funder_offers_fit [OF ok]
      positions_fit [OF ok] activity_fits [OF ok])

lemma route_fits:
  assumes ok: "presentable d" and v: "get_route env ctx now (target q) d = Inr v"
  shows "fits (schema_of q) v"
proof (cases "q = PublicMetrics \<or> q = Readiness \<or> (\<exists>a. q = Participant a)")
  case True
  with v show ?thesis
    by (auto simp: get_route_def metrics_fit [OF ok] readiness_fits participant_fits [OF presentableD(12) [OF ok]])
next
  case False
  with v have "read_route (numbers env) ctx now (target q) d = Inr v"
    by (cases q) (simp_all add: get_route_def)
  with read_route_fits [OF ok] False show ?thesis by blast
qed

end
