(* ===== verification/Presentable.thy ===== *)
theory Presentable
  imports ApiContract IndexerProperties
begin

text \<open>
  The rows stay presentable: whatever the indexer applies, resets or records and whatever is
  uploaded, as long as every event names accounts where the contract expects a party, its
  asset is a contract and its transaction hash is one.
\<close>

section \<open>Events of the usual form\<close>

definition party_fields :: "string list" where
  "party_fields = [''buyer'', ''supplier'', ''attestor'', ''resolver'', ''funder'', ''opened_by'']"

definition usual_event :: "projection_context \<Rightarrow> decoded_event \<Rightarrow> bool" where
  "usual_event ctx ev \<longleftrightarrow>
     is_contract_id (contractId ctx) \<and> is_any_hex64 (ev_txHash ev)
   \<and> list_all (\<lambda>k. case get_field (ev_fields ev) k of JString s \<Rightarrow> is_wallet s | _ \<Rightarrow> True) party_fields
   \<and> (case get_field (ev_fields ev) ''asset'' of JString s \<Rightarrow> is_contract_id s | _ \<Rightarrow> True)
   \<and> plain (fields_to_json (ev_fields ev))"

lemma str_Inr: "str f k = Inr s \<longleftrightarrow> get_field f k = JString s"
  by (simp add: str_def split: jsval.split)

lemma usual_party:
  assumes "usual_event ctx ev" and "str (ev_fields ev) k = Inr s" and "k \<in> set party_fields"
  shows "is_wallet s"
  using assms by (auto simp: usual_event_def str_Inr list_all_iff dest: bspec)

lemma usual_fields:
  assumes "usual_event ctx ev"
  shows "str (ev_fields ev) ''buyer'' = Inr s \<Longrightarrow> is_wallet s"
    and "str (ev_fields ev) ''supplier'' = Inr s \<Longrightarrow> is_wallet s"
    and "str (ev_fields ev) ''attestor'' = Inr s \<Longrightarrow> is_wallet s"
    and "str (ev_fields ev) ''resolver'' = Inr s \<Longrightarrow> is_wallet s"
    and "str (ev_fields ev) ''funder'' = Inr s \<Longrightarrow> is_wallet s"
    and "str (ev_fields ev) ''opened_by'' = Inr s \<Longrightarrow> is_wallet s"
    and "str (ev_fields ev) ''asset'' = Inr s \<Longrightarrow> is_contract_id s"
    and "is_any_hex64 (ev_txHash ev)" and "is_contract_id (contractId ctx)"
  using assms by (auto intro: usual_party simp: party_fields_def)
    (simp_all add: usual_event_def str_Inr)

lemma u32_range: "u32 f k = Inr i \<Longrightarrow> 0 \<le> i \<and> i \<le> 4294967295"
proof -
  assume "u32 f k = Inr i"
  then obtain r where r: "snd (quotient_of r) = 1" "0 \<le> r" "r \<le> 4294967295" "i = fst (quotient_of r)"
    by (auto simp: u32_def split: jsval.splits option.splits if_splits)
  have "r = of_int i" using quotient_of_div [of r] r by (metis div_by_1 of_int_1 prod.collapse)
  with r show ?thesis by (metis of_int_0_le_iff of_int_le_iff of_int_numeral)
qed

section \<open>One statement\<close>

lemma list_all_updated:
  "list_all P t \<Longrightarrow> (\<And>r. P r \<Longrightarrow> P (f r)) \<Longrightarrow> list_all P (update_rows Q f t)"
  by (auto simp: update_rows_def list_all_iff)

lemma list_all_inserted:
  "list_all P t \<Longrightarrow> P r \<Longrightarrow> list_all P (insert_if_absent key r t)"
  by (simp add: insert_if_absent_def)

lemma presentable_stamps [simp]:
  "order_presentable (stamp_order ev r) = order_presentable r"
  "q_supplier (stamp_request ev q) = q_supplier q"
  "f_funder (stamp_offer ev f) = f_funder f"
  "position_presentable (stamp_position ev p) = position_presentable p"
  "dispute_presentable (stamp_dispute ev x) = dispute_presentable x"
  by (simp_all add: stamp_defs order_presentable_def position_presentable_def dispute_presentable_def)

lemma presentable_changes [simp]:
  "order_presentable (r\<lparr>o_status := st\<rparr>) = order_presentable r"
  "position_presentable (p\<lparr>p_status := ps, p_repaidAt := t\<rparr>) = position_presentable p"
  "position_presentable (p\<lparr>p_status := ps, p_closedAt := t\<rparr>) = position_presentable p"
  "document_presentable (e\<lparr>e_anchoredOnChain := b, e_anchoredAt := t, e_anchoredTxHash := h\<rparr>)
     = document_presentable e"
  "is_any_hex64 h' \<Longrightarrow> dispute_presentable x
     \<Longrightarrow> dispute_presentable (x\<lparr>d_status := ds, d_resolvedAt := t, d_resolvedTxHash := Some h'\<rparr>)"
  by (simp_all add: order_presentable_def position_presentable_def document_presentable_def
      dispute_presentable_def)

lemma milestone_update_presentable:
  "state_update escrow upd \<Longrightarrow> milestone_presentable m \<Longrightarrow> 0 \<le> m_fundedAmount (stamp_milestone ev (upd m))
   \<Longrightarrow> milestone_presentable (stamp_milestone ev (upd m))"
  using state_update_keeps(1,3) [where upd = upd and ev = ev and r = m]
  by (auto simp: milestone_presentable_def milestone_terms_def)

lemma inserted_presentable:
  "create_order r d = Inr d' \<Longrightarrow> presentable d \<Longrightarrow> order_presentable r \<Longrightarrow> presentable d'"
  "upsert_milestone m d = Inr d' \<Longrightarrow> presentable d \<Longrightarrow> milestone_presentable m \<Longrightarrow> presentable d'"
  "create_request q d = Inr d' \<Longrightarrow> presentable d \<Longrightarrow> is_wallet (q_supplier q) \<Longrightarrow> presentable d'"
  "upsert_offer f d = Inr d' \<Longrightarrow> presentable d \<Longrightarrow> is_wallet (f_funder f) \<Longrightarrow> presentable d'"
  "upsert_position p d = Inr d' \<Longrightarrow> presentable d \<Longrightarrow> position_presentable p \<Longrightarrow> presentable d'"
  "upsert_dispute x d = Inr d' \<Longrightarrow> presentable d \<Longrightarrow> dispute_presentable x \<Longrightarrow> presentable d'"
  "upsert_settlement s d = Inr d' \<Longrightarrow> presentable d \<Longrightarrow> settlement_presentable s \<Longrightarrow> presentable d'"
  "upsert_refund b d = Inr d' \<Longrightarrow> presentable d \<Longrightarrow> refund_presentable b \<Longrightarrow> presentable d'"
  "create_anchor a d = Inr d' \<Longrightarrow> presentable d \<Longrightarrow> is_any_hex64 (a_submittedTxHash a) \<Longrightarrow> presentable d'"
  by (auto simp: statement_defs presentable_def result_simps list_all_inserted split: if_splits)

lemma updated_tables:
  "update_order ctx i rf d = Inr d' \<Longrightarrow> presentable d
   \<Longrightarrow> (\<And>r. order_presentable r \<Longrightarrow> order_presentable (rf r)) \<Longrightarrow> presentable d'"
  "update_request ctx i qf d = Inr d' \<Longrightarrow> presentable d
   \<Longrightarrow> (\<And>q. is_wallet (q_supplier q) \<Longrightarrow> is_wallet (q_supplier (qf q))) \<Longrightarrow> presentable d'"
  "update_offer ctx i ff d = Inr d' \<Longrightarrow> presentable d
   \<Longrightarrow> (\<And>f. is_wallet (f_funder f) \<Longrightarrow> is_wallet (f_funder (ff f))) \<Longrightarrow> presentable d'"
  "update_active_positions ctx i pf d = Inr (n, d') \<Longrightarrow> presentable d
   \<Longrightarrow> (\<And>p. position_presentable p \<Longrightarrow> position_presentable (pf p)) \<Longrightarrow> presentable d'"
  "update_dispute ctx i xf d = Inr d' \<Longrightarrow> presentable d
   \<Longrightarrow> (\<And>x. dispute_presentable x \<Longrightarrow> dispute_presentable (xf x)) \<Longrightarrow> presentable d'"
  "update_anchor ctx i af d = Inr d' \<Longrightarrow> presentable d
   \<Longrightarrow> (\<And>a. is_any_hex64 (a_submittedTxHash a) \<Longrightarrow> is_any_hex64 (a_submittedTxHash (af a))) \<Longrightarrow> presentable d'"
  "update_evidence_objects ctx h ef d = Inr d' \<Longrightarrow> presentable d
   \<Longrightarrow> (\<And>e. document_presentable e \<Longrightarrow> document_presentable (ef e)) \<Longrightarrow> presentable d'"
  by (auto simp: statement_defs update_row_def presentable_def intro!: list_all_updated split: if_splits)

lemma milestone_updated:
  "update_milestone ctx i mf d = Inr d' \<Longrightarrow> presentable d
   \<Longrightarrow> (\<And>m. milestone_presentable m \<Longrightarrow> 0 \<le> m_fundedAmount (mf m) \<Longrightarrow> milestone_presentable (mf m))
   \<Longrightarrow> presentable d'"
  by (auto simp: update_milestone_def update_row_def update_rows_def presentable_def list_all_iff
      funded_within_amount_def split: if_splits)

lemmas updated_presentable = milestone_updated updated_tables

lemma advanced_presentable:
  "advance_milestone ctx ev m upd d = Inr d' \<Longrightarrow> presentable d \<Longrightarrow> state_update escrow upd
   \<Longrightarrow> presentable d'"
  "advance_request ctx ev q rupd d = Inr d' \<Longrightarrow> presentable d
   \<Longrightarrow> (\<And>q. q_supplier (rupd q) = q_supplier q) \<Longrightarrow> presentable d'"
  by (auto simp: advance_milestone_def advance_request_def split: if_splits
      elim!: updated_presentable intro: milestone_update_presentable)

section \<open>Every projection\<close>

text \<open>
  The steps a case chains, backwards from its last statement; what is left to show is that the
  row written is presentable.
\<close>

lemmas presentable_steps = inserted_presentable updated_presentable advanced_presentable

lemmas presentable_rows = order_presentable_def position_presentable_def dispute_presentable_def
  settlement_presentable_def refund_presentable_def

lemma i128_nonneg: "i128 f k = Inr v \<Longrightarrow> 0 \<le> v"
  by (auto simp: i128_def assert_non_negative_i128_def result_simps split: if_splits)

lemma milestone_step_presentable:
  "update_milestone ctx i (stamp_milestone ev \<circ> upd) d = Inr d' \<Longrightarrow> presentable d
   \<Longrightarrow> state_update escrow upd \<Longrightarrow> presentable d'"
  by (erule updated_presentable) (auto intro: milestone_update_presentable)

lemma not_presentableE: "\<not> presentable d \<Longrightarrow> presentable d \<Longrightarrow> False"
  by simp

lemma order_created_presentable:
  "usual_event ctx ev \<Longrightarrow> project_order_created ctx ev d = Inr (b, d') \<Longrightarrow> presentable d \<Longrightarrow> presentable d'"
  by (auto simp: project_order_created_def Let_def require_milestone_Inr update_offers_Inr  elim!: run_elims)
    (assumption | rule state_updates | erule not_presentableE | erule hex32_Inr milestone_step_presentable presentable_steps
     | simp add: presentable_rows stamp_defs milestone_presentable_def hash_ok_def u32_range i128_nonneg usual_fields)+

lemma order_moved_presentable:
  "usual_event ctx ev \<Longrightarrow> project_order_moved ctx ev d = Inr (b, d') \<Longrightarrow> presentable d \<Longrightarrow> presentable d'"
  by (auto simp: project_order_moved_def Let_def require_milestone_Inr update_offers_Inr is_newer_def elim!: run_elims)
    (assumption | rule state_updates | erule not_presentableE | erule hex32_Inr milestone_step_presentable presentable_steps
     | simp add: presentable_rows stamp_defs milestone_presentable_def hash_ok_def u32_range i128_nonneg usual_fields)+

lemma milestone_created_presentable:
  "usual_event ctx ev \<Longrightarrow> project_milestone_created ctx ev d = Inr (b, d') \<Longrightarrow> presentable d \<Longrightarrow> presentable d'"
  by (auto simp: project_milestone_created_def Let_def require_milestone_Inr update_offers_Inr  elim!: run_elims)
    (assumption | rule state_updates | erule not_presentableE | erule hex32_Inr milestone_step_presentable presentable_steps
     | simp add: presentable_rows stamp_defs milestone_presentable_def hash_ok_def u32_range i128_nonneg usual_fields)+

lemma milestone_funded_presentable:
  "usual_event ctx ev \<Longrightarrow> project_milestone_funded ctx ev d = Inr (b, d') \<Longrightarrow> presentable d \<Longrightarrow> presentable d'"
  by (auto simp: project_milestone_funded_def Let_def require_milestone_Inr update_offers_Inr is_newer_def elim!: run_elims)
    (assumption | rule state_updates | erule not_presentableE | erule hex32_Inr milestone_step_presentable presentable_steps
     | simp add: presentable_rows stamp_defs milestone_presentable_def hash_ok_def u32_range i128_nonneg usual_fields)+

lemma partial_funding_cancelled_presentable:
  "usual_event ctx ev \<Longrightarrow> project_partial_funding_cancelled ctx ev d = Inr (b, d') \<Longrightarrow> presentable d \<Longrightarrow> presentable d'"
  by (auto simp: project_partial_funding_cancelled_def Let_def require_milestone_Inr update_offers_Inr is_newer_def elim!: run_elims)
    (assumption | rule state_updates | erule not_presentableE | erule hex32_Inr milestone_step_presentable presentable_steps
     | simp add: presentable_rows stamp_defs milestone_presentable_def hash_ok_def u32_range i128_nonneg usual_fields)+

lemma finance_requested_presentable:
  "usual_event ctx ev \<Longrightarrow> project_finance_requested ctx ev d = Inr (b, d') \<Longrightarrow> presentable d \<Longrightarrow> presentable d'"
  by (auto simp: project_finance_requested_def Let_def require_milestone_Inr update_offers_Inr is_newer_def elim!: run_elims)
    (assumption | rule state_updates | erule not_presentableE | erule hex32_Inr milestone_step_presentable presentable_steps
     | simp add: presentable_rows stamp_defs milestone_presentable_def hash_ok_def u32_range i128_nonneg usual_fields)+

lemma finance_request_cancelled_presentable:
  "usual_event ctx ev \<Longrightarrow> project_finance_request_cancelled ctx ev d = Inr (b, d') \<Longrightarrow> presentable d \<Longrightarrow> presentable d'"
  by (auto simp: project_finance_request_cancelled_def Let_def require_milestone_Inr update_offers_Inr is_newer_def elim!: run_elims)
    (assumption | rule state_updates | erule not_presentableE | erule hex32_Inr milestone_step_presentable presentable_steps
     | simp add: presentable_rows stamp_defs milestone_presentable_def hash_ok_def u32_range i128_nonneg usual_fields)+

lemma funding_offer_created_presentable:
  "usual_event ctx ev \<Longrightarrow> project_funding_offer_created ctx ev d = Inr (b, d') \<Longrightarrow> presentable d \<Longrightarrow> presentable d'"
  by (auto simp: project_funding_offer_created_def Let_def require_milestone_Inr update_offers_Inr  elim!: run_elims)
    (assumption | rule state_updates | erule not_presentableE | erule hex32_Inr milestone_step_presentable presentable_steps
     | simp add: presentable_rows stamp_defs milestone_presentable_def hash_ok_def u32_range i128_nonneg usual_fields)+

lemma offer_decided_presentable:
  "usual_event ctx ev \<Longrightarrow> project_offer_decided ctx ev d = Inr (b, d') \<Longrightarrow> presentable d \<Longrightarrow> presentable d'"
  by (auto simp: project_offer_decided_def Let_def require_milestone_Inr update_offers_Inr is_newer_def elim!: run_elims)
    (assumption | rule state_updates | erule not_presentableE | erule hex32_Inr milestone_step_presentable presentable_steps
     | simp add: presentable_rows stamp_defs milestone_presentable_def hash_ok_def u32_range i128_nonneg usual_fields)+

lemma advance_funded_presentable:
  "usual_event ctx ev \<Longrightarrow> project_advance_funded ctx ev d = Inr (b, d') \<Longrightarrow> presentable d \<Longrightarrow> presentable d'"
  by (auto simp: project_advance_funded_def Let_def require_milestone_Inr update_offers_Inr  elim!: run_elims)
    (assumption | rule state_updates | erule not_presentableE | erule hex32_Inr milestone_step_presentable presentable_steps
     | simp add: presentable_rows stamp_defs milestone_presentable_def hash_ok_def u32_range i128_nonneg usual_fields)+

lemma acceptance_released_presentable:
  "usual_event ctx ev \<Longrightarrow> project_acceptance_released ctx ev d = Inr (b, d') \<Longrightarrow> presentable d \<Longrightarrow> presentable d'"
  by (auto simp: project_acceptance_released_def Let_def require_milestone_Inr update_offers_Inr  elim!: run_elims)
    (assumption | rule state_updates | erule not_presentableE | erule hex32_Inr milestone_step_presentable presentable_steps
     | simp add: presentable_rows stamp_defs milestone_presentable_def hash_ok_def u32_range i128_nonneg usual_fields)+

lemma evidence_submitted_presentable:
  "usual_event ctx ev \<Longrightarrow> project_evidence_submitted ctx ev d = Inr (b, d') \<Longrightarrow> presentable d \<Longrightarrow> presentable d'"
  by (auto simp: project_evidence_submitted_def Let_def require_milestone_Inr update_offers_Inr is_newer_def elim!: run_elims)
    (assumption | rule state_updates | erule not_presentableE | erule hex32_Inr milestone_step_presentable presentable_steps
     | simp add: presentable_rows stamp_defs milestone_presentable_def hash_ok_def u32_range i128_nonneg usual_fields)+

lemma milestone_verified_presentable:
  "usual_event ctx ev \<Longrightarrow> project_milestone_verified ctx ev d = Inr (b, d') \<Longrightarrow> presentable d \<Longrightarrow> presentable d'"
  by (auto simp: project_milestone_verified_def Let_def require_milestone_Inr update_offers_Inr is_newer_def elim!: run_elims)
    (assumption | rule state_updates | erule not_presentableE | erule hex32_Inr milestone_step_presentable presentable_steps
     | simp add: presentable_rows stamp_defs milestone_presentable_def hash_ok_def u32_range i128_nonneg usual_fields)+

lemma milestone_settled_presentable:
  "usual_event ctx ev \<Longrightarrow> project_milestone_settled ctx ev d = Inr (b, d') \<Longrightarrow> presentable d \<Longrightarrow> presentable d'"
  by (auto simp: project_milestone_settled_def Let_def require_milestone_Inr update_offers_Inr  elim!: run_elims)
    (assumption | rule state_updates | erule not_presentableE | erule hex32_Inr milestone_step_presentable presentable_steps
     | simp add: presentable_rows stamp_defs milestone_presentable_def hash_ok_def u32_range i128_nonneg usual_fields)+

lemma milestone_refunded_presentable:
  "usual_event ctx ev \<Longrightarrow> project_milestone_refunded ctx ev d = Inr (b, d') \<Longrightarrow> presentable d \<Longrightarrow> presentable d'"
  by (auto simp: project_milestone_refunded_def Let_def require_milestone_Inr update_offers_Inr  elim!: run_elims)
    (assumption | rule state_updates | erule not_presentableE | erule hex32_Inr milestone_step_presentable presentable_steps
     | simp add: presentable_rows stamp_defs milestone_presentable_def hash_ok_def u32_range i128_nonneg usual_fields)+

lemma dispute_opened_presentable:
  "usual_event ctx ev \<Longrightarrow> project_dispute_opened ctx ev d = Inr (b, d') \<Longrightarrow> presentable d \<Longrightarrow> presentable d'"
  by (auto simp: project_dispute_opened_def Let_def require_milestone_Inr update_offers_Inr  elim!: run_elims)
    (assumption | rule state_updates | erule not_presentableE | erule hex32_Inr milestone_step_presentable presentable_steps
     | simp add: presentable_rows stamp_defs milestone_presentable_def hash_ok_def u32_range i128_nonneg usual_fields)+

lemma dispute_resolved_presentable:
  "usual_event ctx ev \<Longrightarrow> project_dispute_resolved ctx ev d = Inr (b, d') \<Longrightarrow> presentable d \<Longrightarrow> presentable d'"
  by (auto simp: project_dispute_resolved_def Let_def require_milestone_Inr update_offers_Inr is_newer_def elim!: run_elims)
    (assumption | rule state_updates | erule not_presentableE | erule hex32_Inr milestone_step_presentable presentable_steps
     | simp add: presentable_rows stamp_defs milestone_presentable_def hash_ok_def u32_range i128_nonneg usual_fields)+

lemmas cases_presentable = order_created_presentable order_moved_presentable
  milestone_created_presentable milestone_funded_presentable partial_funding_cancelled_presentable
  finance_requested_presentable finance_request_cancelled_presentable
  funding_offer_created_presentable offer_decided_presentable advance_funded_presentable
  acceptance_released_presentable evidence_submitted_presentable milestone_verified_presentable
  milestone_settled_presentable milestone_refunded_presentable dispute_opened_presentable
  dispute_resolved_presentable

lemma project_event_presentable:
  assumes "usual_event ctx ev" and "project_event ctx ev d = Inr (b, d')" and "presentable d"
  shows "presentable d'"
proof (cases "known ev \<and> successful ev")
  case True
  with assms(2) obtain name where "project_known name ctx ev d = Inr (b, d')"
    by (auto simp: project_event_def split: option.splits)
  with assms(1,3) show ?thesis by (cases name) (auto intro: cases_presentable)
next
  case False
  with assms(2,3) show ?thesis by (auto simp: project_event_def split: if_splits)
qed

section \<open>Every transaction\<close>

lemma other_tables_presentable [simp]:
  "presentable (d\<lparr>cursors := cs\<rparr>) = presentable d"
  "presentable (d\<lparr>daily := ys\<rparr>) = presentable d"
  by (simp_all add: presentable_def)

lemma count_day_presentable [simp]: "presentable (count_day ctx ev b d) = presentable d"
  by (simp add: count_day_def upsert_daily_def split: option.split)

lemma ingest_presentable:
  assumes "ingest_event ctx ev d = Inr (b, d')" and "usual_event ctx ev" and "presentable d"
  shows "presentable d'"
proof -
  from assms(1) obtain d1 d2 where d1: "project_event ctx ev d = Inr (b, d1)"
    and d2: "create_log (event_log_row ctx ev (fields_to_json (ev_fields ev)) b) d1 = Inr d2"
    and d': "d' = count_day ctx ev b d2"
    by (auto simp: ingest_event_def result_simps)
  have "presentable d1" by (rule project_event_presentable [OF assms(2) d1 assms(3)])
  with d2 assms(2) have "presentable d2"
    by (auto simp: create_log_def presentable_def event_log_row_def usual_event_def split: if_splits)
  then show ?thesis by (simp add: d')
qed

lemma apply_events_presentable:
  "apply_events ctx evs seen n d = Inr (n', d') \<Longrightarrow> list_all (usual_event ctx) evs \<Longrightarrow> presentable d
   \<Longrightarrow> presentable d'"
proof (induction evs arbitrary: seen n d)
  case (Cons ev evs)
  then show ?case
    by (fastforce simp: result_simps split: if_splits dest: ingest_presentable)
qed simp

lemma apply_batch_presentable:
  assumes "apply_batch ctx now evs page eid esl d = Inr (n, d')" and "list_all (usual_event ctx) evs"
    and "presentable d"
  shows "presentable d'"
  using assms(1)
  by (rule apply_batch_Inr) (simp add: apply_events_presentable [OF _ assms(2,3)])

lemma list_all_deleted: "list_all P t \<Longrightarrow> list_all P (delete_rows Q t)"
  by (auto simp: delete_rows_def list_all_iff)

lemma reset_presentable: "presentable d \<Longrightarrow> presentable (reset ctx start d)"
  by (auto simp: reset_def Let_def ensure_cursor_def presentable_def document_presentable_def unanchored_def
      intro!: list_all_deleted list_all_updated)

lemma consent_presentable:
  assumes "record_consent nt net now body d = (outc, d')" and "presentable d"
  shows "presentable d'"
proof (cases "read_consent nt body")
  case (Inr cr)
  then obtain f where f: "body = JObject f" by (cases body) (auto simp: read_consent_def)
  have "is_wallet (cr_wallet cr)"
    using Inr unfolding f
    by (cases "get_field f ''consentToCount''")
      (auto simp: read_consent_def parse_address_def result_simps Let_def split: option.splits if_splits)
  with assms Inr show ?thesis
    by (auto simp: record_consent_def write_consent_def Let_def presentable_def consent_row_def
        participant_presentable_def update_row_def intro!: list_all_updated split: option.splits)
qed (use assms in \<open>auto simp: record_consent_def\<close>)

text \<open>A committed transaction of the service on events and documents of the usual form.\<close>

inductive usual_step :: "db \<Rightarrow> db \<Rightarrow> bool" where
  usual_cursor: "usual_step d (ensure_cursor ctx start d)"
| usual_page:
    "apply_batch ctx now evs page eid esl d = Inr (n, d') \<Longrightarrow> list_all (usual_event ctx) evs
     \<Longrightarrow> usual_step d d'"
| usual_error: "usual_step d (record_error ctx now msg d)"
| usual_reset: "usual_step d (reset ctx start d)"
| usual_upload:
    "document_presentable e \<Longrightarrow> usual_step d (d\<lparr>evidence_objects := evidence_objects d @ [e]\<rparr>)"
| usual_consent: "record_consent nt net now body d = (outc, d') \<Longrightarrow> usual_step d d'"

abbreviation usual_steps :: "db \<Rightarrow> db \<Rightarrow> bool" where
  "usual_steps \<equiv> usual_step\<^sup>*\<^sup>*"

lemma usual_step_presentable: "usual_step d d' \<Longrightarrow> presentable d \<Longrightarrow> presentable d'"
proof (induction rule: usual_step.induct)
  case (usual_page ctx now evs page eid esl d n d')
  then show ?case by (blast intro: apply_batch_presentable)
next
  case (usual_reset d ctx start)
  then show ?case by (rule reset_presentable)
next
  case (usual_consent nt net now body d outc d')
  then show ?case by (rule consent_presentable)
qed (simp_all add: ensure_cursor_def record_error_def presentable_def)

lemma usual_steps_presentable: "usual_steps d d' \<Longrightarrow> presentable d \<Longrightarrow> presentable d'"
  by (induction rule: rtranclp_induct) (auto intro: usual_step_presentable)

lemma empty_presentable: "presentable empty_db"
  by (simp add: presentable_def empty_db_def)

end
