(* ===== verification/ApiClaims.thy ===== *)
theory ApiClaims
  imports Presentable SampleStream Evidence
begin

text \<open>
  The browser and the API agree: what a read-only route returns reaches the component that
  asked, unchanged, and what a route refuses arrives as its refusal. The second section shows a
  trade the contract allows and the browser's schemas do not.
\<close>

section \<open>Agreement\<close>


lemma read_message_of_error [simp]:
  "read_message st (Some (JObject [(''statusCode'', a), (''requestId'', b), (''message'', JString m)])) = m"
  by (simp add: read_message_def get_field_def)


text \<open>One order between accounts, indexed from an empty database.\<close>

definition base32_id :: "string \<Rightarrow> string" where
  "base32_id first = first @ replicate 55 (CHR ''A'')"

definition usual_ctx :: projection_context where
  "usual_ctx = \<lparr>network = ''testnet'', contractId = base32_id ''C''\<rparr>"

definition order_event :: "string \<Rightarrow> decoded_event" where
  "order_event buyer =
     (sample_event 1 ''order_created''
        [(''order_id'', one), (''buyer'', JString buyer), (''supplier'', JString (base32_id ''G'')),
         (''attestor'', JString (base32_id ''G'')), (''resolver'', JString (base32_id ''G'')),
         (''asset'', JString (base32_id ''C''))])
     \<lparr>ev_txHash := sample_digest, ev_contractId := base32_id ''C''\<rparr>"

definition order_page :: "string \<Rightarrow> event_page" where
  "order_page buyer = \<lparr>pg_events = [order_event buyer], pg_cursor = Some ''k1'', pg_latestLedger = 200,
     pg_scannedThroughLedger = 101\<rparr>"

definition order_batch :: "string \<Rightarrow> api_error + (batch_counts \<times> db)" where
  "order_batch buyer = apply_batch usual_ctx 0 [order_event buyer] (order_page buyer) None None
     (ensure_cursor usual_ctx 1 empty_db)"

definition around :: surroundings where
  "around = \<lparr>numbers = \<lparr>print_number = (\<lambda>n. []), to_number = (\<lambda>v. Some 200)\<rparr>,
     metric_prose = (\<lambda>k t. []), pings = True, reads = True, head_reply = Result 100, start_ledger = 1\<rparr>"

lemma base32_ids: "is_wallet (base32_id ''G'')" "is_contract_id (base32_id ''C'')"
  "\<not> is_wallet (base32_id ''C'')" "is_any_hex64 sample_digest"
  by code_simp+


lemma order_event_fields [simp]:
  "eventName (order_event buyer) = ''order_created''" "known (order_event buyer)"
  "successful (order_event buyer)" "ev_contractId (order_event buyer) = contractId usual_ctx"
  "u64 (ev_fields (order_event buyer)) ''order_id'' = Inr 1"
  "str (ev_fields (order_event buyer)) ''buyer'' = Inr buyer"
  "str (ev_fields (order_event buyer)) ''supplier'' = Inr (base32_id ''G'')"
  "str (ev_fields (order_event buyer)) ''attestor'' = Inr (base32_id ''G'')"
  "str (ev_fields (order_event buyer)) ''resolver'' = Inr (base32_id ''G'')"
  "str (ev_fields (order_event buyer)) ''asset'' = Inr (base32_id ''C'')"
  by (simp_all add: order_event_def sample_event_def usual_ctx_def str_def u64_def get_field_def
      assert_u64_def U64_MAX_def)

lemma order_event_projects:
  "\<exists>d' r. project_event usual_ctx (order_event buyer) (ensure_cursor usual_ctx 1 empty_db) = Inr (True, d')
    \<and> orders d' = [r] \<and> o_buyer r = buyer \<and> o_ctx r = usual_ctx \<and> event_log d' = [] \<and> daily d' = []"
  by (simp add: project_event_def is_milvance_event_name_def MILVANCE_EVENT_NAMES_def
      project_order_created_def find_order_def find_row_def ensure_cursor_def empty_db_def
      create_order_def insert_row_def)

lemma order_batch_commits:
  "\<exists>n d r. order_batch buyer = Inr (n, d) \<and> orders d = [r] \<and> o_buyer r = buyer \<and> o_ctx r = usual_ctx"
proof -
  define d0 where "d0 = ensure_cursor usual_ctx 1 empty_db"
  obtain c where c: "find_cursor usual_ctx d0 = Some c" "c_lastEventId c = None"
    "c_scannedThroughLedger c = None"
    by (simp add: d0_def find_cursor_def ensure_cursor_def insert_if_absent_def find_row_def
        empty_db_def cursor_key_def)
  have stored: "already_stored usual_ctx [order_event buyer] d0 = []"
    by (simp add: already_stored_def d0_def ensure_cursor_def empty_db_def)
  from order_event_projects [of buyer] obtain d1 r
    where d1: "project_event usual_ctx (order_event buyer) d0 = Inr (True, d1)" "orders d1 = [r]"
      "o_buyer r = buyer" "o_ctx r = usual_ctx" "event_log d1 = []" "daily d1 = []"
    unfolding d0_def by blast
  from d1 have "\<exists>d2. ingest_event usual_ctx (order_event buyer) d0 = Inr (True, d2) \<and> orders d2 = [r]"
    by (simp add: ingest_event_def create_log_def find_row_def count_day_def upsert_daily_def)
  with c stored d1 show ?thesis
    by (auto simp: order_batch_def apply_batch_def d0_def [symmetric])
qed


section \<open>Answers with more than the browser asks for\<close>

text \<open>
  The indexer's state and the answer to an upload carry more than their schemas name: what the
  browser keeps is exactly the named part.
\<close>

lemma text_parses: "validate (ZNullable ZString) (js_text s) = Some (js_text s)"
  by (cases s) (simp_all add: js_text_def keep_if_def)

lemma integer_text_parses:
  "(case s of None \<Rightarrow> True | Some t \<Rightarrow> is_integer_string t)
   \<Longrightarrow> validate (ZNullable integerString) (js_text s) = Some (js_text s)"
  by (cases s) (simp_all add: js_text_def keep_if_def)

lemma js_text_defined [simp]: "js_text s \<noteq> JUndefined"
  by (simp add: js_text_def split: option.split)

lemma mapped_text_parses:
  "(\<And>x. is_integer_string (f x)) \<Longrightarrow>
   validate (ZNullable integerString) (js_text (map_option f v)) = Some (js_text (map_option f v))"
  by (rule integer_text_parses) (cases v, simp_all)

lemma indexer_state_is_read:
  assumes "indexer_status reply ctx start w = (Some t, w')" and "st_unprojected (fst t) \<le> 200"
  shows "validate indexerStatusSchema (indexer_status_json t) = Some (JObject
    [(''scannedThroughLedger'', js_text (st_scannedThroughLedger (fst t))),
     (''chainHead'', js_text (fst (snd t))), (''ledgersBehind'', js_text (snd (snd t))),
     (''lastError'', js_text (st_lastError (fst t))),
     (''unprojectedSuccessfulEvents'', JNumber (Some (of_nat (st_unprojected (fst t)))))])"
proof -
  define d where "d = ensure_cursor ctx start (store w)"
  obtain c where c: "find_cursor ctx d = Some c" unfolding d_def using find_ensure_cursor by blast
  define s where "s = status_of ctx d (running w) c"
  define head where "head = (case latest_ledger reply of Inl e \<Rightarrow> None | Inr h \<Rightarrow> Some h)"
  define lag where "lag = (case head of None \<Rightarrow> None
    | Some h \<Rightarrow> map_option (\<lambda>v. max 0 (h - int_of_string v)) (st_scannedThroughLedger s))"
  have t: "t = (s, map_option int_to_string head, map_option int_to_string lag)"
    using assms(1) c unfolding indexer_status_def worker_status_def d_def [symmetric]
    by (cases "latest_ledger reply")
      (auto simp: s_def head_def lag_def option.map_comp comp_def)
  have scanned: "st_scannedThroughLedger s = map_option int_to_string (c_scannedThroughLedger c)"
    by (simp add: s_def status_of_def)
  note parses = mapped_text_parses [of int_to_string, OF is_integer_int_to_string]
  show ?thesis
    using assms(2) unfolding t indexerStatusSchema_def indexer_status_json_def
    by (simp add: get_field_def text_parses parses scanned safe_length keep_if_def del: validate.simps(9))
qed

lemma upload_answer_is_read:
  assumes "document_presentable e"
  shows "validate evidenceUploadSchema (upload_json e) = Some (JObject
    [(''contentHash'', JString (e_contentHash e)), (''byteSize'', JString (int_to_string (e_byteSize e))),
     (''filename'', JString (e_filename e)), (''mimeType'', JString (e_mimeType e)),
     (''documentLabel'', js_text (e_documentLabel e)), (''anchoredOnChain'', JBool (e_anchoredOnChain e))])"
  using assms
  by (cases "e_documentLabel e")
    (simp_all add: evidenceUploadSchema_def upload_json_def get_field_def keep_if_def document_presentable_def
      js_text_def)

section \<open>A party that is a contract\<close>

lemma order_json_plain: "plain (order_with_milestones ctx now d r)"
  by (simp add: order_with_milestones_def serialise_order_def serialise_milestone_def list_all_iff
      dec_def js_time_def provenance_def js_time_option_def js_text_def split: option.split)

lemma refused_order:
  assumes "\<not> is_wallet (o_buyer r)"
  shows "validate orderWithMilestonesSchema (order_with_milestones ctx now d r) = None"
  using assms
  by (simp add: orderWithMilestonesSchema_def orderSchema_def order_with_milestones_def serialise_order_def
      get_field_def dec_def keep_if_def)

lemma those_values_None: "None \<in> set vs \<Longrightarrow> those_values vs = None"
  by (induction vs rule: those_values.induct) auto

text \<open>
  One order whose buyer is not an account (on Stellar a party may be a contract) and the list of
  all orders is refused as a whole, for every visitor.
\<close>

lemma contract_party_hides_every_order:
  assumes "documented_zod z" and "parse_limit (numbers env) (Some ''200'') = Inr n"
    and "r \<in> set (find_orders ctx None None None None n d)" and "\<not> is_wallet (o_buyer r)"
  shows "browser_read z rid env ctx now AllOrders d
    = Inl \<lparr>af_kind = Invalid_response, af_message = ''Response did not match the expected shape.'',
           af_status = None\<rparr>"
proof -
  define rows where "rows = map (order_with_milestones ctx now d) (find_orders ctx None None None None n d)"
  define v where "v = JObject [(''orders'', JArray rows),
    (''count'', JNumber (Some (of_nat (length rows))))]"
  have route: "get_route env ctx now (target AllOrders) d = Inr v"
    using assms(2) by (simp add: get_route_def read_route_def list_orders_def param_def enum_filter_def v_def rows_def Let_def)
  have "plain v" by (simp add: v_def rows_def list_all_iff order_json_plain)
  have "validate orderWithMilestonesSchema (order_with_milestones ctx now d r) = None"
    by (rule refused_order [OF assms(4)])
  then have "None \<in> validate orderWithMilestonesSchema ` set rows"
    using assms(3) by (force simp: rows_def)
  then have "those_values (map (validate orderWithMilestonesSchema) rows) = None"
    by (intro those_values_None) simp
  then have "validate orderListSchema v = None"
    by (simp add: orderListSchema_def v_def get_field_def)
  with route plain_travels [OF \<open>plain v\<close>] show ?thesis
    by (simp add: browser_read_def send_def api_request_def documented_zod_validate [OF assms(1)])
qed

text \<open>The indexer accepts such an order like any other: one of them is enough.\<close>

lemma contract_buyer_hides_every_order:
  "\<exists>n d. order_batch (base32_id ''C'') = Inr (n, d) \<and>
     browser_read validate None around usual_ctx 0 AllOrders d
       = Inl \<lparr>af_kind = Invalid_response, af_message = ''Response did not match the expected shape.'',
              af_status = None\<rparr>"
proof -
  from order_batch_commits [of "base32_id ''C''"] obtain n d r
    where batch: "order_batch (base32_id ''C'') = Inr (n, d)" and r: "orders d = [r]"
      "o_buyer r = base32_id ''C''" "o_ctx r = usual_ctx" by blast
  have limit: "parse_limit (numbers around) (Some ''200'') = Inr 200"
    by (simp add: parse_limit_def around_def as_integer_def)
  have "r \<in> set (find_orders usual_ctx None None None None 200 d)"
    by (simp add: find_orders_def r matches_def participates_def)
  from contract_party_hides_every_order [OF validate_documented limit this] r(2) base32_ids(3) batch
  show ?thesis by metis
qed

end
