(* ===== verification/HealthClaims.thy ===== *)
theory HealthClaims
  imports Health SampleStream
begin

text \<open>
  Readiness follows the indexer: after a run that threw it is never ok, and after a run that
  returned it is ok exactly when everything that was read is projected, the chain head is known
  and near, and the database answers.
\<close>

section \<open>What a run leaves in the cursor\<close>

definition healthy_cursor :: "projection_context \<Rightarrow> db \<Rightarrow> bool" where
  "healthy_cursor ctx d \<longleftrightarrow>
     (\<exists>c s. find_cursor ctx d = Some c \<and> c_lastError c = None \<and> c_scannedThroughLedger c = Some s)"

lemma apply_batch_healthy:
  assumes "apply_batch ctx now evs page eid esl d = Inr (n, d')"
  shows "healthy_cursor ctx d'"
  using assms
proof (rule apply_batch_Inr)
  fix c d1
  assume c: "find_cursor ctx d = Some c"
    and run: "apply_events ctx evs (already_stored ctx evs d)
       \<lparr>bc_ingested = 0, bc_projected = 0, bc_duplicates = 0\<rparr> d = Inr (n, d1)"
    and d': "d' = d1\<lparr>cursors := update_row cursor_key ctx (advance_cursor now evs page (bc_ingested n)) (cursors d1)\<rparr>"
  have "find_cursor ctx d1 = Some c"
    using c apply_events_log(1) [OF run] by (simp add: find_cursor_def)
  then show ?thesis
    unfolding d' healthy_cursor_def
    by (subst find_cursor_update) (simp_all add: advance_cursor_def cursor_key_def)
qed

lemma loop_leaves_healthy:
  "catch_up_loop fuel pf w ctx start maxPages i page res d = Some (Inr r, d')
   \<Longrightarrow> page < maxPages \<or> healthy_cursor ctx d \<Longrightarrow> healthy_cursor ctx d'"
proof (induction fuel arbitrary: i page res d)
  case (Suc fuel)
  then show ?case
    by (auto simp: Let_def apply_batch_healthy split: if_splits option.splits sum.splits)
qed simp

lemma failed_cursor:
  assumes "find_cursor ctx (ensure_cursor ctx start (record_error ctx now msg d)) = Some c"
  shows "c_lastError c \<noteq> None \<or> c_scannedThroughLedger c = None"
proof (cases "find_cursor ctx d")
  case None
  then have "find_cursor ctx (record_error ctx now msg d) = None"
    unfolding record_error_def by (subst find_cursor_update) (simp_all add: cursor_key_def)
  with assms show ?thesis
    by (simp add: ensure_cursor_def insert_if_absent_def find_cursor_def find_row_append find_row_Cons
        cursor_key_def)
      (auto simp: find_row_def)
next
  case (Some c0)
  then have "find_cursor ctx (record_error ctx now msg d) = Some (c0\<lparr>c_lastErrorAt := Some now, c_lastError := Some msg\<rparr>)"
    unfolding record_error_def by (subst find_cursor_update) (simp_all add: cursor_key_def)
  with assms show ?thesis using ensure_existing_cursor by fastforce
qed

section \<open>What readiness makes of it\<close>

lemma overall_ok:
  "overall [a, b, c] = Ok_health \<longleftrightarrow>
     hc_status a = Ok_health \<and> hc_status b = Ok_health \<and> hc_status c = Ok_health"
  by (cases "hc_status a"; cases "hc_status b"; cases "hc_status c") (simp_all add: overall_def)

lemma check_indexer_ok:
  "hc_status (check_indexer head (Some (status_of ctx d busy c))) = Ok_health \<longleftrightarrow>
     c_lastError c = None \<and> unprojected_successful_events ctx d = 0
     \<and> (\<exists>s. c_scannedThroughLedger c = Some s \<and> (case head of None \<Rightarrow> True | Some h \<Rightarrow> h - s \<le> 120))"
  by (auto simp: check_indexer_def status_of_def degraded_def LAG_THRESHOLD_LEDGERS_def split: option.splits)

lemma ready_ok:
  assumes "ready pings reads reply ctx start now w = (r, w')"
  shows "rd_status r = Ok_health \<longleftrightarrow>
     pings \<and> reads \<and> (\<exists>head c s. latest_ledger reply = Inr head
       \<and> find_cursor ctx (ensure_cursor ctx start (store w)) = Some c \<and> c_lastError c = None
       \<and> unprojected_successful_events ctx (store w) = 0
       \<and> c_scannedThroughLedger c = Some s \<and> head - s \<le> 120)"
proof -
  have same: "unprojected_successful_events ctx (ensure_cursor ctx start d) = unprojected_successful_events ctx d" for d
    by (simp add: unprojected_successful_events_def)
  show ?thesis
    using assms
    by (cases "latest_ledger reply"; cases "find_cursor ctx (ensure_cursor ctx start (store w))")
      (auto simp: ready_def overall_ok check_database_def check_rpc_def worker_status_def check_indexer_ok same Let_def
        check_indexer_def [where st = None] split: if_splits)
qed

text \<open>
  C40: readiness follows the indexer. After a run that threw it is not ok, whatever the RPC and
  the database say now. After a run that returned it is ok exactly when the database answers,
  the chain head is known and at most 120 ledgers ahead of the ledger the run scanned through,
  and no successful event of the stream is still without a projection.
\<close>

theorem readiness_follows_the_run:
  assumes "catch_up fuel pf wd redact t ctx start maxPages w = Some (outc, w')"
    and "\<not> running w" and "0 < maxPages"
    and "ready pings reads reply ctx start now w' = (r, w'')"
  shows "case outc of
      Inl e \<Rightarrow> rd_status r \<noteq> Ok_health
    | Inr res \<Rightarrow> \<exists>c s. find_cursor ctx (store w') = Some c \<and> c_scannedThroughLedger c = Some s
        \<and> (rd_status r = Ok_health \<longleftrightarrow>
             pings \<and> reads
           \<and> (\<forall>l \<in> set (event_log (store w')). l_ctx l = ctx \<and> l_successful l \<longrightarrow> l_projected l)
           \<and> (\<exists>head. latest_ledger reply = Inr head \<and> head - s \<le> 120))"
proof (cases outc)
  case (Inl e)
  with assms(1,2) obtain d where w': "store w' = record_error ctx t (run_error_text redact e) d"
    by (auto simp: catch_up_def split: option.splits sum.splits)
  from Inl show ?thesis
    unfolding sum.case ready_ok [OF assms(4)] w' by (auto dest: failed_cursor)
next
  case (Inr res)
  with assms(1,2) have "catch_up_loop fuel pf wd ctx start maxPages 0 0 empty_run (store w) = Some (Inr res, store w')"
    by (auto simp: catch_up_def split: option.splits sum.splits)
  from loop_leaves_healthy [OF this] assms(3) obtain c s
    where c: "find_cursor ctx (store w') = Some c" "c_lastError c = None" "c_scannedThroughLedger c = Some s"
    by (auto simp: healthy_cursor_def)
  have "unprojected_successful_events ctx (store w') = 0 \<longleftrightarrow>
      (\<forall>l \<in> set (event_log (store w')). l_ctx l = ctx \<and> l_successful l \<longrightarrow> l_projected l)"
    by (auto simp: unprojected_successful_events_def count_rows_def filter_empty_conv)
  with Inr c show ?thesis
    unfolding sum.case ready_ok [OF assms(4)] ensure_existing_cursor [OF c(1)] by auto
qed

definition quiet_world :: "events_result rpc_reply \<Rightarrow> world" where
  "quiet_world reply = \<lparr>rpc = \<lambda>i q. reply, others = \<lambda>i d. d, clock = \<lambda>i. int i\<rparr>"

definition quiet_run :: "events_result rpc_reply \<Rightarrow> ((api_error + run_result) \<times> worker) option" where
  "quiet_run reply = catch_up 3 text_platform (quiet_world reply) (\<lambda>e. ''error'') 0 ctx0 1 2
     \<lparr>running = False, store = empty_db\<rparr>"

lemma run_outcome:
  "(case x of Some (Inr v, w) \<Rightarrow> P v w | _ \<Rightarrow> False) \<Longrightarrow> \<exists>v w. x = Some (Inr v, w) \<and> P v w"
  "(case x of Some (Inl e, w) \<Rightarrow> Q e w | _ \<Rightarrow> False) \<Longrightarrow> \<exists>e w. x = Some (Inl e, w) \<and> Q e w"
  by (cases x rule: option.exhaust [case_product sum.exhaust [where y = "fst (the x)"]]; cases "the x";
      auto split: sum.split_asm)+

lemma readiness_follows_the_run_witness:
  "\<exists>res e w1 w2.
     quiet_run (Result \<lparr>er_events = [], er_cursor = None, er_latestLedger = 7\<rparr>) = Some (Inr res, w1)
   \<and> rd_status (fst (ready True True (Result 100) ctx0 1 0 w1)) = Ok_health
   \<and> quiet_run Unreachable = Some (Inl e, w2)
   \<and> rd_status (fst (ready True True (Result 100) ctx0 1 0 w2)) \<noteq> Ok_health"
proof -
  have "(case quiet_run (Result \<lparr>er_events = [], er_cursor = None, er_latestLedger = 7\<rparr>) of
      Some (Inr res, w1) \<Rightarrow> event_log (store w1) = []
        \<and> map_option c_scannedThroughLedger (find_cursor ctx0 (store w1)) = Some (Some 7)
    | _ \<Rightarrow> False)"
    by code_simp
  then obtain res w1 where good: "quiet_run (Result \<lparr>er_events = [], er_cursor = None, er_latestLedger = 7\<rparr>) = Some (Inr res, w1)"
    and left: "event_log (store w1) = []"
      "map_option c_scannedThroughLedger (find_cursor ctx0 (store w1)) = Some (Some 7)"
    by (auto dest!: run_outcome(1))
  have "(case quiet_run Unreachable of Some (Inl e, w2) \<Rightarrow> True | _ \<Rightarrow> False)"
    by code_simp
  then obtain e w2 where bad: "quiet_run Unreachable = Some (Inl e, w2)"
    by (auto dest!: run_outcome(2))
  have head: "latest_ledger (Result 100) = Inr 100" by (simp add: latest_ledger_def rpc_call_def)
  have "rd_status (fst (ready True True (Result 100) ctx0 1 0 w1)) = Ok_health"
    using readiness_follows_the_run [OF good [unfolded quiet_run_def] _ _ surjective_pairing
        [of "ready True True (Result 100) ctx0 1 0 w1"]] left head
    by auto
  moreover have "rd_status (fst (ready True True (Result 100) ctx0 1 0 w2)) \<noteq> Ok_health"
    using readiness_follows_the_run [OF bad [unfolded quiet_run_def] _ _ surjective_pairing
        [of "ready True True (Result 100) ctx0 1 0 w2"]]
    by auto
  ultimately show ?thesis using good bad by blast
qed

end
