(* ===== verification/Config.thy ===== *)
theory Config
  imports EvidenceStorage Schemas
begin

text \<open>
  The configuration of the API: \<open>apps/api/src/config.ts\<close>. The environment is a map from names to
  texts (a \<open>.env\<close> file read before it is part of it); \<open>Number\<close> of a text is an argument. After it,
  the origins a browser may call from: \<open>apps/api/src/common/http-security.ts\<close>, with \<open>new URL\<close> as
  an argument.
\<close>

section \<open>Reading the environment\<close>

type_synonym environment = "string \<Rightarrow> string option"

datatype config_error =
    InvalidPort string
  | MissingVariable string
  | NotALedgerNumber string
  | NotAPositiveInteger string
  | NotAContractId string
  | NotAPublicKey string
  | UnknownDriver

definition blank :: "string option \<Rightarrow> bool" where
  "blank v \<longleftrightarrow> (case v of None \<Rightarrow> True | Some s \<Rightarrow> trim s = [])"

definition DEFAULT_PORT :: int where "DEFAULT_PORT = 3001"
definition DEFAULT_START_LEDGER :: int where "DEFAULT_START_LEDGER = 4760607"
definition DEFAULT_MAX_EVIDENCE_BYTES :: int where "DEFAULT_MAX_EVIDENCE_BYTES = 25 * 1024 * 1024"

text \<open>\<open>Number.isInteger(Number(s))\<close>, and the integer.\<close>

definition whole_number :: "(string \<Rightarrow> rat option) \<Rightarrow> string \<Rightarrow> int option" where
  "whole_number toNumber s =
     (case toNumber s of None \<Rightarrow> None | Some q \<Rightarrow> if of_int \<lfloor>q\<rfloor> = q then Some \<lfloor>q\<rfloor> else None)"

definition parse_port :: "(string \<Rightarrow> rat option) \<Rightarrow> string option \<Rightarrow> config_error + int" where
  "parse_port toNumber v =
     (if blank v then Inr DEFAULT_PORT
      else case whole_number toNumber (the v) of
             None \<Rightarrow> Inl (InvalidPort (the v))
           | Some p \<Rightarrow> if p \<le> 0 \<or> 65535 < p then Inl (InvalidPort (the v)) else Inr p)"

definition required :: "environment \<Rightarrow> string \<Rightarrow> config_error + string" where
  "required env key = (if blank (env key) then Inl (MissingVariable key) else Inr (trim (the (env key))))"

definition optional :: "environment \<Rightarrow> string \<Rightarrow> string option" where
  "optional env key = (if blank (env key) then None else Some (trim (the (env key))))"

definition or_default :: "string option \<Rightarrow> string \<Rightarrow> string" where
  "or_default v fallback = (case v of None \<Rightarrow> fallback | Some s \<Rightarrow> s)"

definition parse_big_int :: "string option \<Rightarrow> int \<Rightarrow> string \<Rightarrow> config_error + int" where
  "parse_big_int v fallback key =
     (if blank v then Inr fallback
      else if \<not> all_digits (trim (the v)) then Inl (NotALedgerNumber key)
      else Inr (int (nat_of_digits (trim (the v)))))"

definition parse_integer ::
  "(string \<Rightarrow> rat option) \<Rightarrow> string option \<Rightarrow> int \<Rightarrow> string \<Rightarrow> config_error + int" where
  "parse_integer toNumber v fallback key =
     (if blank v then Inr fallback
      else case whole_number toNumber (the v) of
             None \<Rightarrow> Inl (NotAPositiveInteger key)
           | Some i \<Rightarrow> if i \<le> 0 then Inl (NotAPositiveInteger key) else Inr i)"

definition assert_contract_id :: "string \<Rightarrow> string \<Rightarrow> config_error + string" where
  "assert_contract_id v key = (if is_contract_id v then Inr v else Inl (NotAContractId key))"

definition assert_public_key :: "string \<Rightarrow> string \<Rightarrow> config_error + string" where
  "assert_public_key v key = (if is_wallet v then Inr v else Inl (NotAPublicKey key))"

section \<open>The whole configuration\<close>

record stellar_config =
  sc_network :: string
  sc_networkPassphrase :: string
  sc_rpcUrl :: string
  sc_horizonUrl :: string
  sc_contractId :: string
  sc_usdcIssuer :: string
  sc_usdcAssetContractId :: string

record evidence_config =
  ec_driver :: string
  ec_localDirectory :: string
  ec_maxBytes :: int
  ec_endpoint :: "string option"
  ec_bucket :: "string option"
  ec_s3 :: "s3_settings option"

record indexer_config =
  ic_startLedger :: int
  ic_pollIntervalSeconds :: int

record api_config =
  ac_port :: int
  ac_nodeEnv :: string
  ac_databaseUrl :: string
  ac_stellar :: stellar_config
  ac_indexer :: indexer_config
  ac_evidence :: evidence_config

definition load_stellar :: "environment \<Rightarrow> config_error + stellar_config" where
  "load_stellar env =
     and_then (required env ''MILVANCE_CONTRACT_ID'') (\<lambda>c.
     and_then (assert_contract_id c ''MILVANCE_CONTRACT_ID'') (\<lambda>contractId.
     and_then (required env ''USDC_ISSUER'') (\<lambda>i.
     and_then (assert_public_key i ''USDC_ISSUER'') (\<lambda>issuer.
     and_then (required env ''USDC_ASSET_CONTRACT_ID'') (\<lambda>a.
     and_then (assert_contract_id a ''USDC_ASSET_CONTRACT_ID'') (\<lambda>assetContract.
     Inr \<lparr>sc_network = or_default (optional env ''STELLAR_NETWORK'') ''testnet'',
          sc_networkPassphrase =
            or_default (optional env ''STELLAR_NETWORK_PASSPHRASE'') ''Test SDF Network ; September 2015'',
          sc_rpcUrl = or_default (optional env ''STELLAR_RPC_URL'') ''https://soroban-testnet.stellar.org'',
          sc_horizonUrl =
            or_default (optional env ''STELLAR_HORIZON_URL'') ''https://horizon-testnet.stellar.org'',
          sc_contractId = contractId, sc_usdcIssuer = issuer,
          sc_usdcAssetContractId = assetContract\<rparr>))))))"

definition load_s3 :: "environment \<Rightarrow> config_error + s3_settings" where
  "load_s3 env =
     and_then (required env ''OBJECT_STORAGE_ENDPOINT'') (\<lambda>endpoint.
     and_then (required env ''OBJECT_STORAGE_BUCKET'') (\<lambda>bucket.
     and_then (required env ''OBJECT_STORAGE_ACCESS_KEY'') (\<lambda>accessKey.
     and_then (required env ''OBJECT_STORAGE_SECRET_KEY'') (\<lambda>secretKey.
     Inr \<lparr>st_endpoint = Some endpoint, st_bucket = Some bucket,
          st_region = Some (or_default (optional env ''OBJECT_STORAGE_REGION'') ''auto''),
          st_accessKeyId = Some accessKey, st_secretAccessKey = Some secretKey\<rparr>))))"

definition load_evidence ::
  "(string \<Rightarrow> rat option) \<Rightarrow> environment \<Rightarrow> string \<Rightarrow> config_error + evidence_config" where
  "load_evidence toNumber env driver =
     and_then (parse_integer toNumber (env ''EVIDENCE_MAX_BYTES'') DEFAULT_MAX_EVIDENCE_BYTES
       ''EVIDENCE_MAX_BYTES'') (\<lambda>maxBytes.
     and_then (if driver = ''s3'' then and_then (load_s3 env) (\<lambda>s. Inr (Some s)) else Inr None) (\<lambda>s3.
     Inr \<lparr>ec_driver = driver,
          ec_localDirectory = or_default (optional env ''EVIDENCE_LOCAL_DIR'') ''.evidence-store'',
          ec_maxBytes = maxBytes, ec_endpoint = optional env ''OBJECT_STORAGE_ENDPOINT'',
          ec_bucket = optional env ''OBJECT_STORAGE_BUCKET'', ec_s3 = s3\<rparr>))"

definition load_config ::
  "(string \<Rightarrow> rat option) \<Rightarrow> environment \<Rightarrow> config_error + api_config" where
  "load_config toNumber env =
     (let driver = or_default (optional env ''EVIDENCE_STORAGE_DRIVER'') ''local-dev'' in
      if driver \<noteq> ''local-dev'' \<and> driver \<noteq> ''s3'' then Inl UnknownDriver
      else
        and_then (parse_port toNumber (env ''PORT'')) (\<lambda>port.
        and_then (required env ''DATABASE_URL'') (\<lambda>databaseUrl.
        and_then (load_stellar env) (\<lambda>stellar.
        and_then (parse_big_int (env ''INDEXER_START_LEDGER'') DEFAULT_START_LEDGER ''INDEXER_START_LEDGER'')
        (\<lambda>startLedger.
        and_then (parse_integer toNumber (env ''INDEXER_POLL_SECONDS'') 10 ''INDEXER_POLL_SECONDS'')
        (\<lambda>poll.
        and_then (load_evidence toNumber env driver) (\<lambda>evidence.
        Inr \<lparr>ac_port = port, ac_nodeEnv = or_default (env ''NODE_ENV'') ''development'',
             ac_databaseUrl = databaseUrl, ac_stellar = stellar,
             ac_indexer = \<lparr>ic_startLedger = startLedger, ic_pollIntervalSeconds = poll\<rparr>,
             ac_evidence = evidence\<rparr>)))))))"

section \<open>Origins\<close>

text \<open>\<open>new URL(text)\<close>: its protocol and origin, or \<open>None\<close> where it throws.\<close>

record parsed_url =
  pu_protocol :: string
  pu_origin :: string

definition allowed_origins :: "(string \<Rightarrow> parsed_url option) \<Rightarrow> string option \<Rightarrow> string list" where
  "allowed_origins parse configured =
     (let listed = filter (\<lambda>origin. origin \<noteq> [] \<and> origin \<noteq> ''*'')
            (map trim (split_at (CHR '','') (or_default configured ''http://localhost:3000'')));
          valid = filter (\<lambda>origin. case parse origin of None \<Rightarrow> False
            | Some u \<Rightarrow> (pu_protocol u = ''https:'' \<or> pu_protocol u = ''http:'') \<and> pu_origin u = origin) listed
      in if valid \<noteq> [] then valid else [''http://localhost:3000''])"

section \<open>What an accepted configuration is\<close>

lemma trim_idem: "\<not> blank v \<Longrightarrow> trim (the v) \<noteq> []"
  by (auto simp: blank_def split: option.splits)

lemma required_Inr [result_simps]:
  "required env key = Inr v \<longleftrightarrow> \<not> blank (env key) \<and> v = trim (the (env key))"
  by (auto simp: required_def)

lemma asserted [result_simps]:
  "assert_contract_id v key = Inr w \<longleftrightarrow> is_contract_id v \<and> w = v"
  "assert_public_key v key = Inr w \<longleftrightarrow> is_wallet v \<and> w = v"
  by (auto simp: assert_contract_id_def assert_public_key_def)

text \<open>
  A configuration that loads is complete: identifiers of the right form, positive bounds, and
  credentials exactly when the remote store is used, so that creating the store cannot fail.
\<close>

lemma parse_port_Inr: "parse_port toNumber v = Inr p \<Longrightarrow> 0 < p \<and> p \<le> 65535"
  by (auto simp: parse_port_def DEFAULT_PORT_def split: if_splits option.splits)

lemma parse_integer_Inr: "parse_integer toNumber v f k = Inr i \<Longrightarrow> 0 < f \<Longrightarrow> 0 < i"
  by (auto simp: parse_integer_def split: if_splits option.splits)

lemma parse_big_int_Inr: "parse_big_int v f k = Inr i \<Longrightarrow> 0 \<le> f \<Longrightarrow> 0 \<le> i"
  by (auto simp: parse_big_int_def split: if_splits)

lemma default_region: "or_default (optional env k) ''auto'' \<noteq> []"
  by (auto simp: or_default_def optional_def trim_idem)

lemma load_stellar_Inr:
  assumes "load_stellar env = Inr s"
  shows "is_contract_id (sc_contractId s) \<and> is_wallet (sc_usdcIssuer s)
    \<and> is_contract_id (sc_usdcAssetContractId s)"
  using assms unfolding load_stellar_def by (simp add: result_simps) auto

lemma load_s3_Inr:
  assumes "load_s3 env = Inr s"
  shows "missing_settings (Some s) = []"
proof -
  have "s = \<lparr>st_endpoint = Some (trim (the (env ''OBJECT_STORAGE_ENDPOINT''))),
      st_bucket = Some (trim (the (env ''OBJECT_STORAGE_BUCKET''))),
      st_region = Some (or_default (optional env ''OBJECT_STORAGE_REGION'') ''auto''),
      st_accessKeyId = Some (trim (the (env ''OBJECT_STORAGE_ACCESS_KEY''))),
      st_secretAccessKey = Some (trim (the (env ''OBJECT_STORAGE_SECRET_KEY'')))\<rparr>
    \<and> \<not> blank (env ''OBJECT_STORAGE_ENDPOINT'') \<and> \<not> blank (env ''OBJECT_STORAGE_BUCKET'')
    \<and> \<not> blank (env ''OBJECT_STORAGE_ACCESS_KEY'') \<and> \<not> blank (env ''OBJECT_STORAGE_SECRET_KEY'')"
    using assms unfolding load_s3_def by (auto simp only: result_simps sum.inject simp_thms)
  then show ?thesis
    by (simp add: missing_settings_def trim_idem default_region)
qed

lemma load_evidence_Inr:
  assumes "load_evidence toNumber env driver = Inr ev"
  shows "0 < ec_maxBytes ev \<and> ec_driver ev = driver \<and> (ec_s3 ev \<noteq> None \<longleftrightarrow> driver = ''s3'')
    \<and> (\<forall>s. ec_s3 ev = Some s \<longrightarrow> missing_settings (Some s) = [])"
  using assms unfolding load_evidence_def
  by (cases "driver = ''s3''")
    (auto simp: result_simps DEFAULT_MAX_EVIDENCE_BYTES_def dest: parse_integer_Inr load_s3_Inr)

lemma loaded_store_exists:
  assumes "load_evidence toNumber env driver = Inr ev" and "driver = ''local-dev'' \<or> driver = ''s3''"
  shows "\<exists>store. create_evidence_storage (ec_driver ev) (ec_localDirectory ev) (ec_s3 ev) = Inr store"
  using assms(2) load_evidence_Inr[OF assms(1)]
  by (auto simp: create_evidence_storage_def)

lemma loaded_config_is_complete:
  assumes "load_config toNumber env = Inr c"
  shows "0 < ac_port c \<and> ac_port c \<le> 65535 \<and> ac_databaseUrl c \<noteq> []
    \<and> is_contract_id (sc_contractId (ac_stellar c)) \<and> is_wallet (sc_usdcIssuer (ac_stellar c))
    \<and> is_contract_id (sc_usdcAssetContractId (ac_stellar c))
    \<and> 0 \<le> ic_startLedger (ac_indexer c) \<and> 0 < ic_pollIntervalSeconds (ac_indexer c)
    \<and> 0 < ec_maxBytes (ac_evidence c)
    \<and> (ec_s3 (ac_evidence c) \<noteq> None \<longleftrightarrow> ec_driver (ac_evidence c) = ''s3'')
    \<and> (\<exists>store. create_evidence_storage (ec_driver (ac_evidence c)) (ec_localDirectory (ac_evidence c))
         (ec_s3 (ac_evidence c)) = Inr store)"
proof -
  let ?driver = "or_default (optional env ''EVIDENCE_STORAGE_DRIVER'') ''local-dev''"
  have driver: "?driver = ''local-dev'' \<or> ?driver = ''s3''"
    using assms by (simp add: load_config_def Let_def split: if_splits)
  have refused: "\<not> (?driver \<noteq> ''local-dev'' \<and> ?driver \<noteq> ''s3'')"
    using driver by blast
  obtain port stellar ledger poll ev where parts:
    "parse_port toNumber (env ''PORT'') = Inr port" "load_stellar env = Inr stellar"
    "parse_big_int (env ''INDEXER_START_LEDGER'') DEFAULT_START_LEDGER ''INDEXER_START_LEDGER'' = Inr ledger"
    "parse_integer toNumber (env ''INDEXER_POLL_SECONDS'') 10 ''INDEXER_POLL_SECONDS'' = Inr poll"
    "load_evidence toNumber env ?driver = Inr ev" "\<not> blank (env ''DATABASE_URL'')"
    and c: "c = \<lparr>ac_port = port, ac_nodeEnv = or_default (env ''NODE_ENV'') ''development'',
      ac_databaseUrl = trim (the (env ''DATABASE_URL'')), ac_stellar = stellar,
      ac_indexer = \<lparr>ic_startLedger = ledger, ic_pollIntervalSeconds = poll\<rparr>, ac_evidence = ev\<rparr>"
    using assms unfolding load_config_def Let_def if_not_P[OF refused]
    by (auto simp only: result_simps sum.inject simp_thms)
  have "0 < port \<and> port \<le> 65535" "0 \<le> ledger" "0 < poll"
    using parse_port_Inr[OF parts(1)] parse_big_int_Inr[OF parts(3)] parse_integer_Inr[OF parts(4)]
    by (simp_all add: DEFAULT_START_LEDGER_def)
  then show ?thesis
    using load_stellar_Inr[OF parts(2)] load_evidence_Inr[OF parts(5)] trim_idem[OF parts(6)]
      loaded_store_exists[OF parts(5) driver] unfolding c
    by (simp del: ex_simps)
qed

text \<open>
  What a refusal may quote: the name of a variable, and only of \<open>PORT\<close> the text. No other value
  of the environment is in it.
\<close>

fun quoted_value :: "config_error \<Rightarrow> string option" where
  "quoted_value (InvalidPort v) = Some v"
| "quoted_value _ = None"

definition quiet :: "(config_error + 'a) \<Rightarrow> bool" where
  "quiet r \<longleftrightarrow> (\<forall>e. r = Inl e \<longrightarrow> quoted_value e = None)"

lemma quiet_steps:
  "quiet (Inr x)" "quiet (required env k)" "quiet (assert_contract_id v k)" "quiet (assert_public_key v k)"
  "quiet (parse_big_int w f k)" "quiet (parse_integer toNumber w f k)"
  by (auto simp: quiet_def required_def assert_contract_id_def assert_public_key_def parse_big_int_def
      parse_integer_def split: if_splits option.splits)

lemma quiet_and_then: "quiet r \<Longrightarrow> (\<And>x. quiet (f x)) \<Longrightarrow> quiet (and_then r f)"
  by (cases r) (simp_all add: quiet_def)

lemma quiet_load_stellar: "quiet (load_stellar env)"
  unfolding load_stellar_def by (intro quiet_and_then quiet_steps)

lemma quiet_load_evidence: "quiet (load_evidence toNumber env driver)"
  unfolding load_evidence_def load_s3_def
  by (cases "driver = ''s3''") (simp_all, (intro quiet_and_then quiet_steps)+)

lemma refusals_quote_no_secret:
  assumes "load_config toNumber env = Inl e"
  shows "quoted_value e = None \<or> quoted_value e = env ''PORT''"
proof (cases "parse_port toNumber (env ''PORT'')")
  case (Inl e')
  then have "quoted_value e' = env ''PORT''"
    by (auto simp: parse_port_def blank_def split: if_splits option.splits)
  with Inl assms show ?thesis
    by (auto simp: load_config_def Let_def split: if_splits)
next
  case (Inr port)
  have "quiet (and_then (required env ''DATABASE_URL'') (\<lambda>databaseUrl.
    and_then (load_stellar env) (\<lambda>stellar.
    and_then (parse_big_int (env ''INDEXER_START_LEDGER'') DEFAULT_START_LEDGER ''INDEXER_START_LEDGER'')
    (\<lambda>startLedger.
    and_then (parse_integer toNumber (env ''INDEXER_POLL_SECONDS'') 10 ''INDEXER_POLL_SECONDS'')
    (\<lambda>poll.
    and_then (load_evidence toNumber env driver) (\<lambda>evidence.
    Inr (mk databaseUrl stellar startLedger poll evidence)))))))" for driver and
    mk :: "string \<Rightarrow> stellar_config \<Rightarrow> int \<Rightarrow> int \<Rightarrow> evidence_config \<Rightarrow> api_config"
    by (intro quiet_and_then quiet_steps quiet_load_stellar quiet_load_evidence)
  with Inr assms show ?thesis
    by (auto simp: load_config_def Let_def quiet_def split: if_splits)
qed

lemma origins_are_explicit:
  assumes "x \<in> set (allowed_origins parse configured)"
  shows "x = ''http://localhost:3000''
    \<or> x \<noteq> ''*'' \<and> (\<exists>u. parse x = Some u \<and> pu_origin u = x \<and> pu_protocol u \<in> {''http:'', ''https:''})"
  using assms by (auto simp: allowed_origins_def Let_def split: if_splits option.splits)

end
